(* ===== verification/Prelude.thy ===== *)
theory Prelude
  imports Main "HOL-Library.Sublist"
begin

text \<open>
  Shared vocabulary of the development: Python strings, exceptions and results, list
  indexing and slicing, and the theorem collections the component theories extend.

  A Python \<open>str\<close> is a list of code points (natural numbers), because the code under
  verification meets characters beyond 8 bits: a byte that is not ASCII is decoded to
  U+FFFD, and a request may carry any code point. A literal of the source is written
  \<open>py ''...''\<close>.
\<close>

named_theorems res_simps \<open>inversion rules for results\<close>
named_theorems wf_intros \<open>preservation of the well-formedness invariants\<close>

section \<open>Strings\<close>

type_synonym pystr = "nat list"

definition py :: "string \<Rightarrow> pystr" where
  "py s = map of_char s"

lemma py_inject [simp]: "py a = py b \<longleftrightarrow> a = b"
  unfolding py_def by (intro inj_eq inj_mapI) (simp add: inj_def)

lemma py_append: "py (a @ b) = py a @ py b"
  by (simp add: py_def)

lemma length_py [simp]: "length (py s) = length s"
  by (simp add: py_def)

lemma py_eq_Nil [simp]: "py s = [] \<longleftrightarrow> s = []" "[] = py s \<longleftrightarrow> s = []"
  by (auto simp: py_def)

section \<open>Exceptions and results\<close>

text \<open>
  One constructor per exception the modelled code raises or catches. Where the source
  writes the message, the constructor carries it; where the interpreter writes it, the
  constructor carries the datum the message is about.
\<close>

datatype exn =
    ValueError pystr            \<comment> \<open>raised by the source, with its message\<close>
  | InvalidLiteral pystr        \<comment> \<open>\<open>int(s)\<close> on a malformed \<open>s\<close>\<close>
  | UnpackError nat nat         \<comment> \<open>unpacking: values wanted, values found\<close>
  | EncodeError                 \<comment> \<open>\<open>UnicodeEncodeError\<close>\<close>
  | DecodeError                 \<comment> \<open>\<open>json.JSONDecodeError\<close> and \<open>UnicodeDecodeError\<close>\<close>
  | TypeError
  | IndexError
  | KeyError pystr
  | AttributeError
  | RuntimeError pystr
  | OSError pystr
  | FileNotFoundError pystr
  | TimeoutError pystr
  | TimeoutExpired              \<comment> \<open>\<open>subprocess.TimeoutExpired\<close>\<close>
  | CalledProcessError          \<comment> \<open>\<open>subprocess.CalledProcessError\<close>\<close>
  | AssertionError pystr
  | KeyboardInterrupt
  | SystemExit pystr

text \<open>The subclass relations that the \<open>except\<close> clauses of the source rely on.\<close>

fun is_value_error :: "exn \<Rightarrow> bool" where
  "is_value_error (ValueError _) = True"
| "is_value_error (InvalidLiteral _) = True"
| "is_value_error (UnpackError _ _) = True"
| "is_value_error EncodeError = True"
| "is_value_error DecodeError = True"
| "is_value_error _ = False"

fun is_os_error :: "exn \<Rightarrow> bool" where
  "is_os_error (OSError _) = True"
| "is_os_error (FileNotFoundError _) = True"
| "is_os_error (TimeoutError _) = True"
| "is_os_error _ = False"

fun is_runtime_error :: "exn \<Rightarrow> bool" where
  "is_runtime_error (RuntimeError _) = True"
| "is_runtime_error _ = False"

text \<open>\<open>Exception\<close>, which leaves out the interpreter's exit requests.\<close>

fun is_exception :: "exn \<Rightarrow> bool" where
  "is_exception KeyboardInterrupt = False"
| "is_exception (SystemExit _) = False"
| "is_exception _ = True"

text \<open>\<open>str(exc)\<close> for the exceptions whose message the code shows.\<close>

fun exn_message :: "exn \<Rightarrow> pystr" where
  "exn_message (ValueError m) = m"
| "exn_message (RuntimeError m) = m"
| "exn_message (OSError m) = m"
| "exn_message (FileNotFoundError m) = m"
| "exn_message (TimeoutError m) = m"
| "exn_message (SystemExit m) = m"
| "exn_message (AssertionError m) = m"
| "exn_message _ = []"

type_synonym 'a res = "exn + 'a"

definition rbind :: "'a res \<Rightarrow> ('a \<Rightarrow> 'b res) \<Rightarrow> 'b res" where
  "rbind m f = (case m of Inl e \<Rightarrow> Inl e | Inr x \<Rightarrow> f x)"

lemma rbind_simps [simp]:
  "rbind (Inl e) f = Inl e"
  "rbind (Inr x) f = f x"
  by (simp_all add: rbind_def)

lemma rbind_Inr [res_simps]: "rbind m f = Inr y \<longleftrightarrow> (\<exists>x. m = Inr x \<and> f x = Inr y)"
  by (cases m) auto

lemma rbind_Inl [res_simps]:
  "rbind m f = Inl e \<longleftrightarrow> m = Inl e \<or> (\<exists>x. m = Inr x \<and> f x = Inl e)"
  by (cases m) auto

lemma rbind_cong [fundef_cong]:
  "m = m' \<Longrightarrow> (\<And>x. m' = Inr x \<Longrightarrow> f x = f' x) \<Longrightarrow> rbind m f = rbind m' f'"
  by (cases m') auto

text \<open>\<open>map\<close> with a function that may raise: left to right, stopping at the first exception.\<close>

fun traverse :: "('a \<Rightarrow> 'b res) \<Rightarrow> 'a list \<Rightarrow> 'b list res" where
  "traverse f [] = Inr []"
| "traverse f (x # xs) = rbind (f x) (\<lambda>y. rbind (traverse f xs) (\<lambda>ys. Inr (y # ys)))"

lemma traverse_length: "traverse f xs = Inr ys \<Longrightarrow> length ys = length xs"
  by (induction xs arbitrary: ys) (auto simp: res_simps)

lemma traverse_all:
  "(\<And>x. x \<in> set xs \<Longrightarrow> f x = Inr (g x)) \<Longrightarrow> traverse f xs = Inr (map g xs)"
  by (induction xs) auto

section \<open>Sequences\<close>

text \<open>\<open>xs[i]\<close>: a negative index counts from the end; out of range raises.\<close>

definition py_index :: "'a list \<Rightarrow> int \<Rightarrow> 'a res" where
  "py_index xs i =
     (let j = (if i < 0 then int (length xs) + i else i)
      in if 0 \<le> j \<and> j < int (length xs) then Inr (xs ! nat j) else Inl IndexError)"

lemma py_index_mem [res_simps]: "py_index xs i = Inr x \<Longrightarrow> x \<in> set xs"
  by (auto simp: py_index_def Let_def split: if_splits)

lemma py_index_nat: "n < length xs \<Longrightarrow> py_index xs (int n) = Inr (xs ! n)"
  by (simp add: py_index_def)

text \<open>\<open>xs[-n:]\<close> for a positive \<open>n\<close>: at most the last \<open>n\<close> elements.\<close>

definition last_n :: "nat \<Rightarrow> 'a list \<Rightarrow> 'a list" where
  "last_n n xs = drop (length xs - n) xs"

lemma length_last_n [simp]: "length (last_n n xs) = min n (length xs)"
  by (simp add: last_n_def)

lemma last_n_id: "length xs \<le> n \<Longrightarrow> last_n n xs = xs"
  by (simp add: last_n_def)

lemma suffix_last_n: "suffix (last_n n xs) xs"
  by (simp add: last_n_def suffix_drop)

lemma last_n_append_right: "n \<le> length ys \<Longrightarrow> last_n n (xs @ ys) = last_n n ys"
  by (simp add: last_n_def)

lemma last_n_last_n_append: "last_n n (last_n n xs @ ys) = last_n n (xs @ ys)"
proof (cases "n \<le> length ys")
  case True
  then show ?thesis by (simp add: last_n_append_right)
next
  case False
  then show ?thesis by (cases "length xs \<le> n") (auto simp: last_n_def add.commute)
qed

lemma set_last_n: "x \<in> set (last_n n xs) \<Longrightarrow> x \<in> set xs"
  by (auto simp: last_n_def dest: in_set_dropD)

lemma last_n_map: "last_n n (map f xs) = map f (last_n n xs)"
  by (simp add: last_n_def drop_map)

lemma sorted_wrt_last_n: "sorted_wrt R xs \<Longrightarrow> sorted_wrt R (last_n n xs)"
  by (simp add: last_n_def sorted_wrt_drop)

end
