(* ===== verification/PyText.thy ===== *)
theory PyText
  imports Prelude
begin

text \<open>
  The string methods and the number conversions of Python that the tools use: \<open>split\<close>,
  \<open>rstrip\<close>, \<open>in\<close>, \<open>startswith\<close>, \<open>int(s)\<close>, \<open>str(i)\<close> and the decoding of ASCII bytes.
  Each is executable; the lemmas are the laws the components use (splitting undoes joining,
  reading undoes printing).
\<close>

section \<open>Splitting and joining\<close>

text \<open>\<open>s.split(c)\<close> for a one-character separator.\<close>

fun split_on :: "'a \<Rightarrow> 'a list \<Rightarrow> 'a list list" where
  "split_on c [] = [[]]"
| "split_on c (x # xs) =
     (if x = c then [] # split_on c xs
      else (case split_on c xs of [] \<Rightarrow> [[x]] | w # ws \<Rightarrow> (x # w) # ws))"

text \<open>\<open>c.join(ws)\<close>.\<close>

fun join_with :: "'a \<Rightarrow> 'a list list \<Rightarrow> 'a list" where
  "join_with c [] = []"
| "join_with c [w] = w"
| "join_with c (w # ws) = w @ c # join_with c ws"

lemma split_on_not_Nil [simp]: "split_on c xs \<noteq> []"
  by (induction xs) (auto split: list.splits)

lemma split_on_free: "c \<notin> set xs \<Longrightarrow> split_on c xs = [xs]"
  by (induction xs) auto

lemma split_on_append: "c \<notin> set w \<Longrightarrow> split_on c (w @ c # xs) = w # split_on c xs"
  by (induction w) auto

lemma split_on_join:
  "ws \<noteq> [] \<Longrightarrow> \<forall>w \<in> set ws. c \<notin> set w \<Longrightarrow> split_on c (join_with c ws) = ws"
proof (induction c ws rule: join_with.induct)
  case (3 c w v vs)
  then show ?case by (simp add: split_on_append)
qed (simp_all add: split_on_free)

lemma join_with_Cons: "ws \<noteq> [] \<Longrightarrow> join_with c (w # ws) = w @ c # join_with c ws"
  by (cases ws) auto

lemma join_split_on: "join_with c (split_on c xs) = xs"
proof (induction xs)
  case (Cons x xs)
  show ?case
  proof (cases "x = c")
    case True
    with Cons show ?thesis by (simp add: join_with_Cons)
  next
    case False
    obtain w ws where "split_on c xs = w # ws" by (cases "split_on c xs") auto
    with False Cons show ?thesis by (cases ws) auto
  qed
qed simp

lemma split_on_pieces: "w \<in> set (split_on c xs) \<Longrightarrow> c \<notin> set w"
proof (induction xs arbitrary: w)
  case (Cons x xs)
  obtain v vs where "split_on c xs = v # vs" by (cases "split_on c xs") auto
  with Cons show ?case by (auto split: if_splits)
qed simp

text \<open>\<open>a, b = s.split(c, 1)\<close> where \<open>c in s\<close>: the text before and after the first \<open>c\<close>.\<close>

definition split_first :: "'a \<Rightarrow> 'a list \<Rightarrow> 'a list \<times> 'a list" where
  "split_first c xs = (takeWhile (\<lambda>x. x \<noteq> c) xs, tl (dropWhile (\<lambda>x. x \<noteq> c) xs))"

lemma split_first_append: "c \<notin> set w \<Longrightarrow> split_first c (w @ c # xs) = (w, xs)"
  by (auto simp: split_first_def takeWhile_append dropWhile_append)

lemma split_first_mem:
  assumes "c \<in> set xs"
  obtains w ys where "xs = w @ c # ys" "c \<notin> set w" "split_first c xs = (w, ys)"
proof -
  from split_list_first [OF assms] obtain w ys where "xs = w @ c # ys" "c \<notin> set w"
    by auto
  then show ?thesis by (intro that) (simp_all add: split_first_append)
qed

section \<open>Stripping and searching\<close>

text \<open>\<open>s.rstrip(c)\<close> and \<open>s.lstrip(c)\<close> for one character; \<open>s.strip()\<close> with a character class.\<close>

definition lstrip_if :: "('a \<Rightarrow> bool) \<Rightarrow> 'a list \<Rightarrow> 'a list" where
  "lstrip_if p xs = dropWhile p xs"

definition rstrip_if :: "('a \<Rightarrow> bool) \<Rightarrow> 'a list \<Rightarrow> 'a list" where
  "rstrip_if p xs = rev (dropWhile p (rev xs))"

definition strip_if :: "('a \<Rightarrow> bool) \<Rightarrow> 'a list \<Rightarrow> 'a list" where
  "strip_if p xs = rstrip_if p (lstrip_if p xs)"

lemma rstrip_if_last: "xs \<noteq> [] \<Longrightarrow> \<not> p (last xs) \<Longrightarrow> rstrip_if p xs = xs"
  by (cases xs rule: rev_cases) (auto simp: rstrip_if_def)

lemma rstrip_if_none: "(\<And>x. x \<in> set xs \<Longrightarrow> \<not> p x) \<Longrightarrow> rstrip_if p xs = xs"
  by (cases "xs = []") (simp add: rstrip_if_def, blast intro: rstrip_if_last last_in_set)

lemma strip_if_none: "(\<And>x. x \<in> set xs \<Longrightarrow> \<not> p x) \<Longrightarrow> strip_if p xs = xs"
  unfolding strip_if_def lstrip_if_def
  by (subst dropWhile_eq_self_iff [THEN iffD2]) (auto intro: rstrip_if_none)

text \<open>\<open>p in s\<close> on strings is \<open>sublist p s\<close>; \<open>s.find(c)\<close> is the position of the first \<open>c\<close>.\<close>

fun find_char :: "'a \<Rightarrow> 'a list \<Rightarrow> nat option" where
  "find_char c [] = None"
| "find_char c (x # xs) = (if x = c then Some 0 else map_option Suc (find_char c xs))"

lemma find_char_None: "find_char c xs = None \<longleftrightarrow> c \<notin> set xs"
  by (induction xs) auto

section \<open>Reading numbers: \<open>int(s)\<close>\<close>

text \<open>
  \<open>int\<close> accepts every Unicode decimal digit, not only ASCII ones: the table holds the code
  point of each digit zero (the other nine follow it). A request's query string can carry
  such characters, so the table matters there.
\<close>

definition digit_zeros :: "nat list" where
  "digit_zeros =
    [48, 1632, 1776, 1984, 2406, 2534, 2662, 2790, 2918, 3046, 3174, 3302, 3430, 3558, 3664,
     3792, 3872, 4160, 4240, 6112, 6160, 6470, 6608, 6784, 6800, 6992, 7088, 7232, 7248,
     42528, 43216, 43264, 43472, 43504, 43600, 44016, 65296, 66720, 68912, 69734, 69872,
     69942, 70096, 70384, 70736, 70864, 71248, 71360, 71472, 71904, 72016, 72784, 73040,
     73120, 92768, 92864, 93008, 120782, 120792, 120802, 120812, 120822, 123200, 123632,
     125264, 130032]"

definition decimal_digit :: "nat \<Rightarrow> nat option" where
  "decimal_digit c =
     (if c < 128 then (if 48 \<le> c \<and> c < 58 then Some (c - 48) else None)
      else map_option (\<lambda>z. c - z) (find (\<lambda>z. z \<le> c \<and> c < z + 10) digit_zeros))"

text \<open>The white space \<open>int\<close> strips.\<close>

definition int_space :: "nat \<Rightarrow> bool" where
  "int_space c \<longleftrightarrow>
     9 \<le> c \<and> c \<le> 13 \<or> c = 32 \<or> c = 133 \<or> c = 160 \<or> c = 5760 \<or> 8192 \<le> c \<and> c \<le> 8202 \<or>
     c = 8232 \<or> c = 8233 \<or> c = 8239 \<or> c = 8287 \<or> c = 12288"

text \<open>Digits with single underscores between them.\<close>

fun more_digits :: "nat \<Rightarrow> pystr \<Rightarrow> nat option" where
  "more_digits acc [] = Some acc"
| "more_digits acc (c # cs) =
     (case decimal_digit c of
        Some d \<Rightarrow> more_digits (10 * acc + d) cs
      | None \<Rightarrow>
          (if c \<noteq> 95 then None
           else (case cs of
                   [] \<Rightarrow> None
                 | c' # cs' \<Rightarrow>
                     (case decimal_digit c' of
                        Some d \<Rightarrow> more_digits (10 * acc + d) cs'
                      | None \<Rightarrow> None))))"

fun digits_value :: "pystr \<Rightarrow> nat option" where
  "digits_value [] = None"
| "digits_value (c # cs) = Option.bind (decimal_digit c) (\<lambda>d. more_digits d cs)"

definition int_of_str :: "pystr \<Rightarrow> int res" where
  "int_of_str s =
     (let t = strip_if int_space s;
          (neg, ds) = (case t of [] \<Rightarrow> (False, [])
                       | c # cs \<Rightarrow> if c = 45 then (True, cs) else if c = 43 then (False, cs)
                                  else (False, t))
      in case digits_value ds of
           None \<Rightarrow> Inl (InvalidLiteral s)
         | Some n \<Rightarrow> Inr (if neg then - int n else int n))"

lemma int_of_str_error [res_simps]: "int_of_str s = Inl e \<Longrightarrow> e = InvalidLiteral s"
  by (auto simp: int_of_str_def Let_def split: prod.splits option.splits)

section \<open>Printing numbers: \<open>str(i)\<close>\<close>

fun str_of_nat :: "nat \<Rightarrow> pystr" where
  "str_of_nat n = (if n < 10 then [48 + n] else str_of_nat (n div 10) @ [48 + n mod 10])"

declare str_of_nat.simps [simp del]

definition str_of_int :: "int \<Rightarrow> pystr" where
  "str_of_int i = (if i < 0 then 45 # str_of_nat (nat (- i)) else str_of_nat (nat i))"

lemma decimal_digit_ascii [simp]: "d < 10 \<Longrightarrow> decimal_digit (48 + d) = Some d"
  by (simp add: decimal_digit_def)

lemma str_of_nat_digits: "c \<in> set (str_of_nat n) \<Longrightarrow> 48 \<le> c \<and> c < 58"
proof (induction n rule: str_of_nat.induct)
  case (1 n)
  then show ?case by (subst (asm) str_of_nat.simps) (auto split: if_splits)
qed

lemma str_of_nat_not_Nil [simp]: "str_of_nat n \<noteq> []"
  by (subst str_of_nat.simps) simp

lemma more_digits_append:
  assumes "\<And>c. c \<in> set xs \<Longrightarrow> 48 \<le> c \<and> c < 58"
  shows "more_digits a (xs @ ys) = Option.bind (more_digits a xs) (\<lambda>b. more_digits b ys)"
  using assms
proof (induction xs arbitrary: a)
  case (Cons x xs)
  have "48 \<le> x \<and> x < 58" by (rule Cons.prems) simp
  then have "decimal_digit x = Some (x - 48)" by (simp add: decimal_digit_def)
  with Cons show ?case by simp
qed simp

lemma digits_value_append:
  assumes "xs \<noteq> []" "\<And>c. c \<in> set xs \<Longrightarrow> 48 \<le> c \<and> c < 58"
  shows "digits_value (xs @ ys) = Option.bind (digits_value xs) (\<lambda>b. more_digits b ys)"
  using assms by (cases xs) (auto simp: more_digits_append Option.bind_assoc)

lemma digits_value_str_of_nat [simp]: "digits_value (str_of_nat n) = Some n"
proof (induction n rule: str_of_nat.induct)
  case (1 n)
  show ?case
  proof (cases "n < 10")
    case True
    then show ?thesis by (simp add: str_of_nat.simps [of n])
  next
    case False
    with 1 have "digits_value (str_of_nat (n div 10)) = Some (n div 10)" by simp
    with False show ?thesis
      by (simp add: str_of_nat.simps [of n] digits_value_append str_of_nat_digits)
  qed
qed

lemma int_of_str_of_nat_aux:
  assumes "xs \<noteq> []" "\<And>c. c \<in> set xs \<Longrightarrow> 48 \<le> c \<and> c < 58" "digits_value xs = Some n"
  shows "int_of_str xs = Inr (int n)" and "int_of_str (45 # xs) = Inr (- int n)"
proof -
  have "\<not> int_space c" if "c = 45 \<or> 48 \<le> c \<and> c < 58" for c
    using that by (auto simp: int_space_def)
  then have sp: "\<not> int_space c" if "c \<in> set (45 # xs)" for c
    using that assms(2) by auto
  have "strip_if int_space xs = xs" "strip_if int_space (45 # xs) = 45 # xs"
    using sp by (auto intro!: strip_if_none)
  moreover have "hd xs \<noteq> 45" "hd xs \<noteq> 43"
    using assms(2) [of "hd xs"] assms(1) by auto
  ultimately show "int_of_str xs = Inr (int n)" "int_of_str (45 # xs) = Inr (- int n)"
    using assms(1,3) by (auto simp: int_of_str_def split: list.splits)
qed

lemma int_of_str_str_of_nat: "int_of_str (str_of_nat n) = Inr (int n)"
  using int_of_str_of_nat_aux(1) [of "str_of_nat n"] str_of_nat_digits by simp

lemma int_of_str_str_of_int: "int_of_str (str_of_int i) = Inr i"
  using int_of_str_of_nat_aux [of "str_of_nat (nat \<bar>i\<bar>)"] str_of_nat_digits
  by (auto simp: str_of_int_def abs_if)

section \<open>Decoding ASCII\<close>

text \<open>\<open>bytes.decode("ascii", errors="replace")\<close>: a byte above 127 becomes U+FFFD.\<close>

definition decode_ascii :: "nat list \<Rightarrow> pystr" where
  "decode_ascii = map (\<lambda>b. if b < 128 then b else 65533)"

text \<open>\<open>str.encode("ascii", errors="strict")\<close>.\<close>

definition encode_ascii :: "pystr \<Rightarrow> nat list res" where
  "encode_ascii s = (if \<forall>c \<in> set s. c < 128 then Inr s else Inl EncodeError)"

lemma decode_ascii_append: "decode_ascii (a @ b) = decode_ascii a @ decode_ascii b"
  by (simp add: decode_ascii_def)

lemma decode_encode_ascii: "encode_ascii s = Inr bs \<Longrightarrow> decode_ascii bs = s"
  by (auto simp: encode_ascii_def decode_ascii_def split: if_splits intro!: map_idI)

end
