(* ===== verification/PyDict.thy ===== *)
theory PyDict
  imports Prelude
begin

text \<open>
  Python dictionaries. A \<open>dict\<close> keeps its keys in insertion order and a store to a key it
  already holds keeps that key's place, which the code shows its clients
  (\<open>list(self.processes.values())\<close>): the model is an association list with distinct keys.
  The contract is a locale, \<open>mapping_store\<close>; the operations on association lists are its
  interpretation, and the components use the facts \<open>dict.\<dots>\<close> of that interpretation.
\<close>

section \<open>The operations\<close>

type_synonym ('k, 'v) dict = "('k \<times> 'v) list"

text \<open>\<open>d.get(k)\<close>.\<close>

definition dict_get :: "('k, 'v) dict \<Rightarrow> 'k \<Rightarrow> 'v option" where
  "dict_get d k = map_of d k"

text \<open>\<open>d[k] = v\<close>.\<close>

fun dict_set :: "'k \<Rightarrow> 'v \<Rightarrow> ('k, 'v) dict \<Rightarrow> ('k, 'v) dict" where
  "dict_set k v [] = [(k, v)]"
| "dict_set k v ((k', v') # d) = (if k' = k then (k, v) # d else (k', v') # dict_set k v d)"

text \<open>\<open>d.pop(k, None)\<close>.\<close>

definition dict_pop :: "'k \<Rightarrow> ('k, 'v) dict \<Rightarrow> ('k, 'v) dict" where
  "dict_pop k d = filter (\<lambda>(k', _). k' \<noteq> k) d"

text \<open>\<open>d.keys()\<close> and \<open>d.values()\<close>, in order.\<close>

definition dict_keys :: "('k, 'v) dict \<Rightarrow> 'k list" where
  "dict_keys d = map fst d"

definition dict_values :: "('k, 'v) dict \<Rightarrow> 'v list" where
  "dict_values d = map snd d"

text \<open>A loop over \<open>d.values()\<close> that updates every value in place.\<close>

definition dict_map :: "('v \<Rightarrow> 'v) \<Rightarrow> ('k, 'v) dict \<Rightarrow> ('k, 'v) dict" where
  "dict_map f d = map (\<lambda>(k, v). (k, f v)) d"

definition dict_ok :: "('k, 'v) dict \<Rightarrow> bool" where
  "dict_ok d \<longleftrightarrow> distinct (dict_keys d)"

text \<open>A property of every entry.\<close>

definition dict_all :: "('k \<Rightarrow> 'v \<Rightarrow> bool) \<Rightarrow> ('k, 'v) dict \<Rightarrow> bool" where
  "dict_all P d \<longleftrightarrow> (\<forall>(k, v) \<in> set d. P k v)"

section \<open>The contract\<close>

locale mapping_store =
  fixes get :: "'d \<Rightarrow> 'k \<Rightarrow> 'v option"
    and store :: "'k \<Rightarrow> 'v \<Rightarrow> 'd \<Rightarrow> 'd"
    and pop :: "'k \<Rightarrow> 'd \<Rightarrow> 'd"
    and keys :: "'d \<Rightarrow> 'k list"
    and ok :: "'d \<Rightarrow> bool"
  assumes get_store: "get (store k v d) = (get d)(k \<mapsto> v)"
    and get_pop: "get (pop k d) = (get d)(k := None)"
    and keys_dom: "set (keys d) = dom (get d)"
    and keys_store: "keys (store k v d) = (if k \<in> set (keys d) then keys d else keys d @ [k])"
    and keys_pop: "keys (pop k d) = filter (\<lambda>k'. k' \<noteq> k) (keys d)"
    and ok_keys: "ok d \<longleftrightarrow> distinct (keys d)"
begin

lemma ok_store: "ok d \<Longrightarrow> ok (store k v d)"
  by (simp add: ok_keys keys_store)

lemma ok_pop: "ok d \<Longrightarrow> ok (pop k d)"
  by (simp add: ok_keys keys_pop)

lemma get_pop_same: "get (pop k d) k = None"
  by (simp add: get_pop)

lemma get_store_same: "get (store k v d) k = Some v"
  by (simp add: get_store)

lemma pop_forgets_store: "get (pop k (store k v d)) = get (pop k d)"
  by (simp add: get_pop get_store)

end

section \<open>Association lists meet the contract\<close>

lemma dict_keys_simps [simp]:
  "dict_keys [] = []" "dict_keys (e # d) = fst e # dict_keys d"
  by (simp_all add: dict_keys_def)

lemma dict_get_set: "dict_get (dict_set k v d) = (dict_get d)(k \<mapsto> v)"
  by (induction d) (auto simp: dict_get_def fun_eq_iff)

lemma dict_get_pop: "dict_get (dict_pop k d) = (dict_get d)(k := None)"
  by (induction d) (auto simp: dict_get_def dict_pop_def fun_eq_iff)

lemma dict_keys_set:
  "dict_keys (dict_set k v d) =
     (if k \<in> set (dict_keys d) then dict_keys d else dict_keys d @ [k])"
  by (induction d) auto

lemma dict_keys_pop: "dict_keys (dict_pop k d) = filter (\<lambda>k'. k' \<noteq> k) (dict_keys d)"
  by (induction d) (auto simp: dict_pop_def)

lemma dict_keys_dom: "set (dict_keys d) = dom (dict_get d)"
  by (induction d) (auto simp: dict_get_def split: if_splits)

interpretation dict: mapping_store dict_get dict_set dict_pop dict_keys dict_ok
  by unfold_locales
    (rule dict_get_set dict_get_pop dict_keys_set dict_keys_pop dict_ok_def dict_keys_dom)+

section \<open>Entries\<close>

lemma dict_ok_Nil [simp]: "dict_ok []"
  by (simp add: dict_ok_def)

lemma dict_ok_map: "dict_ok (dict_map f d) = dict_ok d"
  by (induction d) (auto simp: dict_ok_def dict_map_def dict_keys_def image_image case_prod_beta)

lemma dict_all_simps [simp]:
  "dict_all P []" "dict_all P (e # d) \<longleftrightarrow> P (fst e) (snd e) \<and> dict_all P d"
  by (auto simp: dict_all_def split: prod.splits)

lemma dict_all_get: "dict_ok d \<Longrightarrow> dict_all P d \<longleftrightarrow> (\<forall>k v. dict_get d k = Some v \<longrightarrow> P k v)"
  by (auto simp: dict_all_def dict_ok_def dict_get_def dict_keys_def)

lemma dict_all_set: "dict_all P d \<Longrightarrow> P k v \<Longrightarrow> dict_all P (dict_set k v d)"
  by (induction d) auto

lemma dict_all_pop: "dict_all P d \<Longrightarrow> dict_all P (dict_pop k d)"
  by (induction d) (auto simp: dict_pop_def)

lemma dict_all_map: "dict_all P (dict_map f d) \<longleftrightarrow> dict_all (\<lambda>k v. P k (f v)) d"
  by (induction d) (auto simp: dict_map_def)

lemma dict_all_mono: "dict_all P d \<Longrightarrow> (\<And>k v. P k v \<Longrightarrow> Q k v) \<Longrightarrow> dict_all Q d"
  by (auto simp: dict_all_def)

lemma dict_get_all: "dict_all P d \<Longrightarrow> dict_get d k = Some v \<Longrightarrow> P k v"
  by (auto simp: dict_all_def dict_get_def dest: map_of_SomeD)

lemma dict_get_map: "dict_get (dict_map f d) k = map_option f (dict_get d k)"
  by (induction d) (auto simp: dict_map_def dict_get_def)

lemma dict_keys_map [simp]: "dict_keys (dict_map f d) = dict_keys d"
  by (induction d) (auto simp: dict_map_def)

end
