(* ===== verification/Bounded_Window.thy ===== *)
theory Bounded_Window
  imports Prelude
begin

text \<open>
  Two histories of the guest are kept in bounded windows: the event log (2000 records) and
  the console (64000 characters). Both follow one contract: an input edits the window as it
  would edit the unbounded history, and then only the last \<open>cap\<close> items stay. The locale
  proves once what the window promises about the history it stands for.
\<close>

locale bounded_window =
  fixes cap :: nat
    and content :: "'s \<Rightarrow> 'a list"
    and add :: "'i \<Rightarrow> 's \<Rightarrow> 's"
    and edit :: "'i \<Rightarrow> 'a list \<Rightarrow> 'a list"
  assumes content_add: "content (add i s) = last_n cap (edit i (content s))"
    and edit_suffix: "suffix xs ys \<Longrightarrow> suffix (edit i xs) (edit i ys)"
begin

lemma bounded: "length (content (add i s)) \<le> cap"
  by (simp add: content_add)

lemma bounded_run: "length (content s) \<le> cap \<Longrightarrow> length (content (fold add is s)) \<le> cap"
  by (induction "is" arbitrary: s) (simp_all add: bounded)

text \<open>The window is always an end piece of the unbounded history.\<close>

lemma window_suffix:
  "suffix (content s) full \<Longrightarrow> suffix (content (fold add is s)) (fold edit is full)"
proof (induction "is" arbitrary: s full)
  case (Cons i "is")
  have "suffix (content (add i s)) (edit i full)"
    unfolding content_add
    by (rule suffix_order.trans [OF suffix_last_n edit_suffix [OF Cons.prems]])
  then show ?case by (simp add: Cons.IH)
qed simp

end

text \<open>Where inputs only append, the window is exactly the last \<open>cap\<close> items.\<close>

locale append_window = bounded_window +
  fixes new :: "'i \<Rightarrow> 'a list"
  assumes edit_append: "edit i xs = xs @ new i"
begin

lemma fold_edit: "fold edit is full = full @ concat (map new is)"
  by (induction "is" arbitrary: full) (simp_all add: edit_append)

lemma window_exact:
  "content s = last_n cap full \<Longrightarrow>
     content (fold add is s) = last_n cap (full @ concat (map new is))"
  by (induction "is" arbitrary: s full)
    (simp_all add: content_add edit_append last_n_last_n_append)

end

end
