(* ===== verification/Guest_State.thy ===== *)
theory Guest_State
  imports PyText PyDict Bounded_Window
begin

text \<open>
  The observer's picture of one guest (\<open>tools/lab_guest.py\<close>, class \<open>Guest\<close>): the tables
  it fills from the trace channel, the event log, the console window and its status. The
  QEMU process, the sockets and the threads are in \<open>Guest_Control\<close> and
  \<open>Guest_Lifecycle\<close>.
\<close>

section \<open>Vocabulary of the trace\<close>

definition PROGRAMS :: "pystr list" where
  "PROGRAMS = map py [''init'', ''shell'', ''hello'', ''reader'', ''counter-a'', ''counter-b'',
     ''fault'']"

definition SYSCALLS :: "pystr list" where
  "SYSCALLS = map py [''pid'', ''write'', ''ticks'', ''report'', ''exit'', ''open'', ''read'',
     ''close'', ''program'', ''spawn'', ''wait'', ''input'', ''process'', ''file'', ''memory'',
     ''inspect'']"

definition STATES :: "pystr list" where
  "STATES = map py [''unused'', ''ready'', ''waiting'', ''exited'']"

section \<open>Records\<close>

record event =
  ev_id :: nat
  ev_kind :: pystr
  ev_tick :: int
  ev_fields :: "pystr list"

record process =
  p_pid :: int
  p_parent :: int
  p_program :: pystr
  p_state :: pystr
  p_root :: pystr
  p_slices :: int
  p_current :: bool

record mapping =
  m_va :: pystr
  m_pa :: pystr
  m_flags :: int
  m_name :: pystr

record datum =
  d_va :: pystr
  d_pa :: pystr
  d_marker :: pystr

datatype status = Starting | Running | Faulted | Disconnected | Stopped

record guest =
  closed :: bool
  console :: pystr
  console_base :: nat
  events :: "event list"
  processes :: "(int, process) dict"
  maps :: "(int, (pystr, mapping) dict) dict"
  data :: "(int, datum) dict"
  frames :: int
  free :: int
  ticks :: int
  sequence :: nat
  status :: status
  error :: pystr

text \<open>\<open>Guest.__init__\<close>: everything empty, status starting.\<close>

definition new_guest :: guest where
  "new_guest =
     \<lparr>closed = False, console = [], console_base = 0, events = [], processes = [], maps = [],
      data = [], frames = 0, free = 0, ticks = 0, sequence = 0, status = Starting, error = []\<rparr>"

section \<open>Well-formedness\<close>

text \<open>
  The log holds at most 2000 events, in the order of their ids, none newer than the counter
  and none later than the clock. The tables have one entry per key, each process entry is
  filed under its own pid and names a program and a state of the kernel's vocabulary, and
  each mapping is filed under its own address.
\<close>

definition log_ok :: "guest \<Rightarrow> bool" where
  "log_ok g \<longleftrightarrow> length (events g) \<le> 2000 \<and> sorted_wrt (<) (map ev_id (events g)) \<and>
     (\<forall>e \<in> set (events g). ev_id e \<le> sequence g \<and> ev_tick e \<le> ticks g)"

definition process_ok :: "int \<Rightarrow> process \<Rightarrow> bool" where
  "process_ok pid p \<longleftrightarrow> p_pid p = pid \<and> p_program p \<in> set PROGRAMS \<and> p_state p \<in> set STATES"

definition mappings_ok :: "(pystr, mapping) dict \<Rightarrow> bool" where
  "mappings_ok d \<longleftrightarrow> dict_ok d \<and> dict_all (\<lambda>va m. m_va m = va) d"

definition tables_ok :: "guest \<Rightarrow> bool" where
  "tables_ok g \<longleftrightarrow> dict_ok (processes g) \<and> dict_all process_ok (processes g) \<and>
     dict_ok (maps g) \<and> dict_all (\<lambda>_. mappings_ok) (maps g) \<and> dict_ok (data g)"

definition guest_wf :: "guest \<Rightarrow> bool" where
  "guest_wf g \<longleftrightarrow> log_ok g \<and> tables_ok g \<and> length (console g) \<le> 64000"

lemma guest_wf_new [wf_intros]: "guest_wf new_guest"
  by (simp add: guest_wf_def log_ok_def tables_ok_def new_guest_def)

lemma mappings_ok_Nil [simp]: "mappings_ok []"
  by (simp add: mappings_ok_def)

lemma mappings_ok_single [simp]: "mappings_ok [(va, m)] \<longleftrightarrow> m_va m = va"
  by (simp add: mappings_ok_def dict_ok_def)

lemma mappings_ok_set: "mappings_ok d \<Longrightarrow> m_va m = va \<Longrightarrow> mappings_ok (dict_set va m d)"
  by (simp add: mappings_ok_def dict.ok_store dict_all_set)

text \<open>Each conjunct looks at its own fields only.\<close>

lemma log_ok_cong:
  "events g = events g' \<Longrightarrow> sequence g = sequence g' \<Longrightarrow> ticks g = ticks g' \<Longrightarrow> log_ok g = log_ok g'"
  by (simp add: log_ok_def)

lemma tables_ok_cong:
  "processes g = processes g' \<Longrightarrow> maps g = maps g' \<Longrightarrow> data g = data g' \<Longrightarrow>
     tables_ok g = tables_ok g'"
  by (simp add: tables_ok_def)

end
