(* ===== verification/Guest_Event.thy ===== *)
theory Guest_Event
  imports Guest_State
begin

text \<open>
  One line of the trace channel: \<open>Guest._event\<close> of \<open>tools/lab_guest.py\<close>. A line may
  raise at several points, and what was written before the exception stays written, so the
  step returns the exception, if any, beside the guest it leaves.
\<close>

section \<open>Parsing a line\<close>

definition fld :: "pystr list \<Rightarrow> nat \<Rightarrow> pystr res" where
  "fld fs i = py_index fs (int i)"

definition int_fld :: "pystr list \<Rightarrow> nat \<Rightarrow> int res" where
  "int_fld fs i = rbind (fld fs i) int_of_str"

text \<open>
  \<open>parts = line.rstrip("\r").split("\t")\<close>; a line that is not a record of at least three
  parts headed \<open>ML\<close> is skipped (\<open>None\<close>).
\<close>

definition record_of_line :: "pystr \<Rightarrow> (pystr \<times> int \<times> pystr list) option res" where
  "record_of_line line =
     (let parts = split_on 9 (rstrip_if (\<lambda>c. c = 13) line)
      in if length parts < 3 \<or> parts ! 0 \<noteq> py ''ML'' then Inr None
         else rbind (int_of_str (parts ! 2)) (\<lambda>tick. Inr (Some (parts ! 1, tick, drop 3 parts))))"

section \<open>Which events are kept\<close>

definition interesting_kinds :: "pystr list" where
  "interesting_kinds =
     map py [''boot'', ''spawn'', ''schedule'', ''syscall'', ''wait'', ''exit'', ''fault'']"

text \<open>
  A memory record is kept when the number of free pages changed, a data record when the
  page or its marker changed. The comparisons short-circuit: a missing field is noticed only
  when it is read.
\<close>

definition interesting :: "guest \<Rightarrow> pystr \<Rightarrow> pystr list \<Rightarrow> bool res" where
  "interesting g kind fs =
     (if kind = py ''memory'' then rbind (int_fld fs 1) (\<lambda>n. Inr (n \<noteq> free g))
      else if kind = py ''data'' then
        rbind (int_fld fs 0) (\<lambda>pid.
          case dict_get (data g) pid of
            None \<Rightarrow> Inr True
          | Some old \<Rightarrow>
              rbind (fld fs 2) (\<lambda>pa.
                if d_pa old \<noteq> pa then Inr True
                else rbind (fld fs 3) (\<lambda>marker. Inr (d_marker old \<noteq> marker))))
      else Inr (kind \<in> set interesting_kinds))"

text \<open>\<open>self.events.append(event); self.events = self.events[-2000:]\<close>.\<close>

definition keep_event :: "event \<Rightarrow> guest \<Rightarrow> guest" where
  "keep_event e g = g\<lparr>events := last_n 2000 (events g @ [e])\<rparr>"

section \<open>Updating the tables\<close>

text \<open>\<open>pid, parent, program, state = map(int, fields[:4])\<close>.\<close>

definition four_ints :: "pystr list \<Rightarrow> (int \<times> int \<times> int \<times> int) res" where
  "four_ints fs =
     rbind (traverse int_of_str (take 4 fs)) (\<lambda>ns.
       case ns of [a, b, c, d] \<Rightarrow> Inr (a, b, c, d) | _ \<Rightarrow> Inl (UnpackError 4 (length ns)))"

text \<open>\<open>self.frames, self.free = map(int, fields[:2])\<close>.\<close>

definition two_ints :: "pystr list \<Rightarrow> (int \<times> int) res" where
  "two_ints fs =
     rbind (traverse int_of_str (take 2 fs)) (\<lambda>ns.
       case ns of [a, b] \<Rightarrow> Inr (a, b) | _ \<Rightarrow> Inl (UnpackError 2 (length ns)))"

definition apply_process :: "guest \<Rightarrow> pystr list \<Rightarrow> guest res" where
  "apply_process g fs =
     rbind (four_ints fs) (\<lambda>(pid, parent, program, state).
       if state = 0 then
         Inr (g\<lparr>processes := dict_pop pid (processes g), maps := dict_pop pid (maps g),
                data := dict_pop pid (data g)\<rparr>)
       else
         rbind (py_index PROGRAMS program) (\<lambda>prog.
         rbind (py_index STATES state) (\<lambda>st.
         rbind (fld fs 4) (\<lambda>root.
         rbind (int_fld fs 5) (\<lambda>slices.
         rbind (fld fs 6) (\<lambda>cur.
           Inr (g\<lparr>processes := dict_set pid
                  \<lparr>p_pid = pid, p_parent = parent, p_program = prog, p_state = st,
                   p_root = root, p_slices = slices, p_current = (cur = py ''1'')\<rparr>
                  (processes g)\<rparr>)))))))"

definition apply_map :: "guest \<Rightarrow> pystr list \<Rightarrow> guest res" where
  "apply_map g fs =
     rbind (int_fld fs 0) (\<lambda>pid.
     rbind (fld fs 1) (\<lambda>va.
     rbind (fld fs 2) (\<lambda>pa.
     rbind (int_fld fs 3) (\<lambda>flags.
     rbind (fld fs 4) (\<lambda>name.
       let old = (case dict_get (maps g) pid of None \<Rightarrow> [] | Some d \<Rightarrow> d)
       in Inr (g\<lparr>maps := dict_set pid
                 (dict_set va \<lparr>m_va = va, m_pa = pa, m_flags = flags, m_name = name\<rparr> old)
                 (maps g)\<rparr>))))))"

definition apply_data :: "guest \<Rightarrow> pystr list \<Rightarrow> guest res" where
  "apply_data g fs =
     rbind (fld fs 1) (\<lambda>va.
     rbind (fld fs 2) (\<lambda>pa.
     rbind (fld fs 3) (\<lambda>marker.
     rbind (int_fld fs 0) (\<lambda>pid.
       Inr (g\<lparr>data := dict_set pid \<lparr>d_va = va, d_pa = pa, d_marker = marker\<rparr> (data g)\<rparr>)))))"

definition apply_memory :: "guest \<Rightarrow> pystr list \<Rightarrow> guest res" where
  "apply_memory g fs =
     rbind (two_ints fs) (\<lambda>(total, unused). Inr (g\<lparr>frames := total, free := unused\<rparr>))"

text \<open>
  \<open>for process in self.processes.values(): process["current"] = process["pid"] == int(...)\<close>:
  the field is read inside the loop, so with no process it is never read.
\<close>

definition mark_current :: "int \<Rightarrow> guest \<Rightarrow> guest" where
  "mark_current pid g =
     g\<lparr>processes := dict_map (\<lambda>p. p\<lparr>p_current := (p_pid p = pid)\<rparr>) (processes g)\<rparr>"

definition apply_current :: "guest \<Rightarrow> pystr list \<Rightarrow> nat \<Rightarrow> guest res" where
  "apply_current g fs i =
     (if processes g = [] then Inr g
      else rbind (int_fld fs i) (\<lambda>pid. Inr (mark_current pid g)))"

definition apply_record :: "guest \<Rightarrow> pystr \<Rightarrow> pystr list \<Rightarrow> guest res" where
  "apply_record g kind fs =
     (if kind = py ''process'' then apply_process g fs
      else if kind = py ''map'' then apply_map g fs
      else if kind = py ''data'' then apply_data g fs
      else if kind = py ''memory'' then apply_memory g fs
      else if kind = py ''schedule'' then apply_current g fs 1
      else if kind = py ''syscall'' then apply_current g fs 0
      else Inr g)"

section \<open>The handler\<close>

definition stamp :: "int \<Rightarrow> guest \<Rightarrow> guest" where
  "stamp tick g = g\<lparr>ticks := max (ticks g) tick, sequence := sequence g + 1\<rparr>"

definition note_event :: "bool \<Rightarrow> pystr \<Rightarrow> int \<Rightarrow> pystr list \<Rightarrow> guest \<Rightarrow> guest" where
  "note_event keep kind tick fs g =
     (if keep
      then keep_event \<lparr>ev_id = sequence g, ev_kind = kind, ev_tick = tick, ev_fields = fs\<rparr> g
      else g)"

definition guest_event :: "guest \<Rightarrow> pystr \<Rightarrow> exn option \<times> guest" where
  "guest_event g line =
     (case record_of_line line of
        Inl e \<Rightarrow> (Some e, g)
      | Inr None \<Rightarrow> (None, g)
      | Inr (Some (kind, tick, fs)) \<Rightarrow>
          (let g1 = stamp tick g
           in case interesting g1 kind fs of
                Inl e \<Rightarrow> (Some e, g1)
              | Inr keep \<Rightarrow>
                  (let g2 = note_event keep kind tick fs g1
                   in case apply_record g2 kind fs of
                        Inl e \<Rightarrow> (Some e, g2)
                      | Inr g3 \<Rightarrow> (None, g3))))"

text \<open>Processing lines until one raises.\<close>

fun guest_events :: "guest \<Rightarrow> pystr list \<Rightarrow> exn option \<times> guest" where
  "guest_events g [] = (None, g)"
| "guest_events g (l # ls) =
     (case guest_event g l of
        (Some e, g') \<Rightarrow> (Some e, g')
      | (None, g') \<Rightarrow> guest_events g' ls)"

section \<open>Frame: what a record can touch\<close>

text \<open>Every table update is one of a few record updates; the log and the clock stay.\<close>

lemmas apply_defs =
  apply_process_def apply_map_def apply_data_def apply_memory_def apply_current_def

lemma apply_record_frame:
  assumes "apply_record g kind fs = Inr g'"
  shows "events g' = events g" "sequence g' = sequence g" "ticks g' = ticks g"
    "console g' = console g" "console_base g' = console_base g" "status g' = status g"
    "error g' = error g" "closed g' = closed g"
  using assms
  by (auto simp: apply_record_def apply_defs mark_current_def res_simps Let_def
      split: if_splits prod.splits)

lemma note_event_frame [simp]:
  "processes (note_event k kd t fs g) = processes g" "maps (note_event k kd t fs g) = maps g"
  "data (note_event k kd t fs g) = data g" "sequence (note_event k kd t fs g) = sequence g"
  "ticks (note_event k kd t fs g) = ticks g" "console (note_event k kd t fs g) = console g"
  "console_base (note_event k kd t fs g) = console_base g"
  "status (note_event k kd t fs g) = status g" "error (note_event k kd t fs g) = error g"
  "closed (note_event k kd t fs g) = closed g" "free (note_event k kd t fs g) = free g"
  "frames (note_event k kd t fs g) = frames g"
  by (simp_all add: note_event_def keep_event_def)

lemma stamp_frame [simp]:
  "processes (stamp t g) = processes g" "maps (stamp t g) = maps g" "data (stamp t g) = data g"
  "events (stamp t g) = events g" "console (stamp t g) = console g"
  "console_base (stamp t g) = console_base g" "status (stamp t g) = status g"
  "error (stamp t g) = error g" "closed (stamp t g) = closed g" "free (stamp t g) = free g"
  "frames (stamp t g) = frames g" "sequence (stamp t g) = Suc (sequence g)"
  "ticks (stamp t g) = max (ticks g) t"
  by (simp_all add: stamp_def)

text \<open>The three ways a line can go, as one elimination rule.\<close>

lemma guest_event_cases:
  assumes "guest_event g line = (x, g')"
  obtains (skipped) "g' = g" "\<nexists>r. record_of_line line = Inr (Some r)"
  | (stamped) kind tick fs e where "record_of_line line = Inr (Some (kind, tick, fs))"
      "interesting (stamp tick g) kind fs = Inl e" "x = Some e" "g' = stamp tick g"
  | (noted) kind tick fs keep e where "record_of_line line = Inr (Some (kind, tick, fs))"
      "interesting (stamp tick g) kind fs = Inr keep" "x = Some e"
      "g' = note_event keep kind tick fs (stamp tick g)"
  | (applied) kind tick fs keep where "record_of_line line = Inr (Some (kind, tick, fs))"
      "interesting (stamp tick g) kind fs = Inr keep" "x = None"
      "apply_record (note_event keep kind tick fs (stamp tick g)) kind fs = Inr g'"
  using assms
  by (auto simp: guest_event_def Let_def split: sum.splits option.splits prod.splits)

lemma guest_event_frame:
  assumes "guest_event g line = (x, g')"
  shows "console g' = console g" "console_base g' = console_base g" "status g' = status g"
    "error g' = error g" "closed g' = closed g"
  using assms by (cases rule: guest_event_cases; auto simp: apply_record_frame)+

end
