(* ===== verification/Guest_Tables.thy ===== *)
theory Guest_Tables
  imports Guest_Event
begin

text \<open>
  What a line of the trace does to the log and to the tables: the well-formedness of the
  picture is kept on every branch, the log is the last 2000 kept events, each record kind has
  its functional behaviour, and a repeated snapshot leaves the log alone.
\<close>

section \<open>Well-formedness of the log\<close>

lemma log_ok_stamp: "log_ok g \<Longrightarrow> log_ok (stamp t g)"
  by (fastforce simp: log_ok_def)

lemma log_ok_note: "log_ok g \<Longrightarrow> \<forall>e \<in> set (events g). ev_id e < sequence g \<Longrightarrow> t \<le> ticks g \<Longrightarrow>
    log_ok (note_event k kd t fs g)"
  by (auto simp: log_ok_def note_event_def keep_event_def last_n_map [symmetric]
      intro!: sorted_wrt_last_n simp: sorted_wrt_append dest!: set_last_n)

lemma log_ok_noted: "log_ok g \<Longrightarrow> log_ok (note_event k kd t fs (stamp t g))"
  by (rule log_ok_note [OF log_ok_stamp]) (auto simp: log_ok_def)

section \<open>Well-formedness of the tables\<close>

lemma tables_ok_pop:
  "tables_ok g \<Longrightarrow>
     tables_ok (g\<lparr>processes := dict_pop p (processes g), maps := dict_pop p (maps g),
                  data := dict_pop p (data g)\<rparr>)"
  by (simp add: tables_ok_def dict.ok_pop dict_all_pop)

lemma tables_ok_process:
  "tables_ok g \<Longrightarrow> process_ok pid p \<Longrightarrow>
     tables_ok (g\<lparr>processes := dict_set pid p (processes g)\<rparr>)"
  by (simp add: tables_ok_def dict.ok_store dict_all_set)

lemma tables_ok_map:
  "tables_ok g \<Longrightarrow> mappings_ok d \<Longrightarrow> tables_ok (g\<lparr>maps := dict_set pid d (maps g)\<rparr>)"
  by (simp add: tables_ok_def dict.ok_store dict_all_set)

lemma tables_ok_data: "tables_ok g \<Longrightarrow> tables_ok (g\<lparr>data := dict_set pid d (data g)\<rparr>)"
  by (simp add: tables_ok_def dict.ok_store)

lemma tables_ok_current: "tables_ok g \<Longrightarrow> tables_ok (mark_current pid g)"
  by (auto simp: tables_ok_def mark_current_def dict_ok_map dict_all_map process_ok_def
      elim: dict_all_mono)

lemma tables_ok_get_maps: "tables_ok g \<Longrightarrow> dict_get (maps g) pid = Some d \<Longrightarrow> mappings_ok d"
  by (auto simp: tables_ok_def dest: dict_get_all)

lemma apply_process_tables: "tables_ok g \<Longrightarrow> apply_process g fs = Inr g' \<Longrightarrow> tables_ok g'"
  by (auto simp: apply_process_def res_simps process_ok_def split: if_splits
      intro!: tables_ok_pop tables_ok_process dest: py_index_mem)

lemma apply_map_tables: "tables_ok g \<Longrightarrow> apply_map g fs = Inr g' \<Longrightarrow> tables_ok g'"
  by (auto simp: apply_map_def res_simps Let_def split: option.splits
      intro!: tables_ok_map mappings_ok_set dest: tables_ok_get_maps)

lemma apply_record_tables:
  assumes "tables_ok g" "apply_record g kind fs = Inr g'"
  shows "tables_ok g'"
proof -
  have "tables_ok (g\<lparr>frames := a, free := b\<rparr>)" for a b
    using assms(1) by (simp add: tables_ok_def)
  with assms show ?thesis
    by (auto simp: apply_record_def apply_data_def apply_memory_def apply_current_def res_simps
        split: if_splits intro: apply_process_tables apply_map_tables tables_ok_data
          tables_ok_current)
qed

lemma guest_event_wf [wf_intros]:
  assumes "guest_wf g" "guest_event g line = (x, g')"
  shows "guest_wf g'"
proof -
  have wf: "log_ok g" "tables_ok g" "length (console g) \<le> 64000"
    using assms(1) by (simp_all add: guest_wf_def)
  have tab: "tables_ok (note_event k kd t fs (stamp u g))" "tables_ok (stamp u g)" for k kd t fs u
    using wf(2) by (simp_all add: tables_ok_def)
  from assms(2) show ?thesis
  proof (cases rule: guest_event_cases)
    case skipped
    with assms(1) show ?thesis by simp
  next
    case (stamped kind tick fs e)
    with wf tab show ?thesis by (simp add: guest_wf_def log_ok_stamp)
  next
    case (noted kind tick fs keep e)
    with wf tab show ?thesis by (simp add: guest_wf_def log_ok_noted)
  next
    case (applied kind tick fs keep)
    note frame = apply_record_frame [OF applied(4)]
    have "log_ok g'"
      using log_ok_noted [OF wf(1)] by (simp add: log_ok_cong [OF frame(1-3)])
    then show ?thesis
      using apply_record_tables [OF tab(1) applied(4)] frame(4) wf(3)
      by (simp add: guest_wf_def)
  qed
qed

lemma guest_events_wf [wf_intros]: "guest_wf g \<Longrightarrow> guest_wf (snd (guest_events g ls))"
proof (induction ls arbitrary: g)
  case (Cons l ls)
  obtain x g' where "guest_event g l = (x, g')" by fastforce
  with Cons show ?case by (cases x) (auto dest: guest_event_wf)
qed simp

section \<open>The event log is a bounded window\<close>

interpretation log: append_window 2000 events keep_event "\<lambda>e es. es @ [e]" "\<lambda>e. [e]"
  by unfold_locales (auto simp: keep_event_def suffix_def)

text \<open>The events a run of lines keeps, in order, without the bound.\<close>

definition kept_event :: "guest \<Rightarrow> pystr \<Rightarrow> event option" where
  "kept_event g line =
     (case record_of_line line of
        Inr (Some (kind, tick, fs)) \<Rightarrow>
          (case interesting (stamp tick g) kind fs of
             Inr True \<Rightarrow> Some \<lparr>ev_id = sequence g + 1, ev_kind = kind, ev_tick = tick,
                              ev_fields = fs\<rparr>
           | _ \<Rightarrow> None)
      | _ \<Rightarrow> None)"

fun kept_events :: "guest \<Rightarrow> pystr list \<Rightarrow> event list" where
  "kept_events g [] = []"
| "kept_events g (l # ls) =
     (case kept_event g l of None \<Rightarrow> [] | Some e \<Rightarrow> [e]) @
     (case guest_event g l of (None, g') \<Rightarrow> kept_events g' ls | _ \<Rightarrow> [])"

lemma guest_event_log:
  assumes "guest_event g line = (x, g')"
  shows "events g' = (case kept_event g line of None \<Rightarrow> events g
                      | Some e \<Rightarrow> last_n 2000 (events g @ [e]))"
  using assms
proof (cases rule: guest_event_cases)
  case skipped
  then have "kept_event g line = None"
    by (auto simp: kept_event_def split: sum.splits option.splits)
  with skipped show ?thesis by simp
next
  case (stamped kind tick fs e)
  then show ?thesis by (simp add: kept_event_def)
next
  case (noted kind tick fs keep e)
  then show ?thesis by (simp add: kept_event_def note_event_def keep_event_def)
next
  case (applied kind tick fs keep)
  then show ?thesis
    by (simp add: kept_event_def apply_record_frame(1) note_event_def keep_event_def)
qed

lemma guest_events_log:
  assumes "events g = last_n 2000 full"
  shows "events (snd (guest_events g ls)) = last_n 2000 (full @ kept_events g ls)"
  using assms
proof (induction ls arbitrary: g full)
  case (Cons l ls)
  obtain x g' where step: "guest_event g l = (x, g')" by fastforce
  let ?new = "case kept_event g l of None \<Rightarrow> [] | Some e \<Rightarrow> [e]"
  have g': "events g' = last_n 2000 (full @ ?new)"
    using guest_event_log [OF step] Cons.prems log.window_exact [of g full]
    by (auto simp: last_n_last_n_append split: option.splits)
  show ?case
    using Cons.IH [OF g'] g' step by (cases x) auto
qed simp

section \<open>What each kind of record does\<close>

text \<open>
  The record kinds are pairwise different, so the chain of comparisons picks one handler.
\<close>

lemma apply_record_kinds:
  "apply_record g (py ''process'') fs = apply_process g fs"
  "apply_record g (py ''map'') fs = apply_map g fs"
  "apply_record g (py ''data'') fs = apply_data g fs"
  "apply_record g (py ''memory'') fs = apply_memory g fs"
  "apply_record g (py ''schedule'') fs = apply_current g fs 1"
  "apply_record g (py ''syscall'') fs = apply_current g fs 0"
  by (simp_all add: apply_record_def)

lemma interesting_kinds_mem:
  "py k \<in> set interesting_kinds \<longleftrightarrow>
     k \<in> {''boot'', ''spawn'', ''schedule'', ''syscall'', ''wait'', ''exit'', ''fault''}"
  by (auto simp: interesting_kinds_def)

text \<open>A record whose handler succeeds, in one equation.\<close>

lemma guest_event_applied:
  assumes "record_of_line line = Inr (Some (kind, tick, fs))"
    "interesting (stamp tick g) kind fs = Inr keep"
    "apply_record (note_event keep kind tick fs (stamp tick g)) kind fs = Inr g'"
  shows "guest_event g line = (None, g')"
  using assms by (simp add: guest_event_def)

text \<open>\<open>process\<close> with state 0: the pid disappears from the three tables, the others stay.\<close>

lemma process_gone:
  assumes "record_of_line line = Inr (Some (py ''process'', tick, fs))"
    "four_ints fs = Inr (pid, parent, program, 0)"
  shows "\<exists>g'. guest_event g line = (None, g') \<and>
     dict_get (processes g') = (dict_get (processes g))(pid := None) \<and>
     dict_get (maps g') = (dict_get (maps g))(pid := None) \<and>
     dict_get (data g') = (dict_get (data g))(pid := None)"
proof -
  have "interesting (stamp tick g) (py ''process'') fs = Inr False"
    by (simp add: interesting_def interesting_kinds_mem)
  moreover have "apply_record (stamp tick g) (py ''process'') fs =
      Inr ((stamp tick g)\<lparr>processes := dict_pop pid (processes g), maps := dict_pop pid (maps g),
                data := dict_pop pid (data g)\<rparr>)"
    by (simp add: apply_record_kinds apply_process_def assms(2))
  ultimately show ?thesis
    by (simp add: guest_event_def assms(1) note_event_def dict.get_pop)
qed

text \<open>\<open>schedule\<close> and \<open>syscall\<close>: the named pid, and no other, becomes current.\<close>

lemma mark_current_get:
  assumes "tables_ok g" "dict_get (processes (mark_current pid g)) k = Some p"
  shows "p_current p \<longleftrightarrow> k = pid"
proof -
  obtain q where q: "dict_get (processes g) k = Some q" "p = q\<lparr>p_current := (p_pid q = pid)\<rparr>"
    using assms(2) by (auto simp: mark_current_def dict_get_map)
  have "process_ok k q"
    using assms(1) q(1) by (auto simp: tables_ok_def dest: dict_get_all)
  then show ?thesis using q by (auto simp: process_ok_def)
qed

lemma apply_current_get:
  assumes "tables_ok g" "apply_current g fs i = Inr g'" "int_fld fs i = Inr pid"
    "dict_get (processes g') k = Some p"
  shows "p_current p \<longleftrightarrow> k = pid"
  using assms mark_current_get
  by (auto simp: apply_current_def dict_get_def res_simps split: if_splits)

lemma event_current:
  assumes "guest_wf g" "guest_event g line = (None, g')"
    "record_of_line line = Inr (Some (kind, tick, fs))"
    "kind = py ''schedule'' \<and> int_fld fs 1 = Inr pid \<or>
     kind = py ''syscall'' \<and> int_fld fs 0 = Inr pid"
    "dict_get (processes g') k = Some p"
  shows "p_current p \<longleftrightarrow> k = pid"
  using assms(2)
proof (cases rule: guest_event_cases)
  case (applied kind' tick' fs' keep)
  have "tables_ok (note_event keep kind' tick' fs' (stamp tick' g))"
    using assms(1) by (simp add: guest_wf_def tables_ok_def)
  with applied assms(3-5) show ?thesis
    by (auto simp: apply_record_kinds intro: apply_current_get [THEN iffD1]
        apply_current_get [THEN iffD2])
qed (use assms(3) in auto)

section \<open>Counters only grow\<close>

lemma guest_event_counters:
  assumes "guest_event g line = (x, g')"
  shows "ticks g \<le> ticks g'" "sequence g \<le> sequence g'" "sequence g' \<le> Suc (sequence g)"
  using assms by (cases rule: guest_event_cases; simp add: apply_record_frame)+

lemma guest_events_counters:
  "ticks g \<le> ticks (snd (guest_events g ls)) \<and>
     sequence g \<le> sequence (snd (guest_events g ls))"
proof (induction ls arbitrary: g)
  case (Cons l ls)
  obtain x g' where "guest_event g l = (x, g')" by fastforce
  moreover from guest_event_counters [OF this]
  have "ticks g \<le> ticks g'" "sequence g \<le> sequence g'" by simp_all
  ultimately show ?case using Cons.IH [of g'] by (cases x) auto
qed simp_all

text \<open>A line that is no record leaves everything as it was.\<close>

lemma not_a_record: "record_of_line line = Inr None \<Longrightarrow> guest_event g line = (None, g)"
  by (simp add: guest_event_def)

end
