(* ===== verification/Guest_Reader.thy ===== *)
theory Guest_Reader
  imports Guest_Tables
begin

text \<open>
  The reader threads: \<open>Guest._read\<close> of \<open>tools/lab_guest.py\<close>. Channel 0 carries the
  console, channel 1 the trace. One iteration of the loop takes one result of \<open>recv\<close>; it
  runs under the guest's lock, so it is one step of the interleavings of \<open>Guest_Lifecycle\<close>.
\<close>

section \<open>The console channel\<close>

definition console_char :: "nat \<Rightarrow> pystr \<Rightarrow> pystr" where
  "console_char c con = (if c = 8 then butlast con else if c \<noteq> 13 then con @ [c] else con)"

definition console_text :: "pystr \<Rightarrow> pystr \<Rightarrow> pystr" where
  "console_text text con = fold console_char text con"

definition panic_mark :: pystr where
  "panic_mark = py ''MiniLinux PANIC:''"

definition console_chunk :: "pystr \<Rightarrow> guest \<Rightarrow> guest" where
  "console_chunk text g =
     (let full = console_text text (console g);
          removed = length full - 64000;
          g1 = g\<lparr>console := last_n 64000 full, console_base := console_base g + removed\<rparr>
      in if sublist panic_mark (console g1)
         then g1\<lparr>status := Faulted,
                 error := py ''Kernel panic; inspect the console and restart.''\<rparr>
         else g1)"

section \<open>The trace channel\<close>

text \<open>\<open>while "\n" in pending: line, pending = pending.split("\n", 1); self._event(line)\<close>.\<close>

function drain :: "guest \<Rightarrow> pystr \<Rightarrow> exn option \<times> guest \<times> pystr" where
  "drain g pending =
     (if 10 \<in> set pending
      then (case split_first 10 pending of (line, rest) \<Rightarrow>
              (case guest_event g line of
                 (Some e, g') \<Rightarrow> (Some e, g', rest)
               | (None, g') \<Rightarrow> drain g' rest))
      else (None, g, pending))"
  by pat_completeness auto
termination
proof (relation "measure (\<lambda>(g, p). length p)")
  fix g pending line rest x g'
  assume "10 \<in> set pending" "(line, rest) = split_first 10 pending"
  then show "((g', rest), g, pending) \<in> measure (\<lambda>(g, p). length p)"
    by (elim split_first_mem) auto
qed auto

declare drain.simps [simp del]

definition trace_chunk :: "pystr \<Rightarrow> guest \<Rightarrow> pystr \<Rightarrow> exn option \<times> guest \<times> pystr" where
  "trace_chunk text g pending =
     (case drain g (pending @ text) of
        (Some e, g', rest) \<Rightarrow> (Some e, g', rest)
      | (None, g', rest) \<Rightarrow>
          if length rest > 4096
          then (Some (RuntimeError (py ''Unterminated observation record'')), g', rest)
          else (None, g', rest))"

section \<open>One iteration, and how a thread ends\<close>

datatype channel = Console_Channel | Trace_Channel

text \<open>What \<open>recv\<close> and the log file give: bytes (none at the end of the stream) or an error.\<close>

datatype recv = Chunk "nat list" | Recv_Error pystr

datatype outcome = Continue | Break | Raise exn

definition read_body :: "channel \<Rightarrow> recv \<Rightarrow> guest \<Rightarrow> pystr \<Rightarrow> outcome \<times> guest \<times> pystr" where
  "read_body ch r g pending =
     (case r of
        Recv_Error m \<Rightarrow> (Raise (OSError m), g, pending)
      | Chunk bytes \<Rightarrow>
          if bytes = [] then (Break, g, pending)
          else (case ch of
                  Console_Channel \<Rightarrow> (Continue, console_chunk (decode_ascii bytes) g, pending)
                | Trace_Channel \<Rightarrow>
                    (case trace_chunk (decode_ascii bytes) g pending of
                       (Some e, g', rest) \<Rightarrow> (Raise e, g', rest)
                     | (None, g', rest) \<Rightarrow> (Continue, g', rest))))"

text \<open>
  \<open>except (OSError, RuntimeError) as exc\<close>: the message is recorded; any other exception
  passes on to the \<open>finally\<close> clause and ends the thread.
\<close>

definition read_except :: "exn \<Rightarrow> guest \<Rightarrow> guest" where
  "read_except e g =
     (if (is_os_error e \<or> is_runtime_error e) \<and> \<not> closed g
      then g\<lparr>error := exn_message e\<rparr> else g)"

definition read_finally :: "guest \<Rightarrow> guest" where
  "read_finally g =
     (if closed g then g
      else g\<lparr>status := Disconnected,
             error := (if error g = [] then py ''QEMU serial channel closed.'' else error g)\<rparr>)"

definition read_end :: "outcome \<Rightarrow> guest \<Rightarrow> guest" where
  "read_end out g =
     (case out of Raise e \<Rightarrow> read_finally (read_except e g) | _ \<Rightarrow> read_finally g)"

text \<open>
  A whole thread that runs alone: the results of \<open>recv\<close> in order, \<open>None\<close> while it still
  waits for more. The loop looks at \<open>closed\<close> before each \<open>recv\<close>.
\<close>

fun read_loop :: "channel \<Rightarrow> recv list \<Rightarrow> guest \<Rightarrow> pystr \<Rightarrow> outcome option \<times> guest \<times> pystr" where
  "read_loop ch [] g pending = (if closed g then Some Break else None, g, pending)"
| "read_loop ch (r # rs) g pending =
     (if closed g then (Some Break, g, pending)
      else (case read_body ch r g pending of
              (Continue, g', pending') \<Rightarrow> read_loop ch rs g' pending'
            | (out, g', pending') \<Rightarrow> (Some out, g', pending')))"

definition read_thread :: "channel \<Rightarrow> recv list \<Rightarrow> guest \<Rightarrow> guest" where
  "read_thread ch rs g =
     (case read_loop ch rs g [] of
        (Some out, g', _) \<Rightarrow> read_end out g'
      | (None, g', _) \<Rightarrow> g')"

section \<open>The console is a window on the transcript\<close>

lemma console_text_simps [simp]:
  "console_text [] con = con"
  "console_text (c # text) con = console_text text (console_char c con)"
  by (simp_all add: console_text_def)

lemma console_text_append: "console_text (a @ b) con = console_text b (console_text a con)"
  by (simp add: console_text_def)

lemma console_char_suffix:
  assumes "suffix xs ys"
  shows "suffix (console_char c xs) (console_char c ys)"
proof -
  obtain zs where "ys = zs @ xs" using assms by (auto simp: suffix_def)
  then show ?thesis by (cases "xs = []") (auto simp: console_char_def butlast_append suffix_def)
qed

lemma console_text_suffix:
  "suffix xs ys \<Longrightarrow> suffix (console_text ts xs) (console_text ts ys)"
  by (induction ts arbitrary: xs ys) (auto intro: console_char_suffix)

lemma console_chunk_console: "console (console_chunk text g) = last_n 64000 (console_text text (console g))"
  by (simp add: console_chunk_def Let_def)

interpretation screen: bounded_window 64000 console console_chunk console_text
  by unfold_locales (simp_all add: console_chunk_console console_text_suffix)

text \<open>Text without backspace and carriage return is appended as it is.\<close>

definition plain :: "pystr \<Rightarrow> bool" where
  "plain text \<longleftrightarrow> 8 \<notin> set text \<and> 13 \<notin> set text"

lemma console_text_plain: "plain ts \<Longrightarrow> console_text ts con = con @ ts"
  by (induction ts arbitrary: con) (auto simp: plain_def console_char_def)

text \<open>Text without backspace loses its carriage returns only.\<close>

lemma console_text_no_backspace:
  "8 \<notin> set ts \<Longrightarrow> console_text ts con = con @ filter (\<lambda>c. c \<noteq> 13) ts"
  by (induction ts arbitrary: con) (auto simp: console_char_def)

lemma console_chunk_base:
  "console_base (console_chunk text g) =
     console_base g + (length (console_text text (console g)) - 64000)"
  by (simp add: console_chunk_def Let_def)

lemma console_chunk_status:
  "status (console_chunk text g) =
     (if sublist panic_mark (console (console_chunk text g)) then Faulted else status g)"
  by (simp add: console_chunk_def Let_def)

lemma console_chunk_frame [simp]:
  "events (console_chunk t g) = events g" "processes (console_chunk t g) = processes g"
  "maps (console_chunk t g) = maps g" "data (console_chunk t g) = data g"
  "sequence (console_chunk t g) = sequence g" "ticks (console_chunk t g) = ticks g"
  "closed (console_chunk t g) = closed g" "free (console_chunk t g) = free g"
  "frames (console_chunk t g) = frames g"
  by (simp_all add: console_chunk_def Let_def)

lemma console_chunk_wf [wf_intros]: "guest_wf g \<Longrightarrow> guest_wf (console_chunk t g)"
  by (simp add: guest_wf_def log_ok_def tables_ok_def console_chunk_console)

text \<open>
  The base counts what left the window: on a stream without backspaces the console is what
  the transcript has after the first \<open>console_base\<close> characters.
\<close>

lemma last_n_drop: "last_n n xs = drop (length xs - n) xs"
  by (simp add: last_n_def)

lemma console_base_chunk:
  assumes "8 \<notin> set text" "console g = drop (console_base g) full" "console_base g \<le> length full"
  shows "console (console_chunk text g) =
      drop (console_base (console_chunk text g)) (full @ filter (\<lambda>c. c \<noteq> 13) text)
    \<and> console_base (console_chunk text g) \<le> length (full @ filter (\<lambda>c. c \<noteq> 13) text)"
proof -
  let ?F = "full @ filter (\<lambda>c. c \<noteq> 13) text" and ?b = "console_base g"
  have edited: "console_text text (console g) = drop ?b ?F"
    using assms by (simp add: console_text_no_backspace)
  have base: "console_base (console_chunk text g) = ?b + (length ?F - ?b - 64000)"
    unfolding console_chunk_base edited by simp
  have "console (console_chunk text g) = drop (length ?F - ?b - 64000) (drop ?b ?F)"
    unfolding console_chunk_console edited last_n_drop length_drop ..
  also have "\<dots> = drop (console_base (console_chunk text g)) ?F"
    unfolding base drop_drop by (rule arg_cong [where f = "\<lambda>n. drop n ?F"]) simp
  finally show ?thesis using assms(3) unfolding base by simp
qed

lemma console_base_run:
  assumes "\<forall>t \<in> set ts. 8 \<notin> set t" "console g = drop (console_base g) full"
    "console_base g \<le> length full"
  shows "console (fold console_chunk ts g) =
      drop (console_base (fold console_chunk ts g)) (full @ filter (\<lambda>c. c \<noteq> 13) (concat ts))"
  using assms
proof (induction ts arbitrary: g full)
  case (Cons t ts)
  from Cons.prems console_base_chunk [of t g full]
  have "console (console_chunk t g) =
      drop (console_base (console_chunk t g)) (full @ filter (\<lambda>c. c \<noteq> 13) t)"
    "console_base (console_chunk t g) \<le> length (full @ filter (\<lambda>c. c \<noteq> 13) t)"
    by simp_all
  from Cons.IH [OF _ this] Cons.prems show ?case by simp
qed simp

section \<open>A panic is seen however it is split\<close>

lemma console_run_plain:
  assumes "\<forall>t \<in> set ts. plain t" "ts \<noteq> []"
  shows "console (fold console_chunk ts g) = last_n 64000 (console g @ concat ts)"
  using assms
proof (induction ts arbitrary: g)
  case (Cons t ts)
  have one: "console (console_chunk t g) = last_n 64000 (console g @ t)"
    using Cons.prems by (simp add: console_chunk_console console_text_plain)
  show ?case
  proof (cases "ts = []")
    case True
    then show ?thesis by (simp add: one)
  next
    case False
    then show ?thesis using Cons by (simp add: one last_n_last_n_append)
  qed
qed simp

lemma sublist_last_n_end:
  assumes "length p \<le> n"
  shows "sublist p (last_n n (xs @ p))"
proof -
  have "last_n n (xs @ p) = drop (length xs + length p - n) xs @ p"
    using assms by (simp add: last_n_def)
  then show ?thesis by (simp add: sublist_append_leftI)
qed

lemma panic_seen:
  assumes "\<forall>t \<in> set ts. plain t" "concat ts = pre @ panic_mark"
  shows "status (fold console_chunk ts g) = Faulted"
proof -
  have ne: "ts \<noteq> []" using assms(2) by (auto simp: panic_mark_def)
  then obtain ss t where ts: "ts = ss @ [t]" by (cases ts rule: rev_cases) auto
  have "sublist panic_mark (console (fold console_chunk ts g))"
    unfolding console_run_plain [OF assms(1) ne] assms(2)
    using sublist_last_n_end [of panic_mark 64000 "console g @ pre"]
    by (simp add: panic_mark_def)
  then show ?thesis unfolding ts by (simp add: console_chunk_status)
qed

section \<open>Framing of the trace\<close>

text \<open>The complete lines of a text and the unfinished rest.\<close>

definition full_lines :: "pystr \<Rightarrow> pystr list" where
  "full_lines p = butlast (split_on 10 p)"

definition rest_line :: "pystr \<Rightarrow> pystr" where
  "rest_line p = last (split_on 10 p)"

lemma lines_no_newline: "10 \<notin> set p \<Longrightarrow> full_lines p = [] \<and> rest_line p = p"
  by (simp add: full_lines_def rest_line_def split_on_free)

lemma lines_newline:
  "10 \<notin> set l \<Longrightarrow> full_lines (l @ 10 # p) = l # full_lines p \<and> rest_line (l @ 10 # p) = rest_line p"
  by (simp add: full_lines_def rest_line_def split_on_append)

lemma rest_line_free: "10 \<notin> set (rest_line p)"
  unfolding rest_line_def by (rule split_on_pieces [of _ _ p]) simp

lemma drain_lines:
  "drain g p = (e, g', r) \<Longrightarrow>
     guest_events g (full_lines p) = (e, g') \<and> (e = None \<longrightarrow> r = rest_line p)"
proof (induction g p rule: drain.induct)
  case (1 g p)
  show ?case
  proof (cases "10 \<in> set p")
    case True
    then obtain l q where p: "p = l @ 10 # q" "10 \<notin> set l" "split_first 10 p = (l, q)"
      by (rule split_first_mem)
    obtain x h where ev: "guest_event g l = (x, h)" by fastforce
    show ?thesis
    proof (cases x)
      case None
      have "drain h q = (e, g', r)"
        using "1.prems" True p ev None by (simp add: drain.simps [of g "l @ 10 # q"])
      from "1.IH" [OF True p(3) [symmetric] ev [symmetric] None this]
      show ?thesis using lines_newline [OF p(2)] ev None p(1) by simp
    next
      case (Some y)
      then show ?thesis
        using "1.prems" True p ev lines_newline [OF p(2)]
        by (auto simp: drain.simps [of g "l @ 10 # q"])
    qed
  next
    case False
    then show ?thesis using "1.prems" lines_no_newline by (simp add: drain.simps [of g p])
  qed
qed

lemma full_lines_append:
  "full_lines (p @ t) = full_lines p @ full_lines (rest_line p @ t) \<and>
   rest_line (p @ t) = rest_line (rest_line p @ t)"
proof (induction "length p" arbitrary: p rule: less_induct)
  case less
  show ?case
  proof (cases "10 \<in> set p")
    case True
    then obtain l q where p: "p = l @ 10 # q" "10 \<notin> set l" by (rule split_first_mem)
    then have "length q < length p" by simp
    from less [OF this] show ?thesis
      using p lines_newline [OF p(2), of q] lines_newline [OF p(2), of "q @ t"] by simp
  next
    case False
    then show ?thesis using lines_no_newline by simp
  qed
qed

lemma guest_events_append:
  "guest_events g (as @ bs) =
     (case guest_events g as of (None, g') \<Rightarrow> guest_events g' bs | r \<Rightarrow> r)"
  by (induction as arbitrary: g) (auto split: prod.splits option.splits)

text \<open>
  A run of the trace reader over any chunks, as long as it does not raise: the lines of the
  whole text, whatever the cuts.
\<close>

fun trace_chunks :: "pystr list \<Rightarrow> guest \<Rightarrow> pystr \<Rightarrow> exn option \<times> guest \<times> pystr" where
  "trace_chunks [] g pending = (None, g, pending)"
| "trace_chunks (t # ts) g pending =
     (case trace_chunk t g pending of
        (None, g', rest) \<Rightarrow> trace_chunks ts g' rest
      | (Some e, g', rest) \<Rightarrow> (Some e, g', rest))"

lemma trace_chunk_ok:
  assumes "trace_chunk t g p = (None, g', r)"
  shows "guest_events g (full_lines (p @ t)) = (None, g')" "r = rest_line (p @ t)"
    "length r \<le> 4096"
  using assms drain_lines [of g "p @ t"]
  by (auto simp: trace_chunk_def split: prod.splits option.splits if_splits)

lemma trace_chunks_framing:
  assumes "10 \<notin> set p" "trace_chunks ts g p = (None, g', r)"
  shows "guest_events g (full_lines (p @ concat ts)) = (None, g') \<and> r = rest_line (p @ concat ts)"
  using assms
proof (induction ts arbitrary: g p)
  case Nil
  then show ?case by (simp add: lines_no_newline)
next
  case (Cons t ts)
  obtain h q where step: "trace_chunk t g p = (None, h, q)" and rest: "trace_chunks ts h q = (None, g', r)"
    using Cons.prems(2) by (auto split: prod.splits option.splits)
  note ok = trace_chunk_ok [OF step]
  have "10 \<notin> set q" by (simp add: ok(2) rest_line_free)
  from Cons.IH [OF this rest]
  have "guest_events h (full_lines (q @ concat ts)) = (None, g')" "r = rest_line (q @ concat ts)"
    by simp_all
  then show ?case
    using ok(1,2) full_lines_append [of "p @ t" "concat ts"] by (simp add: guest_events_append)
qed

section \<open>Every iteration keeps the picture well formed\<close>

lemma drain_wf: "guest_wf g \<Longrightarrow> guest_wf (fst (snd (drain g p)))"
  using drain_lines [of g p "fst (drain g p)" "fst (snd (drain g p))" "snd (snd (drain g p))"]
    guest_events_wf [of g "full_lines p"] by simp

lemma trace_chunk_wf: "guest_wf g \<Longrightarrow> guest_wf (fst (snd (trace_chunk t g p)))"
  using drain_wf [of g "p @ t"]
  by (auto simp: trace_chunk_def split: prod.splits option.splits)

lemma read_body_wf [wf_intros]:
  assumes "guest_wf g" "read_body ch r g p = (out, g', p')"
  shows "guest_wf g'"
proof (cases "\<exists>bs. r = Chunk bs \<and> bs \<noteq> [] \<and> ch = Trace_Channel")
  case True
  then obtain bs where "r = Chunk bs" "bs \<noteq> []" "ch = Trace_Channel" by blast
  with assms trace_chunk_wf [OF assms(1), of "decode_ascii bs" p] show ?thesis
    by (auto simp: read_body_def split: prod.splits option.splits)
next
  case False
  with assms show ?thesis
    by (auto simp: read_body_def console_chunk_wf split: recv.splits channel.splits if_splits)
qed

lemma read_end_wf [wf_intros]: "guest_wf g \<Longrightarrow> guest_wf (read_end out g)"
  by (auto simp: read_end_def read_finally_def read_except_def guest_wf_def log_ok_def
      tables_ok_def split: outcome.splits)

lemma read_end_status:
  "\<not> closed g \<Longrightarrow> status (read_end out g) = Disconnected \<and> error (read_end out g) \<noteq> []"
  by (simp add: read_end_def read_finally_def read_except_def split: outcome.splits)

lemma read_end_closed: "closed g \<Longrightarrow> read_end out g = g"
  by (simp add: read_end_def read_finally_def read_except_def split: outcome.splits)

end
