(* ===== verification/Qemu_Host.thy ===== *)
theory Qemu_Host
  imports PyText
begin

text \<open>
  The host side of QEMU (\<open>tools/qemu_host.py\<close>): the command line with the one CPU profile,
  and the preflight that reads \<open>qemu --version\<close>. What the operating system answers (the
  platform, \<open>shutil.which\<close>, the outcome of the version command) is an argument.
\<close>

section \<open>Versions\<close>

text \<open>The tuple of the three version numbers; Python compares tuples lexicographically.\<close>

datatype version = Version nat nat nat

fun version_le :: "version \<Rightarrow> version \<Rightarrow> bool" where
  "version_le (Version a b c) (Version a' b' c') \<longleftrightarrow>
     a < a' \<or> a = a' \<and> (b < b' \<or> b = b' \<and> c \<le> c')"

instantiation version :: linorder
begin

definition less_eq_version :: "version \<Rightarrow> version \<Rightarrow> bool" where
  "less_eq_version v w \<longleftrightarrow> version_le v w"

definition less_version :: "version \<Rightarrow> version \<Rightarrow> bool" where
  "less_version v w \<longleftrightarrow> v \<le> w \<and> \<not> w \<le> v"

instance
proof
  fix u v w :: version
  show "v \<le> v" by (cases v) (simp add: less_eq_version_def)
  show "u \<le> v \<Longrightarrow> v \<le> w \<Longrightarrow> u \<le> w" by (cases u; cases v; cases w) (auto simp: less_eq_version_def)
  show "u \<le> v \<Longrightarrow> v \<le> u \<Longrightarrow> u = v" by (cases u; cases v) (auto simp: less_eq_version_def)
  show "u \<le> v \<or> v \<le> u" by (cases u; cases v) (auto simp: less_eq_version_def)
qed (simp add: less_version_def)

end

lemma version_le_simps [simp]:
  "Version a b c \<le> Version a' b' c' \<longleftrightarrow> a < a' \<or> a = a' \<and> (b < b' \<or> b = b' \<and> c \<le> c')"
  by (simp add: less_eq_version_def)

definition required_version :: version where
  "required_version = Version 6 2 0"

section \<open>Reading the banner\<close>

text \<open>\<open>\s\<close> of a regular expression on \<open>str\<close>.\<close>

definition re_space :: "nat \<Rightarrow> bool" where
  "re_space c \<longleftrightarrow> int_space c \<or> 28 \<le> c \<and> c \<le> 31"

text \<open>\<open>\d+\<close>, which takes all the digits there are.\<close>

definition is_digit :: "nat \<Rightarrow> bool" where
  "is_digit c \<longleftrightarrow> decimal_digit c \<noteq> None"

fun strip_prefix :: "'a list \<Rightarrow> 'a list \<Rightarrow> 'a list option" where
  "strip_prefix [] ys = Some ys"
| "strip_prefix (x # xs) [] = None"
| "strip_prefix (x # xs) (y # ys) = (if x = y then strip_prefix xs ys else None)"

definition take_number :: "pystr \<Rightarrow> (nat \<times> pystr) option" where
  "take_number s =
     map_option (\<lambda>n. (n, dropWhile is_digit s)) (digits_value (takeWhile is_digit s))"

text \<open>
  The pattern \<open>QEMU emulator version (\d+)\.(\d+)\.(\d+)(?:\s|[-(]|$)\<close> at one position. A
  shorter run of digits never helps, since the next character of the pattern is no digit,
  so there is nothing to backtrack into.
\<close>

definition version_end :: "pystr \<Rightarrow> bool" where
  "version_end s = (case s of [] \<Rightarrow> True | c # _ \<Rightarrow> re_space c \<or> c = 45 \<or> c = 40)"

definition banner_prefix :: pystr where
  "banner_prefix = py ''QEMU emulator version ''"

definition banner_at :: "pystr \<Rightarrow> version option" where
  "banner_at s =
     Option.bind (strip_prefix banner_prefix s) (\<lambda>s1.
     Option.bind (take_number s1) (\<lambda>(a, s2).
     Option.bind (strip_prefix [46] s2) (\<lambda>s3.
     Option.bind (take_number s3) (\<lambda>(b, s4).
     Option.bind (strip_prefix [46] s4) (\<lambda>s5.
     Option.bind (take_number s5) (\<lambda>(c, s6).
       if version_end s6 then Some (Version a b c) else None))))))"

text \<open>\<open>re.search\<close> with \<open>^\<close> under \<open>MULTILINE\<close>: the first line whose start matches.\<close>

fun search_banner :: "bool \<Rightarrow> pystr \<Rightarrow> version option" where
  "search_banner line_start [] = None"
| "search_banner line_start (c # cs) =
     (case (if line_start then banner_at (c # cs) else None) of
        Some v \<Rightarrow> Some v
      | None \<Rightarrow> search_banner (c = 10) cs)"

definition qemu_version :: "pystr \<Rightarrow> version option" where
  "qemu_version out = search_banner True out"

section \<open>The command line\<close>

datatype os_name = Nt | Posix

definition CPU :: pystr where
  "CPU = py ''qemu64,-apic''"

text \<open>A path as its components; \<open>str(path)\<close> joins them with the platform's separator.\<close>

type_synonym path = "pystr list"

fun path_str :: "os_name \<Rightarrow> path \<Rightarrow> pystr" where
  "path_str Nt p = join_with 92 p"
| "path_str Posix p = join_with 47 p"

definition qemu_command :: "os_name \<Rightarrow> pystr option \<Rightarrow> path \<Rightarrow> pystr list res" where
  "qemu_command os which tool_root =
     (case os of
        Nt \<Rightarrow> Inr [path_str Nt (tool_root @ [py ''qemu-20260811'', py ''qemu-system-x86_64.exe'']),
                   py ''-L'', py ''qemu-20260811/share'', py ''-cpu'', CPU]
      | Posix \<Rightarrow>
          (case which of
             None \<Rightarrow> Inl (RuntimeError (py ''Missing qemu-system-x86_64; see docs/LINUX.md''))
           | Some executable \<Rightarrow>
               if executable = []
               then Inl (RuntimeError (py ''Missing qemu-system-x86_64; see docs/LINUX.md''))
               else Inr [executable, py ''-cpu'', CPU]))"

section \<open>The preflight\<close>

text \<open>How \<open>subprocess.run([executable, "--version"], check=True, timeout=5)\<close> can go.\<close>

datatype run_outcome = Finished pystr | Timed_Out | Failed_Status | Not_Started pystr

definition check_banner :: "pystr \<Rightarrow> unit res" where
  "check_banner out =
     (case qemu_version out of
        None \<Rightarrow> Inl (RuntimeError (py ''Cannot identify the QEMU version; see docs/LINUX.md''))
      | Some v \<Rightarrow>
          if v < required_version
          then Inl (RuntimeError (py ''This entry requires QEMU >= 6.2.0 with the explicit PIC CPU profile; see docs/LINUX.md; no guest started''))
          else Inr ())"

definition check_qemu :: "os_name \<Rightarrow> pystr option \<Rightarrow> path \<Rightarrow> run_outcome \<Rightarrow> unit res" where
  "check_qemu os which root outcome =
     rbind (qemu_command os which root) (\<lambda>_.
       case outcome of
         Timed_Out \<Rightarrow>
           Inl (RuntimeError (py ''QEMU --version timed out after 5 seconds; no guest started''))
       | Failed_Status \<Rightarrow> Inl CalledProcessError
       | Not_Started m \<Rightarrow> Inl (OSError m)
       | Finished out \<Rightarrow> check_banner out)"

section \<open>What the preflight accepts\<close>

lemma strip_prefix_append [simp]: "strip_prefix xs (xs @ ys) = Some ys"
  by (induction xs) auto

lemma strip_prefix_Some: "strip_prefix xs zs = Some ys \<longleftrightarrow> zs = xs @ ys"
  by (induction xs zs rule: strip_prefix.induct) auto

lemma is_digit_str_of_nat: "c \<in> set (str_of_nat n) \<Longrightarrow> is_digit c"
  using str_of_nat_digits [of c n] by (auto simp: is_digit_def decimal_digit_def)

lemma take_number_str_of_nat:
  assumes "case s of [] \<Rightarrow> True | c # _ \<Rightarrow> \<not> is_digit c"
  shows "take_number (str_of_nat n @ s) = Some (n, s)"
proof -
  have "takeWhile is_digit s = []" "dropWhile is_digit s = s"
    using assms by (auto split: list.splits)
  then show ?thesis
    by (simp add: take_number_def takeWhile_append2 dropWhile_append2 is_digit_str_of_nat)
qed

lemma not_digit_dot [simp]: "\<not> is_digit 46"
  by (simp add: is_digit_def decimal_digit_def)

text \<open>No block of digits meets the white space beyond ASCII.\<close>

lemma digit_zeros_gaps:
  "\<forall>z \<in> set digit_zeros. z + 9 < 128 \<or> 160 < z \<and> z + 9 < 5760 \<or> 5760 < z \<and> z + 9 < 8192 \<or> 12288 < z"
  by (simp add: digit_zeros_def)

lemma space_not_digit:
  assumes "re_space c \<or> c = 45 \<or> c = 40"
  shows "\<not> is_digit c"
proof (cases "c < 128")
  case True
  then show ?thesis using assms
    by (auto simp: is_digit_def decimal_digit_def re_space_def int_space_def)
next
  case False
  then have c: "c = 133 \<or> c = 160 \<or> c = 5760 \<or> 8192 \<le> c \<and> c \<le> 12288"
    using assms by (auto simp: re_space_def int_space_def)
  have "\<not> (z \<le> c \<and> c < z + 10)" if "z \<in> set digit_zeros" for z
    using digit_zeros_gaps [rule_format, OF that] c by linarith
  then have "find (\<lambda>z. z \<le> c \<and> c < z + 10) digit_zeros = None"
    by (simp add: find_None_iff)
  then show ?thesis using False by (simp add: is_digit_def decimal_digit_def)
qed

lemma version_end_no_digit: "version_end s \<Longrightarrow> case s of [] \<Rightarrow> True | c # _ \<Rightarrow> \<not> is_digit c"
  by (auto simp: version_end_def space_not_digit split: list.splits)

definition version_text :: "nat \<Rightarrow> nat \<Rightarrow> nat \<Rightarrow> pystr" where
  "version_text a b c = str_of_nat a @ 46 # str_of_nat b @ 46 # str_of_nat c"

lemma banner_at_version:
  assumes "version_end s"
  shows "banner_at (banner_prefix @ version_text a b c @ s) = Some (Version a b c)"
  using assms version_end_no_digit [OF assms]
  by (simp add: banner_at_def version_text_def take_number_str_of_nat)

lemma qemu_version_banner:
  assumes "version_end s"
  shows "qemu_version (banner_prefix @ version_text a b c @ s) = Some (Version a b c)"
proof -
  obtain x xs where "banner_prefix @ version_text a b c @ s = x # xs"
    by (cases "banner_prefix @ version_text a b c @ s")
      (auto simp: banner_prefix_def)
  with banner_at_version [OF assms, of a b c] show ?thesis by (simp add: qemu_version_def)
qed

lemma check_banner_ok:
  "check_banner out = Inr () \<longleftrightarrow> (\<exists>v. qemu_version out = Some v \<and> required_version \<le> v)"
  by (auto simp: check_banner_def not_less split: option.splits)

lemma check_qemu_ok:
  "check_qemu os which root outcome = Inr () \<longleftrightarrow>
     (\<exists>cmd out v. qemu_command os which root = Inr cmd \<and> outcome = Finished out \<and>
        qemu_version out = Some v \<and> required_version \<le> v)"
  by (auto simp: check_qemu_def res_simps check_banner_ok split: run_outcome.splits)

text \<open>Every command line names the CPU profile right after \<open>-cpu\<close>.\<close>

lemma qemu_command_cpu:
  "qemu_command os which root = Inr cmd \<Longrightarrow> \<exists>pre. cmd = pre @ [py ''-cpu'', CPU]"
  by (auto simp: qemu_command_def split: os_name.splits option.splits if_splits)

end
