(* ===== verification/Polling.thy ===== *)
theory Polling
  imports Prelude
begin

text \<open>
  The tools wait by polling: look at the world, decide, sleep, look again, until a deadline of
  the monotonic clock. A run of such a loop is a list of observations; \<open>poll\<close> returns the
  decision of the first observation that decides, and \<open>None\<close> while none has. The locale
  states what every such loop promises once its decision function cannot ignore the deadline.
\<close>

fun poll :: "('o \<Rightarrow> 'r option) \<Rightarrow> 'o list \<Rightarrow> 'r option" where
  "poll decide [] = None"
| "poll decide (ob # obs) = (case decide ob of Some r \<Rightarrow> Some r | None \<Rightarrow> poll decide obs)"

lemma poll_None: "poll decide obs = None \<longleftrightarrow> (\<forall>ob \<in> set obs. decide ob = None)"
  by (induction obs) (auto split: option.splits)

lemma poll_Some:
  "poll decide obs = Some r \<Longrightarrow>
     \<exists>as ob bs. obs = as @ ob # bs \<and> decide ob = Some r \<and> (\<forall>a \<in> set as. decide a = None)"
proof (induction obs)
  case (Cons ob obs)
  show ?case
  proof (cases "decide ob")
    case None
    with Cons obtain as b bs where "obs = as @ b # bs" "decide b = Some r"
      "\<forall>a \<in> set as. decide a = None" by auto
    with None have "ob # obs = (ob # as) @ b # bs \<and> decide b = Some r \<and>
        (\<forall>a \<in> set (ob # as). decide a = None)" by simp
    then show ?thesis by blast
  next
    case (Some x)
    with Cons.prems have "ob # obs = [] @ ob # obs \<and> decide ob = Some r \<and>
        (\<forall>a \<in> set []. decide a = None)" by simp
    then show ?thesis by blast
  qed
qed simp

lemma poll_mem: "poll decide obs = Some r \<Longrightarrow> \<exists>ob \<in> set obs. decide ob = Some r"
  by (drule poll_Some) auto

text \<open>Observations whose clock moves on by at least \<open>gap\<close> from one to the next.\<close>

fun spaced :: "('o \<Rightarrow> int) \<Rightarrow> int \<Rightarrow> 'o list \<Rightarrow> bool" where
  "spaced clock gap (a # b # obs) \<longleftrightarrow> clock a + gap \<le> clock b \<and> spaced clock gap (b # obs)"
| "spaced clock gap obs \<longleftrightarrow> True"

lemma spaced_last:
  "spaced clock gap obs \<Longrightarrow> obs \<noteq> [] \<Longrightarrow> clock (hd obs) + int (length obs - 1) * gap \<le> clock (last obs)"
proof (induction clock gap obs rule: spaced.induct)
  case (1 clock gap a b obs)
  then have "clock a + gap \<le> clock b" "clock b + int (length obs) * gap \<le> clock (last (b # obs))"
    by simp_all
  then show ?case by (simp add: algebra_simps)
qed simp_all

locale poll_loop =
  fixes decide :: "'o \<Rightarrow> 'r option" and clock :: "'o \<Rightarrow> int" and deadline :: int
  assumes expires: "deadline \<le> clock ob \<Longrightarrow> decide ob \<noteq> None"
begin

lemma undecided_before: "poll decide obs = None \<Longrightarrow> ob \<in> set obs \<Longrightarrow> clock ob < deadline"
  using expires [of ob] by (auto simp: poll_None not_le [symmetric])

lemma returns_at_deadline: "ob \<in> set obs \<Longrightarrow> deadline \<le> clock ob \<Longrightarrow> \<exists>r. poll decide obs = Some r"
  using undecided_before [of obs ob] by (cases "poll decide obs") auto

text \<open>With a positive gap, the number of polls is bounded by the time left.\<close>

lemma returns_within:
  assumes "spaced clock gap obs" "obs \<noteq> []" "deadline - clock (hd obs) \<le> int (length obs - 1) * gap"
  shows "\<exists>r. poll decide obs = Some r"
proof -
  have "deadline \<le> clock (last obs)" using spaced_last [OF assms(1,2)] assms(3) by simp
  then show ?thesis using returns_at_deadline assms(2) by (meson last_in_set)
qed

end

end
