(* ===== verification/Guest_Control.thy ===== *)
theory Guest_Control
  imports Guest_Reader Qemu_Host Polling
begin

text \<open>
  What the caller of a guest does with it (\<open>tools/lab_guest.py\<close>): wait for an
  observation, send input, run a shell command, start and close QEMU. The reader threads move
  the guest between two observations, so each look at the guest under its lock is given as an
  observation: the clock and the guest at that moment.
\<close>

section \<open>Waiting\<close>

fun status_str :: "status \<Rightarrow> pystr" where
  "status_str Starting = py ''starting''"
| "status_str Running = py ''running''"
| "status_str Faulted = py ''faulted''"
| "status_str Disconnected = py ''disconnected''"
| "status_str Stopped = py ''stopped''"

text \<open>One turn of the loop of \<open>wait_for\<close>: the predicate is asked before the status.\<close>

definition wait_decide :: "(guest \<Rightarrow> bool) \<Rightarrow> int \<Rightarrow> int \<times> guest \<Rightarrow> unit res option" where
  "wait_decide p deadline = (\<lambda>(now, g).
     if now < deadline then
       (if p g then Some (Inr ())
        else if status g = Faulted \<or> status g = Disconnected
        then Some (Inl (RuntimeError
               (py ''Guest '' @ status_str (status g) @ py '': '' @ last_n 2000 (console g))))
        else None)
     else Some (Inl (TimeoutError
            (py ''Guest observation timed out: '' @ last_n 2000 (console g)))))"

definition wait_for :: "(guest \<Rightarrow> bool) \<Rightarrow> int \<Rightarrow> (int \<times> guest) list \<Rightarrow> unit res option" where
  "wait_for p deadline obs = poll (wait_decide p deadline) obs"

interpretation waiting: poll_loop "wait_decide p deadline" fst deadline for p deadline
  by unfold_locales (auto simp: wait_decide_def split: prod.splits)

lemma wait_decide_ok:
  "wait_decide p deadline ob = Some (Inr ()) \<longleftrightarrow> fst ob < deadline \<and> p (snd ob)"
  by (auto simp: wait_decide_def split: prod.splits)

lemma wait_for_ok:
  "wait_for p deadline obs = Some (Inr ()) \<Longrightarrow> \<exists>ob \<in> set obs. fst ob < deadline \<and> p (snd ob)"
  unfolding wait_for_def by (drule poll_mem) (simp add: wait_decide_ok)

section \<open>Sending input\<close>

text \<open>
  \<open>sendall\<close> one byte at a time; \<open>sock i\<close> is the message of the \<open>OSError\<close> that the
  \<open>i\<close>-th call raises, or \<open>None\<close>. The bytes that left are the observable effect.
\<close>

fun send_bytes :: "(nat \<Rightarrow> pystr option) \<Rightarrow> nat \<Rightarrow> nat list \<Rightarrow> exn option \<times> nat list" where
  "send_bytes sock i [] = (None, [])"
| "send_bytes sock i (b # bs) =
     (case sock i of
        Some m \<Rightarrow> (Some (OSError m), [])
      | None \<Rightarrow> (case send_bytes sock (Suc i) bs of (e, sent) \<Rightarrow> (e, b # sent)))"

definition send :: "(nat \<Rightarrow> pystr option) \<Rightarrow> guest \<Rightarrow> pystr \<Rightarrow> exn option \<times> nat list" where
  "send sock g s =
     (if closed g \<or> status g \<noteq> Running
      then (Some (RuntimeError (py ''Guest is not running'')), [])
      else (case encode_ascii s of
              Inl e \<Rightarrow> (Some e, [])
            | Inr bs \<Rightarrow> send_bytes sock 0 bs))"

lemma send_bytes_prefix: "send_bytes sock i bs = (e, sent) \<Longrightarrow> prefix sent bs \<and> (e = None \<longrightarrow> sent = bs)"
  by (induction bs arbitrary: i e sent) (auto split: option.splits prod.splits)

lemma send_bytes_ok: "(\<And>i. sock i = None) \<Longrightarrow> send_bytes sock i bs = (None, bs)"
  by (induction bs arbitrary: i) auto

lemma send_bytes_error: "send_bytes sock i bs = (Some e, sent) \<Longrightarrow> is_os_error e"
  by (induction bs arbitrary: i e sent) (auto split: option.splits prod.splits)

section \<open>Commands\<close>

definition prompt :: pystr where
  "prompt = py ''mini$ ''"

text \<open>
  \<open>Guest.command\<close>: the length of the console before, the line sent, the wait for a prompt
  behind that position, and the text behind it. \<open>g0\<close>, \<open>gs\<close> and \<open>g1\<close> are the guest at
  the three moments the caller looks at it outside the wait.
\<close>

definition command ::
  "(nat \<Rightarrow> pystr option) \<Rightarrow> pystr \<Rightarrow> guest \<Rightarrow> guest \<Rightarrow> int \<Rightarrow> (int \<times> guest) list \<Rightarrow> guest \<Rightarrow>
     pystr res option" where
  "command sock line g0 gs deadline obs g1 =
     (let before = length (console g0)
      in case send sock gs (line @ [13]) of
           (Some e, _) \<Rightarrow> Some (Inl e)
         | (None, _) \<Rightarrow>
             (case wait_for (\<lambda>g. sublist prompt (drop before (console g))) deadline obs of
                None \<Rightarrow> None
              | Some (Inl e) \<Rightarrow> Some (Inl e)
              | Some (Inr _) \<Rightarrow> Some (Inr (drop before (console g1)))))"

text \<open>
  A full console: once the window holds 64000 characters nothing can lie behind that
  position, so no prompt is ever found and the command can only fail.
\<close>

lemma drop_full_console: "guest_wf g \<Longrightarrow> length (console g0) = 64000 \<Longrightarrow> drop (length (console g0)) (console g) = []"
  by (simp add: guest_wf_def)

lemma command_full:
  assumes "length (console g0) = 64000" "\<forall>ob \<in> set obs. guest_wf (snd ob)"
  shows "command sock line g0 gs deadline obs g1 \<noteq> Some (Inr out)"
proof
  assume "command sock line g0 gs deadline obs g1 = Some (Inr out)"
  then have "wait_for (\<lambda>g. sublist prompt (drop (length (console g0)) (console g))) deadline obs
      = Some (Inr ())"
    by (auto simp: command_def Let_def split: prod.splits option.splits sum.splits)
  from wait_for_ok [OF this] obtain ob where "ob \<in> set obs"
    "sublist prompt (drop (length (console g0)) (console (snd ob)))" by blast
  with assms drop_full_console [of "snd ob" g0] show False by (simp add: prompt_def)
qed

text \<open>While nothing is cut off, a command returns exactly the output behind its start.\<close>

lemma command_output:
  assumes "\<not> closed gs" "status gs = Running" "\<forall>c \<in> set line. c < 128" "\<And>i. sock i = None"
    "now < deadline" "console g = console g0 @ out" "sublist prompt out"
    "\<forall>ob \<in> set early. fst ob < deadline \<and> status (snd ob) = Running \<and>
       \<not> sublist prompt (drop (length (console g0)) (console (snd ob)))"
  shows "command sock line g0 gs deadline (early @ (now, g) # later) g = Some (Inr out)"
proof -
  let ?p = "\<lambda>g. sublist prompt (drop (length (console g0)) (console g))"
  have "\<forall>ob \<in> set early. wait_decide ?p deadline ob = None"
    using assms(8) by (auto simp: wait_decide_def split: prod.splits)
  then have "poll (wait_decide ?p deadline) (early @ obs) = poll (wait_decide ?p deadline) obs" for obs
    by (induction early) auto
  then have "wait_for ?p deadline (early @ (now, g) # later) = Some (Inr ())"
    using assms(5-7) by (simp add: wait_for_def wait_decide_def)
  moreover have "fst (send sock gs (line @ [13])) = None"
    using assms(1-4) send_bytes_ok [of sock 0 "line @ [13]"]
    by (simp add: send_def encode_ascii_def)
  moreover obtain sent where "send sock gs (line @ [13]) = (None, sent)"
    using calculation(2) by (cases "send sock gs (line @ [13])") simp
  ultimately show ?thesis
    using assms(6) by (simp add: command_def Let_def)
qed

section \<open>Closing\<close>

text \<open>The host side of a guest: the QEMU process and the open channels.\<close>

record host =
  alive :: bool            \<comment> \<open>\<open>process\<close> exists and \<open>poll()\<close> is \<open>None\<close>\<close>
  sockets :: nat           \<comment> \<open>channels not yet closed\<close>
  readers :: nat           \<comment> \<open>reader threads not yet joined\<close>
  log_open :: bool         \<comment> \<open>\<open>self.stderr\<close> exists and is open\<close>

definition new_host :: host where
  "new_host = \<lparr>alive = False, sockets = 0, readers = 0, log_open = False\<rparr>"

text \<open>
  How QEMU reacts: whether it ends within 3 seconds of \<open>terminate\<close>, and of \<open>kill\<close>. The
  second \<open>wait\<close> is not guarded: its \<open>TimeoutExpired\<close> leaves the guest closed but not
  stopped.
\<close>

definition stop_qemu :: "bool \<Rightarrow> bool \<Rightarrow> host \<Rightarrow> exn option \<times> host" where
  "stop_qemu term_ends kill_ends h =
     (if \<not> alive h then (None, h)
      else if term_ends then (None, h\<lparr>alive := False\<rparr>)
      else if kill_ends then (None, h\<lparr>alive := False\<rparr>)
      else (Some TimeoutExpired, h))"

definition close :: "bool \<Rightarrow> bool \<Rightarrow> guest \<times> host \<Rightarrow> exn option \<times> guest \<times> host" where
  "close term_ends kill_ends = (\<lambda>(g, h).
     let g1 = g\<lparr>closed := True\<rparr>;
         h1 = h\<lparr>sockets := 0\<rparr>
     in case stop_qemu term_ends kill_ends h1 of
          (Some e, h2) \<Rightarrow> (Some e, g1, h2)
        | (None, h2) \<Rightarrow>
            (None, g1\<lparr>status := Stopped\<rparr>, h2\<lparr>readers := 0, log_open := False\<rparr>))"

lemma close_ok:
  assumes "close te ke (g, h) = (None, g', h')"
  shows "closed g'" "status g' = Stopped" "h' = new_host"
  using assms
  by (cases h; auto simp: close_def stop_qemu_def new_host_def Let_def split: if_splits)+

lemma close_frame:
  assumes "close te ke (g, h) = (x, g', h')"
  shows "closed g'" "console g' = console g" "events g' = events g" "processes g' = processes g"
    "guest_wf g' \<longleftrightarrow> guest_wf g"
  using assms
  by (auto simp: close_def stop_qemu_def Let_def guest_wf_def log_ok_def tables_ok_def
      split: if_splits)

lemma close_when_kill_works: "te \<or> ke \<Longrightarrow> fst (close te ke (g, h)) = None"
  by (auto simp: close_def stop_qemu_def Let_def)

section \<open>Starting\<close>

text \<open>\<open>tty_port, trace_port = available_port(), available_port()\<close>, the second until it differs.\<close>

fun other_port :: "int \<Rightarrow> int list \<Rightarrow> int option" where
  "other_port tty [] = None"
| "other_port tty (p # ps) = (if p = tty then other_port tty ps else Some p)"

fun pick_ports :: "int list \<Rightarrow> (int \<times> int) option" where
  "pick_ports [] = None"
| "pick_ports (tty # ps) = map_option (Pair tty) (other_port tty ps)"

definition chardev :: "string \<Rightarrow> int \<Rightarrow> pystr" where
  "chardev name port =
     py (''socket,id='' @ name @ '',host=127.0.0.1,port='') @ str_of_int port @ py '',server=on,wait=on''"

definition guest_args :: "pystr list \<Rightarrow> int \<Rightarrow> int \<Rightarrow> int \<Rightarrow> pystr list" where
  "guest_args qemu memory tty_port trace_port =
     qemu @ [py ''-machine'', py ''pc'', py ''-m'', str_of_int memory, py ''-smp'', py ''1'',
       py ''-accel'', py ''tcg,tb-size=32'', py ''-display'', py ''none'',
       py ''-monitor'', py ''none'', py ''-no-reboot'',
       py ''-chardev'', chardev ''tty'' tty_port, py ''-serial'', py ''chardev:tty'',
       py ''-chardev'', chardev ''observe'' trace_port, py ''-serial'', py ''chardev:observe'',
       py ''-boot'', py ''d'', py ''-cdrom'', py ''images/minilinux-lab.iso'']"

text \<open>
  One turn of the connection loop: whether QEMU has exited, whether the connection was made,
  and the clock that is read only after a refusal.
\<close>

record attempt =
  exited :: bool
  connected :: bool
  at :: int

definition connect_decide :: "int \<Rightarrow> attempt \<Rightarrow> unit res option" where
  "connect_decide deadline a =
     (if exited a
      then Some (Inl (RuntimeError
             (py ''QEMU stopped before serial connection; see build/lab-qemu.log'')))
      else if connected a then Some (Inr ())
      else if deadline \<le> at a
      then Some (Inl (RuntimeError (py ''QEMU serial connection timed out'')))
      else None)"

interpretation connecting: poll_loop "connect_decide deadline" at deadline for deadline
  by unfold_locales (simp add: connect_decide_def)

text \<open>
  What the world answers to \<open>start\<close>: the ports, the outcome of \<open>Popen\<close>, the attempts on
  the two channels, the observations of the wait for the first prompt, and how QEMU reacts if
  it has to be stopped.
\<close>

record boot =
  b_ports :: "int list"
  b_qemu :: "pystr list res"
  b_popen :: "exn option"
  b_tty :: "attempt list"
  b_trace :: "attempt list"
  b_deadlines :: "int \<times> int \<times> int"
  b_obs :: "(int \<times> guest) list"
  b_term_ends :: bool
  b_kill_ends :: bool

text \<open>\<open>except Exception: self.close(); raise\<close>. An exception of \<open>close\<close> itself replaces it.\<close>

definition close_and_raise :: "boot \<Rightarrow> exn \<Rightarrow> guest \<times> host \<Rightarrow> exn option \<times> guest \<times> host" where
  "close_and_raise b e gh =
     (case close (b_term_ends b) (b_kill_ends b) gh of
        (Some e', gh') \<Rightarrow> (Some e', gh')
      | (None, gh') \<Rightarrow> (Some e, gh'))"

text \<open>
  The body of the \<open>try\<close>: Popen, the two connections (a socket is appended as it opens), the
  threads, the wait for the prompt. The result is the exception, if any, with the host as far
  as it got; \<open>None\<close> while an observation list has run out.
\<close>

definition boot_body :: "boot \<Rightarrow> guest \<Rightarrow> (exn option \<times> host) option" where
  "boot_body b g =
     (let h0 = new_host\<lparr>log_open := True\<rparr>;
          (d_tty, d_trace, d_prompt) = b_deadlines b
      in case b_popen b of
           Some e \<Rightarrow> Some (Some e, h0)
         | None \<Rightarrow>
             (let h1 = h0\<lparr>alive := True\<rparr>
              in case poll (connect_decide d_tty) (b_tty b) of
                   None \<Rightarrow> None
                 | Some (Inl e) \<Rightarrow> Some (Some e, h1)
                 | Some (Inr _) \<Rightarrow>
                     (case poll (connect_decide d_trace) (b_trace b) of
                        None \<Rightarrow> None
                      | Some (Inl e) \<Rightarrow> Some (Some e, h1\<lparr>sockets := 1\<rparr>)
                      | Some (Inr _) \<Rightarrow>
                          (let h2 = h1\<lparr>sockets := 2, readers := 2\<rparr>
                           in case wait_for (\<lambda>g. sublist prompt (console g)) d_prompt (b_obs b) of
                                None \<Rightarrow> None
                              | Some (Inl e) \<Rightarrow> Some (Some e, h2)
                              | Some (Inr _) \<Rightarrow> Some (None, h2)))))"

text \<open>
  \<open>Guest.start\<close>. The last argument is the guest when the body ends; on success its status
  is overwritten with running.
\<close>

definition start :: "boot \<Rightarrow> guest \<Rightarrow> guest \<Rightarrow> (exn option \<times> guest \<times> host) option" where
  "start b g g_end =
     (case pick_ports (b_ports b) of
        None \<Rightarrow> None
      | Some _ \<Rightarrow>
          (case b_qemu b of
             Inl e \<Rightarrow> Some (Some e, g, new_host)
           | Inr _ \<Rightarrow>
               (case boot_body b g of
                  None \<Rightarrow> None
                | Some (Some e, h) \<Rightarrow>
                    Some (if is_exception e then close_and_raise b e (g_end, h)
                          else (Some e, g_end, h))
                | Some (None, h) \<Rightarrow> Some (None, g_end\<lparr>status := Running\<rparr>, h))))"

lemma pick_ports_differ: "pick_ports ps = Some (a, b) \<Longrightarrow> a \<noteq> b"
proof -
  have "other_port t qs = Some p \<Longrightarrow> p \<noteq> t" for t p qs
    by (induction qs) (auto split: if_splits)
  then show "pick_ports ps = Some (a, b) \<Longrightarrow> a \<noteq> b" by (cases ps) auto
qed

lemma connect_error: "poll (connect_decide d) as = Some (Inl e) \<Longrightarrow> is_exception e"
  by (drule poll_mem) (auto simp: connect_decide_def split: if_splits)

lemma wait_error: "wait_for p d obs = Some (Inl e) \<Longrightarrow> is_exception e"
proof -
  have "wait_decide p d ob = Some (Inl e) \<Longrightarrow> is_exception e" for ob
    by (cases ob) (auto simp: wait_decide_def split: if_splits)
  then show "wait_for p d obs = Some (Inl e) \<Longrightarrow> is_exception e"
    unfolding wait_for_def by (auto dest: poll_mem)
qed

lemma boot_body_error:
  "boot_body b g = Some (Some e, h) \<Longrightarrow> is_exception e \<or> b_popen b = Some e"
  by (auto simp: boot_body_def Let_def dest: connect_error wait_error
      split: option.splits prod.splits sum.splits)

text \<open>A failed start leaves no QEMU, socket or log behind, if QEMU can be ended at all.\<close>

lemma start_fails_clean:
  assumes "start b g g_end = Some (Some e, g', h')"
    "b_term_ends b \<or> b_kill_ends b" "\<forall>e. b_popen b = Some e \<longrightarrow> is_exception e"
  shows "h' = new_host"
proof (cases "b_qemu b")
  case (Inl x)
  then show ?thesis using assms(1) by (auto simp: start_def split: option.splits)
next
  case (Inr x)
  then obtain e' h where body: "boot_body b g = Some (Some e', h)" and
    ends: "(Some e, g', h') = (if is_exception e' then close_and_raise b e' (g_end, h) else (Some e', g_end, h))"
    using assms(1) by (auto simp: start_def split: option.splits prod.splits)
  have "is_exception e'" using boot_body_error [OF body] assms(3) by blast
  moreover have "fst (close (b_term_ends b) (b_kill_ends b) (g_end, h)) = None"
    by (rule close_when_kill_works [OF assms(2)])
  ultimately show ?thesis
    using ends close_ok(3) [of "b_term_ends b" "b_kill_ends b" g_end h]
    by (auto simp: close_and_raise_def split: prod.splits option.splits)
qed

lemma start_succeeds:
  assumes "start b g g_end = Some (None, g', h')"
  shows "status g' = Running" "alive h'" "sockets h' = 2" "readers h' = 2"
    "\<exists>ob \<in> set (b_obs b). sublist prompt (console (snd ob))"
proof -
  have raise: "close_and_raise b e gh \<noteq> (None, x)" for e gh x
    by (auto simp: close_and_raise_def split: prod.splits option.splits)
  from assms obtain h where body: "boot_body b g = Some (None, h)" and
    ends: "g' = g_end\<lparr>status := Running\<rparr>" "h' = h"
    using raise by (auto simp: start_def split: option.splits sum.splits if_splits)
  then show "status g' = Running" by simp
  from body obtain d1 d2 d3 where
    "wait_for (\<lambda>g. sublist prompt (console g)) d3 (b_obs b) = Some (Inr ())"
    "alive h \<and> sockets h = 2 \<and> readers h = 2"
    by (auto simp: boot_body_def Let_def split: option.splits prod.splits sum.splits)
  with ends wait_for_ok show "alive h'" "sockets h' = 2" "readers h' = 2"
    "\<exists>ob \<in> set (b_obs b). sublist prompt (console (snd ob))" by blast+
qed

end
