(* ===== verification/Guest_Lifecycle.thy ===== *)
theory Guest_Lifecycle
  imports Guest_Control
begin

text \<open>
  The threads of one guest (\<open>tools/lab_guest.py\<close>): the two readers, QEMU, and the caller
  that starts, observes and closes it. Every access under the lock is one step; the checks of
  \<open>self.closed\<close> that the code makes outside the lock are steps of their own, so that the
  flag can change between a check and the write it guards. The caller's own operations are
  serialised (one thread, or the laboratory's lock).
\<close>

section \<open>States\<close>

text \<open>Where a reader thread is; \<open>In_Recv\<close> is after the check of \<open>closed\<close>, inside \<open>recv\<close>.\<close>

datatype phase =
    Unstarted | Loop_Head | In_Recv | Except exn | Set_Error exn | Finally | Set_Status | Ended

datatype caller = Booting | Saw_Prompt | Serving | Closing | Closed

record sys =
  gst :: guest
  phase :: "channel \<Rightarrow> phase"
  pending :: pystr
  caller :: caller
  qemu_alive :: bool
  join_expired :: bool

definition init_sys :: sys where
  "init_sys = \<lparr>gst = new_guest, phase = (\<lambda>_. Unstarted), pending = [], caller = Booting,
                qemu_alive = True, join_expired = False\<rparr>"

definition go :: "channel \<Rightarrow> phase \<Rightarrow> sys \<Rightarrow> sys" where
  "go ch ph s = s\<lparr>phase := (phase s)(ch := ph)\<rparr>"

text \<open>The buffer of unfinished text belongs to the trace reader.\<close>

definition after_body :: "outcome \<Rightarrow> phase" where
  "after_body out = (case out of Continue \<Rightarrow> Loop_Head | Break \<Rightarrow> Finally | Raise e \<Rightarrow> Except e)"

section \<open>Steps\<close>

inductive step :: "sys \<Rightarrow> sys \<Rightarrow> bool" where
  start_thread: "phase s ch = Unstarted \<Longrightarrow> caller s = Booting \<Longrightarrow> step s (go ch Loop_Head s)"
| log_not_opened: "phase s ch = Unstarted \<Longrightarrow> caller s = Booting \<Longrightarrow>
    step s (go ch (Except (OSError m)) s)"
| loop_open: "phase s ch = Loop_Head \<Longrightarrow> \<not> closed (gst s) \<Longrightarrow> step s (go ch In_Recv s)"
| loop_closed: "phase s ch = Loop_Head \<Longrightarrow> closed (gst s) \<Longrightarrow> step s (go ch Finally s)"
| recv: "phase s ch = In_Recv \<Longrightarrow> read_body ch r (gst s) (pending s) = (out, g', p') \<Longrightarrow>
    step s (go ch (after_body out) (s\<lparr>gst := g', pending := p'\<rparr>))"
| except_caught: "phase s ch = Except e \<Longrightarrow> is_os_error e \<or> is_runtime_error e \<Longrightarrow>
    \<not> closed (gst s) \<Longrightarrow> step s (go ch (Set_Error e) s)"
| except_skipped: "phase s ch = Except e \<Longrightarrow>
    \<not> (is_os_error e \<or> is_runtime_error e) \<or> closed (gst s) \<Longrightarrow> step s (go ch Finally s)"
| set_error: "phase s ch = Set_Error e \<Longrightarrow>
    step s (go ch Finally (s\<lparr>gst := (gst s)\<lparr>error := exn_message e\<rparr>\<rparr>))"
| finally_open: "phase s ch = Finally \<Longrightarrow> \<not> closed (gst s) \<Longrightarrow> step s (go ch Set_Status s)"
| finally_closed: "phase s ch = Finally \<Longrightarrow> closed (gst s) \<Longrightarrow> step s (go ch Ended s)"
| set_status: "phase s ch = Set_Status \<Longrightarrow>
    step s (go ch Ended (s\<lparr>gst := (gst s)\<lparr>status := Disconnected,
      error := (if error (gst s) = [] then py ''QEMU serial channel closed.'' else error (gst s))\<rparr>\<rparr>))"
| see_prompt: "caller s = Booting \<Longrightarrow> phase s Console_Channel \<noteq> Unstarted \<Longrightarrow>
    phase s Trace_Channel \<noteq> Unstarted \<Longrightarrow> sublist prompt (console (gst s)) \<Longrightarrow>
    step s (s\<lparr>caller := Saw_Prompt\<rparr>)"
| set_running: "caller s = Saw_Prompt \<Longrightarrow>
    step s (s\<lparr>caller := Serving, gst := (gst s)\<lparr>status := Running\<rparr>\<rparr>)"
| snapshot_exit: "caller s = Serving \<Longrightarrow> \<not> qemu_alive s \<Longrightarrow> \<not> closed (gst s) \<Longrightarrow>
    step s (s\<lparr>gst := (gst s)\<lparr>status := Disconnected\<rparr>\<rparr>)"
| qemu_exit: "step s (s\<lparr>qemu_alive := False\<rparr>)"
| close_flag: "caller s = Booting \<or> caller s = Serving \<Longrightarrow>
    step s (s\<lparr>caller := Closing, gst := (gst s)\<lparr>closed := True\<rparr>\<rparr>)"
| close_joined: "caller s = Closing \<Longrightarrow> \<not> qemu_alive s \<Longrightarrow>
    \<forall>ch \<in> {Console_Channel, Trace_Channel}. phase s ch \<in> {Unstarted, Ended} \<Longrightarrow>
    step s (s\<lparr>caller := Closed, gst := (gst s)\<lparr>status := Stopped\<rparr>\<rparr>)"
| close_expired: "caller s = Closing \<Longrightarrow> \<not> qemu_alive s \<Longrightarrow>
    step s (s\<lparr>caller := Closed, join_expired := True, gst := (gst s)\<lparr>status := Stopped\<rparr>\<rparr>)"

definition reachable :: "sys \<Rightarrow> bool" where
  "reachable s \<longleftrightarrow> step\<^sup>*\<^sup>* init_sys s"

section \<open>Invariants of a transition system\<close>

locale transition_system =
  fixes initial :: "'s"
    and next_state :: "'s \<Rightarrow> 's \<Rightarrow> bool"
    and inv :: "'s \<Rightarrow> bool"
  assumes inv_initial: "inv initial"
    and inv_next: "inv s \<Longrightarrow> next_state s t \<Longrightarrow> inv t"
begin

lemma inv_run: "next_state\<^sup>*\<^sup>* s t \<Longrightarrow> inv s \<Longrightarrow> inv t"
  by (induction rule: rtranclp_induct) (auto intro: inv_next)

lemma inv_reachable: "next_state\<^sup>*\<^sup>* initial s \<Longrightarrow> inv s"
  by (rule inv_run [OF _ inv_initial])

end

section \<open>The invariant of a guest's threads\<close>

text \<open>
  The picture is well formed; \<open>closed\<close> says exactly that the caller has begun to close; and
  once the caller has closed the guest with both threads joined, no thread is left to write
  and the status is stopped.
\<close>

definition sys_inv :: "sys \<Rightarrow> bool" where
  "sys_inv s \<longleftrightarrow> guest_wf (gst s) \<and>
     (closed (gst s) \<longleftrightarrow> caller s \<in> {Closing, Closed}) \<and>
     (caller s = Closed \<and> \<not> join_expired s \<longrightarrow>
        status (gst s) = Stopped \<and> (\<forall>ch. phase s ch \<in> {Unstarted, Ended}))"

lemma guest_wf_fields [wf_intros]:
  "guest_wf g \<Longrightarrow> guest_wf (g\<lparr>status := st\<rparr>)"
  "guest_wf g \<Longrightarrow> guest_wf (g\<lparr>error := e\<rparr>)"
  "guest_wf g \<Longrightarrow> guest_wf (g\<lparr>closed := c\<rparr>)"
  "guest_wf g \<Longrightarrow> guest_wf (g\<lparr>status := st, error := e\<rparr>)"
  by (simp_all add: guest_wf_def log_ok_def tables_ok_def)

lemma go_simps [simp]:
  "gst (go ch ph s) = gst s" "caller (go ch ph s) = caller s" "pending (go ch ph s) = pending s"
  "qemu_alive (go ch ph s) = qemu_alive s" "join_expired (go ch ph s) = join_expired s"
  "phase (go ch ph s) = (phase s)(ch := ph)"
  by (simp_all add: go_def)

lemma guest_events_closed: "closed (snd (guest_events g ls)) = closed g"
proof (induction ls arbitrary: g)
  case (Cons l ls)
  obtain x g' where ev: "guest_event g l = (x, g')" by fastforce
  with Cons guest_event_frame(5) [OF ev] show ?case by (cases x) auto
qed simp

lemma trace_chunk_closed: "closed (fst (snd (trace_chunk t g p))) = closed g"
proof -
  obtain e g' r where "drain g (p @ t) = (e, g', r)" by (cases "drain g (p @ t)") auto
  with drain_lines [OF this] guest_events_closed [of g "full_lines (p @ t)"] show ?thesis
    by (auto simp: trace_chunk_def split: option.splits)
qed

lemma read_body_closed: "read_body ch r g p = (out, g', p') \<Longrightarrow> closed g' = closed g"
proof -
  assume body: "read_body ch r g p = (out, g', p')"
  show ?thesis
  proof (cases "\<exists>bs. r = Chunk bs \<and> bs \<noteq> [] \<and> ch = Trace_Channel")
    case True
    then obtain bs where "r = Chunk bs" "bs \<noteq> []" "ch = Trace_Channel" by blast
    with body trace_chunk_closed [of "decode_ascii bs" g p] show ?thesis
      by (auto simp: read_body_def split: prod.splits option.splits)
  next
    case False
    with body show ?thesis
      by (auto simp: read_body_def split: recv.splits channel.splits if_splits)
  qed
qed

lemma sys_inv_init: "sys_inv init_sys"
  by (simp add: sys_inv_def init_sys_def guest_wf_new) (simp add: new_guest_def)

lemma busy_reader:
  "sys_inv s \<Longrightarrow> phase s ch \<notin> {Unstarted, Ended} \<Longrightarrow> caller s = Closed \<Longrightarrow> join_expired s"
  unfolding sys_inv_def by blast

lemma sys_inv_step: "step s t \<Longrightarrow> sys_inv s \<Longrightarrow> sys_inv t"
proof (induction rule: step.induct)
  case (recv s ch r out g' p')
  then show ?case
    using busy_reader [of s ch] read_body_closed [OF recv.hyps(2)] read_body_wf [OF _ recv.hyps(2)]
    by (auto simp: sys_inv_def)
next
  case (set_status s ch)
  then show ?case using busy_reader [of s ch] by (auto simp: sys_inv_def intro!: wf_intros)
next
  case (loop_closed s ch)
  then show ?case using busy_reader [of s ch] by (auto simp: sys_inv_def)
next
  case (except_skipped s ch e)
  then show ?case using busy_reader [of s ch] by (auto simp: sys_inv_def)
next
  case (set_error s ch e)
  then show ?case using busy_reader [of s ch] by (auto simp: sys_inv_def intro!: wf_intros)
next
  case (close_joined s)
  then have "phase s ch \<in> {Unstarted, Ended}" for ch
    by (cases ch) auto
  with close_joined show ?case by (auto simp: sys_inv_def intro!: wf_intros)
qed (auto simp: sys_inv_def intro!: wf_intros)

interpretation threads: transition_system init_sys step sys_inv
  by unfold_locales (auto intro: sys_inv_init sys_inv_step)

lemma reachable_inv: "reachable s \<Longrightarrow> sys_inv s"
  unfolding reachable_def by (rule threads.inv_reachable)

lemma reachable_step: "reachable s \<Longrightarrow> step s t \<Longrightarrow> reachable t"
  unfolding reachable_def by (rule rtranclp.rtrancl_into_rtrancl)

text \<open>Once closed with the threads joined, no further step changes the guest.\<close>

lemma closed_guest_frozen:
  assumes "reachable s" "caller s = Closed" "\<not> join_expired s" "step s t"
  shows "gst t = gst s \<and> caller t = Closed \<and> \<not> join_expired t"
proof -
  have inv: "\<forall>ch. phase s ch \<in> {Unstarted, Ended}" "closed (gst s)"
    using reachable_inv [OF assms(1)] assms(2,3) by (auto simp: sys_inv_def)
  then have "phase s ch = Unstarted \<or> phase s ch = Ended" for ch by blast
  then have ph: "phase s ch \<noteq> Loop_Head" "phase s ch \<noteq> In_Recv" "phase s ch \<noteq> Except e"
    "phase s ch \<noteq> Set_Error e" "phase s ch \<noteq> Finally" "phase s ch \<noteq> Set_Status" for ch e
    by (metis phase.distinct)+
  from assms(4) show ?thesis
    using assms(2,3) inv(2) ph by (cases rule: step.cases) auto
qed

end
