(* ===== verification/Trace_Protocol.thy ===== *)
theory Trace_Protocol
  imports Guest_Tables "HOL-Library.Word"
begin

text \<open>
  The other end of the trace channel: the records that the LAB kernel writes to COM2
  (\<open>kernel/laboratory.c\<close>, with the printing routines of \<open>kernel/main.c\<close>), and what the
  observer makes of them. The page tables and the contents of physical memory are fields of
  the kernel's state here: the records only read them.
\<close>

unbundle bit_operations_syntax

section \<open>Printing\<close>

text \<open>
  \<open>trace_number\<close>: the digits go into a buffer of 20 characters from its end; the
  accumulator is the part of the buffer written so far.
\<close>

function number_digits :: "64 word \<Rightarrow> pystr \<Rightarrow> pystr" where
  "number_digits v acc =
     (let acc' = (48 + unat (v mod 10)) # acc; v' = v div 10
      in if v' \<noteq> 0 then number_digits v' acc' else acc')"
  by pat_completeness auto
termination
proof (relation "measure (\<lambda>(v, acc). unat v)")
  fix v x :: "64 word" and acc xa
  assume "x = v div 10" "x \<noteq> 0"
  then show "((x, xa), v, acc) \<in> measure (\<lambda>(v, acc). unat v)"
    by (cases "v = 0") (auto simp: unat_div unat_gt_0 intro!: div_less_dividend)
qed auto

declare number_digits.simps [simp del]

definition trace_number :: "64 word \<Rightarrow> pystr" where
  "trace_number v = number_digits v []"

definition hex_digit :: "nat \<Rightarrow> nat" where
  "hex_digit n = (if n < 10 then 48 + n else 87 + n)"

definition hex_shifts :: "nat list" where
  "hex_shifts = [60, 56, 52, 48, 44, 40, 36, 32, 28, 24, 20, 16, 12, 8, 4, 0]"

definition trace_hex :: "64 word \<Rightarrow> pystr" where
  "trace_hex v = py ''0x'' @ map (\<lambda>i. hex_digit (unat (drop_bit i v AND 15))) hex_shifts"

section \<open>Records\<close>

text \<open>\<open>event\<close>, \<open>field\<close>, \<open>hex_field\<close>, \<open>end_event\<close>.\<close>

definition event_text :: "64 word \<Rightarrow> string \<Rightarrow> pystr" where
  "event_text now kind = py ''ML'' @ [9] @ py kind @ [9] @ trace_number now"

definition number_field :: "64 word \<Rightarrow> pystr" where
  "number_field v = [9] @ trace_number v"

definition hex_field :: "64 word \<Rightarrow> pystr" where
  "hex_field v = [9] @ trace_hex v"

definition end_event :: pystr where
  "end_event = [10]"

record task =
  t_id :: "32 word"
  t_parent :: "32 word"
  t_program :: "32 word"
  t_state :: "32 word"
  t_root :: "64 word"      \<comment> \<open>\<open>space ? space->root : 0\<close>\<close>
  t_slices :: "32 word"
  t_data_page :: "64 word"

record kernel =
  tasks :: "task list"
  current_task :: nat
  now :: "64 word"
  frame_count :: "64 word"
  free_count :: "64 word"
  code_pages :: nat
  vm_lookup :: "64 word \<Rightarrow> 64 word \<Rightarrow> (64 word \<times> 32 word) option"
  first_word :: "64 word \<Rightarrow> 64 word"

definition USER_CODE :: "64 word" where "USER_CODE = 0x400000"
definition USER_DATA :: "64 word" where "USER_DATA = 0x600000"
definition USER_STACK :: "64 word" where "USER_STACK = 0x800000"

definition process_event :: "kernel \<Rightarrow> nat \<Rightarrow> task \<Rightarrow> pystr" where
  "process_event k i t =
     event_text (now k) ''process'' @ number_field (ucast (t_id t)) @
     number_field (ucast (t_parent t)) @ number_field (ucast (t_program t)) @
     number_field (ucast (t_state t)) @ hex_field (t_root t) @
     number_field (ucast (t_slices t)) @
     number_field (if i = current_task k \<and> t_state t = 1 then 1 else 0) @ end_event"

definition memory_event :: "kernel \<Rightarrow> pystr" where
  "memory_event k =
     event_text (now k) ''memory'' @ number_field (frame_count k) @ number_field (free_count k) @
     end_event"

text \<open>The virtual page of each mapping record, and its name.\<close>

definition page_va :: "kernel \<Rightarrow> nat \<Rightarrow> 64 word" where
  "page_va k i =
     (if i < code_pages k then USER_CODE + of_nat i * 4096
      else if i = code_pages k then USER_DATA
      else USER_STACK + of_nat (i - code_pages k - 1) * 4096)"

definition page_name :: "kernel \<Rightarrow> nat \<Rightarrow> string" where
  "page_name k i = (if i < code_pages k then ''code'' else if i = code_pages k then ''data'' else ''stack'')"

definition map_event :: "kernel \<Rightarrow> task \<Rightarrow> nat \<Rightarrow> 64 word \<times> 32 word \<Rightarrow> pystr" where
  "map_event k t i = (\<lambda>(pa, flags).
     event_text (now k) ''map'' @ number_field (ucast (t_id t)) @ hex_field (page_va k i) @
     hex_field pa @ number_field (ucast flags) @ [9] @ py (page_name k i) @ end_event)"

definition data_event :: "kernel \<Rightarrow> task \<Rightarrow> pystr" where
  "data_event k t =
     event_text (now k) ''data'' @ number_field (ucast (t_id t)) @ hex_field USER_DATA @
     hex_field (t_data_page t) @ hex_field (first_word k (t_data_page t)) @ end_event"

text \<open>\<open>mappings_event\<close>; \<open>None\<close> is the panic \<open>LAB mapping disappeared\<close>.\<close>

fun map_events :: "kernel \<Rightarrow> task \<Rightarrow> nat list \<Rightarrow> pystr option" where
  "map_events k t [] = Some []"
| "map_events k t (i # is) =
     (case vm_lookup k (t_root t) (page_va k i) of
        None \<Rightarrow> None
      | Some e \<Rightarrow> map_option (\<lambda>rest. map_event k t i e @ rest) (map_events k t is))"

definition mappings_event :: "kernel \<Rightarrow> task \<Rightarrow> pystr option" where
  "mappings_event k t =
     (if t_root t = 0 then Some []
      else map_option (\<lambda>ms. ms @ data_event k t) (map_events k t [0..<code_pages k + 3]))"

text \<open>\<open>inspect\<close>: the slots in order, then the memory record.\<close>

fun slots_text :: "kernel \<Rightarrow> nat \<Rightarrow> task list \<Rightarrow> pystr option" where
  "slots_text k i [] = Some []"
| "slots_text k i (t # ts) =
     (if t_state t = 0 then slots_text k (Suc i) ts
      else (case mappings_event k t of
              None \<Rightarrow> None
            | Some ms \<Rightarrow>
                map_option (\<lambda>rest. process_event k i t @ ms @ rest) (slots_text k (Suc i) ts)))"

definition inspect :: "kernel \<Rightarrow> pystr option" where
  "inspect k =
     map_option (\<lambda>body. event_text (now k) ''snapshot'' @ end_event @ body @ memory_event k @
         event_text (now k) ''snapshot-end'' @ end_event)
       (slots_text k 0 (tasks k))"

section \<open>Printed numbers\<close>

lemma number_digits_eq: "number_digits v acc = str_of_nat (unat v) @ acc"
proof (induction v acc rule: number_digits.induct)
  case (1 v acc)
  have nat_div: "unat (v div 10) = unat v div 10" and nat_mod: "unat (v mod 10) = unat v mod 10"
    by (simp_all add: unat_div unat_mod)
  show ?case
  proof (cases "v div 10 = 0")
    case True
    then have "unat v div 10 = 0" using nat_div by simp
    then show ?thesis using True nat_mod
      by (simp add: number_digits.simps [of v] str_of_nat.simps [of "unat v"])
  next
    case False
    then have "unat v div 10 \<noteq> 0" using nat_div unat_eq_zero by metis
    then have "\<not> unat v < 10" by simp
    then show ?thesis using "1" [OF refl refl False] False nat_div nat_mod
      by (simp add: number_digits.simps [of v] str_of_nat.simps [of "unat v"] Let_def)
  qed
qed

lemma trace_number_eq: "trace_number v = str_of_nat (unat v)"
  by (simp add: trace_number_def number_digits_eq)

lemma length_str_of_nat: "n < 10 ^ Suc k \<Longrightarrow> length (str_of_nat n) \<le> Suc k"
proof (induction k arbitrary: n)
  case 0
  then show ?case by (simp add: str_of_nat.simps)
next
  case (Suc k)
  show ?case
  proof (cases "n < 10")
    case True
    then show ?thesis by (simp add: str_of_nat.simps)
  next
    case False
    have "n div 10 < 10 ^ Suc k" using Suc.prems by simp
    from Suc.IH [OF this] False show ?thesis by (simp add: str_of_nat.simps [of n])
  qed
qed

text \<open>The digits fit the buffer of \<open>trace_number\<close>, for every 64-bit value.\<close>

lemma trace_number_fits: "length (trace_number v) \<le> 20"
proof -
  have "unat v < 2 ^ 64" using unsigned_less [of v] by simp
  also have "(2::nat) ^ 64 < 10 ^ Suc 19" by simp
  finally show ?thesis unfolding trace_number_eq using length_str_of_nat [of "unat v" 19] by simp
qed

lemma trace_number_inj: "trace_number a = trace_number b \<longleftrightarrow> a = b"
proof
  assume "trace_number a = trace_number b"
  then have "int_of_str (str_of_nat (unat a)) = int_of_str (str_of_nat (unat b))"
    by (simp add: trace_number_eq)
  then show "a = b" by (simp add: int_of_str_str_of_nat word_uint_eq_iff)
qed simp

lemma hex_digit_inj: "m < 16 \<Longrightarrow> n < 16 \<Longrightarrow> hex_digit m = hex_digit n \<longleftrightarrow> m = n"
  by (auto simp: hex_digit_def split: if_splits)

lemma nibble_less: "unat (v AND 15 :: 64 word) < 16"
proof -
  have "v AND 15 = take_bit 4 v" by (simp add: take_bit_eq_mask mask_eq_exp_minus_1)
  then have "unat (v AND 15) = take_bit 4 (unat v)" by (simp add: unsigned_take_bit_eq)
  then show ?thesis using take_bit_nat_less_exp [of 4 "unat v"] by simp
qed

lemma hex_shifts_mem: "\<forall>m<16. 4 * m \<in> set hex_shifts"
  by (simp add: hex_shifts_def All_less_Suc numeral_eq_Suc)

lemma trace_hex_inj: "trace_hex a = trace_hex b \<longleftrightarrow> a = b"
proof
  assume eq: "trace_hex a = trace_hex b"
  have nib: "drop_bit i a AND 15 = drop_bit i b AND 15" if "i \<in> set hex_shifts" for i
  proof -
    have "hex_digit (unat (drop_bit i a AND 15)) = hex_digit (unat (drop_bit i b AND 15))"
      using eq that by (simp add: trace_hex_def)
    then show ?thesis using hex_digit_inj [OF nibble_less nibble_less] by (metis word_unat_eq_iff)
  qed
  have bits: "bit a (i + j) = bit b (i + j)" if "i \<in> set hex_shifts" "j < 4" for i j
  proof -
    have "bit (15 :: 64 word) j" using that(2) by (auto simp: bit_numeral_rec less_Suc_eq numeral_eq_Suc)
    then show ?thesis using arg_cong [OF nib [OF that(1)], of "\<lambda>w. bit w j"]
      by (simp add: bit_and_iff bit_drop_bit_eq add.commute)
  qed
  show "a = b"
  proof (rule bit_word_eqI)
    fix n assume "n < LENGTH(64)"
    then have "n div 4 < 16" by simp
    then have "4 * (n div 4) \<in> set hex_shifts" using hex_shifts_mem by blast
    from bits [OF this, of "n mod 4"] show "bit a n = bit b n" by simp
  qed
qed simp

end
