(* ===== verification/Trace_Mirror.thy ===== *)
theory Trace_Mirror
  imports Trace_Protocol Guest_Reader
begin

text \<open>
  Both ends of the trace together: what \<open>inspect\<close> of the LAB kernel writes is parsed
  without an exception by the observer, whose tables then hold, for every used slot, exactly
  the kernel's values; and a second report of an unchanged kernel leaves the event log alone.
\<close>

section \<open>Emitted lines parse back\<close>

definition token :: "pystr \<Rightarrow> bool" where
  "token s \<longleftrightarrow> 9 \<notin> set s \<and> 10 \<notin> set s \<and> 13 \<notin> set s"

lemma token_py [simp]:
  "token (py s) \<longleftrightarrow> (\<forall>c \<in> set s. (of_char c :: nat) \<notin> {9, 10, 13})"
  by (force simp: token_def py_def)

lemma token_number [simp]: "token (trace_number v)"
  using str_of_nat_digits [of _ "unat v"] by (fastforce simp: token_def trace_number_eq)

lemma hex_digit_range: "n < 16 \<Longrightarrow> 48 \<le> hex_digit n"
  by (auto simp: hex_digit_def)

lemma token_hex [simp]: "token (trace_hex v)"
proof -
  have "hex_digit (unat (drop_bit i v AND 15)) \<notin> {9, 10, 13}" for i
    using hex_digit_range [OF nibble_less [of "drop_bit i v"]] by auto
  moreover have "token (py ''0x'')" by simp
  ultimately show ?thesis by (auto simp: token_def trace_hex_def)
qed

lemma join_with_token: "\<forall>w \<in> set ws. 13 \<notin> set w \<Longrightarrow> 13 \<notin> set (join_with (9::nat) ws)"
  by (induction "9::nat" ws rule: join_with.induct) auto

lemma join_with_line: "\<forall>w \<in> set ws. 10 \<notin> set w \<Longrightarrow> 10 \<notin> set (join_with (9::nat) ws)"
  by (induction "9::nat" ws rule: join_with.induct) auto

definition record_text :: "64 word \<Rightarrow> string \<Rightarrow> pystr list \<Rightarrow> pystr" where
  "record_text t kind fs = join_with 9 (py ''ML'' # py kind # trace_number t # fs)"

lemma record_of_text:
  assumes "token (py kind)" "\<forall>f \<in> set fs. token f"
  shows "record_of_line (record_text t kind fs) = Inr (Some (py kind, int (unat t), fs))"
proof -
  let ?ws = "py ''ML'' # py kind # trace_number t # fs"
  have tok: "\<forall>w \<in> set ?ws. token w" using assms by simp
  then have "13 \<notin> set (join_with 9 ?ws)" by (intro join_with_token) (auto simp: token_def)
  then have "rstrip_if (\<lambda>c. c = 13) (join_with 9 ?ws) = join_with 9 ?ws"
    by (intro rstrip_if_none) blast
  moreover have "split_on 9 (join_with 9 ?ws) = ?ws"
    using tok by (intro split_on_join) (auto simp: token_def)
  ultimately show ?thesis
    by (simp add: record_of_line_def record_text_def Let_def trace_number_eq int_of_str_str_of_nat)
qed

lemma record_text_line:
  assumes "token (py kind)" "\<forall>f \<in> set fs. token f"
  shows "10 \<notin> set (record_text t kind fs)"
proof -
  have "\<forall>w \<in> set (py ''ML'' # py kind # trace_number t # fs). token w" using assms by simp
  then show ?thesis unfolding record_text_def by (intro join_with_line) (auto simp: token_def)
qed

text \<open>The kernel's records are such texts.\<close>

lemmas field_defs = event_text_def number_field_def hex_field_def end_event_def

lemma process_event_text:
  "process_event k i t = record_text (now k) ''process''
     [trace_number (ucast (t_id t)), trace_number (ucast (t_parent t)),
      trace_number (ucast (t_program t)), trace_number (ucast (t_state t)), trace_hex (t_root t),
      trace_number (ucast (t_slices t)),
      trace_number (if i = current_task k \<and> t_state t = 1 then 1 else 0)] @ [10]"
  by (simp add: process_event_def record_text_def field_defs)

lemma memory_event_text:
  "memory_event k = record_text (now k) ''memory''
     [trace_number (frame_count k), trace_number (free_count k)] @ [10]"
  by (simp add: memory_event_def record_text_def field_defs)

lemma map_event_text:
  "map_event k t i (pa, flags) = record_text (now k) ''map''
     [trace_number (ucast (t_id t)), trace_hex (page_va k i), trace_hex pa,
      trace_number (ucast flags), py (page_name k i)] @ [10]"
  by (simp add: map_event_def record_text_def field_defs)

lemma data_event_text:
  "data_event k t = record_text (now k) ''data''
     [trace_number (ucast (t_id t)), trace_hex USER_DATA, trace_hex (t_data_page t),
      trace_hex (first_word k (t_data_page t))] @ [10]"
  by (simp add: data_event_def record_text_def field_defs)

lemma snapshot_text: "event_text t kind @ end_event = record_text t kind [] @ [10]"
  by (simp add: record_text_def field_defs)

lemma page_name_token [simp]: "token (py (page_name k i))"
  by (auto simp: page_name_def)

section \<open>Feeding a text\<close>

definition feed :: "guest \<Rightarrow> pystr \<Rightarrow> exn option \<times> guest" where
  "feed g p = guest_events g (full_lines p)"

lemma feed_Nil [simp]: "feed g [] = (None, g)"
  by (simp add: feed_def full_lines_def)

lemma feed_record:
  assumes "token (py kind)" "\<forall>f \<in> set fs. token f"
    "guest_event g (record_text t kind fs) = (None, g')"
  shows "feed g (record_text t kind fs @ 10 # p) = feed g' p"
  using record_text_line [OF assms(1,2)] assms(3) lines_newline
  by (simp add: feed_def)

lemma int_of_trace_number [simp]: "int_of_str (trace_number v) = Inr (uint v)"
  by (simp add: trace_number_eq int_of_str_str_of_nat)

section \<open>The kernel's values as the observer files them\<close>

definition pid_of :: "task \<Rightarrow> int" where
  "pid_of t = uint (t_id t)"

definition process_view :: "kernel \<Rightarrow> nat \<Rightarrow> task \<Rightarrow> process" where
  "process_view k i t =
     \<lparr>p_pid = pid_of t, p_parent = uint (t_parent t), p_program = PROGRAMS ! unat (t_program t),
      p_state = STATES ! unat (t_state t), p_root = trace_hex (t_root t),
      p_slices = uint (t_slices t), p_current = (i = current_task k \<and> t_state t = 1)\<rparr>"

definition map_view :: "kernel \<Rightarrow> nat \<Rightarrow> 64 word \<times> 32 word \<Rightarrow> mapping" where
  "map_view k i e =
     \<lparr>m_va = trace_hex (page_va k i), m_pa = trace_hex (fst e), m_flags = uint (snd e),
      m_name = py (page_name k i)\<rparr>"

definition data_view :: "kernel \<Rightarrow> task \<Rightarrow> datum" where
  "data_view k t =
     \<lparr>d_va = trace_hex USER_DATA, d_pa = trace_hex (t_data_page t),
      d_marker = trace_hex (first_word k (t_data_page t))\<rparr>"

text \<open>What the kernel guarantees of a used slot: known program and state, a small image.\<close>

definition task_ok :: "task \<Rightarrow> bool" where
  "task_ok t \<longleftrightarrow> t_program t < 7 \<and> t_state t < 4"

lemma uint_ucast_32 [simp]: "uint (ucast (w :: 32 word) :: 64 word) = uint w"
  using uint_lt2p [of w] by (simp add: unsigned_ucast_eq take_bit_int_eq_self)

section \<open>The effect of each record\<close>

definition kernel_tick :: "kernel \<Rightarrow> int" where
  "kernel_tick k = int (unat (now k))"

lemma trace_number_flag [simp]: "trace_number (if b then 1 else 0) = py ''1'' \<longleftrightarrow> b"
proof -
  have "trace_number 1 = py ''1''" "trace_number 0 \<noteq> py ''1''"
    by (simp_all add: trace_number_eq str_of_nat.simps py_def)
  then show ?thesis by simp
qed

lemma py_index_word:
  assumes "unat w < length xs"
  shows "py_index xs (uint (w :: 32 word)) = Inr (xs ! unat w)"
  using py_index_nat [OF assms] by simp

lemma fld_eq: "i < length fs \<Longrightarrow> fld fs i = Inr (fs ! i)"
  unfolding fld_def by (rule py_index_nat)

text \<open>A record whose kind carries no log entry of its own.\<close>

lemma plain_event:
  assumes "record_of_line l = Inr (Some (kind, t, fs))"
    "interesting (stamp t g) kind fs = Inr False" "apply_record (stamp t g) kind fs = Inr g'"
  shows "guest_event g l = (None, g')"
  using assms by (simp add: guest_event_def note_event_def)

lemma feed_process:
  assumes "task_ok t" "t_state t \<noteq> 0"
  shows "feed g (process_event k i t @ p) =
    feed ((stamp (kernel_tick k) g)\<lparr>processes :=
            dict_set (pid_of t) (process_view k i t) (processes g)\<rparr>) p"
proof -
  let ?fs = "[trace_number (ucast (t_id t)), trace_number (ucast (t_parent t)),
      trace_number (ucast (t_program t)), trace_number (ucast (t_state t)), trace_hex (t_root t),
      trace_number (ucast (t_slices t)),
      trace_number (if i = current_task k \<and> t_state t = 1 then 1 else 0)]"
  let ?g = "stamp (kernel_tick k) g"
  have "unat (t_program t) < 7" "unat (t_state t) < 4"
    using assms(1) by (simp_all add: task_ok_def word_less_nat_alt)
  then have index: "py_index PROGRAMS (uint (t_program t)) = Inr (PROGRAMS ! unat (t_program t))"
    "py_index STATES (uint (t_state t)) = Inr (STATES ! unat (t_state t))"
    by (auto intro!: py_index_word simp: PROGRAMS_def STATES_def)
  have four: "four_ints ?fs = Inr (uint (t_id t), uint (t_parent t), uint (t_program t), uint (t_state t))"
    by (simp add: four_ints_def)
  have "uint (t_state t) \<noteq> 0" using assms(2) by (simp add: uint_0_iff)
  then have "apply_process ?g ?fs =
      Inr (?g\<lparr>processes := dict_set (pid_of t) (process_view k i t) (processes g)\<rparr>)"
    by (simp add: apply_process_def four index fld_eq int_fld_def process_view_def pid_of_def)
  moreover have "interesting ?g (py ''process'') ?fs = Inr False"
    by (simp add: interesting_def interesting_kinds_mem)
  moreover have "record_of_line (record_text (now k) ''process'' ?fs) =
      Inr (Some (py ''process'', kernel_tick k, ?fs))"
    unfolding kernel_tick_def by (rule record_of_text) simp_all
  ultimately have "guest_event g (record_text (now k) ''process'' ?fs) =
      (None, ?g\<lparr>processes := dict_set (pid_of t) (process_view k i t) (processes g)\<rparr>)"
    by (intro plain_event) (auto simp: apply_record_kinds)
  then show ?thesis unfolding process_event_text by (simp add: feed_record)
qed

definition maps_of :: "guest \<Rightarrow> int \<Rightarrow> (pystr, mapping) dict" where
  "maps_of g pid = (case dict_get (maps g) pid of None \<Rightarrow> [] | Some d \<Rightarrow> d)"

lemma feed_map:
  "feed g (map_event k t i e @ p) =
    feed ((stamp (kernel_tick k) g)\<lparr>maps := dict_set (pid_of t)
            (dict_set (trace_hex (page_va k i)) (map_view k i e) (maps_of g (pid_of t)))
            (maps g)\<rparr>) p"
proof -
  let ?fs = "[trace_number (ucast (t_id t)), trace_hex (page_va k i), trace_hex (fst e),
      trace_number (ucast (snd e)), py (page_name k i)]"
  let ?g = "stamp (kernel_tick k) g"
  let ?h = "?g\<lparr>maps := dict_set (pid_of t)
            (dict_set (trace_hex (page_va k i)) (map_view k i e) (maps_of g (pid_of t)))
            (maps g)\<rparr>"
  have "apply_map ?g ?fs = Inr ?h"
    by (simp add: apply_map_def fld_eq int_fld_def map_view_def pid_of_def maps_of_def Let_def
        split: option.splits)
  moreover have "interesting ?g (py ''map'') ?fs = Inr False"
    by (simp add: interesting_def interesting_kinds_mem)
  moreover have "record_of_line (record_text (now k) ''map'' ?fs) =
      Inr (Some (py ''map'', kernel_tick k, ?fs))"
    unfolding kernel_tick_def
    by (rule record_of_text) (simp, simp del: token_py add: page_name_token)
  ultimately have "guest_event g (record_text (now k) ''map'' ?fs) = (None, ?h)"
    by (intro plain_event) (auto simp: apply_record_kinds)
  moreover have "map_event k t i e = record_text (now k) ''map'' ?fs @ [10]"
    using map_event_text [of k t i "fst e" "snd e"] by simp
  moreover have "\<forall>f \<in> set ?fs. token f" by (simp del: token_py add: page_name_token)
  ultimately show ?thesis using feed_record [of "''map''" ?fs] by simp
qed

text \<open>The data record is logged only if the page or its marker is new.\<close>

definition data_news :: "kernel \<Rightarrow> task \<Rightarrow> guest \<Rightarrow> bool" where
  "data_news k t g =
     (case dict_get (data g) (pid_of t) of
        None \<Rightarrow> True
      | Some old \<Rightarrow> d_pa old \<noteq> d_pa (data_view k t) \<or> d_marker old \<noteq> d_marker (data_view k t))"

definition data_fields :: "kernel \<Rightarrow> task \<Rightarrow> pystr list" where
  "data_fields k t = [trace_number (ucast (t_id t)), trace_hex USER_DATA, trace_hex (t_data_page t),
      trace_hex (first_word k (t_data_page t))]"

lemma feed_data:
  "feed g (data_event k t @ p) =
    feed ((note_event (data_news k t g) (py ''data'') (kernel_tick k) (data_fields k t)
            (stamp (kernel_tick k) g))
          \<lparr>data := dict_set (pid_of t) (data_view k t) (data g)\<rparr>) p"
proof -
  let ?fs = "data_fields k t" and ?g = "stamp (kernel_tick k) g"
  let ?h = "note_event (data_news k t g) (py ''data'') (kernel_tick k) ?fs ?g"
  have "apply_data ?h ?fs = Inr (?h\<lparr>data := dict_set (pid_of t) (data_view k t) (data g)\<rparr>)"
    by (simp add: apply_data_def data_fields_def fld_eq int_fld_def data_view_def pid_of_def)
  moreover have "interesting ?g (py ''data'') ?fs = Inr (data_news k t g)"
    by (auto simp: interesting_def data_fields_def fld_eq int_fld_def data_view_def pid_of_def
        data_news_def split: option.splits)
  moreover have "record_of_line (record_text (now k) ''data'' ?fs) =
      Inr (Some (py ''data'', kernel_tick k, ?fs))"
    unfolding kernel_tick_def by (rule record_of_text) (simp_all add: data_fields_def)
  ultimately have "guest_event g (record_text (now k) ''data'' ?fs) =
      (None, ?h\<lparr>data := dict_set (pid_of t) (data_view k t) (data g)\<rparr>)"
    by (intro guest_event_applied) (auto simp: apply_record_kinds)
  then show ?thesis
    by (simp add: data_event_text feed_record data_fields_def)
qed

lemma feed_memory:
  "feed g (memory_event k @ p) =
    feed ((note_event (uint (free_count k) \<noteq> free g) (py ''memory'') (kernel_tick k)
            [trace_number (frame_count k), trace_number (free_count k)] (stamp (kernel_tick k) g))
          \<lparr>frames := uint (frame_count k), free := uint (free_count k)\<rparr>) p"
proof -
  let ?fs = "[trace_number (frame_count k), trace_number (free_count k)]"
  let ?g = "stamp (kernel_tick k) g"
  let ?h = "note_event (uint (free_count k) \<noteq> free g) (py ''memory'') (kernel_tick k) ?fs ?g"
  let ?r = "?h\<lparr>frames := uint (frame_count k), free := uint (free_count k)\<rparr>"
  have "apply_memory ?h ?fs = Inr ?r" by (simp add: apply_memory_def two_ints_def)
  moreover have "interesting ?g (py ''memory'') ?fs = Inr (uint (free_count k) \<noteq> free g)"
    by (simp add: interesting_def fld_eq int_fld_def)
  moreover have "record_of_line (record_text (now k) ''memory'' ?fs) =
      Inr (Some (py ''memory'', kernel_tick k, ?fs))"
    unfolding kernel_tick_def by (rule record_of_text) simp_all
  ultimately have "guest_event g (record_text (now k) ''memory'' ?fs) = (None, ?r)"
    by (intro guest_event_applied) (auto simp: apply_record_kinds)
  then show ?thesis unfolding memory_event_text by (simp add: feed_record)
qed

lemma feed_mark:
  assumes "kind = ''snapshot'' \<or> kind = ''snapshot-end''"
  shows "feed g (event_text (now k) kind @ end_event @ p) = feed (stamp (kernel_tick k) g) p"
proof -
  have "record_of_line (record_text (now k) kind []) = Inr (Some (py kind, kernel_tick k, []))"
    unfolding kernel_tick_def using assms by (intro record_of_text) auto
  then have "guest_event g (record_text (now k) kind []) = (None, stamp (kernel_tick k) g)"
    using assms by (intro plain_event) (auto simp: interesting_def interesting_kinds_mem apply_record_def)
  then have "feed g (record_text (now k) kind [] @ 10 # p) = feed (stamp (kernel_tick k) g) p"
    using assms by (intro feed_record) auto
  then show ?thesis using snapshot_text [of "now k" kind] by (metis append.assoc append_Cons append_Nil)
qed

section \<open>The pages of an address space have different addresses\<close>

lemma unat_page:
  assumes "(n::nat) < 16" "unat (base :: 64 word) \<le> 0x800000"
  shows "unat (base + of_nat n * 4096) = unat base + n * 4096"
proof -
  have "unat (of_nat n * 4096 :: 64 word) = n * 4096"
    using assms(1) by (simp add: unat_word_ariths unat_of_nat)
  then show ?thesis using assms by (simp add: unat_word_ariths)
qed

lemma unat_page_va:
  assumes "code_pages k \<le> 16" "i < code_pages k + 3"
  shows "unat (page_va k i) =
    (if i < code_pages k then 0x400000 + i * 4096
     else if i = code_pages k then 0x600000 else 0x800000 + (i - code_pages k - 1) * 4096)"
proof -
  define m where "m = i - code_pages k - 1"
  have "m < 16" "i < code_pages k \<Longrightarrow> i < 16" using assms by (auto simp: m_def)
  then show ?thesis
    unfolding page_va_def m_def [symmetric]
    by (simp add: USER_CODE_def USER_DATA_def USER_STACK_def unat_page)
qed

lemma page_va_inj:
  assumes "code_pages k \<le> 16" "i < code_pages k + 3" "j < code_pages k + 3"
    "page_va k i = page_va k j"
  shows "i = j"
proof -
  have "unat (page_va k i) = unat (page_va k j)" using assms(4) by simp
  then show ?thesis using assms(1-3)
    unfolding unat_page_va [OF assms(1,2)] unat_page_va [OF assms(1,3)]
    by (auto split: if_splits)
qed

section \<open>One slot\<close>

definition pages_shown :: "kernel \<Rightarrow> task \<Rightarrow> nat set \<Rightarrow> guest \<Rightarrow> bool" where
  "pages_shown k t js g \<longleftrightarrow>
     (\<forall>j \<in> js. \<exists>e. vm_lookup k (t_root t) (page_va k j) = Some e \<and>
        dict_get (maps_of g (pid_of t)) (trace_hex (page_va k j)) = Some (map_view k j e))"

text \<open>Nothing but the entries of the pids \<open>ps\<close> differs between two pictures' tables.\<close>

definition same_but :: "int set \<Rightarrow> guest \<Rightarrow> guest \<Rightarrow> bool" where
  "same_but ps g g' \<longleftrightarrow> free g' = free g \<and> frames g' = frames g \<and>
     (\<forall>q. q \<notin> ps \<longrightarrow> dict_get (processes g') q = dict_get (processes g) q \<and>
        dict_get (maps g') q = dict_get (maps g) q \<and> dict_get (data g') q = dict_get (data g) q)"

lemma same_but_refl [simp]: "same_but ps g g"
  by (simp add: same_but_def)

lemma same_but_trans: "same_but ps g h \<Longrightarrow> same_but qs h g' \<Longrightarrow> same_but (ps \<union> qs) g g'"
  by (simp add: same_but_def)

lemma same_but_step: "same_but ps g h \<Longrightarrow> same_but ps h g' \<Longrightarrow> same_but ps g g'"
  using same_but_trans [of ps g h ps g'] by simp

lemma maps_of_cong: "dict_get (maps g) q = dict_get (maps g') q \<Longrightarrow> maps_of g q = maps_of g' q"
  by (simp add: maps_of_def)

lemma feed_maps:
  assumes "map_events k t js = Some out" "distinct js"
    "code_pages k \<le> 16" "\<forall>j \<in> set js. j < code_pages k + 3"
  shows "\<exists>g'. (\<forall>p. feed g (out @ p) = feed g' p) \<and> pages_shown k t (set js) g' \<and>
      same_but {pid_of t} g g' \<and> processes g' = processes g \<and> data g' = data g \<and>
      events g' = events g \<and>
      (\<forall>va. va \<notin> (\<lambda>j. trace_hex (page_va k j)) ` set js \<longrightarrow>
         dict_get (maps_of g' (pid_of t)) va = dict_get (maps_of g (pid_of t)) va)"
  using assms
proof (induction js arbitrary: g out)
  case Nil
  then show ?case by (auto intro!: exI [of _ g] simp: pages_shown_def)
next
  case (Cons i js)
  let ?va = "\<lambda>j. trace_hex (page_va k j)"
  obtain e rest where look: "vm_lookup k (t_root t) (page_va k i) = Some e"
    and rest: "map_events k t js = Some rest" and out: "out = map_event k t i e @ rest"
    using Cons.prems(1) by (auto split: option.splits)
  let ?g = "(stamp (kernel_tick k) g)\<lparr>maps := dict_set (pid_of t)
            (dict_set (?va i) (map_view k i e) (maps_of g (pid_of t))) (maps g)\<rparr>"
  have one: "maps_of ?g (pid_of t) = dict_set (?va i) (map_view k i e) (maps_of g (pid_of t))"
    by (simp add: maps_of_def dict.get_store)
  obtain g' where g': "\<And>p. feed ?g (rest @ p) = feed g' p" "pages_shown k t (set js) g'"
    "same_but {pid_of t} ?g g'" "processes g' = processes ?g" "data g' = data ?g"
    "events g' = events ?g"
    "\<And>va. va \<notin> ?va ` set js \<Longrightarrow>
         dict_get (maps_of g' (pid_of t)) va = dict_get (maps_of ?g (pid_of t)) va"
    using Cons.IH [OF rest, of ?g] Cons.prems(2-4) by auto
  have fresh: "?va i \<notin> ?va ` set js"
  proof
    assume "?va i \<in> ?va ` set js"
    then obtain j where "j \<in> set js" "page_va k i = page_va k j" by (auto simp: trace_hex_inj)
    moreover from this have "i = j" using Cons.prems(3,4) page_va_inj [of k i j] by simp
    ultimately show False using Cons.prems(2) by simp
  qed
  have "same_but {pid_of t} g ?g" by (auto simp: same_but_def dict.get_store)
  then have "same_but {pid_of t} g g'" using same_but_step g'(3) by blast
  moreover have "dict_get (maps_of g' (pid_of t)) (?va i) = Some (map_view k i e)"
    using g'(7) [OF fresh] by (simp add: one dict.get_store)
  then have "pages_shown k t (set (i # js)) g'"
    using g'(2) look by (simp add: pages_shown_def del: split_paired_Ex)
  moreover have "dict_get (maps_of g' (pid_of t)) va = dict_get (maps_of g (pid_of t)) va"
    if "va \<notin> ?va ` set (i # js)" for va
    using that g'(7) [of va] by (auto simp: one dict.get_store)
  ultimately show ?case
    using g'(1,4-6) by (intro exI [of _ g'] conjI allI impI) (simp_all add: out feed_map)
qed

text \<open>The slot as the observer should show it.\<close>

definition slot_shown :: "kernel \<Rightarrow> nat \<Rightarrow> task \<Rightarrow> guest \<Rightarrow> bool" where
  "slot_shown k i t g \<longleftrightarrow> dict_get (processes g) (pid_of t) = Some (process_view k i t) \<and>
     (t_root t \<noteq> 0 \<longrightarrow> dict_get (data g) (pid_of t) = Some (data_view k t) \<and>
        pages_shown k t {..<code_pages k + 3} g)"

definition data_known :: "kernel \<Rightarrow> task \<Rightarrow> guest \<Rightarrow> bool" where
  "data_known k t g \<longleftrightarrow> t_root t \<noteq> 0 \<longrightarrow> dict_get (data g) (pid_of t) = Some (data_view k t)"

lemma slot_shown_same:
  assumes "slot_shown k i t g" "same_but ps g g'" "pid_of t \<notin> ps"
  shows "slot_shown k i t g'"
proof -
  have "dict_get (processes g') (pid_of t) = dict_get (processes g) (pid_of t)"
    "dict_get (data g') (pid_of t) = dict_get (data g) (pid_of t)"
    "maps_of g' (pid_of t) = maps_of g (pid_of t)"
    using assms(2,3) by (auto simp: same_but_def intro: maps_of_cong)
  with assms(1) show ?thesis by (simp add: slot_shown_def pages_shown_def)
qed

lemma feed_slot:
  assumes "task_ok t" "t_state t \<noteq> 0" "code_pages k \<le> 16" "mappings_event k t = Some ms"
  shows "\<exists>g'. (\<forall>p. feed g (process_event k i t @ ms @ p) = feed g' p) \<and> slot_shown k i t g' \<and>
      same_but {pid_of t} g g' \<and> (data_known k t g \<longrightarrow> events g' = events g)"
proof -
  let ?g = "(stamp (kernel_tick k) g)\<lparr>processes :=
            dict_set (pid_of t) (process_view k i t) (processes g)\<rparr>"
  have same: "same_but {pid_of t} g ?g" by (auto simp: same_but_def dict.get_store)
  show ?thesis
  proof (cases "t_root t = 0")
    case True
    then have "ms = []" using assms(4) by (simp add: mappings_event_def)
    then show ?thesis using feed_process [OF assms(1,2)] same True
      by (intro exI [of _ ?g]) (simp add: slot_shown_def dict.get_store)
  next
    case False
    then obtain out where maps: "map_events k t [0..<code_pages k + 3] = Some out"
      and ms: "ms = out @ data_event k t"
      using assms(4) by (auto simp: mappings_event_def)
    obtain h where h: "\<And>p. feed ?g (out @ p) = feed h p" "pages_shown k t {..<code_pages k + 3} h"
      "same_but {pid_of t} ?g h" "processes h = processes ?g" "data h = data ?g" "events h = events ?g"
      using feed_maps [OF maps _ assms(3), of ?g] by (auto simp: atLeast0LessThan)
    let ?n = "note_event (data_news k t h) (py ''data'') (kernel_tick k) (data_fields k t)
            (stamp (kernel_tick k) h)"
    let ?g' = "?n\<lparr>data := dict_set (pid_of t) (data_view k t) (data h)\<rparr>"
    have "same_but {pid_of t} h ?g'" by (auto simp: same_but_def dict.get_store)
    then have "same_but {pid_of t} g ?g'"
      using same_but_step [OF same] same_but_step [OF h(3)] by blast
    moreover have "slot_shown k i t ?g'"
      using h(2,4) maps_of_cong [of ?g' "pid_of t" h]
      by (simp add: slot_shown_def dict.get_store pages_shown_def)
    moreover have "events ?g' = events g" if "data_known k t g"
      using that False h(5,6) by (simp add: data_known_def data_news_def note_event_def)
    ultimately show ?thesis
      using feed_process [OF assms(1,2)] h(1)
      by (intro exI [of _ ?g']) (simp add: ms feed_data)
  qed
qed

section \<open>The whole report\<close>

definition used :: "task list \<Rightarrow> task list" where
  "used ts = filter (\<lambda>t. t_state t \<noteq> 0) ts"

text \<open>The kernel's table: known programs and states, different pids, an image that fits.\<close>

definition kernel_ok :: "kernel \<Rightarrow> bool" where
  "kernel_ok k \<longleftrightarrow> code_pages k \<le> 16 \<and> (\<forall>t \<in> set (used (tasks k)). task_ok t) \<and>
     distinct (map pid_of (used (tasks k)))"

lemma feed_slots:
  assumes "slots_text k i ts = Some out" "code_pages k \<le> 16" "\<forall>t \<in> set (used ts). task_ok t"
    "distinct (map pid_of (used ts))"
  shows "\<exists>g'. (\<forall>p. feed g (out @ p) = feed g' p) \<and>
      (\<forall>j < length ts. t_state (ts ! j) \<noteq> 0 \<longrightarrow> slot_shown k (i + j) (ts ! j) g') \<and>
      same_but (pid_of ` set (used ts)) g g' \<and>
      ((\<forall>t \<in> set (used ts). data_known k t g) \<longrightarrow> events g' = events g)"
  using assms
proof (induction ts arbitrary: i g out)
  case Nil
  then show ?case by (auto intro!: exI [of _ g])
next
  case (Cons t ts)
  show ?case
  proof (cases "t_state t = 0")
    case True
    have tl: "used (t # ts) = used ts" using True by (simp add: used_def)
    obtain g' where g': "\<forall>p. feed g (out @ p) = feed g' p"
      "\<And>j. j < length ts \<Longrightarrow> t_state (ts ! j) \<noteq> 0 \<Longrightarrow> slot_shown k (Suc i + j) (ts ! j) g'"
      "same_but (pid_of ` set (used ts)) g g'"
      "(\<forall>t \<in> set (used ts). data_known k t g) \<longrightarrow> events g' = events g"
      using Cons.IH [of "Suc i" out g] Cons.prems True tl by auto
    have "slot_shown k (i + j) ((t # ts) ! j) g'"
      if "j < length (t # ts)" "t_state ((t # ts) ! j) \<noteq> 0" for j
      using that g'(2) [of "j - 1"] True by (cases j) auto
    then show ?thesis using g'(1,3,4) unfolding tl by blast
  next
    case False
    have us: "used (t # ts) = t # used ts" using False by (simp add: used_def)
    obtain ms rest where ms: "mappings_event k t = Some ms" and rest: "slots_text k (Suc i) ts = Some rest"
      and out: "out = process_event k i t @ ms @ rest"
      using Cons.prems(1) False by (auto split: option.splits)
    have tok: "task_ok t" using Cons.prems(3) us by simp
    obtain h where h: "\<And>p. feed g (process_event k i t @ ms @ p) = feed h p" "slot_shown k i t h"
      "same_but {pid_of t} g h" "data_known k t g \<longrightarrow> events h = events g"
      using feed_slot [OF tok False Cons.prems(2) ms, of g i] by blast
    obtain g' where g': "\<And>p. feed h (rest @ p) = feed g' p"
      "\<And>j. j < length ts \<Longrightarrow> t_state (ts ! j) \<noteq> 0 \<Longrightarrow> slot_shown k (Suc i + j) (ts ! j) g'"
      "same_but (pid_of ` set (used ts)) h g'"
      "(\<forall>t \<in> set (used ts). data_known k t h) \<longrightarrow> events g' = events h"
      using Cons.IH [OF rest Cons.prems(2), of h] Cons.prems(3,4) us by auto
    have fresh: "pid_of t \<notin> pid_of ` set (used ts)" using Cons.prems(4) us by simp
    have "slot_shown k (i + j) ((t # ts) ! j) g'"
      if "j < length (t # ts)" "t_state ((t # ts) ! j) \<noteq> 0" for j
      using that g'(2) [of "j - 1"] slot_shown_same [OF h(2) g'(3) fresh] by (cases j) auto
    moreover have "same_but (pid_of ` set (used (t # ts))) g g'"
      using same_but_trans [OF h(3) g'(3)] us by simp
    moreover have "data_known k u h" if "u \<in> set (used ts)" "data_known k u g" for u
    proof -
      have "pid_of u \<noteq> pid_of t" using that(1) fresh by (metis imageI)
      then show ?thesis using that(2) h(3) by (simp add: data_known_def same_but_def)
    qed
    ultimately show ?thesis using h(1,4) g'(1,4) by (intro exI [of _ g']) (auto simp: out us)
  qed
qed

text \<open>The observer mirrors the kernel.\<close>

definition mirrors :: "kernel \<Rightarrow> guest \<Rightarrow> bool" where
  "mirrors k g \<longleftrightarrow> frames g = uint (frame_count k) \<and> free g = uint (free_count k) \<and>
     (\<forall>i < length (tasks k). t_state (tasks k ! i) \<noteq> 0 \<longrightarrow> slot_shown k i (tasks k ! i) g)"

definition nothing_new :: "kernel \<Rightarrow> guest \<Rightarrow> bool" where
  "nothing_new k g \<longleftrightarrow> free g = uint (free_count k) \<and> (\<forall>t \<in> set (used (tasks k)). data_known k t g)"

lemma feed_inspect:
  assumes "inspect k = Some out" "kernel_ok k"
  shows "\<exists>g'. feed g out = (None, g') \<and> mirrors k g' \<and>
      same_but (pid_of ` set (used (tasks k))) (g\<lparr>frames := frames g', free := free g'\<rparr>) g' \<and>
      (nothing_new k g \<longrightarrow> events g' = events g)"
proof -
  obtain body where body: "slots_text k 0 (tasks k) = Some body" and
    out: "out = event_text (now k) ''snapshot'' @ end_event @ body @ memory_event k @
        event_text (now k) ''snapshot-end'' @ end_event"
    using assms(1) by (auto simp: inspect_def)
  let ?g = "stamp (kernel_tick k) g"
  obtain h where h: "\<And>p. feed ?g (body @ p) = feed h p"
    "\<And>j. j < length (tasks k) \<Longrightarrow> t_state (tasks k ! j) \<noteq> 0 \<Longrightarrow> slot_shown k j (tasks k ! j) h"
    "same_but (pid_of ` set (used (tasks k))) ?g h"
    "(\<forall>t \<in> set (used (tasks k)). data_known k t ?g) \<longrightarrow> events h = events ?g"
    using feed_slots [OF body, of ?g] assms(2) by (auto simp: kernel_ok_def)
  let ?m = "(note_event (uint (free_count k) \<noteq> free h) (py ''memory'') (kernel_tick k)
            [trace_number (frame_count k), trace_number (free_count k)] (stamp (kernel_tick k) h))
          \<lparr>frames := uint (frame_count k), free := uint (free_count k)\<rparr>"
  let ?r = "stamp (kernel_tick k) ?m"
  have "feed g out = feed ?r []"
    using feed_mark [of "''snapshot''" g k] feed_mark [of "''snapshot-end''" ?m k "[]"] h(1)
    by (simp add: out feed_memory)
  moreover have "slot_shown k j (tasks k ! j) ?r"
    if "j < length (tasks k)" "t_state (tasks k ! j) \<noteq> 0" for j
    using h(2) [OF that] by (simp add: slot_shown_def pages_shown_def maps_of_def)
  then have "mirrors k ?r" by (simp add: mirrors_def)
  moreover have "events ?r = events g" if "nothing_new k g"
    using that h(3,4) by (simp add: nothing_new_def data_known_def note_event_def same_but_def)
  moreover have "same_but (pid_of ` set (used (tasks k))) (g\<lparr>frames := frames ?r, free := free ?r\<rparr>) ?r"
    using h(3) by (simp add: same_but_def)
  ultimately show ?thesis by (intro exI [of _ ?r]) simp
qed

end
