(* ===== verification/Guest_Claims.thy ===== *)
theory Guest_Claims
  imports Guest_Lifecycle Trace_Mirror
begin

text \<open>
  The properties of the guest observer (\<open>tools/lab_guest.py\<close>), each with a concrete
  instance where it has hypotheses. The proofs rest on the component theories.
\<close>

section \<open>Concrete material for the instances\<close>

text \<open>A short boot: both readers started, and one console chunk that ends in a panic.\<close>

definition boot_chunk :: "nat list" where
  "boot_chunk = py ''mini$ MiniLinux PANIC: x''"

definition booted :: sys where
  "booted = go Console_Channel Loop_Head
     ((go Console_Channel In_Recv (go Trace_Channel Loop_Head (go Console_Channel Loop_Head init_sys)))
        \<lparr>gst := console_chunk (py ''mini$ MiniLinux PANIC: x'') new_guest, pending := []\<rparr>)"

lemma read_boot_chunk:
  "read_body Console_Channel (Chunk boot_chunk) new_guest [] =
     (Continue, console_chunk (py ''mini$ MiniLinux PANIC: x'') new_guest, [])"
  by (simp add: read_body_def boot_chunk_def decode_ascii_def py_def)

lemma reachable_booted: "reachable booted"
proof -
  have new: "gst init_sys = new_guest" "pending init_sys = []" "\<not> closed new_guest"
    by (simp_all add: init_sys_def new_guest_def)
  let ?a = "go Console_Channel Loop_Head init_sys"
  let ?b = "go Trace_Channel Loop_Head ?a"
  let ?c = "go Console_Channel In_Recv ?b"
  have "reachable init_sys" by (simp add: reachable_def)
  moreover have "step init_sys ?a" by (rule step.start_thread) (simp_all add: init_sys_def)
  moreover have "step ?a ?b" by (rule step.start_thread) (simp_all add: init_sys_def)
  moreover have "step ?b ?c" by (rule step.loop_open) (simp_all add: new)
  ultimately have "reachable ?c" by (blast intro: reachable_step)
  moreover have "step ?c booted"
    unfolding booted_def
    using step.recv [of ?c Console_Channel "Chunk boot_chunk" Continue] read_boot_chunk
    by (simp add: new after_body_def)
  ultimately show ?thesis by (rule reachable_step)
qed

lemma booted_console: "console (gst booted) = py ''mini$ MiniLinux PANIC: x''"
proof -
  have "plain (py ''mini$ MiniLinux PANIC: x'')" by (simp add: plain_def py_def)
  then show ?thesis
    by (simp add: booted_def console_chunk_console console_text_plain new_guest_def last_n_id)
qed

lemma sublist_mid: "sublist ys (xs @ ys @ zs)"
  by (auto simp: sublist_def)

lemma booted_marks:
  "sublist prompt (console (gst booted))" "sublist panic_mark (console (gst booted))"
proof -
  have split: "py ''mini$ MiniLinux PANIC: x'' = [] @ prompt @ py ''MiniLinux PANIC: x''"
    "py ''mini$ MiniLinux PANIC: x'' = prompt @ panic_mark @ py '' x''"
    by (simp_all add: prompt_def panic_mark_def flip: py_append)
  show "sublist prompt (console (gst booted))" unfolding booted_console split(1) by (rule sublist_mid)
  show "sublist panic_mark (console (gst booted))" unfolding booted_console split(2) by (rule sublist_mid)
qed

text \<open>A closed guest whose readers never started.\<close>

definition shut :: sys where
  "shut = init_sys\<lparr>qemu_alive := False, caller := Closed,
            gst := new_guest\<lparr>closed := True, status := Stopped\<rparr>\<rparr>"

lemma reachable_shut: "reachable shut"
proof -
  let ?a = "init_sys\<lparr>qemu_alive := False\<rparr>"
  let ?b = "?a\<lparr>caller := Closing, gst := (gst ?a)\<lparr>closed := True\<rparr>\<rparr>"
  have "reachable init_sys" by (simp add: reachable_def)
  moreover have "step init_sys ?a" by (rule step.qemu_exit)
  moreover have "step ?a ?b" by (rule step.close_flag) (simp add: init_sys_def)
  moreover have "step ?b (?b\<lparr>caller := Closed, gst := (gst ?b)\<lparr>status := Stopped\<rparr>\<rparr>)"
    by (rule step.close_joined) (simp_all add: init_sys_def)
  moreover have "?b\<lparr>caller := Closed, gst := (gst ?b)\<lparr>status := Stopped\<rparr>\<rparr> = shut"
    by (simp add: shut_def init_sys_def)
  ultimately show ?thesis by (metis reachable_step)
qed

section \<open>The observer's picture\<close>

text \<open>
  C2. However the reader threads, QEMU and the caller interleave, the observer's picture is
  consistent: at most 2000 events in strictly increasing order of id, none with an id above the
  sequence counter or a tick after the clock, a console of at most 64000 characters, and every
  process entry filed under its own pid with a known program and state.
\<close>

theorem observer_consistent:
  assumes "reachable s"
  shows "length (events (gst s)) \<le> 2000 \<and> sorted_wrt (<) (map ev_id (events (gst s))) \<and>
    (\<forall>e \<in> set (events (gst s)). ev_id e \<le> sequence (gst s) \<and> ev_tick e \<le> ticks (gst s)) \<and>
    length (console (gst s)) \<le> 64000 \<and>
    (\<forall>pid p. dict_get (processes (gst s)) pid = Some p \<longrightarrow>
       p_pid p = pid \<and> p_program p \<in> set PROGRAMS \<and> p_state p \<in> set STATES)"
proof -
  have "guest_wf (gst s)" using reachable_inv [OF assms] by (simp add: sys_inv_def)
  then show ?thesis
    by (auto simp: guest_wf_def log_ok_def tables_ok_def process_ok_def dest: dict_get_all)
qed

theorem observer_consistent_witness:
  "reachable booted \<and> console (gst booted) \<noteq> [] \<and> length (console (gst booted)) \<le> 64000"
  using observer_consistent [OF reachable_booted] reachable_booted booted_console by simp

text \<open>
  C3. Once \<open>close\<close> has returned with both reader threads joined, the guest is stopped for
  good: no later step of any thread changes anything the observer holds.
\<close>

theorem stopped_is_final:
  assumes "reachable s" "caller s = Closed" "\<not> join_expired s" "step\<^sup>*\<^sup>* s t"
  shows "gst t = gst s \<and> status (gst t) = Stopped \<and> closed (gst t)"
proof -
  have "status (gst s) = Stopped \<and> closed (gst s)"
    using reachable_inv [OF assms(1)] assms(2,3) by (auto simp: sys_inv_def)
  moreover from assms(4) have "gst t = gst s \<and> caller t = Closed \<and> \<not> join_expired t \<and> reachable t"
  proof (induction rule: rtranclp_induct)
    case base
    with assms(1-3) show ?case by simp
  next
    case (step t u)
    then show ?case using closed_guest_frozen [of t u] reachable_step by auto
  qed
  ultimately show ?thesis by simp
qed

theorem stopped_is_final_witness:
  "reachable shut \<and> gst (shut\<lparr>qemu_alive := False\<rparr>) = gst shut \<and> status (gst shut) = Stopped"
proof -
  have shut: "caller shut = Closed" "\<not> join_expired shut" by (simp_all add: shut_def init_sys_def)
  have "step\<^sup>*\<^sup>* shut (shut\<lparr>qemu_alive := False\<rparr>)"
    by (rule r_into_rtranclp) (rule step.qemu_exit)
  from stopped_is_final [OF reachable_shut shut this] reachable_shut show ?thesis by simp
qed

text \<open>
  C4. \<open>start\<close> can hide a kernel panic: a prompt and a panic that arrive together are
  followed by \<open>self.status = "running"\<close>, because the wait asks its predicate before it looks
  at the status. There is a reachable guest that reports running, with the panic on its
  console and the panic message still in \<open>error\<close>.
\<close>

theorem start_hides_panic:
  "\<exists>s. reachable s \<and> caller s = Serving \<and> status (gst s) = Running \<and>
     sublist panic_mark (console (gst s)) \<and>
     error (gst s) = py ''Kernel panic; inspect the console and restart.''"
proof -
  let ?a = "booted\<lparr>caller := Saw_Prompt\<rparr>"
  let ?b = "?a\<lparr>caller := Serving, gst := (gst ?a)\<lparr>status := Running\<rparr>\<rparr>"
  have "step booted ?a"
    by (rule step.see_prompt) (simp_all add: booted_marks, simp_all add: booted_def init_sys_def)
  moreover have "step ?a ?b" by (rule step.set_running) simp
  ultimately have "reachable ?b" using reachable_booted reachable_step by blast
  moreover have "error (gst booted) = py ''Kernel panic; inspect the console and restart.''"
    using booted_marks(2) by (simp add: booted_def console_chunk_def Let_def split: if_splits)
  ultimately show ?thesis using booted_marks(2) by (intro exI [of _ ?b]) simp
qed

section \<open>The trace channel\<close>



text \<open>
  The event log after any lines is exactly the last 2000 of all the events those lines
  were worth keeping, in order: trimming after every line never loses or reorders one that
  trimming once at the end would have kept.
\<close>

lemma event_log_is_last_2000:
  "events (snd (guest_events new_guest ls)) = last_n 2000 (kept_events new_guest ls)"
  using guest_events_log [of new_guest "[]" ls] by (simp add: new_guest_def last_n_def)

text \<open>
  A \<open>process\<close> record with state 0 (a reaped slot) removes the pid from the process
  table, the mappings and the data together, and touches no other pid.
\<close>

lemma reaped_process_disappears:
  assumes "record_of_line line = Inr (Some (py ''process'', tick, fs))"
    "four_ints fs = Inr (pid, parent, program, 0)"
  shows "\<exists>g'. guest_event g line = (None, g') \<and>
     dict_get (processes g') = (dict_get (processes g))(pid := None) \<and>
     dict_get (maps g') = (dict_get (maps g))(pid := None) \<and>
     dict_get (data g') = (dict_get (data g))(pid := None)"
  using process_gone [OF assms] .

definition some_datum :: datum where
  "some_datum = \<lparr>d_va = py ''0x600000'', d_pa = py ''0x9000'', d_marker = py ''0xa110''\<rparr>"

text \<open>
  After a \<open>schedule\<close> or \<open>syscall\<close> record exactly the pid it names is marked current
  among the processes in the table.
\<close>

lemma one_current_process:
  assumes "guest_wf g" "guest_event g line = (None, g')"
    "record_of_line line = Inr (Some (kind, tick, fs))"
    "kind = py ''schedule'' \<and> int_fld fs 1 = Inr pid \<or> kind = py ''syscall'' \<and> int_fld fs 0 = Inr pid"
    "dict_get (processes g') k = Some p"
  shows "p_current p \<longleftrightarrow> k = pid"
  using event_current [OF assms] .

definition two_processes :: guest where
  "two_processes = new_guest\<lparr>processes :=
     [(1, \<lparr>p_pid = 1, p_parent = 0, p_program = py ''init'', p_state = py ''waiting'', p_root = [],
           p_slices = 0, p_current = True\<rparr>),
      (2, \<lparr>p_pid = 2, p_parent = 1, p_program = py ''shell'', p_state = py ''ready'', p_root = [],
           p_slices = 0, p_current = False\<rparr>)]\<rparr>"

end
