(* ===== verification/Control_Claims.thy ===== *)
theory Control_Claims
  imports Guest_Control
begin

text \<open>
  The properties of the console window, of the caller's operations on a guest
  (\<open>tools/lab_guest.py\<close>) and of the QEMU preflight (\<open>tools/qemu_host.py\<close>).
\<close>

section \<open>The console\<close>

text \<open>
  After any console chunks the window holds at most 64000 characters and is an end piece of
  the terminal's whole transcript, backspaces and carriage returns included.
\<close>

lemma console_is_end_of_transcript:
  "suffix (console (fold console_chunk ts new_guest)) (fold console_text ts []) \<and>
   length (console (fold console_chunk ts new_guest)) \<le> 64000"
  using screen.window_suffix [of new_guest "[]" ts] screen.bounded_run [of new_guest ts]
  by (simp add: new_guest_def)

text \<open>
  On a stream without backspaces \<open>console_base\<close> is exact: the window is the transcript
  behind its first \<open>console_base\<close> characters, so a reader that kept an absolute position
  finds its place again after the window has moved.
\<close>

lemma console_base_is_position:
  assumes "\<forall>t \<in> set ts. 8 \<notin> set t"
  shows "console (fold console_chunk ts new_guest) =
    drop (console_base (fold console_chunk ts new_guest)) (filter (\<lambda>c. c \<noteq> 13) (concat ts))"
  using console_base_run [OF assms, of new_guest "[]"] by (simp add: new_guest_def)

text \<open>
  A kernel panic is noticed in the chunk that completes its message, however the message
  is cut across chunks and whatever the console held before.
\<close>

lemma panic_noticed_across_chunks:
  assumes "\<forall>t \<in> set ts. plain t" "concat ts = pre @ panic_mark"
  shows "status (fold console_chunk ts g) = Faulted"
  using panic_seen [OF assms] .

section \<open>Waiting and commands\<close>

text \<open>
  C6. \<open>wait_for\<close> returns: when the loop's turns are at least \<open>gap\<close> apart (the code sleeps
  25 ms per turn), it has decided after at most \<open>timeout / gap + 1\<close> turns. It succeeds only
  if the predicate held at some look before the deadline.
\<close>

theorem wait_for_returns:
  assumes "spaced fst gap obs" "obs \<noteq> []" "deadline - fst (hd obs) \<le> int (length obs - 1) * gap"
  shows "\<exists>r. wait_for p deadline obs = Some r \<and>
    (r = Inr () \<longrightarrow> (\<exists>ob \<in> set obs. fst ob < deadline \<and> p (snd ob)))"
  using waiting.returns_within [OF assms] wait_for_ok [of p deadline obs] by (auto simp: wait_for_def)

theorem wait_for_returns_witness:
  "\<exists>r. wait_for (\<lambda>g. False) 40 [(0, new_guest), (25, new_guest), (50, new_guest)] = Some r"
proof -
  have "spaced fst 25 [(0::int, new_guest), (25, new_guest), (50, new_guest)]" by simp
  from wait_for_returns [OF this, of 40 "\<lambda>g. False"] show ?thesis by auto
qed

text \<open>
  As long as the window has not moved, \<open>command\<close> returns exactly the console text
  behind its starting position, in the first turn whose text there contains a prompt.
\<close>

lemma command_returns_its_output:
  assumes "\<not> closed gs" "status gs = Running" "\<forall>c \<in> set line. c < 128" "\<And>i. sock i = None"
    "now < deadline" "console g = console g0 @ out" "sublist prompt out"
    "\<forall>ob \<in> set early. fst ob < deadline \<and> status (snd ob) = Running \<and>
       \<not> sublist prompt (drop (length (console g0)) (console (snd ob)))"
  shows "command sock line g0 gs deadline (early @ (now, g) # later) g = Some (Inr out)"
  using command_output [OF assms] .

definition quiet_guest :: guest where
  "quiet_guest = new_guest\<lparr>status := Running, console := py ''mini$ ''\<rparr>"

text \<open>
  C7. On a full console \<open>command\<close> never succeeds: it remembers \<open>len(self.console)\<close>, which
  is then 64000, and the window never grows beyond that, so nothing can be found behind it,
  whatever the guest prints. \<open>console_base\<close> records how far the window moved, but
  \<open>command\<close> does not use it.
\<close>

theorem command_fails_on_full_console:
  assumes "length (console g0) = 64000" "\<forall>ob \<in> set obs. guest_wf (snd ob)"
  shows "command sock line g0 gs deadline obs g1 \<noteq> Some (Inr out)"
  using command_full [OF assms] .

definition full_guest :: guest where
  "full_guest = new_guest\<lparr>status := Running, console := replicate 64000 46\<rparr>"

theorem command_fails_on_full_console_witness:
  "length (console full_guest) = 64000 \<and>
   command (\<lambda>_. None) (py ''help'') full_guest full_guest 8000
     [(25, console_chunk (py ''help mini$ '') full_guest)]
     (console_chunk (py ''help mini$ '') full_guest) \<noteq> Some (Inr (py ''mini$ ''))"
proof -
  have full: "length (console full_guest) = 64000" by (simp add: full_guest_def)
  have "guest_wf full_guest"
    using guest_wf_new by (simp add: full_guest_def guest_wf_def log_ok_def tables_ok_def)
  then have "guest_wf (console_chunk (py ''help mini$ '') full_guest)" by (rule console_chunk_wf)
  with full command_fails_on_full_console [OF full] show ?thesis by simp
qed

text \<open>
  \<open>send\<close> is all or nothing up to the socket: bytes leave only for a running, open guest
  and pure ASCII text, they are a prefix of the text in order, the whole text when no exception
  is raised; a failure after the first byte can only be the socket's \<open>OSError\<close>.
\<close>

lemma send_is_prefix:
  assumes "send sock g s = (e, sent)"
  shows "prefix sent s \<and> (e = None \<longrightarrow> sent = s) \<and>
    (sent \<noteq> [] \<longrightarrow> \<not> closed g \<and> status g = Running \<and> (\<forall>c \<in> set s. c < 128)) \<and>
    (\<forall>x. e = Some x \<and> sent \<noteq> [] \<longrightarrow> is_os_error x)"
proof (cases "closed g \<or> status g \<noteq> Running \<or> (\<exists>c \<in> set s. \<not> c < 128)")
  case True
  with assms have "sent = [] \<and> e \<noteq> None"
    by (auto simp: send_def encode_ascii_def split: if_splits)
  then show ?thesis by auto
next
  case False
  with assms have run: "send_bytes sock 0 s = (e, sent)"
    by (simp add: send_def encode_ascii_def)
  from send_bytes_prefix [OF run] send_bytes_error [of sock 0 s _ sent] False run show ?thesis by auto
qed

section \<open>Starting and closing\<close>


definition refused_boot :: boot where
  "refused_boot = \<lparr>b_ports = [5000, 5000, 5001], b_qemu = Inr [py ''qemu''], b_popen = None,
     b_tty = [\<lparr>exited = False, connected = True, at = 1\<rparr>],
     b_trace = [\<lparr>exited = True, connected = False, at = 2\<rparr>], b_deadlines = (10, 10, 20),
     b_obs = [], b_term_ends = False, b_kill_ends = True\<rparr>"


text \<open>
  A start that returns has QEMU running with both channels connected and read, used two
  different ports, and has seen the shell's first prompt before its deadline.
\<close>

lemma successful_start:
  assumes "start b g g_end = Some (None, g', h')"
  shows "status g' = Running \<and> alive h' \<and> sockets h' = 2 \<and> readers h' = 2 \<and>
    (\<exists>tty trace. pick_ports (b_ports b) = Some (tty, trace) \<and> tty \<noteq> trace) \<and>
    (\<exists>ob \<in> set (b_obs b). sublist prompt (console (snd ob)))"
proof -
  obtain tty trace where "pick_ports (b_ports b) = Some (tty, trace)"
    using assms by (auto simp: start_def split: option.splits)
  then have "\<exists>tty trace. pick_ports (b_ports b) = Some (tty, trace) \<and> tty \<noteq> trace"
    using pick_ports_differ by blast
  with start_succeeds [OF assms] show ?thesis by blast
qed

definition good_boot :: boot where
  "good_boot = refused_boot\<lparr>b_trace := [\<lparr>exited = False, connected = True, at = 2\<rparr>],
     b_obs := [(5, quiet_guest)]\<rparr>"

section \<open>The preflight\<close>


text \<open>
  Reading a banner gives back the three numbers it was printed from, for all of them,
  when a space, a newline, a hyphen, a bracket or nothing follows.
\<close>

lemma banner_roundtrip:
  assumes "version_end rest"
  shows "qemu_version (banner_prefix @ version_text a b c @ rest) = Some (Version a b c)"
  using qemu_version_banner [OF assms] .

end
