(* ===== verification/Mirror_Claims.thy ===== *)
theory Mirror_Claims
  imports Trace_Mirror
begin

text \<open>
  The properties of the trace protocol, both ends together: the LAB kernel's \<open>inspect\<close>
  (\<open>kernel/laboratory.c\<close>) and the observer that parses it (\<open>tools/lab_guest.py\<close>).
\<close>

section \<open>A small kernel for the instances\<close>

definition shell_task :: task where
  "shell_task = \<lparr>t_id = 2, t_parent = 1, t_program = 1, t_state = 1, t_root = 0x5000,
     t_slices = 4, t_data_page = 0x9000\<rparr>"

definition free_slot :: task where
  "free_slot = \<lparr>t_id = 2, t_parent = 0, t_program = 6, t_state = 0, t_root = 0, t_slices = 0,
     t_data_page = 0\<rparr>"

definition small_kernel :: kernel where
  "small_kernel = \<lparr>tasks = [shell_task, free_slot], current_task = 0, now = 37,
     frame_count = 8192, free_count = 8000, code_pages = 1,
     vm_lookup = (\<lambda>root va. Some (0xa000, 7)), first_word = (\<lambda>pa. 0xa110)\<rparr>"

lemma small_kernel_ok: "kernel_ok small_kernel"
  by (simp add: kernel_ok_def small_kernel_def used_def shell_task_def free_slot_def task_ok_def)

lemma small_kernel_reports: "\<exists>out. inspect small_kernel = Some out"
  by (simp add: inspect_def small_kernel_def shell_task_def free_slot_def mappings_event_def upt_rec)

section \<open>The properties\<close>

text \<open>
  C1. The observer mirrors the kernel: whatever picture it held before, it reads a whole
  \<open>inspect\<close> report without an exception and then shows, for every used slot, the slot's pid,
  parent, program, state, root and slice count, marks it current exactly when the kernel runs
  it, and holds the kernel's mapping of each of its pages and its data word; the frame counts
  are the kernel's.
\<close>

theorem kernel_mirror:
  assumes "inspect k = Some out" "kernel_ok k"
  shows "\<exists>g'. feed g out = (None, g') \<and>
    frames g' = uint (frame_count k) \<and> free g' = uint (free_count k) \<and>
    (\<forall>i < length (tasks k). t_state (tasks k ! i) \<noteq> 0 \<longrightarrow>
       dict_get (processes g') (uint (t_id (tasks k ! i))) = Some (process_view k i (tasks k ! i)) \<and>
       (t_root (tasks k ! i) \<noteq> 0 \<longrightarrow>
          dict_get (data g') (uint (t_id (tasks k ! i))) = Some (data_view k (tasks k ! i)) \<and>
          (\<forall>j < code_pages k + 3. \<exists>e. vm_lookup k (t_root (tasks k ! i)) (page_va k j) = Some e \<and>
             dict_get (maps_of g' (uint (t_id (tasks k ! i)))) (trace_hex (page_va k j)) =
               Some (map_view k j e))))"
proof -
  obtain g' where "feed g out = (None, g')" "mirrors k g'" using feed_inspect [OF assms] by blast
  then show ?thesis
    by (intro exI [of _ g']) (simp add: mirrors_def slot_shown_def pages_shown_def pid_of_def)
qed

theorem kernel_mirror_witness:
  "\<exists>out g'. inspect small_kernel = Some out \<and> feed new_guest out = (None, g') \<and> free g' = 8000 \<and>
     dict_get (processes g') 2 = Some (process_view small_kernel 0 shell_task)"
proof -
  obtain out where out: "inspect small_kernel = Some out" using small_kernel_reports by blast
  obtain g' where "feed new_guest out = (None, g')" "free g' = uint (free_count small_kernel)"
    "t_state (tasks small_kernel ! 0) \<noteq> 0 \<longrightarrow>
      dict_get (processes g') (uint (t_id (tasks small_kernel ! 0))) =
        Some (process_view small_kernel 0 (tasks small_kernel ! 0))"
    using kernel_mirror [OF out small_kernel_ok, of new_guest] by (force simp: small_kernel_def)
  with out show ?thesis by (auto simp: small_kernel_def shell_task_def)
qed

text \<open>
  An idle kernel is silent: a second report of an unchanged kernel adds nothing to the
  event log, although every record of it is parsed again.
\<close>

lemma idle_report_silent:
  assumes "inspect k = Some out" "kernel_ok k" "feed g out = (None, g1)" "feed g1 out = (None, g2)"
  shows "events g2 = events g1 \<and> free g2 = free g1"
proof -
  have "mirrors k g1" using feed_inspect [OF assms(1,2), of g] assms(3) by auto
  then have "nothing_new k g1"
    by (auto simp: mirrors_def nothing_new_def data_known_def slot_shown_def used_def in_set_conv_nth)
  moreover have "free g1 = uint (free_count k)" using \<open>mirrors k g1\<close> by (simp add: mirrors_def)
  ultimately show ?thesis using feed_inspect [OF assms(1,2), of g1] assms(4) by (auto simp: mirrors_def)
qed

text \<open>
  The kernel's printing loses nothing: every 64-bit number fits the 20 characters of
  \<open>trace_number\<close>'s buffer and reads back as itself under Python's \<open>int\<close>, and two
  addresses print alike in \<open>trace_hex\<close> only if they are equal.
\<close>

lemma printing_loses_nothing:
  "length (trace_number v) \<le> 20 \<and> int_of_str (trace_number v) = Inr (uint v) \<and>
   length (trace_hex v) = 18 \<and> (trace_hex v = trace_hex w \<longleftrightarrow> v = w)"
  by (simp add: trace_number_fits trace_hex_inj) (simp add: trace_hex_def hex_shifts_def)

end
