(* ===== verification/Py_Json.thy ===== *)
theory Py_Json
  imports PyText PyDict
begin

text \<open>
  JSON values and \<open>json.dumps\<close> with its defaults (\<open>ensure_ascii\<close>, separators \<open>', '\<close> and
  \<open>': '\<close>), for the values the tools write: no floating-point numbers occur.
\<close>

datatype json =
    JNull
  | JBool bool
  | JInt int
  | JStr pystr
  | JList "json list"
  | JDict "(pystr \<times> json) list"

section \<open>Strings\<close>

definition hex_char :: "nat \<Rightarrow> nat" where
  "hex_char n = (if n < 10 then 48 + n else 87 + n)"

definition unicode_escape :: "nat \<Rightarrow> pystr" where
  "unicode_escape c =
     [92, 117, hex_char (c div 4096 mod 16), hex_char (c div 256 mod 16),
      hex_char (c div 16 mod 16), hex_char (c mod 16)]"

definition escape_char :: "nat \<Rightarrow> pystr" where
  "escape_char c =
     (if c = 34 then [92, 34] else if c = 92 then [92, 92]
      else if c = 10 then [92, 110] else if c = 13 then [92, 114] else if c = 9 then [92, 116]
      else if c = 12 then [92, 102] else if c = 8 then [92, 98]
      else if 32 \<le> c \<and> c < 127 then [c]
      else if c < 65536 then unicode_escape c
      else unicode_escape (55296 + (c - 65536) div 1024 mod 1024) @
           unicode_escape (56320 + (c - 65536) mod 1024))"

definition json_string :: "pystr \<Rightarrow> pystr" where
  "json_string s = [34] @ concat (map escape_char s) @ [34]"

section \<open>Values\<close>

definition comma_join :: "pystr list \<Rightarrow> pystr" where
  "comma_join ws = (case ws of [] \<Rightarrow> [] | v # vs \<Rightarrow> v @ concat (map (\<lambda>w. [44, 32] @ w) vs))"

fun dumps :: "json \<Rightarrow> pystr" where
  "dumps JNull = py ''null''"
| "dumps (JBool b) = (if b then py ''true'' else py ''false'')"
| "dumps (JInt i) = str_of_int i"
| "dumps (JStr s) = json_string s"
| "dumps (JList js) = [91] @ comma_join (map dumps js) @ [93]"
| "dumps (JDict kvs) =
     [123] @ comma_join (map (\<lambda>(k, v). json_string k @ [58, 32] @ dumps v) kvs) @ [125]"

section \<open>The output is printable ASCII\<close>

definition printable :: "pystr \<Rightarrow> bool" where
  "printable s \<longleftrightarrow> (\<forall>c \<in> set s. 32 \<le> c \<and> c < 127)"

lemma printable_simps [simp]:
  "printable []"
  "printable (c # s) \<longleftrightarrow> 32 \<le> c \<and> c < 127 \<and> printable s"
  "printable (s @ t) \<longleftrightarrow> printable s \<and> printable t"
  "printable (concat ss) \<longleftrightarrow> (\<forall>s \<in> set ss. printable s)"
  by (auto simp: printable_def)

lemma hex_char_printable: "n < 16 \<Longrightarrow> 32 \<le> hex_char n \<and> hex_char n < 127"
  by (auto simp: hex_char_def)

lemma printable_escape: "printable (escape_char c)"
  using hex_char_printable by (auto simp: escape_char_def unicode_escape_def)

lemma printable_string: "printable (json_string s)"
  using printable_escape by (auto simp: json_string_def)

lemma printable_comma_join: "\<forall>w \<in> set ws. printable w \<Longrightarrow> printable (comma_join ws)"
  by (cases ws) (auto simp: comma_join_def)

lemma printable_str_of_int: "printable (str_of_int i)"
  using str_of_nat_digits [of _ "nat i"] str_of_nat_digits [of _ "nat (- i)"]
  by (fastforce simp: str_of_int_def printable_def)

lemma printable_dumps: "printable (dumps j)"
proof (induction j)
  case (JList js)
  then show ?case by (auto intro!: printable_comma_join)
next
  case (JDict kvs)
  then show ?case by (auto intro!: printable_comma_join printable_string)
qed (simp_all add: printable_str_of_int printable_string, simp_all add: py_def)

lemma encode_ascii_dumps: "encode_ascii (dumps j) = Inr (dumps j)"
  using printable_dumps [of j] by (auto simp: encode_ascii_def printable_def)

end
