(* ===== verification/Guest_Snapshot.thy ===== *)
theory Guest_Snapshot
  imports Guest_Control Py_Json
begin

text \<open>
  \<open>Guest.snapshot\<close> (\<open>tools/lab_guest.py\<close>): the guest's picture as the JSON object that the
  bridge and the recorder pass on.
\<close>

section \<open>The state of the guest as JSON\<close>

definition event_json :: "event \<Rightarrow> json" where
  "event_json e = JDict
     [(py ''id'', JInt (int (ev_id e))), (py ''kind'', JStr (ev_kind e)), (py ''tick'', JInt (ev_tick e)),
      (py ''fields'', JList (map JStr (ev_fields e)))]"

definition process_json :: "process \<Rightarrow> json" where
  "process_json p = JDict
     [(py ''pid'', JInt (p_pid p)), (py ''parent'', JInt (p_parent p)),
      (py ''program'', JStr (p_program p)), (py ''state'', JStr (p_state p)),
      (py ''root'', JStr (p_root p)), (py ''slices'', JInt (p_slices p)),
      (py ''current'', JBool (p_current p))]"

definition mapping_json :: "mapping \<Rightarrow> json" where
  "mapping_json m = JDict
     [(py ''va'', JStr (m_va m)), (py ''pa'', JStr (m_pa m)), (py ''flags'', JInt (m_flags m)),
      (py ''name'', JStr (m_name m))]"

definition datum_json :: "datum \<Rightarrow> json" where
  "datum_json d = JDict
     [(py ''va'', JStr (d_va d)), (py ''pa'', JStr (d_pa d)), (py ''marker'', JStr (d_marker d))]"

definition keyed_json :: "('v \<Rightarrow> json) \<Rightarrow> (int, 'v) dict \<Rightarrow> json" where
  "keyed_json f d = JDict (map (\<lambda>(k, v). (str_of_int k, f v)) d)"

text \<open>
  \<open>Guest.snapshot\<close>; \<open>proc\<close> is the QEMU process, if there is one: its pid, and whether
  \<open>poll()\<close> finds it ended. The copy is deep, so it is a value.
\<close>

definition snapshot :: "(int \<times> bool) option \<Rightarrow> guest \<Rightarrow> guest \<times> (pystr, json) dict" where
  "snapshot proc g =
     (let g' = (if (case proc of None \<Rightarrow> False | Some (_, ended) \<Rightarrow> ended) \<and> \<not> closed g
                then g\<lparr>status := Disconnected\<rparr> else g)
      in (g',
        [(py ''status'', JStr (status_str (status g'))), (py ''error'', JStr (error g')),
         (py ''console'', JStr (console g')), (py ''console_base'', JInt (int (console_base g'))),
         (py ''events'', JList (map event_json (events g'))),
         (py ''processes'', JList (map process_json (dict_values (processes g')))),
         (py ''maps'', keyed_json (\<lambda>d. JDict (map (\<lambda>(va, m). (va, mapping_json m)) d)) (maps g')),
         (py ''data'', keyed_json datum_json (data g')),
         (py ''frames'', JInt (frames g')), (py ''free'', JInt (free g')),
         (py ''ticks'', JInt (ticks g')), (py ''sequence'', JInt (int (sequence g'))),
         (py ''guest_pid'', case proc of None \<Rightarrow> JNull | Some (pid, _) \<Rightarrow> JInt pid)]))"

lemma snapshot_frame:
  "snapshot p g = (g', state) \<Longrightarrow> events g' = events g \<and> sequence g' = sequence g \<and> console g' = console g \<and>
     closed g' = closed g \<and> (guest_wf g' \<longleftrightarrow> guest_wf g) \<and> (status g' = status g \<or> status g' = Disconnected)"
  by (auto simp: snapshot_def Let_def guest_wf_def log_ok_def tables_ok_def split: option.splits if_splits)

end
