(* ===== verification/Py_Url.thy ===== *)
theory Py_Url
  imports PyText
begin

text \<open>
  \<open>urllib.parse\<close> as the laboratory's bridge uses it: \<open>urlparse\<close> of a request target (the path
  and the query) and \<open>parse_qs(query).get(name, [default])[0]\<close>, with percent decoding. The
  check of an address in brackets in a network location is an argument: the message of its
  \<open>ValueError\<close>, if it raises one.
\<close>

section \<open>UTF-8 with replacement\<close>

text \<open>
  A lead byte fixes the number of continuation bytes and the range of the first one. A
  malformed sequence becomes one U+FFFD for its longest valid beginning.
\<close>

definition utf8_lead :: "nat \<Rightarrow> (nat \<times> nat \<times> nat \<times> nat) option" where
  "utf8_lead b =
     (if 194 \<le> b \<and> b < 224 then Some (1, b - 192, 128, 192)
      else if b = 224 then Some (2, 0, 160, 192)
      else if b = 237 then Some (2, 13, 128, 160)
      else if 225 \<le> b \<and> b < 240 then Some (2, b - 224, 128, 192)
      else if b = 240 then Some (3, 0, 144, 192)
      else if 241 \<le> b \<and> b < 244 then Some (3, b - 240, 128, 192)
      else if b = 244 then Some (3, 4, 128, 144)
      else None)"

text \<open>How many of the next \<open>n\<close> bytes continue the sequence.\<close>

fun continuation :: "nat \<Rightarrow> nat \<Rightarrow> nat \<Rightarrow> nat list \<Rightarrow> nat" where
  "continuation (Suc n) lo hi (b # bs) = (if lo \<le> b \<and> b < hi then Suc (continuation n 128 192 bs) else 0)"
| "continuation _ _ _ _ = 0"

function utf8_replace :: "nat list \<Rightarrow> pystr" where
  "utf8_replace [] = []"
| "utf8_replace (b # bs) =
     (if b < 128 then b # utf8_replace bs
      else (case utf8_lead b of
              None \<Rightarrow> 65533 # utf8_replace bs
            | Some (n, v, lo, hi) \<Rightarrow>
                (let k = continuation n lo hi bs
                 in (if k = n then fold (\<lambda>c v. v * 64 + (c - 128)) (take n bs) v else 65533)
                    # utf8_replace (drop k bs))))"
  by pat_completeness auto
termination by (relation "measure length") auto

declare utf8_replace.simps [simp del]

lemma utf8_replace_ascii: "\<forall>b \<in> set bs. b < 128 \<Longrightarrow> utf8_replace bs = bs"
  by (induction bs) (auto simp: utf8_replace.simps)

section \<open>Percent decoding\<close>

definition hex_value :: "nat \<Rightarrow> nat option" where
  "hex_value c =
     (if 48 \<le> c \<and> c < 58 then Some (c - 48)
      else if 97 \<le> c \<and> c < 103 then Some (c - 87)
      else if 65 \<le> c \<and> c < 71 then Some (c - 55)
      else None)"

fun percent_bytes :: "pystr \<Rightarrow> nat list" where
  "percent_bytes (c # a # b # s) =
     (case (hex_value a, hex_value b) of
        (Some x, Some y) \<Rightarrow>
          if c = 37 then (16 * x + y) # percent_bytes s else c # percent_bytes (a # b # s)
      | _ \<Rightarrow> c # percent_bytes (a # b # s))"
| "percent_bytes s = s"

text \<open>Runs of ASCII are decoded, other characters stay; the accumulator is the current run.\<close>

fun unquote_runs :: "pystr \<Rightarrow> pystr \<Rightarrow> pystr" where
  "unquote_runs run [] = utf8_replace (percent_bytes (rev run))"
| "unquote_runs run (c # s) =
     (if c < 128 then unquote_runs (c # run) s
      else utf8_replace (percent_bytes (rev run)) @ c # unquote_runs [] s)"

definition unquote :: "pystr \<Rightarrow> pystr" where
  "unquote s = (if 37 \<in> set s then unquote_runs [] s else s)"

definition unquote_plus :: "pystr \<Rightarrow> pystr" where
  "unquote_plus s = unquote (map (\<lambda>c. if c = 43 then 32 else c) s)"

section \<open>Query strings\<close>

text \<open>One \<open>name=value\<close> piece of a query; without \<open>=\<close> or with an empty value it is dropped.\<close>

definition query_pair :: "pystr \<Rightarrow> (pystr \<times> pystr) option" where
  "query_pair nv =
     (if 61 \<notin> set nv then None
      else (case split_first 61 nv of (n, v) \<Rightarrow>
              if v = [] then None else Some (unquote_plus n, unquote_plus v)))"

definition query_first :: "pystr \<Rightarrow> pystr \<Rightarrow> pystr \<Rightarrow> pystr" where
  "query_first query name otherwise =
     (case map_of (List.map_filter query_pair (split_on 38 query)) name of
        None \<Rightarrow> otherwise
      | Some v \<Rightarrow> v)"

section \<open>Splitting a URL\<close>

record url =
  u_scheme :: pystr
  u_netloc :: pystr
  u_path :: pystr
  u_query :: pystr

definition is_alpha :: "nat \<Rightarrow> bool" where
  "is_alpha c \<longleftrightarrow> 65 \<le> c \<and> c < 91 \<or> 97 \<le> c \<and> c < 123"

definition scheme_char :: "nat \<Rightarrow> bool" where
  "scheme_char c \<longleftrightarrow> is_alpha c \<or> 48 \<le> c \<and> c < 58 \<or> c = 43 \<or> c = 45 \<or> c = 46"

definition lower_ascii :: "pystr \<Rightarrow> pystr" where
  "lower_ascii s = map (\<lambda>c. if 65 \<le> c \<and> c < 91 then c + 32 else c) s"

definition split_scheme :: "pystr \<Rightarrow> pystr \<times> pystr" where
  "split_scheme s =
     (case split_first 58 s of (a, rest) \<Rightarrow>
        if 58 \<in> set s \<and> a \<noteq> [] \<and> is_alpha (hd a) \<and> (\<forall>c \<in> set a. scheme_char c)
        then (lower_ascii a, rest) else ([], s))"

text \<open>The schemes whose paths may carry \<open>;params\<close>; a target without a scheme is among them.\<close>

definition uses_params :: "pystr list" where
  "uses_params = map py ['''', ''ftp'', ''hdl'', ''prospero'', ''http'', ''https'', ''shttp'',
     ''rtsp'', ''rtsps'', ''rtspu'', ''sip'', ''sips'', ''mms'', ''sftp'', ''tel'']"

definition cut_params :: "pystr \<Rightarrow> pystr" where
  "cut_params p =
     (let seg = last (split_on 47 p)
      in take (length p - length seg) p @ takeWhile (\<lambda>c. c \<noteq> 59) seg)"

definition split_netloc :: "(pystr \<Rightarrow> pystr option) \<Rightarrow> pystr \<Rightarrow> (pystr \<times> pystr) res" where
  "split_netloc bracket_error s =
     (if take 2 s \<noteq> [47, 47] then Inr ([], s)
      else (let stop = (\<lambda>c. c \<noteq> 47 \<and> c \<noteq> 63 \<and> c \<noteq> 35);
                netloc = takeWhile stop (drop 2 s)
            in if (91 \<in> set netloc) \<noteq> (93 \<in> set netloc)
               then Inl (ValueError (py ''Invalid IPv6 URL''))
               else (case if 91 \<in> set netloc then bracket_error netloc else None of
                       Some m \<Rightarrow> Inl (ValueError m)
                     | None \<Rightarrow> Inr (netloc, dropWhile stop (drop 2 s)))))"

definition urlsplit :: "(pystr \<Rightarrow> pystr option) \<Rightarrow> pystr \<Rightarrow> url res" where
  "urlsplit bracket_error target =
     (let clean = filter (\<lambda>c. c \<notin> {9, 10, 13}) (dropWhile (\<lambda>c. c \<le> 32) target);
          (scheme, s) = split_scheme clean
      in rbind (split_netloc bracket_error s) (\<lambda>(netloc, rest).
           let main = takeWhile (\<lambda>c. c \<noteq> 35) rest
           in Inr \<lparr>u_scheme = scheme, u_netloc = netloc, u_path = takeWhile (\<lambda>c. c \<noteq> 63) main,
                   u_query = tl (dropWhile (\<lambda>c. c \<noteq> 63) main)\<rparr>))"

definition urlparse :: "(pystr \<Rightarrow> pystr option) \<Rightarrow> pystr \<Rightarrow> url res" where
  "urlparse bracket_error target =
     rbind (urlsplit bracket_error target) (\<lambda>u.
       Inr (u\<lparr>u_path := if u_scheme u \<in> set uses_params then cut_params (u_path u) else u_path u\<rparr>))"

section \<open>Ordinary targets\<close>

text \<open>Visible characters that no part of \<open>urlparse\<close> treats specially.\<close>

definition word_char :: "nat \<Rightarrow> bool" where
  "word_char c \<longleftrightarrow> 32 < c \<and> c \<notin> {35, 37, 38, 43, 47, 58, 59, 61, 63}"

lemma split_first_free: "c \<notin> set s \<Longrightarrow> split_first c s = (s, [])"
  by (induction s) (auto simp: split_first_def)

lemma cut_params_plain: "59 \<notin> set p \<Longrightarrow> cut_params p = p"
proof -
  assume free: "59 \<notin> set p"
  let ?ws = "split_on 47 p"
  have p: "join_with 47 ?ws = p" by (rule join_split_on)
  have seg: "\<exists>a. join_with c ws = a @ last ws" if "ws \<noteq> []" for c :: nat and ws
    using that
  proof (induction c ws rule: join_with.induct)
    case (3 c w v vs)
    then obtain a where "join_with c (v # vs) = a @ last (v # vs)" by auto
    then have "join_with c (w # v # vs) = (w @ c # a) @ last (w # v # vs)" by simp
    then show ?case by blast
  qed auto
  obtain a where a: "p = a @ last ?ws" using seg [of ?ws 47] p by auto
  moreover have "takeWhile (\<lambda>c. c \<noteq> 59) (last ?ws) = last ?ws"
    using free a by (subst takeWhile_eq_all_conv) (metis Un_iff set_append)
  ultimately show ?thesis
    by (metis append_eq_conv_conj cut_params_def diff_add_inverse2 length_append)
qed

text \<open>A target \<open>/...\<close> without a second slash, colon, semicolon or fragment is path and query.\<close>

lemma urlparse_plain:
  assumes "\<forall>c \<in> set (p @ q). 32 < c \<and> c \<notin> {35, 58, 59, 63}" "take 1 p \<noteq> [47]"
  shows "urlparse ok (47 # p @ 63 # q) = Inr \<lparr>u_scheme = [], u_netloc = [], u_path = 47 # p, u_query = q\<rparr>"
    "urlparse ok (47 # p) = Inr \<lparr>u_scheme = [], u_netloc = [], u_path = 47 # p, u_query = []\<rparr>"
proof -
  have keep: "filter (\<lambda>c. c \<notin> {9, 10, 13}) s = s" if "\<forall>c \<in> set s. 32 < c" for s :: pystr
    using that by (intro filter_True) auto
  have scheme: "split_scheme s = ([], s)" if "58 \<notin> set s" for s
    using that by (simp add: split_scheme_def split_first_free)
  have netloc: "split_netloc ok (47 # p @ r) = Inr ([], 47 # p @ r)" if "r = [] \<or> hd r = 63" for r
    using assms(2) that by (cases p; cases r) (auto simp: split_netloc_def)
  have stop: "takeWhile (\<lambda>c. c \<noteq> 35) s = s" if "35 \<notin> set s" for s :: pystr
    using that by (auto simp: takeWhile_eq_all_conv)
  have stop': "takeWhile (\<lambda>c. c \<noteq> 63) p = p" "dropWhile (\<lambda>c. c \<noteq> 63) p = []"
    "takeWhile (\<lambda>c. c \<noteq> 35) p = p" "takeWhile (\<lambda>c. c \<noteq> 35) q = q"
    using assms(1) by (auto simp: takeWhile_eq_all_conv dropWhile_eq_Nil_conv)
  have none: "tl (dropWhile (\<lambda>c. c \<noteq> 63) p) = []" using stop'(2) by (metis list.sel(2))
  have cut: "cut_params (47 # p) = 47 # p" using assms(1) by (intro cut_params_plain) auto
  have params: "[] \<in> set uses_params" by (simp add: uses_params_def py_def)
  let ?s = "47 # p @ 63 # q"
  have s: "\<forall>c \<in> set ?s. 32 < c" "58 \<notin> set ?s" "35 \<notin> set ?s" using assms(1) by auto
  show "urlparse ok ?s = Inr \<lparr>u_scheme = [], u_netloc = [], u_path = 47 # p, u_query = q\<rparr>"
    using netloc [of "63 # q"] keep [OF s(1)] scheme [OF s(2)] stop [OF s(3)] params stop' assms(1)
    by (simp add: urlparse_def urlsplit_def Let_def cut takeWhile_tail takeWhile_append dropWhile_append del: filter.simps)
  let ?t = "47 # p"
  have t: "\<forall>c \<in> set ?t. 32 < c" "58 \<notin> set ?t" "35 \<notin> set ?t" using assms(1) by auto
  show "urlparse ok ?t = Inr \<lparr>u_scheme = [], u_netloc = [], u_path = 47 # p, u_query = []\<rparr>"
    using netloc [of "[]"] keep [OF t(1)] scheme [OF t(2)] stop [OF t(3)] params stop' 
    by (simp add: urlparse_def urlsplit_def Let_def cut none del: filter.simps takeWhile_eq_all_conv)
qed

end
