(* ===== verification/Lab_Server.thy ===== *)
theory Lab_Server
  imports Guest_Snapshot Py_Url
begin

text \<open>
  The loopback bridge (\<open>tools/lab-server.py\<close>): the laboratory that owns one guest, and the
  HTTP handlers. A handler is a function of the request, of what the world answers to it (the
  file system, the guest's socket, QEMU, the JSON reader) and of the laboratory; it returns
  the answer and the laboratory. The handlers touch the laboratory only under its lock, so
  they take effect one after another.
\<close>

section \<open>Responses\<close>

datatype body = Json json | Raw "nat list"

text \<open>\<open>json.dumps(body).encode("utf-8")\<close>: the text is ASCII, so encoding it changes nothing.\<close>

definition body_bytes :: "body \<Rightarrow> nat list" where
  "body_bytes b = (case b of Json j \<Rightarrow> dumps j | Raw bs \<Rightarrow> bs)"

record reply =
  code :: nat
  reply_headers :: "(pystr \<times> pystr) list"
  payload :: "nat list"

definition response :: "nat \<Rightarrow> body \<Rightarrow> pystr \<Rightarrow> reply" where
  "response number body mime =
     \<lparr>code = number,
      reply_headers =
        [(py ''Content-Type'', mime),
         (py ''Content-Length'', str_of_nat (length (body_bytes body))),
         (py ''Cache-Control'', py ''no-store''),
         (py ''X-Content-Type-Options'', py ''nosniff''),
         (py ''Content-Security-Policy'',
          py ''default-src 'self'; style-src 'self'; img-src 'self'; script-src 'self'; frame-ancestors 'none'' @ [39])],
      payload = body_bytes body\<rparr>"

definition json_mime :: pystr where
  "json_mime = py ''application/json''"

definition error_reply :: "nat \<Rightarrow> pystr \<Rightarrow> reply" where
  "error_reply number message = response number (Json (JDict [(py ''error'', JStr message)])) json_mime"

definition okay_reply :: reply where
  "okay_reply = response 200 (Json (JDict [(py ''okay'', JBool True)])) json_mime"

text \<open>An exception no clause catches ends the request without a response.\<close>

datatype answer = Answer reply | Dropped exn

section \<open>Requests\<close>

record request =
  target :: pystr
  headers :: "(pystr \<times> pystr) list"
  content :: "nat list"

text \<open>\<open>self.headers.get(name)\<close>: the first header of that name, whatever its case.\<close>

definition header :: "request \<Rightarrow> string \<Rightarrow> pystr option" where
  "header r name =
     map_of (map (\<lambda>(k, v). (lower_ascii k, v)) (headers r)) (lower_ascii (py name))"

definition header_or :: "request \<Rightarrow> string \<Rightarrow> string \<Rightarrow> pystr" where
  "header_or r name otherwise = (case header r name of None \<Rightarrow> py otherwise | Some v \<Rightarrow> v)"

definition allowed_hosts :: "int \<Rightarrow> pystr list" where
  "allowed_hosts port = [py ''127.0.0.1:'' @ str_of_int port, py ''localhost:'' @ str_of_int port]"

definition local_request :: "int \<Rightarrow> request \<Rightarrow> bool" where
  "local_request port r \<longleftrightarrow>
     header_or r ''Host'' '''' \<in> set (allowed_hosts port) \<and>
     (case header r ''Origin'' of
        None \<Rightarrow> True
      | Some origin \<Rightarrow> origin \<in> set (map (\<lambda>name. py ''http://'' @ name) (allowed_hosts port)))"

section \<open>The laboratory\<close>

record laboratory =
  lab_guest :: "(guest \<times> host) option"
  epoch :: pystr
  guest_memory :: int

definition new_laboratory :: "int \<Rightarrow> laboratory" where
  "new_laboratory memory = \<lparr>lab_guest = None, epoch = [], guest_memory = memory\<rparr>"

text \<open>
  What the world answers to an operation on the laboratory: how QEMU reacts to being stopped,
  the random token, the new guest's boot with the guest the readers have built by its end, the
  guest's socket, and the interpreter's own texts: the JSON reader and the messages of the
  exceptions it raises itself. Of a parsed JSON value the code looks at dictionaries and strings.
\<close>

datatype parsed = Parsed_Dict "(pystr \<times> parsed) list" | Parsed_Str pystr | Parsed_Other

record lab_world =
  term_ends :: bool
  kill_ends :: bool
  new_token :: pystr
  boot_of :: boot
  guest_end :: guest
  socket :: "nat \<Rightarrow> pystr option"
  loads :: "nat list \<Rightarrow> parsed res"
  message_of :: "exn \<Rightarrow> pystr"

definition lab_close :: "lab_world \<Rightarrow> laboratory \<Rightarrow> exn option \<times> laboratory" where
  "lab_close w lab =
     (case lab_guest lab of
        None \<Rightarrow> (None, lab)
      | Some gh \<Rightarrow>
          (case close (term_ends w) (kill_ends w) gh of
             (e, gh') \<Rightarrow> (e, lab\<lparr>lab_guest := Some gh'\<rparr>)))"

text \<open>\<open>restart\<close>: \<open>self.guest\<close> is the new guest also when its start fails.\<close>

definition lab_restart :: "lab_world \<Rightarrow> laboratory \<Rightarrow> (exn option \<times> laboratory) option" where
  "lab_restart w lab =
     (case lab_close w lab of
        (Some e, lab') \<Rightarrow> Some (Some e, lab')
      | (None, lab') \<Rightarrow>
          map_option (\<lambda>(e, g, h). (e, lab'\<lparr>epoch := new_token w, lab_guest := Some (g, h)\<rparr>))
            (start (boot_of w) new_guest (guest_end w)))"

section \<open>\<open>do_GET\<close>\<close>

text \<open>
  The file system: \<open>(WEB / relative).resolve()\<close> for a relative text, \<open>WEB.resolve()\<close>, the
  test for a file, its bytes, the guessed media type, and the text of the manual.
\<close>

record get_world =
  bracket_error :: "pystr \<Rightarrow> pystr option"
  proc :: "(int \<times> bool) option"
  resolve :: "pystr \<Rightarrow> path res"
  web_root :: path
  is_file :: "path \<Rightarrow> bool"
  read_bytes :: "path \<Rightarrow> nat list res"
  guess_type :: "path \<Rightarrow> pystr option"
  manual :: "pystr res"

definition get_state :: "get_world \<Rightarrow> int \<Rightarrow> laboratory \<Rightarrow> answer \<times> laboratory" where
  "get_state w after lab =
     (case lab_guest lab of
        None \<Rightarrow> (Dropped AttributeError, lab)
      | Some (g, h) \<Rightarrow>
          (case snapshot (proc w) g of (g', state) \<Rightarrow>
             let state = dict_set (py ''events'')
                   (JList (map event_json (filter (\<lambda>e. after < int (ev_id e)) (events g')))) state;
                 state = dict_set (py ''epoch'') (JStr (epoch lab)) state;
                 state = dict_set (py ''guest_memory'') (JInt (guest_memory lab)) state
             in (Answer (response 200 (Json (JDict state)) json_mime),
                 lab\<lparr>lab_guest := Some (g', h)\<rparr>)))"

definition get_manual :: "get_world \<Rightarrow> answer" where
  "get_manual w =
     (case manual w of
        Inl (FileNotFoundError _) \<Rightarrow>
          Answer (error_reply 404
            (py ''Manual is missing from this laboratory; unpack the original package again.''))
      | Inl e \<Rightarrow> Dropped e
      | Inr page \<Rightarrow> Answer (response 200 (Json (JDict [(py ''text'', JStr page)])) json_mime))"

definition get_file :: "get_world \<Rightarrow> pystr \<Rightarrow> answer" where
  "get_file w url_path =
     (let relative = (if url_path = py ''/'' then py ''index.html'' else lstrip_if (\<lambda>c. c = 47) url_path)
      in case resolve w relative of
           Inl e \<Rightarrow> Dropped e
         | Inr path \<Rightarrow>
             if \<not> prefix (web_root w) path \<or> \<not> is_file w path
             then Answer (error_reply 404 (py ''No such laboratory page''))
             else (let mime = (case guess_type w path of None \<Rightarrow> [] | Some m \<Rightarrow> m);
                       mime = (if mime = [] then py ''application/octet-stream'' else mime);
                       mime = (if prefix (py ''text/'') mime then mime @ py ''; charset=utf-8'' else mime)
                   in case read_bytes w path of
                        Inl e \<Rightarrow> Dropped e
                      | Inr bs \<Rightarrow> Answer (response 200 (Raw bs) mime)))"

definition do_GET :: "get_world \<Rightarrow> int \<Rightarrow> request \<Rightarrow> laboratory \<Rightarrow> answer \<times> laboratory" where
  "do_GET w port r lab =
     (if \<not> local_request port r
      then (Answer (error_reply 403 (py ''Local laboratory only'')), lab)
      else (case urlparse (bracket_error w) (target r) of
              Inl e \<Rightarrow> (Dropped e, lab)
            | Inr url \<Rightarrow>
                if u_path url = py ''/api/state''
                then (case int_of_str (query_first (u_query url) (py ''after'') (py ''0'')) of
                        Inl e \<Rightarrow> (Answer (error_reply 400 (py ''Invalid event cursor'')), lab)
                      | Inr after \<Rightarrow> get_state w after lab)
                else if u_path url = py ''/api/manual'' then (get_manual w, lab)
                else (get_file w (u_path url), lab)))"

section \<open>\<open>do_POST\<close>\<close>

definition bad_char :: "nat \<Rightarrow> bool" where
  "bad_char c \<longleftrightarrow> 126 < c \<or> c < 32 \<and> c \<notin> {13, 10, 8, 9}"

definition terminal_text :: "(pystr, parsed) dict \<Rightarrow> pystr res" where
  "terminal_text body =
     (case dict_get body (py ''text'') of
        Some (Parsed_Str s) \<Rightarrow>
          if s = [] \<or> 256 < length s \<or> (\<exists>c \<in> set s. bad_char c)
          then Inl (ValueError (py ''Use at most 256 ASCII terminal characters''))
          else Inr s
      | _ \<Rightarrow> Inl (ValueError (py ''Use at most 256 ASCII terminal characters'')))"

definition post_body :: "lab_world \<Rightarrow> request \<Rightarrow> (pystr, parsed) dict res" where
  "post_body w r =
     rbind (int_of_str (header_or r ''Content-Length'' ''0'')) (\<lambda>size.
       if size < 1 \<or> 1024 < size then Inl (ValueError (py ''Request too large or empty''))
       else if hd (split_on 59 (header_or r ''Content-Type'' '''')) \<noteq> json_mime
       then Inl (ValueError (py ''Expected JSON''))
       else rbind (loads w (take (nat size) (content r))) (\<lambda>v.
         case v of
           Parsed_Dict d \<Rightarrow> Inr d
         | _ \<Rightarrow> Inl (ValueError (py ''Expected a JSON object''))))"

text \<open>
  The operation a POST names: the reply or the exception, the laboratory, and the bytes sent
  to the guest's terminal. \<open>None\<close> while the world's answers to a boot run out.
\<close>

definition done_reply :: "exn option \<Rightarrow> reply res" where
  "done_reply e = (case e of None \<Rightarrow> Inr okay_reply | Some x \<Rightarrow> Inl x)"

definition post_input :: "lab_world \<Rightarrow> (pystr, parsed) dict \<Rightarrow> laboratory \<Rightarrow> reply res \<times> nat list" where
  "post_input w body lab =
     (case terminal_text body of
        Inl e \<Rightarrow> (Inl e, [])
      | Inr s \<Rightarrow>
          (case lab_guest lab of
             None \<Rightarrow> (Inl AttributeError, [])
           | Some (g, h) \<Rightarrow> (case send (socket w) g s of (e, sent) \<Rightarrow> (done_reply e, sent))))"

definition post_operation ::
  "lab_world \<Rightarrow> pystr \<Rightarrow> (pystr, parsed) dict \<Rightarrow> laboratory \<Rightarrow>
     (reply res \<times> laboratory \<times> nat list) option" where
  "post_operation w path body lab =
     (if path = py ''/api/input''
      then (case post_input w body lab of (r, sent) \<Rightarrow> Some (r, lab, sent))
      else if path = py ''/api/restart''
      then map_option (\<lambda>(e, lab'). (done_reply e, lab', [])) (lab_restart w lab)
      else if path = py ''/api/stop''
      then (case lab_close w lab of (e, lab') \<Rightarrow> Some (done_reply e, lab', []))
      else Some (Inr (error_reply 404 (py ''Unknown operation'')), lab, []))"

text \<open>\<open>str(exc)\<close>: the message written by the source, or the interpreter's.\<close>

definition error_text :: "lab_world \<Rightarrow> exn \<Rightarrow> pystr" where
  "error_text w e =
     (case e of
        ValueError m \<Rightarrow> m | RuntimeError m \<Rightarrow> m | TimeoutError m \<Rightarrow> m
      | _ \<Rightarrow> message_of w e)"

definition error_answer :: "lab_world \<Rightarrow> exn \<Rightarrow> answer" where
  "error_answer w e =
     (if is_value_error e \<or> e = TypeError then Answer (error_reply 400 (error_text w e))
      else if is_os_error e \<or> is_runtime_error e then Answer (error_reply 503 (error_text w e))
      else Dropped e)"

definition finish :: "lab_world \<Rightarrow> reply res \<Rightarrow> answer" where
  "finish w r = (case r of Inl e \<Rightarrow> error_answer w e | Inr rep \<Rightarrow> Answer rep)"

definition do_POST ::
  "lab_world \<Rightarrow> int \<Rightarrow> request \<Rightarrow> laboratory \<Rightarrow> (answer \<times> laboratory \<times> nat list) option" where
  "do_POST w port r lab =
     (if \<not> local_request port r
      then Some (Answer (error_reply 403 (py ''Local laboratory only'')), lab, [])
      else (case post_body w r of
              Inl e \<Rightarrow> Some (error_answer w e, lab, [])
            | Inr body \<Rightarrow>
                map_option (\<lambda>(res, lab', sent). (finish w res, lab', sent))
                  (post_operation w (target r) body lab)))"

section \<open>The server's life\<close>

text \<open>A server that is bound has the port it was bound to; for port 0 the system chooses one.\<close>

datatype bind_outcome = Bound int | Address_In_Use | Bind_Error pystr

definition create_server :: "int \<Rightarrow> bind_outcome \<Rightarrow> int res" where
  "create_server port b =
     (if \<not> (0 \<le> port \<and> port \<le> 65535)
      then Inl (ValueError (py ''--port must be between 0 and 65535''))
      else (case b of
              Bound server_port \<Rightarrow> Inr server_port
            | Address_In_Use \<Rightarrow>
                Inl (SystemExit (py ''Port '' @ str_of_int port @
                  py '' is already in use; no guest started. Retry with --port 0 to choose a free loopback port.''))
            | Bind_Error m \<Rightarrow> Inl (OSError m)))"

text \<open>
  What can happen while the server serves: a request, or the guest's readers taking in
  console text or trace lines (a closed guest's readers have ended).
\<close>

datatype happening =
    Get get_world request
  | Post lab_world request
  | Console_Text pystr
  | Trace_Lines "pystr list"

definition observe :: "(guest \<Rightarrow> guest) \<Rightarrow> laboratory \<Rightarrow> laboratory" where
  "observe f lab =
     (case lab_guest lab of
        Some (g, h) \<Rightarrow> if closed g then lab else lab\<lparr>lab_guest := Some (f g, h)\<rparr>
      | None \<Rightarrow> lab)"

fun happen :: "int \<Rightarrow> happening \<Rightarrow> laboratory \<Rightarrow> laboratory option" where
  "happen port (Get w r) lab = Some (snd (do_GET w port r lab))"
| "happen port (Post w r) lab = map_option (\<lambda>(a, lab', sent). lab') (do_POST w port r lab)"
| "happen port (Console_Text s) lab = Some (observe (console_chunk s) lab)"
| "happen port (Trace_Lines ls) lab = Some (observe (\<lambda>g. snd (guest_events g ls)) lab)"

fun serve :: "int \<Rightarrow> happening list \<Rightarrow> laboratory \<Rightarrow> laboratory option" where
  "serve port [] lab = Some lab"
| "serve port (x # xs) lab =
     (case happen port x lab of None \<Rightarrow> None | Some lab' \<Rightarrow> serve port xs lab')"

text \<open>
  \<open>main\<close> after the arguments are parsed: the result is the exception it ends with, if any, and
  the laboratory, if one was made. \<open>ending\<close> is what ends \<open>serve_forever\<close>.
\<close>

definition close_down :: "lab_world \<Rightarrow> exn option \<Rightarrow> laboratory \<Rightarrow> exn option \<times> laboratory option" where
  "close_down w e lab =
     (case lab_close w lab of
        (Some e', lab') \<Rightarrow> (Some e', Some lab')
      | (None, lab') \<Rightarrow> (if e = Some KeyboardInterrupt then None else e, Some lab'))"

definition serve_main ::
  "int \<Rightarrow> int \<Rightarrow> bind_outcome \<Rightarrow> lab_world \<Rightarrow> happening list \<Rightarrow> exn option \<Rightarrow> lab_world \<Rightarrow>
     (exn option \<times> laboratory option) option" where
  "serve_main port memory b w0 hs ending w_end =
     (if \<not> (0 \<le> port \<and> port \<le> 65535)
      then Some (Some (SystemExit (py ''--port must be between 0 and 65535'')), None)
      else (case create_server port b of
              Inl e \<Rightarrow> Some (Some e, None)
            | Inr server_port \<Rightarrow>
                (case lab_restart w0 (new_laboratory memory) of
                   None \<Rightarrow> None
                 | Some (Some e, lab) \<Rightarrow> Some (close_down w_end (Some e) lab)
                 | Some (None, lab) \<Rightarrow>
                     map_option (close_down w_end ending) (serve server_port hs lab))))"

end
