(* ===== verification/Event_Feed.thy ===== *)
theory Event_Feed
  imports Guest_Tables
begin

text \<open>
  Clients read the event log with a cursor: the bridge's \<open>/api/state?after=\<close> and the demo
  recorder ask for the events with an id above the last one they know. The locale states what
  they rely on: new events have fresh, larger ids and the log keeps at least the last \<open>cap\<close> of
  them. It proves that polling in time neither loses nor repeats an event.
\<close>

section \<open>Polling with a cursor\<close>

definition newer :: "('e \<Rightarrow> nat) \<Rightarrow> int \<Rightarrow> 'e list \<Rightarrow> 'e list" where
  "newer key cursor es = filter (\<lambda>e. cursor < int (key e)) es"

text \<open>
  A run of growth steps, each with its new events, and the answers to one poll after each,
  where every poll's cursor is the counter seen by the poll before.
\<close>

fun in_time :: "('s \<Rightarrow> 'e list \<Rightarrow> 's \<Rightarrow> bool) \<Rightarrow> nat \<Rightarrow> 's \<Rightarrow> ('e list \<times> 's) list \<Rightarrow> bool" where
  "in_time grows cap s [] \<longleftrightarrow> True"
| "in_time grows cap s ((es, s') # run) \<longleftrightarrow>
     grows s es s' \<and> length es \<le> cap \<and> in_time grows cap s' run"

fun answers :: "('s \<Rightarrow> 'e list) \<Rightarrow> ('e \<Rightarrow> nat) \<Rightarrow> ('s \<Rightarrow> nat) \<Rightarrow> 's \<Rightarrow> ('e list \<times> 's) list \<Rightarrow> 'e list list" where
  "answers items key latest s [] = []"
| "answers items key latest s ((es, s') # run) =
     newer key (int (latest s)) (items s') # answers items key latest s' run"

locale event_feed =
  fixes items :: "'s \<Rightarrow> 'e list"
    and key :: "'e \<Rightarrow> nat"
    and latest :: "'s \<Rightarrow> nat"
    and ok :: "'s \<Rightarrow> bool"
    and grows :: "'s \<Rightarrow> 'e list \<Rightarrow> 's \<Rightarrow> bool"
    and cap :: nat
  assumes known_below: "ok s \<Longrightarrow> e \<in> set (items s) \<Longrightarrow> key e \<le> latest s"
    and fresh: "ok s \<Longrightarrow> grows s es s' \<Longrightarrow> e \<in> set es \<Longrightarrow> latest s < key e"
    and grown: "ok s \<Longrightarrow> grows s es s' \<Longrightarrow> items s' = last_n cap (items s @ es)"
    and ok_grows: "ok s \<Longrightarrow> grows s es s' \<Longrightarrow> ok s'"
begin

lemma poll_new:
  assumes "ok s" "grows s es s'" "length es \<le> cap"
    "\<forall>e \<in> set (items s). int (key e) \<le> cursor" "cursor \<le> int (latest s)"
  shows "newer key cursor (items s') = es"
proof -
  let ?p = "\<lambda>e. cursor < int (key e)"
  have old: "filter ?p ys = []" if "set ys \<subseteq> set (items s)" for ys
    using assms(4) that by (force simp: filter_empty_conv)
  have new: "filter ?p es = es"
    using fresh [OF assms(1,2)] assms(5) by (intro filter_True) force
  have "last_n cap (items s @ es) = drop (length (items s) + length es - cap) (items s) @ es"
    using assms(3) by (simp add: last_n_def)
  then show ?thesis
    using grown [OF assms(1,2)] old [OF set_drop_subset] new by (simp add: newer_def)
qed

lemma poll_top:
  assumes "ok s" "grows s es s'" "length es \<le> cap"
  shows "newer key (int (latest s)) (items s') = es"
  using assms known_below by (intro poll_new) auto

lemma polls_exact:
  "ok s \<Longrightarrow> in_time grows cap s run \<Longrightarrow> answers items key latest s run = map fst run"
proof (induction run arbitrary: s)
  case (Cons x run)
  obtain es s' where x: "x = (es, s')" by (cases x)
  with Cons.prems have "ok s'" by (auto intro: ok_grows)
  with Cons x show ?case by (simp add: poll_top)
qed simp

end

section \<open>The guest's log\<close>

lemma kept_event_id:
  assumes "kept_event g line = Some e" "guest_event g line = (x, g')"
  shows "ev_id e = Suc (sequence g)" "sequence g' = Suc (sequence g)"
proof -
  from assms(1) show "ev_id e = Suc (sequence g)"
    by (auto simp: kept_event_def split: sum.splits option.splits prod.splits bool.splits)
  from assms(2) show "sequence g' = Suc (sequence g)"
  proof (cases rule: guest_event_cases)
    case skipped
    with assms(1) show ?thesis by (auto simp: kept_event_def split: sum.splits option.splits)
  qed (simp_all add: apply_record_frame)
qed

lemma kept_events_ids: "e \<in> set (kept_events g ls) \<Longrightarrow> sequence g < ev_id e"
proof (induction ls arbitrary: g)
  case (Cons l ls)
  obtain x g' where ev: "guest_event g l = (x, g')" by fastforce
  have le: "sequence g \<le> sequence g'" using guest_event_counters [OF ev] by simp
  from Cons.prems ev consider "kept_event g l = Some e" | "x = None" "e \<in> set (kept_events g' ls)"
    by (auto split: option.splits)
  then show ?case
  proof cases
    case 1
    from kept_event_id(1) [OF this ev] show ?thesis by simp
  next
    case 2
    from Cons.IH [OF this(2)] le show ?thesis by simp
  qed
qed simp

text \<open>The readers process trace lines; everything but the log and its counter may change freely.\<close>

definition guest_grows :: "guest \<Rightarrow> event list \<Rightarrow> guest \<Rightarrow> bool" where
  "guest_grows g es g' \<longleftrightarrow> guest_wf g' \<and>
     (\<exists>ls. es = kept_events g ls \<and> events g' = events (snd (guest_events g ls)) \<and>
           sequence g' = sequence (snd (guest_events g ls)))"

interpretation feed: event_feed events ev_id sequence guest_wf guest_grows 2000
proof
  fix g e assume "guest_wf g" "e \<in> set (events g)"
  then show "ev_id e \<le> sequence g" by (simp add: guest_wf_def log_ok_def)
next
  fix g es g' e assume "guest_grows g es g'" "e \<in> set es"
  then show "sequence g < ev_id e" by (auto simp: guest_grows_def intro: kept_events_ids)
next
  fix g es g' assume "guest_wf g" "guest_grows g es g'"
  moreover from this have "events g = last_n 2000 (events g)"
    by (simp add: guest_wf_def log_ok_def last_n_id)
  ultimately show "events g' = last_n 2000 (events g @ es)"
    using guest_events_log by (auto simp: guest_grows_def)
next
  fix g es g' assume "guest_grows g es g'"
  then show "guest_wf g'" by (simp add: guest_grows_def)
qed

lemma guest_grows_lines: "guest_wf g \<Longrightarrow> guest_grows g (kept_events g ls) (snd (guest_events g ls))"
  by (auto simp: guest_grows_def intro: guest_events_wf)

end
