(* ===== verification/Lab_Facts.thy ===== *)
theory Lab_Facts
  imports Lab_Server Event_Feed
begin

text \<open>
  Facts about the bridge that its properties share: what a request can change, where a
  response comes from, how the state endpoint reads its cursor, and how the laboratory's
  operations treat the guest they own.
\<close>

section \<open>Responses\<close>

lemma response_fields [simp]:
  "code (response n b m) = n" "payload (response n b m) = body_bytes b"
  "code (error_reply n t) = n" "code okay_reply = 200"
  by (simp_all add: response_def error_reply_def okay_reply_def)

lemma body_bytes_simps [simp]: "body_bytes (Json j) = dumps j" "body_bytes (Raw bs) = bs"
  by (simp_all add: body_bytes_def)

lemma error_answer_code: "error_answer w e = Answer rep \<Longrightarrow> code rep \<in> {400, 503}"
  by (auto simp: error_answer_def split: if_splits)

text \<open>Every reply is made by \<open>response\<close>.\<close>

definition from_response :: "reply \<Rightarrow> bool" where
  "from_response rep \<longleftrightarrow> (\<exists>n b m. rep = response n b m)"

lemma from_response_simps [simp, intro]:
  "from_response (response n b m)" "from_response (error_reply n t)" "from_response okay_reply"
  unfolding from_response_def error_reply_def okay_reply_def by blast+

lemma get_from_response: "do_GET w port r lab = (Answer rep, lab') \<Longrightarrow> from_response rep"
  by (auto simp: do_GET_def get_state_def get_manual_def get_file_def Let_def
      split: if_splits sum.splits option.splits prod.splits exn.splits)

lemma done_reply_ok: "done_reply e = Inr rep \<Longrightarrow> rep = okay_reply"
  by (auto simp: done_reply_def split: option.splits)

lemma operation_reply:
  "post_operation w p body lab = Some (Inr rep, lab', sent) \<Longrightarrow>
     rep = okay_reply \<or> rep = error_reply 404 (py ''Unknown operation'')"
  by (auto simp: post_operation_def post_input_def dest!: done_reply_ok
      split: if_splits sum.splits option.splits prod.splits)

lemma error_answer_from: "error_answer w e = Answer rep \<Longrightarrow> from_response rep"
  by (auto simp: error_answer_def split: if_splits)

text \<open>The three ways a POST is answered.\<close>

lemma post_cases:
  assumes "do_POST w port r lab = Some (a, lab', sent)"
  obtains (foreign) "\<not> local_request port r" "a = Answer (error_reply 403 (py ''Local laboratory only''))"
      "lab' = lab" "sent = []"
    | (malformed) e where "local_request port r" "post_body w r = Inl e" "a = error_answer w e"
      "lab' = lab" "sent = []"
    | (operation) body res where "local_request port r" "post_body w r = Inr body"
      "post_operation w (target r) body lab = Some (res, lab', sent)" "a = finish w res"
  using assms by (auto simp: do_POST_def split: if_splits sum.splits)

lemma post_from_response:
  assumes "do_POST w port r lab = Some (Answer rep, lab', sent)"
  shows "from_response rep"
  using assms
proof (cases rule: post_cases)
  case (operation body res)
  then show ?thesis
    by (cases res) (auto simp: finish_def dest: error_answer_from [OF sym] dest!: operation_reply)
qed (auto dest: error_answer_from sym)

section \<open>Terminal text\<close>

lemma terminal_text_ok:
  assumes "terminal_text body = Inr s"
  shows "0 < length s" "length s \<le> 256" "\<forall>c \<in> set s. \<not> bad_char c" "\<forall>c \<in> set s. c < 128"
proof -
  from assms show ok: "0 < length s" "length s \<le> 256" "\<forall>c \<in> set s. \<not> bad_char c"
    by (auto simp: terminal_text_def split: option.splits parsed.splits if_splits)
  from ok(3) show "\<forall>c \<in> set s. c < 128" by (force simp: bad_char_def)
qed

lemma post_sends:
  assumes "do_POST w port r lab = Some (a, lab', sent)" "sent \<noteq> []"
  obtains body s g h where "local_request port r" "target r = py ''/api/input''"
    "post_body w r = Inr body" "terminal_text body = Inr s" "lab_guest lab = Some (g, h)" "prefix sent s"
    "\<not> closed g" "status g = Running" "lab' = lab"
proof -
  have ascii: "encode_ascii s = Inr s" if "terminal_text body = Inr s" for body s
    using terminal_text_ok(4) [OF that] by (simp add: encode_ascii_def)
  from assms(1) obtain body s g h e where
    "local_request port r" "target r = py ''/api/input''" "post_body w r = Inr body"
    "terminal_text body = Inr s" "lab_guest lab = Some (g, h)" "send (socket w) g s = (e, sent)" "lab' = lab"
  proof (cases rule: post_cases)
    case (operation body res)
    with assms(2) show ?thesis
      by (auto simp: post_operation_def post_input_def intro!: that
          split: if_splits sum.splits option.splits prod.splits)
  qed (use assms(2) in auto)
  moreover from this assms(2) have "\<not> closed g \<and> status g = Running \<and> prefix sent s"
    using ascii [of body s] send_bytes_prefix [of "socket w" 0 s e sent]
    by (auto simp: send_def split: if_splits)
  ultimately show ?thesis using that by blast
qed

section \<open>The laboratory's operations\<close>

lemma lab_close_ok:
  assumes "lab_close w lab = (None, lab')" "lab_guest lab' = Some (g, h)"
  shows "closed g" "status g = Stopped" "h = new_host"
  using assms close_ok by (auto simp: lab_close_def split: option.splits prod.splits)

lemma close_when_kill_works_result: "close te ke gh = (e, gh') \<Longrightarrow> te \<or> ke \<Longrightarrow> e = None"
  using close_when_kill_works [of te ke "fst gh" "snd gh"] by auto

lemma lab_close_when_kill_works: "term_ends w \<or> kill_ends w \<Longrightarrow> fst (lab_close w lab) = None"
  by (auto simp: lab_close_def split: option.splits prod.splits dest!: close_when_kill_works_result)

lemma close_down_clean:
  assumes "close_down w e0 l0 = (e, lab)" "term_ends w \<or> kill_ends w" "lab = Some l" "lab_guest l = Some (g, h)"
  shows "closed g \<and> status g = Stopped \<and> h = new_host"
proof -
  have "fst (lab_close w l0) = None" using assms(2) by (rule lab_close_when_kill_works)
  then have "lab_close w l0 = (None, l)"
    using assms(1,3) by (cases "lab_close w l0") (auto simp: close_down_def)
  with lab_close_ok assms(4) show ?thesis by blast
qed

lemma lab_restart_ok:
  assumes "lab_restart w lab = Some (None, lab')"
  shows "\<exists>g h. lab_guest lab' = Some (g, h) \<and> status g = Running \<and> alive h \<and>
    sockets h = 2 \<and> readers h = 2 \<and> epoch lab' = new_token w"
proof -
  obtain g h lab1 where "start (boot_of w) new_guest (guest_end w) = Some (None, g, h)"
    "lab' = lab1\<lparr>epoch := new_token w, lab_guest := Some (g, h)\<rparr>"
    using assms by (auto simp: lab_restart_def split: prod.splits option.splits)
  with start_succeeds [OF this(1)] show ?thesis by simp
qed

lemma lab_restart_failed:
  assumes "lab_restart w lab = Some (Some e, lab')" "term_ends w \<or> kill_ends w"
    "b_term_ends (boot_of w) \<or> b_kill_ends (boot_of w)"
    "\<forall>e. b_popen (boot_of w) = Some e \<longrightarrow> is_exception e"
  shows "\<exists>g. lab_guest lab' = Some (g, new_host)"
proof -
  obtain g h lab1 where "start (boot_of w) new_guest (guest_end w) = Some (Some e, g, h)"
    "lab' = lab1\<lparr>epoch := new_token w, lab_guest := Some (g, h)\<rparr>"
    using assms(1) lab_close_when_kill_works [OF assms(2), of lab]
    by (auto simp: lab_restart_def split: prod.splits option.splits)
  with start_fails_clean [OF this(1) assms(3,4)] show ?thesis by simp
qed

section \<open>Which exceptions a POST can meet\<close>

lemma start_errors:
  assumes "start b g g_end = Some (Some e, x)" "b_term_ends b \<or> b_kill_ends b"
    "\<And>e. b_popen b = Some e \<Longrightarrow> is_os_error e" "\<And>e. b_qemu b = Inl e \<Longrightarrow> is_runtime_error e"
  shows "is_os_error e \<or> is_runtime_error e"
proof -
  let ?ok = "\<lambda>e. is_os_error e \<or> is_runtime_error e"
  have connect: "poll (connect_decide d) as = Some (Inl e) \<Longrightarrow> ?ok e" for d as e
    by (drule poll_mem) (auto simp: connect_decide_def split: if_splits)
  have wait: "wait_for p d obs = Some (Inl e) \<Longrightarrow> ?ok e" for p d obs e
    unfolding wait_for_def by (drule poll_mem) (auto simp: wait_decide_def split: if_splits)
  have body: "boot_body b g = Some (Some e, h) \<Longrightarrow> ?ok e" for e h
    using assms(3) by (auto simp: boot_body_def Let_def dest: connect wait
        split: option.splits prod.splits sum.splits)
  have close: "close_and_raise b e gh = (Some e', y) \<Longrightarrow> e' = e" for e gh e' y
  proof -
    assume raised: "close_and_raise b e gh = (Some e', y)"
    have "fst (close (b_term_ends b) (b_kill_ends b) gh) = None"
      using close_when_kill_works [OF assms(2)] by (cases gh) simp
    with raised show "e' = e"
      by (cases "close (b_term_ends b) (b_kill_ends b) gh") (auto simp: close_and_raise_def)
  qed
  from assms(1) show ?thesis
    by (auto simp: start_def split: option.splits sum.splits prod.splits if_splits
        dest: assms(4) body dest!: close)
qed

lemma lab_restart_errors:
  assumes "lab_restart w lab = Some (Some e, lab')" "term_ends w \<or> kill_ends w"
    "b_term_ends (boot_of w) \<or> b_kill_ends (boot_of w)"
    "\<And>e. b_popen (boot_of w) = Some e \<Longrightarrow> is_os_error e"
    "\<And>e. b_qemu (boot_of w) = Inl e \<Longrightarrow> is_runtime_error e"
  shows "is_os_error e \<or> is_runtime_error e"
proof -
  obtain g h where "start (boot_of w) new_guest (guest_end w) = Some (Some e, g, h)"
    using assms(1) lab_close_when_kill_works [OF assms(2), of lab]
    by (auto simp: lab_restart_def split: prod.splits option.splits)
  from start_errors [OF this assms(3-5)] show ?thesis by blast
qed

lemma post_body_errors:
  assumes "post_body w r = Inl e" "\<And>bs e. loads w bs = Inl e \<Longrightarrow> is_value_error e \<or> is_runtime_error e"
  shows "is_value_error e \<or> is_runtime_error e"
  using assms(1)
  by (auto simp: post_body_def rbind_def dest: assms(2) int_of_str_error
      split: sum.splits if_splits parsed.splits)

lemma send_errors: "send sock g s = (Some e, sent) \<Longrightarrow> is_value_error e \<or> is_os_error e \<or> is_runtime_error e"
  by (auto simp: send_def encode_ascii_def dest: send_bytes_error split: if_splits)

lemma operation_errors:
  assumes "post_operation w p body lab = Some (Inl e, lab', sent)" "lab_guest lab \<noteq> None"
    "term_ends w \<or> kill_ends w" "b_term_ends (boot_of w) \<or> b_kill_ends (boot_of w)"
    "\<And>e. b_popen (boot_of w) = Some e \<Longrightarrow> is_os_error e"
    "\<And>e. b_qemu (boot_of w) = Inl e \<Longrightarrow> is_runtime_error e"
  shows "is_value_error e \<or> is_os_error e \<or> is_runtime_error e"
proof -
  have terminal: "terminal_text body = Inl e \<Longrightarrow> is_value_error e"
    by (auto simp: terminal_text_def split: option.splits parsed.splits if_splits)
  have raised: "done_reply x = Inl e \<Longrightarrow> x = Some e" for x
    by (auto simp: done_reply_def split: option.splits)
  have input: "post_input w body lab = (Inl e, sent) \<Longrightarrow> ?thesis"
    using assms(2) by (auto simp: post_input_def dest: terminal dest!: raised send_errors
        split: sum.splits option.splits prod.splits)
  have restart: "lab_restart w lab = Some (Some e, lab') \<Longrightarrow> ?thesis"
    using lab_restart_errors [OF _ assms(3-6)] by blast
  have "fst (lab_close w lab) = None" using assms(3) by (rule lab_close_when_kill_works)
  with assms(1) input restart show ?thesis
    by (auto simp: post_operation_def dest!: raised split: if_splits prod.splits)
qed

lemma error_answered:
  "is_value_error e \<or> is_os_error e \<or> is_runtime_error e \<Longrightarrow>
     \<exists>rep. error_answer w e = Answer rep \<and> code rep \<in> {400, 503}"
  by (auto simp: error_answer_def)

section \<open>The state endpoint\<close>

lemma str_of_int_chars: "c \<in> set (str_of_int i) \<Longrightarrow> c = 45 \<or> 48 \<le> c \<and> c < 58"
  using str_of_nat_digits by (auto simp: str_of_int_def split: if_splits)

lemma str_of_int_free [simp]: "x < 45 \<or> 45 < x \<and> x < 48 \<or> 58 \<le> x \<Longrightarrow> x \<notin> set (str_of_int i)"
  using str_of_int_chars [of x i] by auto

lemma str_of_int_visible: "c \<in> set (str_of_int i) \<Longrightarrow> 32 < c"
  using str_of_int_chars [of c i] by auto

lemma str_of_int_not_Nil: "str_of_int i \<noteq> []"
  by (simp add: str_of_int_def)

definition state_target :: "int \<Rightarrow> pystr" where
  "state_target cursor = py ''/api/state?after='' @ str_of_int cursor"

lemma state_target_parsed:
  "urlparse be (state_target c) =
     Inr \<lparr>u_scheme = [], u_netloc = [], u_path = py ''/api/state'', u_query = py ''after='' @ str_of_int c\<rparr>"
proof -
  have split: "state_target c = 47 # py ''api/state'' @ 63 # (py ''after='' @ str_of_int c)"
    "py ''/api/state'' = 47 # py ''api/state''"
    by (simp_all add: state_target_def py_def)
  have "\<forall>x \<in> set (py ''api/state'' @ (py ''after='' @ str_of_int c)). 32 < x \<and> x \<notin> {35, 58, 59, 63}"
    by (auto simp: py_def intro: str_of_int_visible)
  moreover have "take 1 (py ''api/state'') \<noteq> [47]" by (simp add: py_def)
  ultimately show ?thesis unfolding split by (rule urlparse_plain(1))
qed

lemma unquote_plus_plain: "37 \<notin> set s \<Longrightarrow> 43 \<notin> set s \<Longrightarrow> unquote_plus s = s"
proof -
  assume a: "37 \<notin> set s" "43 \<notin> set s"
  then have "map (\<lambda>c. if c = 43 then 32 else c) s = s" by (intro map_idI) auto
  with a show ?thesis by (simp add: unquote_plus_def unquote_def)
qed

lemma cursor_read: "query_first (py ''after='' @ str_of_int c) (py ''after'') (py ''0'') = str_of_int c"
proof -
  let ?q = "py ''after='' @ str_of_int c"
  have q: "?q = py ''after'' @ 61 # str_of_int c" by (simp add: py_def)
  have free: "38 \<notin> set ?q" "61 \<notin> set (py ''after'')"
    by (auto simp: py_def)
  have plain: "unquote_plus (py ''after'') = py ''after''" "unquote_plus (str_of_int c) = str_of_int c"
    by (intro unquote_plus_plain; simp add: py_def)+
  have "query_pair ?q = Some (py ''after'', str_of_int c)"
    unfolding q query_pair_def using free(2) str_of_int_not_Nil by (simp add: split_first_append plain)
  then show ?thesis
    using free(1) by (simp add: query_first_def split_on_free List.map_filter_simps)
qed

lemma state_request:
  assumes "local_request port r" "target r = state_target c"
  shows "do_GET w port r lab = get_state w c lab"
  by (simp add: do_GET_def assms state_target_parsed cursor_read int_of_str_str_of_int)

text \<open>The events in the answer are those of the log behind the cursor.\<close>

definition answered_events :: "answer \<Rightarrow> json option \<Rightarrow> bool" where
  "answered_events a es \<longleftrightarrow> (\<exists>state. a = Answer (response 200 (Json (JDict state)) json_mime) \<and>
     dict_get state (py ''events'') = es)"

lemma state_answer:
  assumes "local_request port r" "target r = state_target c" "lab_guest lab = Some (g, h)"
    "do_GET w port r lab = (a, lab')"
  shows "answered_events a (Some (JList (map event_json (newer ev_id c (events g)))))"
proof -
  obtain g' state where snap: "snapshot (proc w) g = (g', state)" by fastforce
  then have "events g' = events g" by (simp add: snapshot_frame)
  with assms(4) snap show ?thesis
    by (auto simp: state_request [OF assms(1,2)] get_state_def assms(3) answered_events_def
        newer_def Let_def dict_get_set)
qed

section \<open>A world in which a guest boots\<close>

definition calm_world :: lab_world where
  "calm_world = \<lparr>term_ends = True, kill_ends = True, new_token = py ''a1'',
     boot_of = \<lparr>b_ports = [5000, 5001], b_qemu = Inr [py ''qemu''], b_popen = None,
       b_tty = [\<lparr>exited = False, connected = True, at = 1\<rparr>],
       b_trace = [\<lparr>exited = False, connected = True, at = 2\<rparr>], b_deadlines = (10, 10, 20),
       b_obs = [(5, new_guest\<lparr>console := prompt\<rparr>)], b_term_ends = True, b_kill_ends = True\<rparr>,
     guest_end = new_guest\<lparr>console := prompt\<rparr>, socket = (\<lambda>_. None),
     loads = (\<lambda>_. Inr (Parsed_Dict [(py ''text'', Parsed_Str (py ''help''))])), message_of = (\<lambda>_. [])\<rparr>"

end
