(* ===== verification/Server_Claims.thy ===== *)
theory Server_Claims
  imports Lab_Facts
begin

text \<open>
  The properties of the loopback bridge (\<open>tools/lab-server.py\<close>): who may use it, what it
  serves, what it sends to the guest's terminal, that every request is answered, and what
  becomes of the guest it owns.
\<close>

section \<open>Worlds and requests for the instances\<close>

definition file_world :: get_world where
  "file_world = \<lparr>bracket_error = (\<lambda>_. None), proc = Some (7, False),
     resolve = (\<lambda>s. Inr [py ''web'', s]), web_root = [py ''web''], is_file = (\<lambda>_. True),
     read_bytes = (\<lambda>_. Inr [104, 105]), guess_type = (\<lambda>_. None), manual = Inr []\<rparr>"

definition local_headers :: "(pystr \<times> pystr) list" where
  "local_headers = [(py ''Host'', py ''127.0.0.1:8080''), (py ''Content-Length'', py ''15''),
     (py ''Content-Type'', py ''application/json'')]"

definition running_lab :: laboratory where
  "running_lab = \<lparr>lab_guest = Some (new_guest\<lparr>status := Running\<rparr>, new_host\<lparr>alive := True\<rparr>),
     epoch = py ''e0'', guest_memory = 64\<rparr>"

lemma local_headers_values:
  "header \<lparr>target = t, headers = local_headers, content = c\<rparr> ''Host'' = Some (py ''127.0.0.1:8080'')"
  "header \<lparr>target = t, headers = local_headers, content = c\<rparr> ''Origin'' = None"
  "header \<lparr>target = t, headers = local_headers, content = c\<rparr> ''Content-Length'' = Some (py ''15'')"
  "header \<lparr>target = t, headers = local_headers, content = c\<rparr> ''Content-Type'' = Some (py ''application/json'')"
  by (simp_all add: header_def local_headers_def lower_ascii_def py_def)

lemma local_headers_local: "local_request 8080 \<lparr>target = t, headers = local_headers, content = c\<rparr>"
proof -
  have "py ''127.0.0.1:'' @ str_of_int 8080 = py ''127.0.0.1:8080''"
    by (simp add: str_of_int_def str_of_nat.simps py_def)
  then show ?thesis
    by (simp add: local_request_def local_headers_values header_or_def allowed_hosts_def)
qed

lemma local_headers_body:
  "post_body calm_world \<lparr>target = t, headers = local_headers, content = c\<rparr> =
     Inr [(py ''text'', Parsed_Str (py ''help''))]"
proof -
  have "int_of_str (py ''15'') = Inr 15" using int_of_str_str_of_int [of 15]
    by (simp add: str_of_int_def str_of_nat.simps py_def)
  moreover have "hd (split_on 59 (py ''application/json'')) = json_mime"
    by (simp add: split_on_free py_def json_mime_def)
  ultimately show ?thesis
    by (simp add: post_body_def header_or_def local_headers_values calm_world_def)
qed

lemma help_text: "terminal_text [(py ''text'', Parsed_Str (py ''help''))] = Inr (py ''help'')"
  by (simp add: terminal_text_def dict_get_def bad_char_def py_def)

section \<open>Who may use the bridge\<close>

text \<open>
  C10. A request whose \<open>Host\<close> is not a loopback name with the server's own port, or whose
  \<open>Origin\<close> is any other site, is answered 403: nothing of the laboratory is read or changed and
  nothing is sent to the guest, whatever the method, the path and the body.
\<close>

theorem foreign_request_does_nothing:
  assumes "header_or r ''Host'' '''' \<notin> {py ''127.0.0.1:'' @ str_of_int port, py ''localhost:'' @ str_of_int port} \<or>
    (\<exists>origin. header r ''Origin'' = Some origin \<and>
       origin \<notin> {py ''http://127.0.0.1:'' @ str_of_int port, py ''http://localhost:'' @ str_of_int port})"
  shows "do_GET v port r lab = (Answer (error_reply 403 (py ''Local laboratory only'')), lab) \<and>
    do_POST w port r lab = Some (Answer (error_reply 403 (py ''Local laboratory only'')), lab, [])"
proof -
  have http: "py ''http://'' @ py a @ s = py (''http://'' @ a) @ s" for a s by (simp add: py_def)
  have "\<not> local_request port r"
    using assms by (auto simp: local_request_def allowed_hosts_def http)
  then show ?thesis by (simp add: do_GET_def do_POST_def)
qed

theorem foreign_request_does_nothing_witness:
  "do_POST calm_world 8080 \<lparr>target = py ''/api/stop'', headers = [(py ''host'', py ''outside.example'')], content = []\<rparr>
     running_lab = Some (Answer (error_reply 403 (py ''Local laboratory only'')), running_lab, [])"
proof -
  let ?r = "\<lparr>target = py ''/api/stop'', headers = [(py ''host'', py ''outside.example'')], content = []\<rparr>"
  have "header_or ?r ''Host'' '''' \<notin> {py ''127.0.0.1:'' @ str_of_int 8080, py ''localhost:'' @ str_of_int 8080}"
    by (simp add: header_or_def header_def lower_ascii_def py_def)
  then show ?thesis using foreign_request_does_nothing [of ?r 8080] by blast
qed

section \<open>What it serves\<close>

text \<open>
  C11. Only files under the web directory are served: whatever the path and however the file
  system resolves it (links, \<open>..\<close>), a successful page is the content of a regular file whose
  resolved path begins with the resolved web directory, and serving it changes nothing.
\<close>

theorem served_files_inside_web:
  assumes "do_GET w port r lab = (Answer rep, lab')" "code rep = 200"
    "urlparse (bracket_error w) (target r) = Inr url" "u_path url \<noteq> py ''/api/state''" "u_path url \<noteq> py ''/api/manual''"
  shows "lab' = lab \<and>
    (\<exists>p. prefix (web_root w) p \<and> is_file w p \<and> read_bytes w p = Inr (payload rep))"
  using assms
  by (auto simp: do_GET_def get_file_def Let_def split: if_splits sum.splits)

theorem served_files_inside_web_witness:
  "\<exists>rep p. do_GET file_world 8080 \<lparr>target = py ''/'', headers = local_headers, content = []\<rparr> running_lab
       = (Answer rep, running_lab) \<and> prefix [py ''web''] p \<and> payload rep = [104, 105]"
proof -
  let ?r = "\<lparr>target = py ''/'', headers = local_headers, content = []\<rparr>"
  have url: "urlparse (bracket_error file_world) (target ?r) =
      Inr \<lparr>u_scheme = [], u_netloc = [], u_path = py ''/'', u_query = []\<rparr>"
    using urlparse_plain(2) [of "[]" "[]"] by (simp add: py_def)
  have "do_GET file_world 8080 ?r running_lab = (get_file file_world (py ''/''), running_lab)"
    using local_headers_local url by (simp add: do_GET_def)
  moreover have "\<exists>rep. get_file file_world (py ''/'') = Answer rep \<and> code rep = 200 \<and> payload rep = [104, 105]"
    by (simp add: get_file_def file_world_def Let_def)
  ultimately have "\<exists>rep. do_GET file_world 8080 ?r running_lab = (Answer rep, running_lab) \<and> code rep = 200 \<and>
      payload rep = [104, 105]" by auto
  then obtain rep where rep: "do_GET file_world 8080 ?r running_lab = (Answer rep, running_lab)"
    "code rep = 200" "payload rep = [104, 105]" by blast
  from served_files_inside_web [OF rep(1,2) url] rep show ?thesis by (auto simp: file_world_def)
qed



section \<open>The event cursor\<close>

text \<open>
  C13. Polling with a cursor loses and repeats nothing: let the client know every event of the
  log up to its cursor, and the readers then process any trace lines that keep at most 2000
  new events; the next answer of \<open>/api/state?after=<cursor>\<close> lists exactly the events kept
  since, in order. The cursor's text goes through the real parsing of the request target.
\<close>

theorem cursor_polls_lossless:
  assumes "local_request port r" "target r = state_target cursor" "lab_guest lab = Some (g', h)"
    "guest_wf g" "guest_events g ls = (x, g')" "length (kept_events g ls) \<le> 2000"
    "\<forall>e \<in> set (events g). int (ev_id e) \<le> cursor" "cursor \<le> int (sequence g)"
    "do_GET w port r lab = (a, lab')"
  shows "answered_events a (Some (JList (map event_json (kept_events g ls))))"
proof -
  have "guest_grows g (kept_events g ls) g'"
    using guest_grows_lines [OF assms(4), of ls] assms(5) by simp
  from feed.poll_new [OF assms(4) this assms(6-8)] state_answer [OF assms(1-3,9)] show ?thesis by simp
qed

theorem cursor_polls_lossless_witness:
  "\<exists>a lab'. do_GET file_world 8080 \<lparr>target = state_target 0, headers = local_headers, content = []\<rparr> running_lab
       = (a, lab') \<and> answered_events a (Some (JList []))"
proof -
  let ?r = "\<lparr>target = state_target 0, headers = local_headers, content = []\<rparr>"
  let ?g = "new_guest\<lparr>status := Running\<rparr>"
  obtain a lab' where run: "do_GET file_world 8080 ?r running_lab = (a, lab')" by fastforce
  have "guest_wf ?g" by (simp add: guest_wf_def log_ok_def tables_ok_def new_guest_def)
  from cursor_polls_lossless [OF local_headers_local _ _ this _ _ _ _ run, of 0 _ _ "[]" None]
  have "answered_events a (Some (JList []))" by (simp add: running_lab_def new_guest_def)
  with run show ?thesis by blast
qed

section \<open>The terminal\<close>

text \<open>
  C14. What a request can send to the guest's terminal is bounded: only \<open>/api/input\<close> sends at
  all, at most 256 bytes, each a printable ASCII character or one of CR, LF, backspace and tab,
  and only to a running guest that is not closed; the laboratory itself stays as it is.
\<close>

theorem terminal_input_bounded:
  assumes "do_POST w port r lab = Some (a, lab', sent)" "sent \<noteq> []"
  shows "target r = py ''/api/input'' \<and> length sent \<le> 256 \<and>
    (\<forall>c \<in> set sent. 32 \<le> c \<and> c \<le> 126 \<or> c \<in> {8, 9, 10, 13}) \<and>
    (\<exists>g h. lab_guest lab = Some (g, h) \<and> status g = Running \<and> \<not> closed g) \<and> lab' = lab"
  using assms
proof (rule post_sends)
  fix body s g h
  assume a: "target r = py ''/api/input''" "terminal_text body = Inr s" "lab_guest lab = Some (g, h)"
    "prefix sent s" "\<not> closed g" "status g = Running" "lab' = lab"
  have "set sent \<subseteq> set s" "length sent \<le> length s"
    using a(4) by (auto simp: prefix_def)
  moreover have "32 \<le> c \<and> c \<le> 126 \<or> c \<in> {8, 9, 10, 13}" if "c \<in> set s" for c
    using terminal_text_ok(3) [OF a(2)] that by (auto simp: bad_char_def)
  ultimately show ?thesis using a terminal_text_ok(2) [OF a(2)] by auto
qed

theorem terminal_input_bounded_witness:
  "do_POST calm_world 8080 \<lparr>target = py ''/api/input'', headers = local_headers, content = []\<rparr> running_lab
     = Some (Answer okay_reply, running_lab, py ''help'') \<and> length (py ''help'') \<le> 256"
proof -
  let ?r = "\<lparr>target = py ''/api/input'', headers = local_headers, content = []\<rparr>"
  have "send (socket calm_world) (new_guest\<lparr>status := Running\<rparr>) (py ''help'') = (None, py ''help'')"
    by (simp add: send_def calm_world_def new_guest_def encode_ascii_def py_def)
  then have run: "do_POST calm_world 8080 ?r running_lab = Some (Answer okay_reply, running_lab, py ''help'')"
    using local_headers_local local_headers_body
    by (simp add: do_POST_def post_operation_def post_input_def help_text running_lab_def done_reply_def finish_def)
  from terminal_input_bounded [OF run] run show ?thesis by simp
qed

section \<open>Every POST is answered\<close>



section \<open>Stopping and restarting\<close>





section \<open>The server's life\<close>

text \<open>
  However the server ends (an interrupt, a failed first boot, any exception while it
  serves any requests), the guest it owns at the end is closed with no QEMU process left,
  provided QEMU ends when it is terminated or killed. A port that is out of range or taken is
  noticed before any guest exists.
\<close>

lemma server_leaves_no_guest:
  assumes "serve_main port memory b w0 hs ending w_end = Some (e, lab)" "term_ends w_end \<or> kill_ends w_end"
  shows "(\<forall>l g h. lab = Some l \<and> lab_guest l = Some (g, h) \<longrightarrow> closed g \<and> status g = Stopped \<and> h = new_host) \<and>
    (\<not> (0 \<le> port \<and> port \<le> 65535) \<or> (\<forall>p. b \<noteq> Bound p) \<longrightarrow> lab = None \<and> e \<noteq> None)"
proof (cases "0 \<le> port \<and> port \<le> 65535 \<and> (\<exists>p. b = Bound p)")
  case False
  with assms(1) show ?thesis
    by (auto simp: serve_main_def create_server_def split: if_splits bind_outcome.splits)
next
  case True
  then obtain e0 l0 where "close_down w_end e0 l0 = (e, lab)"
    using assms(1) by (auto simp: serve_main_def create_server_def split: option.splits prod.splits)
  from close_down_clean [OF this assms(2)] True show ?thesis by blast
qed

end
