(* ===== verification/Recorder.thy ===== *)
theory Recorder
  imports Guest_Snapshot Event_Feed
begin

text \<open>
  The demo recorder (\<open>tools/record-demo.py\<close>). A
  frame is one snapshot of the guest with only the events behind the recorder's cursor; a clip
  is the frames of one command. The digests, the revision, the clock and the files are answers
  of the world.
\<close>

section \<open>Frames\<close>

record frame =
  at_ms :: int
  shot :: guest                       \<comment> \<open>the snapshot, its \<open>events\<close> cut to the new ones\<close>

text \<open>
  \<open>snapshot(after)\<close>: the guest, whose status the snapshot may have changed, and the copy. The
  pid is dropped and the guest's memory added in \<open>shot_json\<close>.
\<close>

definition shot_of :: "(int \<times> bool) option \<Rightarrow> int \<Rightarrow> guest \<Rightarrow> guest" where
  "shot_of p after g =
     (let g' = fst (snapshot p g) in g'\<lparr>events := filter (\<lambda>e. after < int (ev_id e)) (events g')\<rparr>)"

definition shot_json :: "guest \<Rightarrow> json" where
  "shot_json g =
     JDict (dict_set (py ''guest_memory'') (JInt 64) (dict_pop (py ''guest_pid'') (snd (snapshot None g))))"

definition frame_json :: "frame \<Rightarrow> json" where
  "frame_json f = JDict [(py ''at'', JInt (at_ms f)), (py ''state'', shot_json (shot f))]"

section \<open>One command\<close>

text \<open>
  A turn of the polling loop: the guest it finds, its process, the rounded time of the frame,
  and the milliseconds since the command was started, read again for the deadline.
\<close>

record turn =
  t_guest :: guest
  t_proc :: "(int \<times> bool) option"
  t_at :: int
  t_elapsed :: int

definition failed_at :: "pystr \<Rightarrow> guest \<Rightarrow> exn" where
  "failed_at line g = RuntimeError (py ''Recording failed at '' @ line @ py '': '' @ last_n 1500 (console g))"

text \<open>\<open>None\<close> while the turns run out; else the frames, and the exception if there is one.\<close>

fun record_turns :: "pystr \<Rightarrow> nat \<Rightarrow> nat \<Rightarrow> turn list \<Rightarrow> (frame list \<times> exn option) option" where
  "record_turns line before cursor [] = None"
| "record_turns line before cursor (t # ts) =
     (let s = shot_of (t_proc t) (int cursor) (t_guest t);
          f = \<lparr>at_ms = t_at t, shot = s\<rparr>
      in if sublist prompt (drop before (console s)) then Some ([f], None)
         else if status s \<noteq> Running \<or> 20000 < t_elapsed t then Some ([f], Some (failed_at line s))
         else map_option (\<lambda>(fs, e). (f # fs, e)) (record_turns line before (sequence s) ts))"

text \<open>
  What the world shows for one command: the first snapshot, the guest when the console's
  length is taken and when the line is sent, the socket, and the turns.
\<close>

record take_world =
  w_first :: guest
  w_first_proc :: "(int \<times> bool) option"
  w_before :: guest
  w_send :: guest
  w_sock :: "nat \<Rightarrow> pystr option"
  w_turns :: "turn list"

record clip =
  clip_command :: pystr
  clip_frames :: "frame list"

definition record_command :: "pystr \<Rightarrow> take_world \<Rightarrow> clip res option" where
  "record_command line w =
     (let first = shot_of (w_first_proc w) 0 (w_first w)
      in case send (w_sock w) (w_send w) (line @ [13]) of
           (Some e, _) \<Rightarrow> Some (Inl e)
         | (None, _) \<Rightarrow>
             (case record_turns line (length (console (w_before w))) (sequence first) (w_turns w) of
                None \<Rightarrow> None
              | Some (fs, Some e) \<Rightarrow> Some (Inl e)
              | Some (fs, None) \<Rightarrow>
                  Some (Inr \<lparr>clip_command = line, clip_frames = \<lparr>at_ms = 0, shot = first\<rparr> # fs\<rparr>)))"

section \<open>The recording\<close>

definition demo_commands :: "pystr list" where
  "demo_commands = map py [''help'', ''ls'', ''cat hello.txt'', ''ps'', ''run hello'', ''run reader'',
     ''run counter-a counter-b'', ''run fault'', ''check'', ''mem'']"

fun record_commands :: "pystr list \<Rightarrow> take_world list \<Rightarrow> clip list res option" where
  "record_commands [] ws = Some (Inr [])"
| "record_commands (line # ls) [] = None"
| "record_commands (line # ls) (w # ws) =
     (case record_command line w of
        None \<Rightarrow> None
      | Some (Inl e) \<Rightarrow> Some (Inl e)
      | Some (Inr c) \<Rightarrow>
          map_option (\<lambda>r. rbind r (\<lambda>cs. Inr (c # cs))) (record_commands ls ws))"

text \<open>The two assertions over the finished clips: the file was read, and the fault was seen.\<close>

definition observed :: "clip list \<Rightarrow> bool" where
  "observed clips \<longleftrightarrow>
     sublist (py ''hello from ramfs'') (console (shot (last (clip_frames (clips ! 3))))) \<and>
     (\<exists>f \<in> set (clip_frames (clips ! 8)). \<exists>e \<in> set (events (shot f)). ev_kind e = py ''fault'')"

definition clip_json :: "clip \<Rightarrow> json" where
  "clip_json c =
     JDict [(py ''command'', JStr (clip_command c)), (py ''frames'', JList (map frame_json (clip_frames c)))]"

record record_world =
  r_boot :: boot
  r_end :: guest
  r_boot_proc :: "(int \<times> bool) option"
  r_boot_guest :: guest
  r_takes :: "take_world list"
  r_last :: guest                     \<comment> \<open>the guest that \<open>finally\<close> closes\<close>
  r_term :: bool
  r_kill :: bool
  r_source :: pystr
  r_time :: pystr
  r_digests :: "pystr \<times> pystr \<times> pystr"

definition recording :: "record_world \<Rightarrow> clip list \<Rightarrow> (pystr \<times> json) list" where
  "recording w clips =
     (let (kernel, user, iso) = r_digests w
      in [(py ''format'', JInt 1), (py ''mode'', JStr (py ''recorded-replay'')),
          (py ''source'', JStr (r_source w)), (py ''recorded_at'', JStr (r_time w)),
          (py ''kernel_sha256'', JStr kernel), (py ''user_sha256'', JStr user),
          (py ''iso_sha256'', JStr iso), (py ''clips'', JList (map clip_json clips))])"

text \<open>
  \<open>record\<close>: the document that is written, or the exception; with the guest and its host after
  the \<open>finally\<close> clause.
\<close>

definition record_demo :: "record_world \<Rightarrow> ((pystr \<times> json) list res \<times> guest \<times> host) option" where
  "record_demo w =
     (case start (r_boot w) new_guest (r_end w) of
        None \<Rightarrow> None
      | Some (started, g, h) \<Rightarrow>
          (let clips = (case started of
                 Some e \<Rightarrow> Some (Inl e)
               | None \<Rightarrow> record_commands demo_commands (r_takes w))
           in case clips of
                None \<Rightarrow> None
              | Some cs \<Rightarrow>
                  (case close (r_term w) (r_kill w) (if started = None then r_last w else g, h) of
                     (Some e, gh) \<Rightarrow> Some (Inl e, gh)
                   | (None, gh) \<Rightarrow>
                       Some (rbind cs (\<lambda>cs.
                         let clips = \<lparr>clip_command = py ''boot'',
                               clip_frames = [\<lparr>at_ms = 0, shot = shot_of (r_boot_proc w) 0 (r_boot_guest w)\<rparr>]\<rparr> # cs
                         in if observed clips then Inr (recording w clips)
                            else Inl (AssertionError [])), gh))))"

section \<open>Facts\<close>

lemma shot_frame:
  "events (shot_of p c g) = newer ev_id c (events g)" "sequence (shot_of p c g) = sequence g"
  "console (shot_of p c g) = console g"
  by (auto simp: shot_of_def Let_def snapshot_def newer_def split: option.splits)

text \<open>The frames of the loop answer the polls of the event feed, one per turn.\<close>

lemma record_turns_answers:
  assumes "record_turns line before (sequence g) ts = Some (fs, e)" "length run = length ts"
    "map snd run = map t_guest ts"
  shows "length fs \<le> length ts \<and> map (\<lambda>f. events (shot f)) fs = take (length fs) (answers events ev_id sequence g run)"
  using assms
proof (induction ts arbitrary: g fs run)
  case (Cons t ts)
  then obtain es run' where run: "run = (es, t_guest t) # run'" "map snd run' = map t_guest ts"
    by (cases run) auto
  note IH = Cons.IH [of "t_guest t" _ run']
  from Cons.prems(1) run show ?case
    using IH by (auto simp: Let_def shot_frame split: if_splits) (metis map_eq_imp_length_eq)+
qed simp

lemma record_turns_last:
  "record_turns line before cursor ts = Some (fs, None) \<Longrightarrow>
     fs \<noteq> [] \<and> sublist prompt (drop before (console (shot (last fs))))"
  by (induction ts arbitrary: cursor fs) (auto simp: Let_def split: if_splits)

end
