(* ===== verification/Effects.thy ===== *)
theory Effects
  imports Prelude
begin

text \<open>
  Actions of the build and check tools: they change a state, may raise, and are \<open>None\<close> while
  the observations of a waiting loop have run out. The locale says what composed actions do to
  a preorder of states (a log that only grows, files that stay) once the single ones respect it.
\<close>

type_synonym ('s, 'a) act = "'s \<Rightarrow> ('a res \<times> 's) option"

definition ret :: "'a \<Rightarrow> ('s, 'a) act" where
  "ret x = (\<lambda>s. Some (Inr x, s))"

definition fail :: "exn \<Rightarrow> ('s, 'a) act" where
  "fail e = (\<lambda>s. Some (Inl e, s))"

definition of_res :: "'a res \<Rightarrow> ('s, 'a) act" where
  "of_res r = (\<lambda>s. Some (r, s))"

definition andthen :: "('s, 'a) act \<Rightarrow> ('a \<Rightarrow> ('s, 'b) act) \<Rightarrow> ('s, 'b) act" where
  "andthen m f = (\<lambda>s.
     case m s of
       None \<Rightarrow> None
     | Some (Inl e, s') \<Rightarrow> Some (Inl e, s')
     | Some (Inr x, s') \<Rightarrow> f x s')"

text \<open>\<open>for x in xs: f(x)\<close>.\<close>

fun each :: "('x \<Rightarrow> ('s, unit) act) \<Rightarrow> 'x list \<Rightarrow> ('s, unit) act" where
  "each f [] = ret ()"
| "each f (x # xs) = andthen (f x) (\<lambda>_. each f xs)"

text \<open>\<open>try: m finally: f\<close>: an exception of \<open>f\<close> replaces the one of \<open>m\<close>.\<close>

definition finally_do :: "('s, 'a) act \<Rightarrow> ('s, unit) act \<Rightarrow> ('s, 'a) act" where
  "finally_do m f = (\<lambda>s.
     case m s of
       None \<Rightarrow> None
     | Some (r, s') \<Rightarrow>
         (case f s' of
            None \<Rightarrow> None
          | Some (Inl e, s'') \<Rightarrow> Some (Inl e, s'')
          | Some (Inr _, s'') \<Rightarrow> Some (r, s'')))"

definition check_that :: "bool \<Rightarrow> exn \<Rightarrow> ('s, unit) act" where
  "check_that b e = (if b then ret () else fail e)"

section \<open>Results\<close>

lemma act_simps [simp]:
  "ret x s = Some (Inr x, s)" "fail e s = Some (Inl e, s)" "of_res r s = Some (r, s)"
  by (simp_all add: ret_def fail_def of_res_def)

lemma andthen_Inr [res_simps]:
  "andthen m f s = Some (Inr y, t) \<longleftrightarrow> (\<exists>x u. m s = Some (Inr x, u) \<and> f x u = Some (Inr y, t))"
  by (auto simp: andthen_def split: option.splits sum.splits)

lemma andthen_Inl [res_simps]:
  "andthen m f s = Some (Inl e, t) \<longleftrightarrow>
     m s = Some (Inl e, t) \<or> (\<exists>x u. m s = Some (Inr x, u) \<and> f x u = Some (Inl e, t))"
  by (auto simp: andthen_def split: option.splits sum.splits)

lemma andthen_of: "m s = Some (Inr x, u) \<Longrightarrow> andthen m f s = f x u"
  "m s = Some (Inl e, u) \<Longrightarrow> andthen m f s = Some (Inl e, u)"
  by (simp_all add: andthen_def)

lemma check_that_Inr [res_simps]: "check_that b e s = Some (Inr y, t) \<longleftrightarrow> b \<and> t = s"
  by (auto simp: check_that_def)

lemma ret_Inr: "ret x s = Some (Inr y, t) \<longleftrightarrow> x = y \<and> t = s"
  by auto

lemma of_res_Inr: "of_res r s = Some (Inr y, t) \<longleftrightarrow> r = Inr y \<and> t = s"
  by auto

text \<open>The same as elimination rules, one step of a sequence after the other.\<close>

lemma andthen_step: "a s = Some (Inr x, t) \<Longrightarrow> f x t = r \<Longrightarrow> andthen a f s = r"
  by (simp add: andthen_def)

lemma andthenE:
  assumes "andthen m f s = Some (Inr y, t)"
  obtains x u where "m s = Some (Inr x, u)" "f x u = Some (Inr y, t)"
  using assms by (auto simp: andthen_Inr)

lemma retE: "ret x s = Some (Inr y, t) \<Longrightarrow> (y = x \<Longrightarrow> t = s \<Longrightarrow> P) \<Longrightarrow> P"
  by simp

lemma of_resE: "of_res r s = Some (Inr y, t) \<Longrightarrow> (r = Inr y \<Longrightarrow> t = s \<Longrightarrow> P) \<Longrightarrow> P"
  by simp

lemma check_thatE: "check_that b e s = Some (Inr y, t) \<Longrightarrow> (b \<Longrightarrow> t = s \<Longrightarrow> P) \<Longrightarrow> P"
  by (simp add: check_that_Inr)

lemmas act_elims = andthenE retE of_resE check_thatE

lemma each_append: "each f (xs @ ys) s = andthen (each f xs) (\<lambda>_. each f ys) s"
  by (induction xs arbitrary: s) (auto simp: andthen_def split: option.splits sum.splits)

lemma finally_do_Inr [res_simps]:
  "finally_do m f s = Some (Inr y, t) \<longleftrightarrow> (\<exists>u v. m s = Some (Inr y, u) \<and> f u = Some (Inr v, t))"
  by (auto simp: finally_do_def split: option.splits sum.splits)

section \<open>Actions that succeed\<close>

text \<open>From every state with \<open>P\<close> the action returns, raises nothing and ends with \<open>P\<close>.\<close>

definition total_on :: "('s \<Rightarrow> bool) \<Rightarrow> ('s, 'a) act \<Rightarrow> bool" where
  "total_on P a \<longleftrightarrow> (\<forall>s. P s \<longrightarrow> (\<exists>x t. a s = Some (Inr x, t) \<and> P t))"

lemma total_basic: "total_on P (ret x)" "b \<Longrightarrow> total_on P (check_that b e)" "r = Inr x \<Longrightarrow> total_on P (of_res r)"
  by (auto simp: total_on_def check_that_def)

lemma total_andthen: "total_on P a \<Longrightarrow> (\<And>x. total_on P (f x)) \<Longrightarrow> total_on P (andthen a f)"
  unfolding total_on_def andthen_Inr by blast

lemma total_known:
  "(\<And>s. P s \<Longrightarrow> \<exists>t. a s = Some (Inr x, t) \<and> P t) \<Longrightarrow> total_on P (f x) \<Longrightarrow> total_on P (andthen a f)"
  unfolding total_on_def andthen_Inr by blast

lemma total_each: "(\<And>x. x \<in> set xs \<Longrightarrow> total_on P (f x)) \<Longrightarrow> total_on P (each f xs)"
  by (induction xs) (auto intro: total_basic total_andthen)

lemma total_run: "total_on P a \<Longrightarrow> P s \<Longrightarrow> \<exists>x t. a s = Some (Inr x, t) \<and> P t"
  by (auto simp: total_on_def)

section \<open>Preorders\<close>

definition moves :: "('s \<Rightarrow> 's \<Rightarrow> bool) \<Rightarrow> ('s, 'a) act \<Rightarrow> bool" where
  "moves R m \<longleftrightarrow> (\<forall>s r t. m s = Some (r, t) \<longrightarrow> R s t)"

lemma movesD: "moves R m \<Longrightarrow> m s = Some (r, t) \<Longrightarrow> R s t"
  by (auto simp: moves_def)

locale act_preorder =
  fixes R :: "'s \<Rightarrow> 's \<Rightarrow> bool"
  assumes keep: "R s s" and chain: "R s t \<Longrightarrow> R t u \<Longrightarrow> R s u"
begin

lemma moves_basic: "moves R (ret x)" "moves R (fail e)" "moves R (of_res r)" "moves R (check_that b e)"
  by (auto simp: moves_def check_that_def keep)

lemma moves_andthen:
  assumes "moves R m" "\<And>x. moves R (f x)"
  shows "moves R (andthen m f)"
proof -
  have "R s t" if "andthen m f s = Some (r, t)" for s r t
  proof (cases r)
    case (Inl e)
    with that assms show ?thesis by (auto simp: res_simps dest: movesD intro: chain)
  next
    case (Inr y)
    with that obtain x u where "m s = Some (Inr x, u)" "f x u = Some (Inr y, t)" by (auto simp: res_simps)
    then show ?thesis using assms by (auto dest: movesD intro: chain)
  qed
  then show ?thesis by (auto simp: moves_def)
qed

lemma moves_each: "(\<And>x. x \<in> set xs \<Longrightarrow> moves R (f x)) \<Longrightarrow> moves R (each f xs)"
  by (induction xs) (auto intro: moves_basic moves_andthen)

lemma moves_finally: "moves R m \<Longrightarrow> moves R f \<Longrightarrow> moves R (finally_do m f)"
  unfolding moves_def finally_do_def
  by (auto split: option.splits sum.splits intro: chain) (blast intro: chain)+

end

end
