(* ===== verification/Linux_Build.thy ===== *)
theory Linux_Build
  imports Qemu_Host Effects Py_Json
begin

text \<open>
  The source build of the Linux entry (\<open>tools/linux.py\<close>): which sources each stage compiles,
  with which commands, the fixed-size user image turned into a C array, and the checks of the
  linked files. Running a command is an answer of the world: it may read and change the files,
  and it may fail.
\<close>

section \<open>The machine and its world\<close>

record machine =
  files :: "path \<Rightarrow> nat list option"
  ran :: "pystr list list"        \<comment> \<open>the commands run so far\<close>
  passed :: "pystr list"          \<comment> \<open>the labels printed with \<open>SERIAL PASS\<close>\<close>

text \<open>
  One run of QEMU under \<open>serial_check\<close>: whether it could be launched, the looks of the waiting
  loop (clock, serial log, whether QEMU had exited), whether QEMU still runs afterwards, how it
  reacts to being stopped, and the log's bytes in the end.
\<close>

record serial_run =
  sr_launch :: "exn option"
  sr_looks :: "(int \<times> pystr \<times> bool) list"
  sr_deadline :: int
  sr_still_running :: bool
  sr_term_ends :: bool
  sr_kill_ends :: bool
  sr_log :: "nat list"

record linux_world =
  w_os :: os_name
  w_which :: "pystr \<Rightarrow> pystr option"
  w_exec :: "pystr list \<Rightarrow> machine \<Rightarrow> nat list res \<times> (path \<Rightarrow> nat list option)"
  w_sha256 :: "nat list \<Rightarrow> pystr"
  w_version :: run_outcome
  w_serial :: "pystr list \<Rightarrow> machine \<Rightarrow> serial_run"
  w_master :: "(pystr \<times> pystr \<times> pystr \<times> nat list) list \<Rightarrow> nat list"
  w_iso_read :: "nat list \<Rightarrow> pystr \<Rightarrow> nat list res"
  w_decode :: "nat list \<Rightarrow> pystr res"
  w_python :: pystr
  w_python_version :: "nat \<times> nat"
  w_pycdlib :: "pystr option"
  w_download :: "nat list res"
  w_unzip :: "nat list \<Rightarrow> pystr \<Rightarrow> nat list res"
  w_temporary :: pystr

definition check_output :: "linux_world \<Rightarrow> pystr list \<Rightarrow> (machine, nat list) act" where
  "check_output w args = (\<lambda>m.
     case w_exec w args m of (r, fs) \<Rightarrow> Some (r, m\<lparr>files := fs, ran := ran m @ [args]\<rparr>))"

definition run_command :: "linux_world \<Rightarrow> pystr list \<Rightarrow> (machine, unit) act" where
  "run_command w args = andthen (check_output w args) (\<lambda>_. ret ())"

definition read_file :: "path \<Rightarrow> (machine, nat list) act" where
  "read_file p = (\<lambda>m. case files m p of
       None \<Rightarrow> Some (Inl (FileNotFoundError (join_with 47 p)), m)
     | Some bs \<Rightarrow> Some (Inr bs, m))"

definition write_file :: "path \<Rightarrow> nat list \<Rightarrow> (machine, unit) act" where
  "write_file p bs = (\<lambda>m. Some (Inr (), m\<lparr>files := (files m)(p \<mapsto> bs)\<rparr>))"

text \<open>A text written by \<open>write_text\<close> gets the platform's line ends.\<close>

definition text_bytes :: "os_name \<Rightarrow> pystr \<Rightarrow> nat list" where
  "text_bytes os s = (case os of
       Posix \<Rightarrow> s
     | Nt \<Rightarrow> concat (map (\<lambda>c. if c = 10 then [13, 10] else [c]) s))"

section \<open>Paths\<close>

text \<open>\<open>base / "a/b"\<close>; the stem and the suffix of a file name.\<close>

definition under :: "path \<Rightarrow> string \<Rightarrow> path" where
  "under base relative = base @ split_on 47 (py relative)"

definition last_dot :: "pystr \<Rightarrow> nat option" where
  "last_dot name =
     (case find_char 46 (rev name) of
        None \<Rightarrow> None
      | Some k \<Rightarrow> if 0 < k \<and> k + 1 < length name then Some (length name - k - 1) else None)"

definition name_stem :: "pystr \<Rightarrow> pystr" where
  "name_stem name = (case last_dot name of None \<Rightarrow> name | Some i \<Rightarrow> take i name)"

definition name_suffix :: "pystr \<Rightarrow> pystr" where
  "name_suffix name = (case last_dot name of None \<Rightarrow> [] | Some i \<Rightarrow> drop i name)"

section \<open>Stages and tools\<close>

datatype stage = Stage nat | LAB

definition STAGES :: "stage list" where
  "STAGES = map Stage [0..<7] @ [LAB]"

definition stage_name :: "stage \<Rightarrow> pystr" where
  "stage_name s = (case s of Stage n \<Rightarrow> py ''M'' @ str_of_nat n | LAB \<Rightarrow> py ''LAB'')"

definition level_of :: "stage \<Rightarrow> nat" where
  "level_of s = (case s of Stage n \<Rightarrow> n | LAB \<Rightarrow> 7)"

definition tool :: "linux_world \<Rightarrow> string \<Rightarrow> path option \<Rightarrow> pystr res" where
  "tool w name llvm_bin =
     (let name = (if w_os w = Nt then py name @ py ''.exe'' else py name);
          found = w_which w (case llvm_bin of None \<Rightarrow> name | Some d \<Rightarrow> path_str (w_os w) (d @ [name]))
      in case found of
           Some (c # cs) \<Rightarrow> Inr (c # cs)
         | _ \<Rightarrow> Inl (RuntimeError (py ''Missing '' @ name @
                  py ''; install LLVM or set --llvm-bin. See docs/LINUX.md'')))"

section \<open>What a stage compiles\<close>

definition kernel_sources :: "nat \<Rightarrow> nat \<Rightarrow> string list" where
  "kernel_sources level attack =
     [''kernel/main.c''] @
     (if attack \<noteq> 0 then [''kernel/counterexample.c''] else []) @
     (if 1 \<le> level then [''kernel/memory/page.c'', ''kernel/memory/page_test.c''] else []) @
     (if 2 \<le> level then [''kernel/bytes.c'', ''kernel/memory/vm.c'', ''kernel/memory/vm_test.c''] else []) @
     (if 3 \<le> level
      then [''kernel/cpu.c'', ''kernel/interrupt.c'', ''kernel/entry.S''] @
           (if level \<noteq> 7 then [''kernel/task.c''] else [])
      else []) @
     (if 4 \<le> level
      then [''kernel/usercopy.c'', ''build/user-image.c''] @
           (if level = 7 then [''kernel/laboratory.c''] else [''kernel/user.c'', ''kernel/syscall.c''])
      else []) @
     (if 5 \<le> level then [''kernel/ramfs.c''] else [])"

definition object_of :: "path \<Rightarrow> path \<Rightarrow> path" where
  "object_of output source = output @ [name_stem (last source) @ py ''.o'']"

definition compile_flags :: "os_name \<Rightarrow> path \<Rightarrow> pystr list" where
  "compile_flags os project =
     map py [''--target=x86_64-unknown-none-elf'', ''-Wall'', ''-Wextra'', ''-Werror'',
       ''-ffreestanding'', ''-fno-builtin'', ''-fno-stack-protector'', ''-fno-pic'', ''-fno-pie'',
       ''-mno-red-zone'', ''-mno-sse'', ''-mno-mmx'', ''-mno-80387'', ''-O0'', ''-g'', ''-I''] @
     [path_str os (project @ [py ''include''])]"

definition level_defines :: "nat \<Rightarrow> nat \<Rightarrow> nat \<Rightarrow> pystr list" where
  "level_defines level fault attack =
     [py ''-DMINILINUX_LEVEL='' @ str_of_nat level, py ''-DMINILINUX_PROBE='' @ str_of_nat fault,
      py ''-DMINILINUX_ATTACK='' @ str_of_nat attack]"

definition compile_args ::
  "os_name \<Rightarrow> pystr \<Rightarrow> path \<Rightarrow> path \<Rightarrow> path \<Rightarrow> string \<Rightarrow> bool \<Rightarrow> pystr list \<Rightarrow> pystr list" where
  "compile_args os clang project source destination model frame_pointer definitions =
     [clang] @ (if name_suffix (last source) = py ''.c'' then [py ''-std=c11''] else []) @
     compile_flags os project @ (if frame_pointer then [py ''-fno-omit-frame-pointer''] else []) @
     [py ''-mcmodel='' @ py model] @ definitions @
     [py ''-c'', path_str os source, py ''-o'', path_str os destination]"

section \<open>The user image\<close>

definition hex_byte :: "nat \<Rightarrow> pystr" where
  "hex_byte b = py ''0x'' @ [hex_char (b div 16), hex_char (b mod 16)]"

definition user_image_values :: "nat list \<Rightarrow> pystr" where
  "user_image_values data = join_with 44 (map hex_byte data)"

definition user_image_source :: "nat list \<Rightarrow> pystr" where
  "user_image_source data =
     py ''#include <stdint.h>'' @ [10] @
     py ''const unsigned char user_image[] = {'' @ user_image_values data @ py ''};'' @ [10] @
     py ''const uint64_t user_image_size = '' @ str_of_nat (length data) @ py '';'' @ [10]"

definition image_limit :: "nat \<Rightarrow> nat" where
  "image_limit level = (if level = 7 then 65536 else 8192)"

definition build_user ::
  "linux_world \<Rightarrow> path \<Rightarrow> path option \<Rightarrow> nat \<Rightarrow> pystr list \<Rightarrow> pystr \<Rightarrow> pystr \<Rightarrow> (machine, unit) act" where
  "build_user w project llvm_bin level defines clang linker =
     (let os = w_os w;
          output = project @ [py ''build''];
          source = (if level = 7 then under project ''user/laboratory.c'' else under project ''user/program.c'');
          program = output @ [py ''user-program.o''];
          bytes = output @ [py ''user-bytes.o''];
          elf = output @ [py ''user.elf''];
          bin = output @ [py ''user.bin'']
      in andthen (run_command w (compile_args os clang project source program ''small'' True defines)) (\<lambda>_.
         andthen (if level = 7
                  then run_command w (compile_args os clang project (under project ''kernel/bytes.c'') bytes
                         ''small'' False [])
                  else ret ()) (\<lambda>_.
         andthen (run_command w
           ([linker] @ map py [''-m'', ''elf_x86_64'', ''-nostdlib'', ''-static'', ''-T''] @
            [path_str os (under project ''user/linker.ld''), py ''-o'', path_str os elf, path_str os program] @
            (if level = 7 then [path_str os bytes] else []))) (\<lambda>_.
         andthen (of_res (tool w ''llvm-objcopy'' llvm_bin)) (\<lambda>objcopy.
         andthen (run_command w [objcopy, py ''-O'', py ''binary'', path_str os elf, path_str os bin]) (\<lambda>_.
         andthen (read_file bin) (\<lambda>data.
         andthen (check_that (0 < length data \<and> length data \<le> image_limit level)
                   (RuntimeError (py ''User image exceeds its fixed code page limit''))) (\<lambda>_.
           write_file (output @ [py ''user-image.c'']) (text_bytes os (user_image_source data)))))))))) "

section \<open>The build\<close>

definition compile_kernel ::
  "linux_world \<Rightarrow> path \<Rightarrow> pystr list \<Rightarrow> pystr \<Rightarrow> path \<Rightarrow> (machine, unit) act" where
  "compile_kernel w project defines clang source =
     run_command w (compile_args (w_os w) clang project source (object_of (project @ [py ''build'']) source)
       ''kernel'' True defines)"

definition link_kernel :: "linux_world \<Rightarrow> path \<Rightarrow> pystr \<Rightarrow> path list \<Rightarrow> (machine, unit) act" where
  "link_kernel w project linker objects =
     run_command w ([linker] @ map py [''-m'', ''elf_x86_64'', ''-nostdlib'', ''-static'', ''-z'',
         ''max-page-size=0x1000'', ''-T''] @
       [path_str (w_os w) (project @ [py ''linker.ld'']), py ''-o'',
        path_str (w_os w) (project @ [py ''build'', py ''kernel.elf''])] @
       map (path_str (w_os w)) objects)"

definition byte_space :: "nat \<Rightarrow> bool" where
  "byte_space b \<longleftrightarrow> 9 \<le> b \<and> b \<le> 13 \<or> b = 32"

definition check_elf :: "linux_world \<Rightarrow> path \<Rightarrow> path option \<Rightarrow> string \<Rightarrow> (machine, unit) act" where
  "check_elf w project llvm_bin name =
     (let elf = path_str (w_os w) (project @ [py ''build'', py name])
      in andthen (of_res (tool w ''llvm-nm'' llvm_bin)) (\<lambda>nm.
         andthen (check_output w [nm, py ''--undefined-only'', elf]) (\<lambda>undefined.
         andthen (of_res (tool w ''llvm-readelf'' llvm_bin)) (\<lambda>readelf.
         andthen (check_output w [readelf, py ''-l'', elf]) (\<lambda>segments.
           check_that (\<not> (strip_if byte_space undefined \<noteq> [] \<or> sublist (py ''INTERP'') segments \<or>
                          sublist (py ''DYNAMIC'') segments))
             (RuntimeError (py ''Unexpected runtime dependency in '' @ py name)))))))"

definition build ::
  "linux_world \<Rightarrow> path \<Rightarrow> path option \<Rightarrow> stage \<Rightarrow> nat \<Rightarrow> nat \<Rightarrow> (machine, unit) act" where
  "build w project llvm_bin stage fault attack =
     (if stage \<noteq> Stage 6 \<and> (fault \<noteq> 1 \<or> attack \<noteq> 0)
      then fail (RuntimeError (py ''Additional faults and counterexamples belong to M6''))
      else
        (let level = level_of stage;
             output = project @ [py ''build''];
             defines = level_defines level fault attack;
             sources = map (under project) (kernel_sources level attack)
         in andthen (of_res (tool w ''clang'' llvm_bin)) (\<lambda>clang.
            andthen (of_res (tool w ''ld.lld'' llvm_bin)) (\<lambda>linker.
            andthen (if 4 \<le> level then build_user w project llvm_bin level defines clang linker
                     else ret ()) (\<lambda>_.
            andthen (each (compile_kernel w project defines clang) sources) (\<lambda>_.
            andthen (link_kernel w project linker (map (object_of output) sources)) (\<lambda>_.
            andthen (each (check_elf w project llvm_bin)
                       (if 4 \<le> level then [''kernel.elf'', ''user.elf''] else [''kernel.elf''])) (\<lambda>_.
            andthen (read_file (output @ [py ''kernel.elf''])) (\<lambda>_. ret ())))))))))"

end
