(* ===== verification/Linux_Check.thy ===== *)
theory Linux_Check
  imports Linux_Build Polling Py_Url
begin

text \<open>
  The rest of the Linux entry (\<open>tools/linux.py\<close>, with \<open>tools/make-image.py\<close>): preparing the
  boot loader, the environment checks, the CD image and its comparison with the build, the
  serial check of one boot, the whole check and the command dispatch.
\<close>

section \<open>The boot loader's files\<close>

definition LIMINE_SHA256 :: pystr where
  "LIMINE_SHA256 = py ''04f922a9265d2f02756417254eb746e7687692ff3f42c8a354b8dcfbda9ef571''"

definition LIMINE_FILES :: "(string \<times> string) list" where
  "LIMINE_FILES =
     [(''limine-bios-cd.bin'', ''0a0f509cd2e8b0f7ea4cfca6eac5b88a4ac477cd102cc90fb7e2c21ba80b2a22''),
      (''limine-bios.sys'', ''8e432db7b4721f906c9136b3854d3d9fec7b337d6f6d049c0f2a1ba8ea591507'')]"

definition limine_dir :: "path \<Rightarrow> path" where
  "limine_dir root = root @ [py ''limine-12.9.0'', py ''limine-binary'']"

definition prepare :: "linux_world \<Rightarrow> path \<Rightarrow> path option \<Rightarrow> (machine, unit) act" where
  "prepare w root archive =
     andthen (case archive of Some p \<Rightarrow> read_file p | None \<Rightarrow> of_res (w_download w)) (\<lambda>package.
     andthen (check_that (w_sha256 w package = LIMINE_SHA256)
       (RuntimeError (py ''Limine archive SHA256 differs from the retained M0 version''))) (\<lambda>_.
       each (\<lambda>name. andthen (of_res (w_unzip w package (py ''limine-binary/'' @ py name)))
                       (write_file (limine_dir root @ [py name])))
         [''limine-bios-cd.bin'', ''limine-bios.sys'', ''LICENSE'']))"

section \<open>The environment\<close>

definition preflight :: "linux_world \<Rightarrow> path \<Rightarrow> (machine, unit) act" where
  "preflight w root =
     of_res (check_qemu (w_os w) (w_which w (py ''qemu-system-x86_64'')) root (w_version w))"

definition llvm_tools :: "string list" where
  "llvm_tools = [''clang'', ''ld.lld'', ''llvm-objcopy'', ''llvm-readelf'', ''llvm-nm'']"

definition doctor :: "linux_world \<Rightarrow> path \<Rightarrow> path option \<Rightarrow> (machine, unit) act" where
  "doctor w root llvm_bin =
     andthen (run_command w (map py [''git'', ''rev-parse'', ''HEAD''])) (\<lambda>_.
     andthen (run_command w (map py [''git'', ''status'', ''--porcelain''])) (\<lambda>_.
     andthen (preflight w root) (\<lambda>_.
     andthen (each (\<lambda>name. andthen (of_res (tool w name llvm_bin))
                             (\<lambda>executable. run_command w [executable, py ''--version''])) llvm_tools) (\<lambda>_.
     andthen (of_res (case w_pycdlib w of None \<Rightarrow> Inl (KeyError (py ''pycdlib'')) | Some v \<Rightarrow> Inr v)) (\<lambda>version.
     andthen (check_that (version = py ''1.20.0'')
       (RuntimeError (py ''Expected pycdlib 1.20.0, found '' @ version))) (\<lambda>_.
       each (\<lambda>(name, expected). andthen (read_file (limine_dir root @ [py name])) (\<lambda>asset.
               check_that (w_sha256 w asset = py expected)
                 (RuntimeError (py ''Limine asset changed: '' @
                    path_str (w_os w) (limine_dir root @ [py name]))))) LIMINE_FILES))))))"

definition limine_cached :: "linux_world \<Rightarrow> path \<Rightarrow> machine \<Rightarrow> bool" where
  "limine_cached w root m \<longleftrightarrow>
     files m (limine_dir root @ [py ''LICENSE'']) \<noteq> None \<and>
     (\<forall>(name, expected) \<in> set LIMINE_FILES.
        case files m (limine_dir root @ [py name]) of
          None \<Rightarrow> False
        | Some asset \<Rightarrow> w_sha256 w asset = py expected)"

definition linux_setup ::
  "linux_world \<Rightarrow> path \<Rightarrow> path \<Rightarrow> path option \<Rightarrow> path option \<Rightarrow> (machine, unit) act" where
  "linux_setup w project root llvm_bin archive =
     (let version = w_python_version w;
          os = w_os w;
          python = path_str os (root @ [py ''venv''] @
            (if os = Nt then [py ''Scripts'', py ''python.exe''] else [py ''bin'', py ''python'']))
      in andthen (check_that (\<not> (fst version < 3 \<or> fst version = 3 \<and> snd version < 10))
           (RuntimeError (py ''Use Python 3.10 or newer to create the Linux environment''))) (\<lambda>_.
         andthen (preflight w root) (\<lambda>_.
         andthen (each (\<lambda>name. andthen (of_res (tool w name llvm_bin)) (\<lambda>_. ret ())) llvm_tools) (\<lambda>_.
         andthen (run_command w [w_python w, py ''-m'', py ''venv'', path_str os (root @ [py ''venv''])]) (\<lambda>_.
         andthen (run_command w (python # map py [''-m'', ''pip'', ''install'',
                    ''--disable-pip-version-check'', ''pycdlib==1.20.0''])) (\<lambda>_.
         andthen (\<lambda>m. if archive \<noteq> None \<or> \<not> limine_cached w root m
                       then prepare w root archive m else Some (Inr (), m)) (\<lambda>_.
           run_command w ([python, py ''-B'', path_str os (under project ''tools/linux.py''), py ''doctor'',
               py ''--tool-root'', path_str os root] @
             (case llvm_bin of None \<Rightarrow> [] | Some d \<Rightarrow> [py ''--llvm-bin'', path_str os d])))))))))"

section \<open>The CD image\<close>

text \<open>The files of the image: source, ISO path, Rock Ridge name, Joliet path.\<close>

definition image_files :: "path \<Rightarrow> path \<Rightarrow> (path \<times> string \<times> string \<times> string) list" where
  "image_files project root =
     [(limine_dir root @ [py ''limine-bios-cd.bin''], ''/LIMCD.BIN;1'', ''limine-bios-cd.bin'', ''/limine-bios-cd.bin''),
      (limine_dir root @ [py ''limine-bios.sys''], ''/LIMINE.SYS;1'', ''limine-bios.sys'', ''/limine-bios.sys''),
      (under project ''boot/limine.conf'', ''/LIMINE.CON;1'', ''limine.conf'', ''/limine.conf''),
      (under project ''build/kernel.elf'', ''/BOOT/KERNEL.ELF;1'', ''kernel.elf'', ''/boot/kernel.elf'')]"

definition image_path :: "path \<Rightarrow> stage \<Rightarrow> path" where
  "image_path root stage =
     root @ [py ''images'', py ''minilinux-'' @ lower_ascii (stage_name stage) @ py ''.iso'']"

text \<open>
  \<open>make_image\<close>: the library masters the image from the added files; a mebibyte of zero bytes
  follows it.
\<close>

fun read_all :: "(path \<times> string \<times> string \<times> string) list \<Rightarrow> (machine, (pystr \<times> pystr \<times> pystr \<times> nat list) list) act" where
  "read_all [] = ret []"
| "read_all ((source, iso_name, rr, joliet) # rest) =
     andthen (read_file source) (\<lambda>bytes. andthen (read_all rest) (\<lambda>more.
       ret ((py iso_name, py rr, py joliet, bytes) # more)))"

definition make_image :: "linux_world \<Rightarrow> path \<Rightarrow> path \<Rightarrow> stage \<Rightarrow> (machine, unit) act" where
  "make_image w project root stage =
     andthen (read_all (image_files project root)) (\<lambda>entries.
       write_file (image_path root stage) (w_master w entries @ replicate (1024 * 1024) 0))"

definition compared_files :: "path \<Rightarrow> path \<Rightarrow> (string \<times> path) list" where
  "compared_files project root =
     [(''/boot/kernel.elf'', under project ''build/kernel.elf''),
      (''/limine.conf'', under project ''boot/limine.conf''),
      (''/limine-bios.sys'', limine_dir root @ [py ''limine-bios.sys''])]"

definition compare_file :: "linux_world \<Rightarrow> nat list \<Rightarrow> string \<times> path \<Rightarrow> (machine, unit) act" where
  "compare_file w disc = (\<lambda>(name, source).
     andthen (of_res (w_iso_read w disc (py name))) (\<lambda>payload.
     andthen (read_file source) (\<lambda>bytes.
       check_that (payload = bytes)
         (RuntimeError (py ''ISO payload differs from this build: '' @ last source)))))"

definition image :: "linux_world \<Rightarrow> path \<Rightarrow> path \<Rightarrow> stage \<Rightarrow> (machine, unit) act" where
  "image w project root stage =
     andthen (make_image w project root stage) (\<lambda>_.
     andthen (read_file (image_path root stage)) (\<lambda>disc.
       each (compare_file w disc) (compared_files project root)))"

section \<open>The serial check of one boot\<close>

definition CHECKS :: "pystr list" where
  "CHECKS = map py ['''', ''physical page'', ''address mapping'', ''timer preemption'',
     ''user boundary'', ''file byte'', ''process isolation'']"

definition ATTACKS :: "pystr list" where
  "ATTACKS = map py ['''', ''counterexample: syscall parent permission rejected'',
     ''counterexample: all ancestor permissions checked; pages restored'',
     ''counterexample: table limit rejected new branch; existing branch and cleanup passed'',
     ''counterexample: pointer endpoints checked without consuming file bytes'',
     ''counterexample: DF and nine registers survived timer and syscall entry'']"

definition FAULTS :: "pystr list" where
  "FAULTS = map py ['''', '''', ''vector=14 error=0x0000000000000007'',
     ''vector=14 error=0x0000000000000015'', ''vector=14 error=0x0000000000000004'',
     ''user exception: task=0 vector=6 error=0x0000000000000000 CS=0x0000000000000023'',
     ''user exception: task=0 vector=13 error=0x0000000000000000 CS=0x0000000000000023'',
     ''user exception: task=0 vector=0 error=0x0000000000000000 CS=0x0000000000000023'']"

text \<open>\<open>int(base_stage[1:])\<close>: the stage LAB has no number.\<close>

definition stage_number :: "stage \<Rightarrow> nat res" where
  "stage_number s = (case s of Stage n \<Rightarrow> Inr n | LAB \<Rightarrow> Inl (InvalidLiteral (py ''AB'')))"

definition witnesses :: "stage \<Rightarrow> nat \<Rightarrow> pystr \<Rightarrow> pystr list" where
  "witnesses stage level marker =
     [py ''MiniLinux '' @ stage_name stage @ py '': entered kernel_main'',
      py ''MiniLinux PANIC: '' @ stage_name stage @ py '' reached its intentional stop''] @
     (if level \<noteq> 0 then [py ''MiniLinux '' @ stage_name stage @ py '': '' @ CHECKS ! level @ py '' checks passed'']
      else []) @
     (if marker \<noteq> [] then [marker] else [])"

definition serial_look :: "int \<Rightarrow> int \<times> pystr \<times> bool \<Rightarrow> unit option" where
  "serial_look deadline = (\<lambda>(now, s, exited).
     if now < deadline then (if sublist (py ''MiniLinux PANIC:'') s \<or> exited then Some () else None)
     else Some ())"

definition serial_wait :: "serial_run \<Rightarrow> unit option" where
  "serial_wait r = poll (serial_look (sr_deadline r)) (sr_looks r)"

interpretation watching: poll_loop "serial_look deadline" fst deadline for deadline
  by unfold_locales (auto simp: serial_look_def split: prod.splits)

definition serial_label :: "stage \<Rightarrow> int \<Rightarrow> pystr option \<Rightarrow> pystr" where
  "serial_label stage memory case_name =
     lower_ascii (case case_name of Some c \<Rightarrow> c | None \<Rightarrow> stage_name stage) @ py ''-'' @
     str_of_int memory @ py ''m''"

definition serial_log :: "path \<Rightarrow> pystr \<Rightarrow> path" where
  "serial_log project label = under project ''build/linux-checks'' @ [label @ py ''-serial.log'']"

definition serial_args :: "linux_world \<Rightarrow> path \<Rightarrow> stage \<Rightarrow> int \<Rightarrow> path \<Rightarrow> pystr list res" where
  "serial_args w root stage memory serial =
     rbind (qemu_command (w_os w) (w_which w (py ''qemu-system-x86_64'')) root) (\<lambda>command.
       Inr (command @ [py ''-machine'', py ''pc'', py ''-m'', str_of_int memory] @
         map py [''-smp'', ''1'', ''-accel'', ''tcg'', ''-display'', ''none'', ''-serial''] @
         [py ''file:'' @ path_str (w_os w) serial] @
         map py [''-monitor'', ''none'', ''-no-reboot'', ''-boot'', ''d'', ''-cdrom''] @
         [path_str (w_os w) (image_path root stage)]))"

text \<open>
  QEMU is launched, watched until it panics, exits or the time is up, and stopped; the log it
  leaves is then searched for every witness.
\<close>

definition serial_boot :: "linux_world \<Rightarrow> pystr list \<Rightarrow> path \<Rightarrow> (machine, unit) act" where
  "serial_boot w args serial = (\<lambda>m.
     let r = w_serial w args m;
         m' = m\<lparr>files := (files m)(serial \<mapsto> sr_log r), ran := ran m @ [args]\<rparr>
     in case sr_launch r of
          Some e \<Rightarrow> Some (Inl e, m)
        | None \<Rightarrow>
            (case serial_wait r of
               None \<Rightarrow> None
             | Some _ \<Rightarrow>
                 if sr_still_running r \<and> \<not> sr_term_ends r \<and> \<not> sr_kill_ends r
                 then Some (Inl TimeoutExpired, m') else Some (Inr (), m')))"

definition serial_check ::
  "linux_world \<Rightarrow> path \<Rightarrow> path \<Rightarrow> stage \<Rightarrow> int \<Rightarrow> pystr \<Rightarrow> pystr option \<Rightarrow> (machine, unit) act" where
  "serial_check w project root stage memory marker case_name =
     (let label = serial_label stage memory case_name;
          serial = serial_log project label
      in andthen (write_file serial []) (\<lambda>_.
         andthen (of_res (serial_args w root stage memory serial)) (\<lambda>args.
         andthen (serial_boot w args serial) (\<lambda>_.
         andthen (read_file serial) (\<lambda>bytes.
         andthen (of_res (stage_number stage)) (\<lambda>level.
         andthen (check_that (\<forall>witness \<in> set (witnesses stage level marker).
                                 sublist witness (decode_ascii bytes))
           (RuntimeError (py ''Serial check failed: '' @ label @ py ''; inspect '' @
              path_str (w_os w) serial))) (\<lambda>_.
           (\<lambda>m. Some (Inr (), m\<lparr>passed := passed m @ [label]\<rparr>)))))))))"

section \<open>The whole check\<close>

datatype case_kind = Attack | Fault

definition kind_name :: "case_kind \<Rightarrow> pystr" where
  "kind_name k = (case k of Attack \<Rightarrow> py ''attack'' | Fault \<Rightarrow> py ''fault'')"

definition case_label :: "case_kind \<Rightarrow> nat \<Rightarrow> pystr" where
  "case_label k n = py ''M6-'' @ kind_name k @ py ''-'' @ str_of_nat n"

definition case_marker :: "case_kind \<Rightarrow> nat \<Rightarrow> pystr" where
  "case_marker k n = (case k of Attack \<Rightarrow> ATTACKS ! n | Fault \<Rightarrow> FAULTS ! n)"

definition M6_cases :: "(case_kind \<times> nat) list" where
  "M6_cases = map (Pair Attack) [1..<6] @ map (Pair Fault) [2..<8]"

definition memories :: "int list" where
  "memories = [64, 256]"

definition check_stage :: "linux_world \<Rightarrow> path \<Rightarrow> path \<Rightarrow> path option \<Rightarrow> stage \<Rightarrow> (machine, unit) act" where
  "check_stage w project root llvm_bin stage =
     andthen (build w project llvm_bin stage 1 0) (\<lambda>_.
     andthen (image w project root stage) (\<lambda>_.
       each (\<lambda>memory. serial_check w project root stage memory [] None) memories))"

text \<open>The out-of-memory attack has to report each of three depths.\<close>

definition check_depths :: "linux_world \<Rightarrow> path \<Rightarrow> pystr \<Rightarrow> int \<Rightarrow> (machine, unit) act" where
  "check_depths w project label memory =
     andthen (read_file (serial_log project (lower_ascii label @ py ''-'' @ str_of_int memory @ py ''m''))) (\<lambda>bytes.
     andthen (of_res (w_decode w bytes)) (\<lambda>report.
       check_that (\<forall>spare \<in> set [0..<3].
           sublist (py ''OOM with spare pages='' @ str_of_nat spare @ py '' rejected'') report)
         (RuntimeError (py ''An OOM depth was not checked''))))"

definition check_case ::
  "linux_world \<Rightarrow> path \<Rightarrow> path \<Rightarrow> path option \<Rightarrow> case_kind \<times> nat \<Rightarrow> (machine, unit) act" where
  "check_case w project root llvm_bin = (\<lambda>(kind, n).
     andthen (build w project llvm_bin (Stage 6) (if kind = Fault then n else 1)
                (if kind = Attack then n else 0)) (\<lambda>_.
     andthen (image w project root (Stage 6)) (\<lambda>_.
       each (\<lambda>memory.
         andthen (serial_check w project root (Stage 6) memory (case_marker kind n) (Some (case_label kind n))) (\<lambda>_.
           if kind = Attack \<and> n = 3 then check_depths w project (case_label kind n) memory else ret ()))
         memories)))"

text \<open>Copying and removing directory trees.\<close>

definition copy_tree :: "path \<Rightarrow> path \<Rightarrow> (machine, unit) act" where
  "copy_tree src dst = (\<lambda>m. Some (Inr (), m\<lparr>files := (\<lambda>p.
     if prefix dst p \<and> files m (src @ drop (length dst) p) \<noteq> None
     then files m (src @ drop (length dst) p) else files m p)\<rparr>))"

definition remove_tree :: "path \<Rightarrow> (machine, unit) act" where
  "remove_tree dir = (\<lambda>m. Some (Inr (), m\<lparr>files := (\<lambda>p. if prefix dir p then None else files m p)\<rparr>))"

definition boundary_test :: "linux_world \<Rightarrow> path \<Rightarrow> string \<Rightarrow> path \<Rightarrow> path \<Rightarrow> (machine, unit) act" where
  "boundary_test w project mode subject root =
     (let os = w_os w
      in run_command w [w_python w, py ''-B'', path_str os (under project ''tools/test-lab-boundaries.py''),
        py ''--mode'', py mode, py ''--project'', path_str os subject, py ''--tool-root'', path_str os root,
        py ''--output'', path_str os (under project ''build/supplemental'')])"

text \<open>The retained probe runs on a disposable copy with the patch applied.\<close>

definition fixture_dir :: "linux_world \<Rightarrow> path \<Rightarrow> path" where
  "fixture_dir w project = under project ''build'' @ [py ''linux-boundaries-'' @ w_temporary w]"

definition run_fixture :: "linux_world \<Rightarrow> path \<Rightarrow> path \<Rightarrow> path option \<Rightarrow> (machine, unit) act" where
  "run_fixture w project root llvm_bin =
     (let os = w_os w;
          fixture = fixture_dir w project;
          runtime = fixture @ [py ''runtime''];
          subject = under fixture ''user/laboratory.c''
      in andthen (each (\<lambda>name. copy_tree (project @ [py name]) (fixture @ [py name]))
                    [''boot'', ''include'', ''kernel'', ''user'']) (\<lambda>_.
         andthen (read_file (project @ [py ''linker.ld''])) (\<lambda>script.
         andthen (write_file (fixture @ [py ''linker.ld'']) script) (\<lambda>_.
         andthen (read_file subject) (\<lambda>original.
         andthen (run_command w (map py [''git'', ''apply'', ''--no-index'', ''--exclude=tools/*''] @
           [py ''--directory=build/linux-boundaries-'' @ w_temporary w,
            path_str os (under project ''docs/evidence/experience-regression/fixture.patch'')])) (\<lambda>_.
         andthen (read_file subject) (\<lambda>patched.
         andthen (check_that (patched \<noteq> original)
           (RuntimeError (py ''The retained user probe patch did not change the fixture''))) (\<lambda>_.
         andthen (copy_tree (root @ [py ''limine-12.9.0'']) (runtime @ [py ''limine-12.9.0''])) (\<lambda>_.
         andthen (build w fixture llvm_bin LAB 1 0) (\<lambda>_.
         andthen (image w fixture runtime LAB) (\<lambda>_.
           boundary_test w project ''fixture'' fixture runtime)))))))))))"

definition check_fixture :: "linux_world \<Rightarrow> path \<Rightarrow> path \<Rightarrow> path option \<Rightarrow> (machine, unit) act" where
  "check_fixture w project root llvm_bin =
     finally_do (run_fixture w project root llvm_bin) (remove_tree (fixture_dir w project))"

definition check_this_tree :: "linux_world \<Rightarrow> path \<Rightarrow> path \<Rightarrow> path option \<Rightarrow> (machine, unit) act" where
  "check_this_tree w project root llvm_bin =
     andthen (doctor w root llvm_bin) (\<lambda>_.
     andthen (each (check_stage w project root llvm_bin) (butlast STAGES)) (\<lambda>_.
     andthen (each (check_case w project root llvm_bin) M6_cases) (\<lambda>_.
     andthen (build w project llvm_bin (Stage 6) 1 0) (\<lambda>_.
     andthen (image w project root (Stage 6)) (\<lambda>_.
     andthen (build w project llvm_bin LAB 1 0) (\<lambda>_.
     andthen (image w project root LAB) (\<lambda>_.
     andthen (each (\<lambda>name. run_command w [w_python w, py ''-B'',
                path_str (w_os w) (under project ''tools'' @ [py name]), py ''--tool-root'', path_str (w_os w) root])
              [''test-userland.py'', ''test-lab-bridge.py'']) (\<lambda>_.
       boundary_test w project ''baseline'' project root))))))))"

definition check :: "linux_world \<Rightarrow> path \<Rightarrow> path \<Rightarrow> path option \<Rightarrow> (machine, unit) act" where
  "check w project root llvm_bin =
     andthen (check_this_tree w project root llvm_bin) (\<lambda>_. check_fixture w project root llvm_bin)"

section \<open>The dispatch\<close>

datatype entry = Setup | Prepare | Doctor | Build | Run | Lab | Check

record options =
  o_command :: entry
  o_root :: path
  o_llvm_bin :: "path option"
  o_limine_zip :: "path option"
  o_stage :: stage
  o_fault :: nat
  o_attack :: nat
  o_memory :: int
  o_port :: int

text \<open>A \<open>parser.error\<close> is the exit of the program with a message.\<close>

definition linux_main :: "linux_world \<Rightarrow> path \<Rightarrow> options \<Rightarrow> (machine, unit) act" where
  "linux_main w project opts =
     (let root = o_root opts; os = w_os w
      in andthen (check_that (0 \<le> o_port opts \<and> o_port opts \<le> 65535)
           (SystemExit (py ''--port must be between 0 and 65535''))) (\<lambda>_.
         andthen (check_that (\<not> (o_command opts = Lab \<and> o_stage opts \<noteq> LAB))
           (SystemExit (py ''The browser LAB needs --stage LAB''))) (\<lambda>_.
         case o_command opts of
           Setup \<Rightarrow> linux_setup w project root (o_llvm_bin opts) (o_limine_zip opts)
         | Prepare \<Rightarrow> prepare w root (o_limine_zip opts)
         | Doctor \<Rightarrow> doctor w root (o_llvm_bin opts)
         | Check \<Rightarrow> check w project root (o_llvm_bin opts)
         | _ \<Rightarrow>
             andthen (if o_command opts \<in> {Run, Lab} then preflight w root else ret ()) (\<lambda>_.
             andthen (build w project (o_llvm_bin opts) (o_stage opts) (o_fault opts) (o_attack opts)) (\<lambda>_.
             andthen (image w project root (o_stage opts)) (\<lambda>_.
               if o_command opts = Run
               then (if o_stage opts = LAB
                     then run_command w [w_python w, py ''-B'', path_str os (under project ''tools/lab_guest.py''),
                            py ''--tool-root'', path_str os root, py ''--memory'', str_of_int (o_memory opts)]
                     else serial_check w project root (o_stage opts) (o_memory opts) [] None)
               else if o_command opts = Lab
               then run_command w [w_python w, py ''-B'', path_str os (under project ''tools/lab-server.py''),
                      py ''--tool-root'', path_str os root, py ''--memory'', str_of_int (o_memory opts),
                      py ''--port'', str_of_int (o_port opts)]
               else ret ())))))) "

end
