(* ===== verification/Py_Parse.thy ===== *)
theory Py_Parse
  imports Py_Json Py_Url
begin

text \<open>
  \<open>json.loads\<close> on a text, and the three ways the tools print JSON: \<open>json.dumps\<close> with its
  defaults, with \<open>indent=2\<close> and with the separators \<open>","\<close> and \<open>":"\<close>. The printed text reads
  back as the value. A floating-point number is kept as its text; nothing here computes with it.
\<close>

section \<open>Values\<close>

datatype js_value =
    VNull
  | VBool bool
  | VInt int
  | VFloat pystr
  | VStr pystr
  | VList "js_value list"
  | VDict "(pystr \<times> js_value) list"

fun of_json :: "json \<Rightarrow> js_value" where
  "of_json JNull = VNull"
| "of_json (JBool b) = VBool b"
| "of_json (JInt i) = VInt i"
| "of_json (JStr s) = VStr s"
| "of_json (JList js) = VList (map of_json js)"
| "of_json (JDict kvs) = VDict (map (\<lambda>(k, v). (k, of_json v)) kvs)"

section \<open>Reading strings\<close>

definition json_space :: "nat \<Rightarrow> bool" where
  "json_space c \<longleftrightarrow> c = 32 \<or> c = 9 \<or> c = 10 \<or> c = 13"

definition skip_space :: "pystr \<Rightarrow> pystr" where
  "skip_space = dropWhile json_space"

fun hex4 :: "pystr \<Rightarrow> (nat \<times> pystr) option" where
  "hex4 (a # b # c # d # s) =
     (case (hex_value a, hex_value b, hex_value c, hex_value d) of
        (Some w, Some x, Some y, Some z) \<Rightarrow> Some (4096 * w + 256 * x + 16 * y + z, s)
      | _ \<Rightarrow> None)"
| "hex4 s = None"

definition simple_escape :: "nat \<Rightarrow> nat option" where
  "simple_escape c =
     map_of [(34, 34), (92, 92), (47, 47), (98, 8), (102, 12), (110, 10), (114, 13), (116, 9)] c"

text \<open>The second half of a surrogate pair, if it follows.\<close>

definition low_half :: "nat \<Rightarrow> pystr \<Rightarrow> (nat \<times> pystr) option" where
  "low_half u s =
     (if 55296 \<le> u \<and> u < 56320 \<and> prefix [92, 117] s
      then (case hex4 (drop 2 s) of
              None \<Rightarrow> None
            | Some (v, t) \<Rightarrow>
                if 56320 \<le> v \<and> v < 57344 then Some (65536 + (u - 55296) * 1024 + (v - 56320), t) else None)
      else None)"

lemma hex4_length: "hex4 s = Some (u, t) \<Longrightarrow> length s = length t + 4"
  by (induction s rule: hex4.induct) (auto split: option.splits)

lemma low_half_length: "low_half u s = Some (v, t) \<Longrightarrow> length t < length s"
  by (auto simp: low_half_def dest!: hex4_length split: option.splits if_splits)

text \<open>The rest of a string behind its opening quote, and the text behind the closing one.\<close>

function scan_string :: "pystr \<Rightarrow> (pystr \<times> pystr) option" where
  "scan_string [] = None"
| "scan_string (c # s) =
     (if c = 34 then Some ([], s)
      else if c < 32 then None
      else if c \<noteq> 92 then map_option (apfst (Cons c)) (scan_string s)
      else (case s of
              [] \<Rightarrow> None
            | e # t \<Rightarrow>
                if e \<noteq> 117
                then (case simple_escape e of
                        None \<Rightarrow> None
                      | Some x \<Rightarrow> map_option (apfst (Cons x)) (scan_string t))
                else (case hex4 t of
                        None \<Rightarrow> None
                      | Some (u, t') \<Rightarrow>
                          (case low_half u t' of
                             None \<Rightarrow> map_option (apfst (Cons u)) (scan_string t')
                           | Some (v, t'') \<Rightarrow> map_option (apfst (Cons v)) (scan_string t'')))))"
  by pat_completeness auto
termination
  by (relation "measure length") (auto dest!: hex4_length low_half_length)

declare scan_string.simps [simp del]

section \<open>Reading numbers and constants\<close>

definition ascii_digit :: "nat \<Rightarrow> bool" where
  "ascii_digit c \<longleftrightarrow> 48 \<le> c \<and> c < 58"

definition digit_run :: "pystr \<Rightarrow> pystr \<times> pystr" where
  "digit_run s = (takeWhile ascii_digit s, dropWhile ascii_digit s)"

definition fraction :: "pystr \<Rightarrow> pystr \<times> pystr" where
  "fraction s =
     (if prefix [46] s \<and> fst (digit_run (tl s)) \<noteq> []
      then apfst (Cons 46) (digit_run (tl s)) else ([], s))"

definition exponent :: "pystr \<Rightarrow> pystr \<times> pystr" where
  "exponent s =
     (case s of
        [] \<Rightarrow> ([], s)
      | e # t \<Rightarrow>
          (let (sign, u) = (if prefix [43] t \<or> prefix [45] t then (take 1 t, tl t) else ([], t))
           in if (e = 101 \<or> e = 69) \<and> fst (digit_run u) \<noteq> []
              then apfst (\<lambda>ds. e # sign @ ds) (digit_run u) else ([], s)))"

definition scan_unsigned :: "bool \<Rightarrow> pystr \<Rightarrow> (js_value \<times> pystr) option" where
  "scan_unsigned neg t =
     (let (ds, u) = (if prefix [48] t then ([48], tl t) else digit_run t)
      in case digits_value ds of
           None \<Rightarrow> None
         | Some n \<Rightarrow>
             (let (fr, v) = fraction u; (ex, r) = exponent v
              in if fr = [] \<and> ex = [] then Some (VInt (if neg then - int n else int n), r)
                 else Some (VFloat ((if neg then [45] else []) @ ds @ fr @ ex), r)))"

definition scan_number :: "pystr \<Rightarrow> (js_value \<times> pystr) option" where
  "scan_number s = (if prefix [45] s then scan_unsigned True (tl s) else scan_unsigned False s)"

definition constants :: "(pystr \<times> js_value) list" where
  "constants =
     [(py ''null'', VNull), (py ''true'', VBool True), (py ''false'', VBool False),
      (py ''NaN'', VFloat (py ''NaN'')), (py ''Infinity'', VFloat (py ''Infinity'')),
      (py ''-Infinity'', VFloat (py ''-Infinity''))]"

definition scan_atom :: "pystr \<Rightarrow> (js_value \<times> pystr) option" where
  "scan_atom s =
     (case find (\<lambda>(name, _). prefix name s) constants of
        Some (name, v) \<Rightarrow> Some (v, drop (length name) s)
      | None \<Rightarrow> scan_number s)"

section \<open>Reading values\<close>

text \<open>
  One unit of fuel for every element on the way: the length of the text is always enough. The
  three functions read a value, the elements of an array behind its bracket, and the members of
  an object.
\<close>

fun json_value :: "nat \<Rightarrow> pystr \<Rightarrow> (js_value \<times> pystr) option"
  and json_items :: "nat \<Rightarrow> pystr \<Rightarrow> (js_value list \<times> pystr) option"
  and json_members :: "nat \<Rightarrow> pystr \<Rightarrow> ((pystr \<times> js_value) list \<times> pystr) option" where
  "json_value 0 s = None"
| "json_value (Suc f) s =
     (case s of
        [] \<Rightarrow> None
      | c # r \<Rightarrow>
          if c = 34 then map_option (apfst VStr) (scan_string r)
          else if c = 123
          then (if prefix [125] (skip_space r) then Some (VDict [], tl (skip_space r))
                else map_option (apfst (\<lambda>ms. VDict (fold (\<lambda>(k, v). dict_set k v) ms [])))
                       (json_members f (skip_space r)))
          else if c = 91
          then (if prefix [93] (skip_space r) then Some (VList [], tl (skip_space r))
                else map_option (apfst VList) (json_items f (skip_space r)))
          else scan_atom s)"
| "json_items 0 s = None"
| "json_items (Suc f) s =
     (case json_value f s of
        None \<Rightarrow> None
      | Some (v, r) \<Rightarrow>
          (case skip_space r of
             [] \<Rightarrow> None
           | c # r' \<Rightarrow>
               if c = 93 then Some ([v], r')
               else if c \<noteq> 44 then None
               else map_option (apfst (Cons v)) (json_items f (skip_space r'))))"
| "json_members 0 s = None"
| "json_members (Suc f) s =
     (if \<not> prefix [34] s then None
      else (case scan_string (tl s) of
              None \<Rightarrow> None
            | Some (k, r) \<Rightarrow>
                if \<not> prefix [58] (skip_space r) then None
                else (case json_value f (skip_space (tl (skip_space r))) of
                        None \<Rightarrow> None
                      | Some (v, r') \<Rightarrow>
                          (case skip_space r' of
                             [] \<Rightarrow> None
                           | c # t \<Rightarrow>
                               if c = 125 then Some ([(k, v)], t)
                               else if c \<noteq> 44 then None
                               else map_option (apfst (Cons (k, v))) (json_members f (skip_space t))))))"

definition json_loads :: "pystr \<Rightarrow> js_value res" where
  "json_loads s =
     (if prefix [65279] s then Inl DecodeError
      else (case json_value (Suc (length s)) (skip_space s) of
              None \<Rightarrow> Inl DecodeError
            | Some (v, r) \<Rightarrow> if skip_space r = [] then Inr v else Inl DecodeError))"

section \<open>Printing with a style\<close>

text \<open>
  White space behind an opening and before a closing bracket at a depth, behind a comma, and
  behind a colon.
\<close>

record style =
  s_break :: "nat \<Rightarrow> pystr"
  s_gap :: "nat \<Rightarrow> pystr"
  s_colon :: pystr

definition default_style :: style where
  "default_style = \<lparr>s_break = (\<lambda>_. []), s_gap = (\<lambda>_. [32]), s_colon = [32]\<rparr>"

definition indent_style :: style where
  "indent_style = \<lparr>s_break = (\<lambda>n. 10 # replicate (2 * n) 32), s_gap = (\<lambda>n. 10 # replicate (2 * n) 32), s_colon = [32]\<rparr>"

definition compact_style :: style where
  "compact_style = \<lparr>s_break = (\<lambda>_. []), s_gap = (\<lambda>_. []), s_colon = []\<rparr>"

definition separated :: "pystr \<Rightarrow> pystr list \<Rightarrow> pystr" where
  "separated sep ws = (case ws of [] \<Rightarrow> [] | v # vs \<Rightarrow> v @ concat (map (\<lambda>w. sep @ w) vs))"

lemma separated_simps [simp]:
  "separated sep [] = []" "separated sep (w # ws) = w @ concat (map (\<lambda>v. sep @ v) ws)"
  by (simp_all add: separated_def)

fun render :: "style \<Rightarrow> nat \<Rightarrow> json \<Rightarrow> pystr" where
  "render st n JNull = py ''null''"
| "render st n (JBool b) = (if b then py ''true'' else py ''false'')"
| "render st n (JInt i) = str_of_int i"
| "render st n (JStr s) = json_string s"
| "render st n (JList js) =
     (if js = [] then [91, 93]
      else [91] @ s_break st (Suc n) @ separated ([44] @ s_gap st (Suc n)) (map (render st (Suc n)) js) @
           s_break st n @ [93])"
| "render st n (JDict kvs) =
     (if kvs = [] then [123, 125]
      else [123] @ s_break st (Suc n) @
           separated ([44] @ s_gap st (Suc n))
             (map (\<lambda>(k, v). json_string k @ [58] @ s_colon st @ render st (Suc n) v) kvs) @
           s_break st n @ [125])"

lemma dumps_render: "dumps j = render default_style n j"
proof (induction j arbitrary: n)
  case (JList js)
  then have "map dumps js = map (render default_style (Suc n)) js" by simp
  then have "comma_join (map dumps js) = separated [44, 32] (map (render default_style (Suc n)) js)"
    by (simp only: comma_join_def separated_def)
  then show ?case by (simp add: default_style_def comma_join_def)
next
  case (JDict kvs)
  then have "map (\<lambda>(k, v). json_string k @ [58, 32] @ dumps v) kvs =
      map (\<lambda>(k, v). json_string k @ [58] @ s_colon default_style @ render default_style (Suc n) v) kvs"
    by (fastforce simp: default_style_def snds.simps)
  then have "comma_join (map (\<lambda>(k, v). json_string k @ [58, 32] @ dumps v) kvs) = separated [44, 32]
      (map (\<lambda>(k, v). json_string k @ [58] @ s_colon default_style @ render default_style (Suc n) v) kvs)"
    by (simp only: comma_join_def separated_def)
  then show ?case by (simp add: default_style_def comma_join_def)
qed simp_all

text \<open>The printed text is ASCII; only the style's white space may hold line breaks.\<close>

definition ascii_text :: "pystr \<Rightarrow> bool" where
  "ascii_text s \<longleftrightarrow> (\<forall>c \<in> set s. c = 10 \<or> 32 \<le> c \<and> c < 127)"

lemma ascii_text_simps [simp]:
  "ascii_text []" "ascii_text (c # s) \<longleftrightarrow> (c = 10 \<or> 32 \<le> c \<and> c < 127) \<and> ascii_text s"
  "ascii_text (s @ t) \<longleftrightarrow> ascii_text s \<and> ascii_text t" "ascii_text (concat ss) \<longleftrightarrow> (\<forall>s \<in> set ss. ascii_text s)"
  "ascii_text (replicate n 32)"
  by (auto simp: ascii_text_def)

lemma printable_ascii: "printable s \<Longrightarrow> ascii_text s"
  by (auto simp: printable_def ascii_text_def)

lemma ascii_separated: "ascii_text sep \<Longrightarrow> \<forall>w \<in> set ws. ascii_text w \<Longrightarrow> ascii_text (separated sep ws)"
  by (cases ws) auto

lemma ascii_render:
  assumes "\<And>n. ascii_text (s_break st n) \<and> ascii_text (s_gap st n)" "ascii_text (s_colon st)"
  shows "ascii_text (render st n j)"
proof (induction j arbitrary: n)
  case (JList js)
  then show ?case using assms by (auto intro!: ascii_separated)
next
  case (JDict kvs)
  then show ?case using assms printable_ascii [OF printable_string] by (auto intro!: ascii_separated)
next
  case (JInt i)
  then show ?case using printable_ascii [OF printable_str_of_int] by simp
next
  case (JStr s)
  then show ?case using printable_ascii [OF printable_string] by simp
qed (simp_all add: py_def)

lemma ascii_styles: "ascii_text (render default_style n j)" "ascii_text (render indent_style n j)" "ascii_text (render compact_style n j)"
  by (rule ascii_render; simp add: default_style_def indent_style_def compact_style_def)+

section \<open>Printed text reads back\<close>

text \<open>Code points without surrogates; distinct keys.\<close>

definition char_ok :: "nat \<Rightarrow> bool" where
  "char_ok c \<longleftrightarrow> c < 1114112 \<and> \<not> (55296 \<le> c \<and> c < 57344)"

lemma char_ok_py: "c \<in> set (py s) \<Longrightarrow> char_ok c"
proof -
  assume "c \<in> set (py s)"
  then obtain x :: char where "c = of_char x" by (auto simp: py_def)
  then have "c < 256" using of_char_mod_256 [of x, where 'a = nat] by (metis mod_less_divisor zero_less_numeral)
  then show "char_ok c" by (simp add: char_ok_def)
qed

fun json_ok :: "json \<Rightarrow> bool" where
  "json_ok (JStr s) \<longleftrightarrow> (\<forall>c \<in> set s. char_ok c)"
| "json_ok (JList js) \<longleftrightarrow> (\<forall>j \<in> set js. json_ok j)"
| "json_ok (JDict kvs) \<longleftrightarrow> distinct (map fst kvs) \<and>
     (\<forall>(k, v) \<in> set kvs. (\<forall>c \<in> set k. char_ok c) \<and> json_ok v)"
| "json_ok _ \<longleftrightarrow> True"

definition style_ok :: "style \<Rightarrow> bool" where
  "style_ok st \<longleftrightarrow> (\<forall>n. (\<forall>c \<in> set (s_break st n). json_space c) \<and> (\<forall>c \<in> set (s_gap st n). json_space c)) \<and>
     (\<forall>c \<in> set (s_colon st). json_space c)"

lemma styles_ok: "style_ok default_style" "style_ok indent_style" "style_ok compact_style"
  by (auto simp: style_ok_def default_style_def indent_style_def compact_style_def json_space_def)

text \<open>Text that may follow a value: nothing that would continue a number.\<close>

definition value_end :: "pystr \<Rightarrow> bool" where
  "value_end r \<longleftrightarrow> r = [] \<or> json_space (hd r) \<or> hd r \<in> {44, 93, 125}"

subsection \<open>Strings\<close>

lemma hex4_value_char: "n < 16 \<Longrightarrow> hex_value (hex_char n) = Some n"
  by (auto simp: hex_value_def hex_char_def)

lemma hex4_escape:
  assumes "c < 65536"
  shows "hex4 (drop 2 (unicode_escape c) @ r) = Some (c, r)"
proof -
  have d: "c div 256 = c div 16 div 16" "c div 4096 = c div 16 div 16 div 16"
    by (simp_all add: div_mult2_eq [symmetric])
  have "c div 16 div 16 div 16 < 16" using assms less_mult_imp_div_less [of c 16 4096] d(2) by simp
  then have "c div 4096 mod 16 = c div 4096" "hex_value (hex_char (c div 4096)) = Some (c div 4096)"
    using d by (simp_all add: hex4_value_char)
  moreover have "4096 * (c div 4096) + 256 * (c div 256 mod 16) + 16 * (c div 16 mod 16) + c mod 16 = c"
    using div_mult_mod_eq [of c 16] div_mult_mod_eq [of "c div 16" 16] div_mult_mod_eq [of "c div 16 div 16" 16]
    by (simp only: d)
  ultimately show ?thesis by (simp add: unicode_escape_def hex4_value_char)
qed

lemma scan_steps:
  "c \<noteq> 34 \<Longrightarrow> 32 \<le> c \<Longrightarrow> c \<noteq> 92 \<Longrightarrow> scan_string (c # r) = map_option (apfst (Cons c)) (scan_string r)"
  "e \<noteq> 117 \<Longrightarrow> simple_escape e = Some x \<Longrightarrow> scan_string (92 # e # r) = map_option (apfst (Cons x)) (scan_string r)"
  "hex4 t = Some (u, t') \<Longrightarrow> low_half u t' = None \<Longrightarrow>
     scan_string (92 # 117 # t) = map_option (apfst (Cons u)) (scan_string t')"
  "hex4 t = Some (u, t') \<Longrightarrow> low_half u t' = Some (v, t'') \<Longrightarrow>
     scan_string (92 # 117 # t) = map_option (apfst (Cons v)) (scan_string t'')"
  by (subst scan_string.simps, simp)+

lemma scan_escape:
  assumes "char_ok c"
  shows "scan_string (escape_char c @ r) = map_option (apfst (Cons c)) (scan_string r)"
proof -
  have e: "unicode_escape u @ r = 92 # 117 # (drop 2 (unicode_escape u) @ r)" for u and r :: pystr
    by (simp add: unicode_escape_def)
  consider "c \<in> {34, 92, 10, 13, 9, 12, 8}" | "c \<notin> {34, 92, 10, 13, 9, 12, 8}" "32 \<le> c" "c < 127"
    | "c \<notin> {34, 92, 10, 13, 9, 12, 8}" "\<not> (32 \<le> c \<and> c < 127)" "c < 65536" | "65536 \<le> c" by fastforce
  then show ?thesis
  proof cases
    case 1
    then obtain e where "escape_char c = [92, e]" "e \<noteq> 117" "simple_escape e = Some c"
      by (auto simp: escape_char_def simple_escape_def)
    then show ?thesis by (simp add: scan_steps(2))
  next
    case 2
    then show ?thesis by (simp add: escape_char_def scan_steps(1))
  next
    case 3
    then have "escape_char c = unicode_escape c" by (auto simp: escape_char_def)
    moreover have "low_half c r = None" using assms by (auto simp: low_half_def char_ok_def)
    ultimately show ?thesis using 3 hex4_escape [of c r] by (simp only: e scan_steps(3))
  next
    case 4
    let ?u = "55296 + (c - 65536) div 1024 mod 1024" and ?v = "56320 + (c - 65536) mod 1024"
    have bounds: "?u < 56320" "?v < 57344" "55296 \<le> ?u" "56320 \<le> ?v" by simp_all
    have "(c - 65536) div 1024 < 1024" using assms by (auto simp: char_ok_def)
    then have val: "65536 + (?u - 55296) * 1024 + (?v - 56320) = c" using 4 by simp
    have esc: "escape_char c = unicode_escape ?u @ unicode_escape ?v"
      using 4 by (simp add: escape_char_def)
    have low: "low_half ?u (unicode_escape ?v @ r) = Some (c, r)"
      using bounds val hex4_escape [of ?v r] by (simp add: low_half_def e)
    have hex: "hex4 (drop 2 (unicode_escape ?u) @ unicode_escape ?v @ r) = Some (?u, unicode_escape ?v @ r)"
      using bounds by (intro hex4_escape) simp
    have "escape_char c @ r = 92 # 117 # (drop 2 (unicode_escape ?u) @ unicode_escape ?v @ r)"
      by (simp only: esc append_assoc) (rule e)
    then show ?thesis using scan_steps(4) [OF hex low] by simp
  qed
qed

lemma scan_json_string:
  assumes "\<forall>c \<in> set s. char_ok c"
  shows "scan_string (concat (map escape_char s) @ 34 # r) = Some (s, r)"
  using assms
proof (induction s)
  case Nil
  then show ?case by (simp add: scan_string.simps)
next
  case (Cons c s)
  then show ?case by (simp add: scan_escape)
qed

subsection \<open>Numbers and constants\<close>

lemma json_digits: "c \<in> set (str_of_nat n) \<Longrightarrow> ascii_digit c"
  using str_of_nat_digits [of c n] by (simp add: ascii_digit_def)

lemma str_of_nat_leading: "prefix [48] (str_of_nat n) \<Longrightarrow> n = 0"
proof (induction n rule: str_of_nat.induct)
  case (1 n)
  show ?case
  proof (cases "n < 10")
    case True
    with 1 show ?thesis by (auto simp: str_of_nat.simps [of n])
  next
    case False
    then have "str_of_nat n = str_of_nat (n div 10) @ [48 + n mod 10]" by (simp add: str_of_nat.simps [of n])
    with 1(2) have "prefix [48] (str_of_nat (n div 10))" by (cases "str_of_nat (n div 10)") auto
    with 1 False show ?thesis by auto
  qed
qed

lemma value_end_number:
  assumes "value_end r"
  shows "digit_run r = ([], r)" "fraction r = ([], r)" "exponent r = ([], r)"
  using assms
  by (cases r; auto simp: value_end_def digit_run_def fraction_def exponent_def ascii_digit_def json_space_def)+

lemma digit_run_append: "\<forall>c \<in> set ds. ascii_digit c \<Longrightarrow> value_end r \<Longrightarrow> digit_run (ds @ r) = (ds, r)"
  using value_end_number(1) [of r] by (simp add: digit_run_def takeWhile_append2 dropWhile_append2)

lemma scan_nat:
  assumes "value_end r"
  shows "(if prefix [48] (str_of_nat n @ r) then ([48], tl (str_of_nat n @ r)) else digit_run (str_of_nat n @ r)) =
    (str_of_nat n, r)"
proof (cases "prefix [48] (str_of_nat n)")
  case True
  then have "n = 0" by (rule str_of_nat_leading)
  then have "str_of_nat n = [48]" by (simp add: str_of_nat.simps [of 0])
  then show ?thesis by simp
next
  case False
  moreover from this have "\<not> prefix [48] (str_of_nat n @ r)" by (cases "str_of_nat n") auto
  ultimately show ?thesis using digit_run_append [of "str_of_nat n" r] json_digits assms by simp
qed

lemma scan_unsigned_nat:
  assumes "value_end r"
  shows "scan_unsigned neg (str_of_nat n @ r) = Some (VInt (if neg then - int n else int n), r)"
  unfolding scan_unsigned_def scan_nat [OF assms] using value_end_number [OF assms] by simp

lemma str_of_nat_first: "\<exists>c s. str_of_nat n = c # s \<and> ascii_digit c"
  using json_digits [of "hd (str_of_nat n)" n] by (cases "str_of_nat n") auto

lemma scan_number_int:
  assumes "value_end r"
  shows "scan_number (str_of_int i @ r) = Some (VInt i, r)"
proof -
  have "\<not> prefix [45] (str_of_nat n @ r)" for n
    using str_of_nat_first [of n] by (auto simp: ascii_digit_def)
  then show ?thesis by (simp add: scan_number_def str_of_int_def scan_unsigned_nat [OF assms])
qed

lemma str_of_int_first: "\<exists>c s. str_of_int i = c # s \<and> (c = 45 \<or> ascii_digit c)"
  using str_of_nat_first [of "nat i"] by (auto simp: str_of_int_def)

lemma constants_not_digit:
  "ascii_digit c \<Longrightarrow> find (\<lambda>(name, _). prefix name (c # s)) constants = None"
  by (auto simp: find_None_iff constants_def py_def ascii_digit_def)

lemma scan_atom_int:
  assumes "value_end r"
  shows "scan_atom (str_of_int i @ r) = Some (VInt i, r)"
proof -
  have "find (\<lambda>(name, _). prefix name (str_of_int i @ r)) constants = None"
  proof (cases "i < 0")
    case True
    obtain c s where "str_of_nat (nat (- i)) = c # s" "ascii_digit c"
      using str_of_nat_first by blast
    with True show ?thesis
      by (auto simp: find_None_iff constants_def py_def ascii_digit_def str_of_int_def)
  next
    case False
    obtain c s where "str_of_nat (nat i) = c # s" "ascii_digit c"
      using str_of_nat_first by blast
    with False constants_not_digit show ?thesis by (simp add: str_of_int_def)
  qed
  then show ?thesis using scan_number_int [OF assms] by (simp add: scan_atom_def)
qed

lemma scan_atom_constants:
  "scan_atom (py ''null'' @ r) = Some (VNull, r)" "scan_atom (py ''true'' @ r) = Some (VBool True, r)"
  "scan_atom (py ''false'' @ r) = Some (VBool False, r)"
  by (simp_all add: scan_atom_def constants_def py_def)

subsection \<open>Values\<close>

text \<open>The fuel a value needs.\<close>

fun jsize :: "json \<Rightarrow> nat" where
  "jsize (JList js) = Suc (sum_list (map (\<lambda>j. Suc (jsize j)) js))"
| "jsize (JDict kvs) = Suc (sum_list (map (\<lambda>(k, v). Suc (jsize v)) kvs))"
| "jsize _ = Suc 0"

lemma skip_space_append: "\<forall>c \<in> set ws. json_space c \<Longrightarrow> skip_space (ws @ r) = skip_space r"
  by (simp add: skip_space_def dropWhile_append2)

lemma skip_space_Cons [simp]: "\<not> json_space c \<Longrightarrow> skip_space (c # r) = c # r"
  by (simp add: skip_space_def)

lemma json_space_marks [simp]: "\<not> json_space 34" "\<not> json_space 44" "\<not> json_space 58" "\<not> json_space 91"
    "\<not> json_space 93" "\<not> json_space 123" "\<not> json_space 125" "\<not> json_space 45"
  by (simp_all add: json_space_def)

lemma value_end_intros [simp]:
  "value_end []" "value_end (44 # r)" "value_end (93 # r)" "value_end (125 # r)"
  by (simp_all add: value_end_def)

lemma value_end_space: "\<forall>c \<in> set ws. json_space c \<Longrightarrow> value_end r \<Longrightarrow> value_end (ws @ r)"
  by (cases ws) (auto simp: value_end_def)

text \<open>The first character of a printed value is no white space and closes nothing.\<close>

lemma render_first:
  "\<exists>c s. render st n j = c # s \<and> \<not> json_space c \<and> c \<notin> {93, 125, 65279}"
proof (cases j)
  case (JInt i)
  with str_of_int_first [of i] show ?thesis by (auto simp: ascii_digit_def json_space_def)
qed (auto simp: py_def json_string_def json_space_def)

lemma render_skip: "skip_space (render st n j @ r) = render st n j @ r"
  using render_first [of st n j] by auto

definition reads :: "style \<Rightarrow> json \<Rightarrow> bool" where
  "reads st j \<longleftrightarrow> (\<forall>n f r. jsize j \<le> f \<longrightarrow> value_end r \<longrightarrow> json_value f (render st n j @ r) = Some (of_json j, r))"

lemma reads_items:
  assumes "style_ok st" "\<forall>j \<in> set js. reads st j" "js \<noteq> []" "sum_list (map (\<lambda>j. Suc (jsize j)) js) \<le> f"
    "\<forall>c \<in> set ws. json_space c"
  shows "json_items f (separated ([44] @ s_gap st m) (map (render st n) js) @ ws @ [93] @ r) = Some (map of_json js, r)"
  using assms(2-4)
proof (induction js arbitrary: f)
  case (Cons j js)
  then obtain f' where f: "f = Suc f'" "jsize j \<le> f'" "sum_list (map (\<lambda>j. Suc (jsize j)) js) \<le> f'"
    by (cases f) auto
  have gap: "\<forall>c \<in> set (s_gap st m). json_space c" using assms(1) by (simp add: style_ok_def)
  show ?case
  proof (cases js)
    case Nil
    have "json_value f' (render st n j @ ws @ [93] @ r) = Some (of_json j, ws @ [93] @ r)"
      using Cons.prems(1) f(2) value_end_space [OF assms(5)] by (simp add: reads_def)
    then show ?thesis using f Nil by (simp add: skip_space_append [OF assms(5)])
  next
    case (Cons j' js')
    let ?rest = "separated ([44] @ s_gap st m) (map (render st n) js) @ ws @ [93] @ r"
    have "json_value f' (render st n j @ 44 # s_gap st m @ ?rest) = Some (of_json j, 44 # s_gap st m @ ?rest)"
      using Cons.prems(1) f(2) by (simp add: reads_def)
    moreover have "skip_space (s_gap st m @ ?rest) = ?rest"
      using render_skip [of st n j'] Cons by (simp add: skip_space_append [OF gap])
    moreover have "json_items f' ?rest = Some (map of_json js, r)"
      using Cons.IH [OF _ _ f(3)] Cons.prems(1) Cons by simp
    ultimately show ?thesis using f Cons by simp
  qed
qed simp

definition member_text :: "style \<Rightarrow> nat \<Rightarrow> pystr \<times> json \<Rightarrow> pystr" where
  "member_text st n = (\<lambda>(k, v). json_string k @ [58] @ s_colon st @ render st n v)"

lemma reads_member:
  assumes "style_ok st" "\<forall>c \<in> set k. char_ok c" "reads st v" "jsize v \<le> f" "value_end r"
  shows "json_members (Suc f) (member_text st n (k, v) @ r) =
    (case skip_space r of
       [] \<Rightarrow> None
     | c # t \<Rightarrow>
         if c = 125 then Some ([(k, of_json v)], t)
         else if c \<noteq> 44 then None
         else map_option (apfst (Cons (k, of_json v))) (json_members f (skip_space t)))"
proof -
  have shape: "member_text st n (k, v) @ r = 34 # concat (map escape_char k) @ 34 # 58 # s_colon st @ render st n v @ r"
    by (simp add: member_text_def json_string_def)
  have "skip_space (s_colon st @ render st n v @ r) = render st n v @ r"
    using assms(1) render_skip [of st n v r] by (simp add: skip_space_append style_ok_def)
  moreover have "json_value f (render st n v @ r) = Some (of_json v, r)"
    using assms(3-5) by (simp add: reads_def)
  ultimately show ?thesis unfolding shape by (simp add: scan_json_string [OF assms(2)])
qed

lemma reads_members:
  assumes "style_ok st" "\<forall>(k, v) \<in> set kvs. (\<forall>c \<in> set k. char_ok c) \<and> reads st v" "kvs \<noteq> []"
    "sum_list (map (\<lambda>(k, v). Suc (jsize v)) kvs) \<le> f" "\<forall>c \<in> set ws. json_space c"
  shows "json_members f (separated ([44] @ s_gap st m) (map (member_text st n) kvs) @ ws @ [125] @ r) =
    Some (map (\<lambda>(k, v). (k, of_json v)) kvs, r)"
  using assms(2-4)
proof (induction kvs arbitrary: f)
  case (Cons kv kvs)
  obtain k v where kv: "kv = (k, v)" by (cases kv)
  with Cons.prems obtain f' where f: "f = Suc f'" "jsize v \<le> f'"
    "sum_list (map (\<lambda>(k, v). Suc (jsize v)) kvs) \<le> f'" by (cases f) auto
  have gap: "\<forall>c \<in> set (s_gap st m). json_space c" using assms(1) by (simp add: style_ok_def)
  have member: "\<forall>c \<in> set k. char_ok c" "reads st v" using Cons.prems(1) kv by auto
  note step = reads_member [OF assms(1) member f(2)]
  show ?case
  proof (cases kvs)
    case Nil
    have "value_end (ws @ [125] @ r)" by (intro value_end_space [OF assms(5)]) simp
    from step [OF this] f kv Nil show ?thesis by (simp add: skip_space_append [OF assms(5)])
  next
    case (Cons kv' kvs')
    let ?rest = "separated ([44] @ s_gap st m) (map (member_text st n) kvs) @ ws @ [125] @ r"
    have "prefix [34] ?rest" using Cons by (cases kv') (simp add: member_text_def json_string_def)
    then have "skip_space (s_gap st m @ ?rest) = ?rest"
      by (auto simp: skip_space_append [OF gap] prefix_def)
    moreover have "json_members f' ?rest = Some (map (\<lambda>(k, v). (k, of_json v)) kvs, r)"
      using Cons.IH [OF _ _ f(3)] Cons.prems(1) Cons by simp
    moreover have "value_end (44 # s_gap st m @ ?rest)" by simp
    ultimately show ?thesis using f kv Cons step [of "44 # s_gap st m @ ?rest" n] by simp
  qed
qed simp

lemma dict_of_distinct:
  assumes "distinct (map fst (d @ kvs))"
  shows "fold (\<lambda>(k, v). dict_set k v) kvs d = d @ kvs"
  using assms
proof (induction kvs arbitrary: d)
  case (Cons kv kvs)
  obtain k v where kv: "kv = (k, v)" by (cases kv)
  have "k \<notin> set (map fst d) \<Longrightarrow> dict_set k v d = d @ [(k, v)]" for d :: "('a \<times> 'b) list"
    by (induction d) auto
  with Cons.prems kv have "dict_set k v d = d @ [(k, v)]" by simp
  with Cons.IH [of "d @ [(k, v)]"] Cons.prems kv show ?case by simp
qed simp

lemma reads_atom:
  assumes "\<And>n. render st n j = c # s" "c \<noteq> 34" "c \<noteq> 123" "c \<noteq> 91"
    "\<And>r. value_end r \<Longrightarrow> scan_atom (c # s @ r) = Some (of_json j, r)" "jsize j = Suc 0"
  shows "reads st j"
  unfolding reads_def
proof (intro allI impI)
  fix n f r
  assume "jsize j \<le> f" "value_end r"
  then obtain f' where "f = Suc f'" using assms(6) by (cases f) auto
  then show "json_value f (render st n j @ r) = Some (of_json j, r)"
    using assms(1-4) assms(5) [OF \<open>value_end r\<close>] by simp
qed

lemma reads_simple: "reads st JNull" "reads st (JBool b)" "reads st (JInt i)"
proof -
  show "reads st JNull"
    using scan_atom_constants(1) by (intro reads_atom [where c = 110 and s = "py ''ull''"]) (simp_all add: py_def)
  show "reads st (JBool b)"
    using scan_atom_constants(2,3)
    by (cases b; intro reads_atom [where c = "if b then 116 else 102" and s = "if b then py ''rue'' else py ''alse''"])
      (simp_all add: py_def)
  obtain c s where i: "str_of_int i = c # s" "c = 45 \<or> ascii_digit c" using str_of_int_first by blast
  with scan_atom_int [of _ i] show "reads st (JInt i)"
    by (intro reads_atom [of st "JInt i" c s]) (auto simp: ascii_digit_def)
qed

lemma reads_string: "\<forall>c \<in> set t. char_ok c \<Longrightarrow> reads st (JStr t)"
  unfolding reads_def
  by (auto simp: json_string_def scan_json_string Suc_le_eq gr0_conv_Suc)

theorem render_reads:
  assumes "style_ok st"
  shows "json_ok j \<Longrightarrow> reads st j"
proof (induction j)
  case (JList js)
  then have IH: "\<forall>j \<in> set js. reads st j" by simp
  have ws: "\<forall>c \<in> set (s_break st n). json_space c" for n using assms by (simp add: style_ok_def)
  show ?case unfolding reads_def
  proof (intro allI impI)
    fix n f r
    assume "jsize (JList js) \<le> f" "value_end r"
    then obtain f' where f: "f = Suc f'" "sum_list (map (\<lambda>j. Suc (jsize j)) js) \<le> f'" by (cases f) auto
    show "json_value f (render st n (JList js) @ r) = Some (of_json (JList js), r)"
    proof (cases js)
      case Nil
      with f show ?thesis by simp
    next
      case (Cons j js')
      let ?body = "separated ([44] @ s_gap st (Suc n)) (map (render st (Suc n)) js) @ s_break st n @ [93] @ r"
      obtain c s where first: "?body = c # s" "\<not> json_space c" "c \<noteq> 93"
        using render_first [of st "Suc n" j] Cons by auto
      have skip: "skip_space (s_break st (Suc n) @ ?body) = ?body"
        using first by (simp add: skip_space_append [OF ws])
      have "json_items f' ?body = Some (map of_json js, r)"
        using reads_items [OF assms IH _ f(2) ws] Cons by blast
      with f skip first show ?thesis using Cons by (simp del: separated_simps)
    qed
  qed
next
  case (JDict kvs)
  then have IH: "\<forall>(k, v) \<in> set kvs. (\<forall>c \<in> set k. char_ok c) \<and> reads st v" and keys: "distinct (map fst kvs)"
    by (fastforce simp: snds.simps)+
  have ws: "\<forall>c \<in> set (s_break st n). json_space c" for n using assms by (simp add: style_ok_def)
  show ?case unfolding reads_def
  proof (intro allI impI)
    fix n f r
    assume "jsize (JDict kvs) \<le> f" "value_end r"
    then obtain f' where f: "f = Suc f'" "sum_list (map (\<lambda>(k, v). Suc (jsize v)) kvs) \<le> f'" by (cases f) auto
    show "json_value f (render st n (JDict kvs) @ r) = Some (of_json (JDict kvs), r)"
    proof (cases kvs)
      case Nil
      with f show ?thesis by simp
    next
      case (Cons kv kvs')
      let ?body = "separated ([44] @ s_gap st (Suc n)) (map (member_text st (Suc n)) kvs) @ s_break st n @ [125] @ r"
      have shape: "render st n (JDict kvs) @ r = 123 # s_break st (Suc n) @ ?body"
        using Cons by (simp add: member_text_def case_prod_beta del: separated_simps)
      obtain s where first: "?body = 34 # s"
        using Cons by (cases kv) (simp add: member_text_def json_string_def)
      have skip: "skip_space (s_break st (Suc n) @ ?body) = ?body"
        using first by (simp add: skip_space_append [OF ws])
      have "json_members f' ?body = Some (map (\<lambda>(k, v). (k, of_json v)) kvs, r)"
        using reads_members [OF assms IH _ f(2) ws] Cons by blast
      moreover have "fold (\<lambda>(k, v). dict_set k v) (map (\<lambda>(k, v). (k, of_json v)) kvs) [] =
          map (\<lambda>(k, v). (k, of_json v)) kvs"
        using dict_of_distinct [of "[]" "map (\<lambda>(k, v). (k, of_json v)) kvs"] keys
        by (simp add: comp_def case_prod_beta)
      ultimately show ?thesis unfolding shape f(1) using skip first by simp
    qed
  qed
qed (simp_all add: reads_simple reads_string)

text \<open>The length of the printed text is fuel enough.\<close>

lemma jsize_pos: "0 < jsize j"
  by (cases j) auto

lemma length_separated_sum:
  "js \<noteq> [] \<Longrightarrow> (\<And>j. j \<in> set js \<Longrightarrow> size' j \<le> length (f j)) \<Longrightarrow>
     sum_list (map (\<lambda>j. Suc (size' j)) js) \<le> Suc (length (separated (44 # g) (map f js)))"
proof (induction js)
  case (Cons j js)
  show ?case
  proof (cases js)
    case Nil
    with Cons.prems(2) [of j] show ?thesis by simp
  next
    case (Cons j' js')
    have "separated (44 # g) (map f (j # js)) = f j @ 44 # g @ separated (44 # g) (map f js)"
      using Cons by simp
    then show ?thesis using Cons Cons.IH Cons.prems(2) [of j] Cons.prems(2) by fastforce
  qed
qed simp

lemma jsize_render: "jsize j \<le> length (render st n j)"
proof (induction j arbitrary: n)
  case (JList js)
  show ?case
  proof (cases "js = []")
    case False
    with JList length_separated_sum [of js jsize "render st (Suc n)" "s_gap st (Suc n)"]
    show ?thesis by fastforce
  qed simp
next
  case (JDict kvs)
  show ?case
  proof (cases "kvs = []")
    case False
    have "jsize v \<le> length (member_text st (Suc n) (k, v))" if "(k, v) \<in> set kvs" for k v
      using JDict [of "(k, v)" v "Suc n"] that by (simp add: member_text_def snds.simps)
    then have "sum_list (map (\<lambda>kv. Suc (jsize (snd kv))) kvs) \<le>
        Suc (length (separated (44 # s_gap st (Suc n)) (map (member_text st (Suc n)) kvs)))"
      by (intro length_separated_sum False) (metis prod.collapse)
    with False show ?thesis by (simp add: member_text_def case_prod_unfold)
  qed simp
qed (auto simp: py_def json_string_def Suc_le_eq str_of_int_def)

theorem loads_render:
  assumes "style_ok st" "json_ok j"
  shows "json_loads (render st n j) = Inr (of_json j)"
proof -
  obtain c s where first: "render st n j = c # s" "\<not> json_space c" "c \<noteq> 65279"
    using render_first [of st n j] by auto
  have "json_value (Suc (length (render st n j))) (render st n j @ []) = Some (of_json j, [])"
    using render_reads [OF assms] le_SucI [OF jsize_render] value_end_intros(1) unfolding reads_def by blast
  with first show ?thesis by (simp add: json_loads_def skip_space_def del: json_value.simps)
qed

end
