(* ===== verification/Package_Texts.thy ===== *)
theory Package_Texts
  imports PyText
begin

text \<open>
  The texts that the packages carry (\<open>tools/package-linux.py\<close>, \<open>tools/package-desktop.py\<close>):
  the start scripts and the READ-ME files, line by line; other than ASCII characters are given
  by their code points.
\<close>

text \<open>Lines with their line ends.\<close>

definition lines_text :: "pystr list \<Rightarrow> pystr" where
  "lines_text ls = concat (map (\<lambda>l. l @ [10]) ls)"

section \<open>The Linux package\<close>

definition start_sh_lines :: "pystr list" where
  "start_sh_lines =
     [py ''#!/bin/sh'',
      py ''set -eu'',
      [99, 100, 32, 34] @ py ''$(dirname '' @ [34, 36, 48, 34, 41, 34],
      py ''if ! command -v python3 >/dev/null 2>&1; then'',
      py ''  echo '' @ [34] @
        py ''Install Python 3.10+, QEMU 6.2+ and SeaBIOS; see READ-ME.txt.'' @ [34] @ py '' >&2'',
      py ''  exit 1'',
      [102, 105],
      py ''exec python3 -B tools/desktop-launch.py --no-browser '' @ [34, 36, 64, 34]]"

text \<open>The lines before and behind the one that names the source revision.\<close>

definition linux_readme_head :: "pystr list" where
  "linux_readme_head =
     [py ''MiniLinux / Linux x86_64 LAB preview'',
      [],
      py ''1. Ubuntu/Debian '' @ [20808, 20934, 22791, 36816, 34892, 24037, 20855, 65288, 24050,
        26377, 21017, 19981, 38656, 37325, 22797, 23433, 35013, 65289, 65306],
      py ''   sudo apt-get update'',
      py ''   sudo apt-get install --no-install-recommends python3 qemu-system-x86 seabios'',
      [32, 32, 32, 38656, 35201] @ py '' Python 3.10+'' @ [12289] @ py ''QEMU 6.2+'' @ [65307,
        19981, 38656, 35201] @ py '' Clang'' @ [12289, 76, 76, 68, 12289, 71, 68, 66, 12289] @
        py ''pip '' @ [25110] @ py '' venv'' @ [12290],
      [50, 46, 32, 35299, 21387, 25972, 20010, 26723, 26696, 65292, 36827, 20837] @
        py '' MiniLinux-LAB'' @ [65292, 36816, 34892, 65306] @ py ''sh Start.sh'',
      [51, 46, 32, 25163, 21160, 25171, 24320, 32456, 31471, 26174, 31034, 30340, 26412, 27425] @
        py '' http://127.0.0.1:'' @ [31471, 21475, 47, 32, 32593, 22336, 12290],
      [32, 32, 32, 31471, 21475, 33258, 21160, 36873, 25321, 65292, 19981, 20250, 24377, 20986,
        25110, 20999, 25442, 20320, 30340, 27983, 35272, 22120, 12290],
      [52, 46, 32, 35797] @ py '' cat hello.txt'' @ [12289] @ py ''run counter-a counter-b'' @
        [12289] @ py ''run fault'' @ [65307, 25925, 38556, 21518] @ py '' shell '' @ [20173, 21487,
        25805, 20316, 12290],
      [32, 32, 32, 20445, 25345, 21551, 21160, 31383, 21475, 65307] @ py ''Ctrl+C '' @ [20851,
        38381] @ py '' LAB '' @ [19982, 20854] @ py '' QEMU'' @ [12290, 20851, 38381, 32593, 39029,
        19981, 20250, 20851, 38381, 23458, 20307, 12290],
      [],
      [21253, 20869, 24050, 32463, 26377, 21551, 21160, 26144, 20687, 65307, 39318, 27425, 21551,
        21160, 20063, 19981, 19979, 36733, 12289, 32534, 35793, 25110, 23433, 35013, 19996, 35199,
        12290],
      py ''QEMU '' @ [20351, 29992] @ py '' qemu64,-apic'' @ [12289] @ py ''1 CPU'' @ [12289] @
        py ''64 MiB'' @ [12289, 84, 67, 71, 65307, 19981, 38656, 35201] @ py '' KVM '' @ [25110] @
        py '' root'' @ [12290],
      [31995, 32479] @ py '' QEMU '' @ [21644] @ py '' Python '' @ [30001, 21457, 34892, 29256,
        31649, 29702, 65292, 26412, 21253, 19981, 20250, 20462, 25913, 23427, 20204, 12290],
      [20113, 20027, 26426, 38656, 35201] @ py '' SSH '' @ [31471, 21475, 36716, 21457, 65306] @
        py ''ssh -N -L 8088:127.0.0.1:'' @ [36828, 31471, 26174, 31034, 30340, 31471, 21475, 32,
        29992, 25143, 64, 20027, 26426],
      [28982, 21518, 22312, 33258, 24049, 30340, 27983, 35272, 22120, 25171, 24320] @
        py '' http://127.0.0.1:8088/ '' @ [12290],
      [],
      py ''This is a real teaching guest, not a replay or a Linux distribution.'',
      py ''Install Python 3.10+, qemu-system-x86_64 6.2+ and SeaBIOS using your distribution.'',
      py ''Run sh Start.sh and open the printed loopback URL. Ctrl+C closes LAB and its QEMU.'',
      py ''The included ISO needs no compiler, Python packages or network access at runtime.'']"

definition linux_source_line :: "pystr \<Rightarrow> pystr" where
  "linux_source_line source = py ''Source: https://github.com/NoctilumeDev/MiniLinux/tree/'' @ source"

definition linux_readme_tail :: "pystr list" where
  "linux_readme_tail =
     [py ''Limine license: runtime/images/LIMINE-LICENSE.txt; Tux: web/assets/TUX-README.md.'']"

definition linux_readme :: "pystr \<Rightarrow> pystr" where
  "linux_readme source = lines_text (linux_readme_head @ [linux_source_line source] @ linux_readme_tail)"

section \<open>The Windows package\<close>

text \<open>\<open>Start.cmd\<close> is written with its own line ends.\<close>

definition start_cmd_lines :: "pystr list" where
  "start_cmd_lines =
     [py ''@echo off'',
      py ''setlocal'',
      py ''set '' @ [34] @ py ''PSModulePath=%SystemRoot%'' @ [92] @ py ''System32'' @ [92] @
        py ''WindowsPowerShell'' @ [92] @ py ''v1.0'' @ [92] @ py ''Modules'' @ [34],
      py ''cd /d '' @ [34] @ py ''%~dp0'' @ [34],
      py ''set '' @ [34] @ py ''LAB_PROXY=%~1'' @ [34],
      py ''set '' @ [34] @ py ''LAB_BROWSER_OPTION='' @ [34],
      [105, 102, 32, 34, 37, 126, 49, 34, 61, 61, 34] @ py ''--no-browser'' @ [34] @ py '' set '' @
        [34] @ py ''LAB_PROXY='' @ [34],
      [105, 102, 32, 34, 37, 126, 49, 34, 61, 61, 34] @ py ''--no-browser'' @ [34] @ py '' set '' @
        [34] @ py ''LAB_BROWSER_OPTION=--no-browser'' @ [34],
      [105, 102, 32, 34, 37, 126, 50, 34, 61, 61, 34] @ py ''--no-browser'' @ [34] @ py '' set '' @
        [34] @ py ''LAB_BROWSER_OPTION=--no-browser'' @ [34],
      [105, 102, 32, 34] @ py ''%LAB_PROXY%'' @ [34, 61, 61, 34, 34, 32, 40],
      [32, 32, 34] @ py ''%SystemRoot%'' @ [92] @ py ''System32'' @ [92] @
        py ''WindowsPowerShell'' @ [92] @ py ''v1.0'' @ [92] @ py ''powershell.exe'' @ [34] @
        py '' -NoProfile -ExecutionPolicy Bypass -File '' @ [34] @ py ''%~dp0tools'' @ [92] @
        py ''prepare-desktop.ps1'' @ [34],
      py '') else ('',
      [32, 32, 34] @ py ''%SystemRoot%'' @ [92] @ py ''System32'' @ [92] @
        py ''WindowsPowerShell'' @ [92] @ py ''v1.0'' @ [92] @ py ''powershell.exe'' @ [34] @
        py '' -NoProfile -ExecutionPolicy Bypass -File '' @ [34] @ py ''%~dp0tools'' @ [92] @
        py ''prepare-desktop.ps1'' @ [34] @ py '' -Proxy '' @ [34] @ py ''%LAB_PROXY%'' @ [34],
      [41],
      py ''if errorlevel 1 goto failed'',
      [34] @ py ''%~dp0runtime'' @ [92] @ py ''python'' @ [92] @ py ''python.exe'' @ [34] @
        py '' -I '' @ [34] @ py ''%~dp0tools'' @ [92] @ py ''desktop-launch.py'' @ [34] @
        py '' %LAB_BROWSER_OPTION%'',
      py ''if errorlevel 1 goto failed'',
      py ''exit /b 0'',
      py '':failed'',
      py ''echo LAB could not start. See READ-ME.txt for retry and proxy instructions.'',
      py ''echo Keep the error above when reporting a problem.'',
      py ''pause'',
      []]"

definition start_cmd :: "nat list" where
  "start_cmd = concat (map (\<lambda>l. l @ [13, 10]) (butlast start_cmd_lines)) @ last start_cmd_lines"

definition desktop_readme_lines :: "pystr list" where
  "desktop_readme_lines =
     [py ''MiniLinux / Windows LAB preview'',
      [],
      [20013, 25991, 24555, 36895, 24320, 22987],
      [49, 46, 32, 38656, 35201] @ py '' Windows 10/11 x64'' @ [12290, 35299, 21387, 25972,
        20010] @ py '' ZIP'' @ [65292, 36827, 20837] @ py '' MiniLinux-LAB '' @ [25991, 20214,
        22841, 12290],
      [50, 46, 32, 21452, 20987] @ py '' Start.cmd'' @ [12290, 39318, 27425, 32852, 32593, 19979,
        36733, 32422] @ py '' 220 MB '' @ [30340, 23448, 26041] @ py '' Python/QEMU '' @ [26723,
        26696, 65292],
      [32, 32, 32, 26680, 39564, 21518, 21482, 35299, 21253, 21040, 26412, 25991, 20214, 22841,
        30340] @ py '' runtime'' @ [65307, 20197, 21518, 21551, 21160, 20250, 22797, 29992, 36825,
        37324, 30340, 32531, 23384, 12290],
      [32, 32, 32, 26080, 38656, 39044, 35013] @ py '' Python/QEMU'' @ [12289, 32534, 35793, 22120,
        12289] @ py ''GDB '' @ [25110] @ py '' WSL'' @ [12290, 38454, 27573, 25552, 31034, 20250,
        26174, 31034, 24403, 21069, 20934, 22791, 27493, 39588, 12290],
      [51, 46, 32, 27983, 35272, 22120, 20250, 25171, 24320, 30495, 23454] @ py '' QEMU '' @
        [23458, 20307, 12290, 20808, 36755, 20837] @ py '' help'' @ [12289] @
        py ''cat hello.txt'' @ [12289] @ py ''run reader'' @ [65292],
      [32, 32, 32, 20877, 36755, 20837] @ py '' run counter-a counter-b'' @ [65307, 32467, 26463,
        21518, 28857, 8220, 26597, 30475, 26368, 36817] @ py '' counter '' @ [24555, 29031, 8221,
        27604, 36739, 20004, 20010, 80, 73, 68, 12290],
      [32, 32, 32, 24555, 29031, 21482, 22266, 23450, 35266, 23519, 31383, 65292, 19981, 20250,
        26242, 20572, 23458, 20307, 12290] @ py ''run fault '' @ [21482, 36864, 20986, 28436,
        31034, 31243, 24207, 65292] @ py ''shell '' @ [20173, 33021, 25509, 21463, 21629, 20196,
        12290],
      py ''4. stop guest '' @ [20572, 27490, 23458, 20307, 65307] @ py ''restart guest '' @ [20174,
        22836, 21551, 21160, 12290, 20851, 38381, 32593, 39029, 19981, 20250, 20851, 38381] @
        py '' LAB'' @ [12290],
      [32, 32, 32, 20445, 30041, 21551, 21160, 31383, 21475, 65292, 29992] @ py '' Ctrl+C '' @
        [20851, 38381] @ py '' LAB '' @ [21644, 23427, 33258, 24049, 30340] @ py '' QEMU'' @
        [12290],
      [],
      [22914, 38656, 20195, 29702, 65306, 22312, 26412, 25991, 20214, 22841, 65288, 33021, 30475,
        21040] @ py '' Start.cmd'' @ [65289, 30340, 36164, 28304, 31649, 29702, 22120, 22320,
        22336, 26639, 36755, 20837] @ py '' powershell'' @ [65292],
      [25353] @ py '' Enter'' @ [65292, 28982, 21518, 36755, 20837, 19979, 21015, 21629, 20196,
        65292, 25226, 22320, 22336, 26367, 25442, 25104, 20320, 30340, 20195, 29702, 65306],
      [32, 32, 46, 92] @ py ''Start.cmd http://127.0.0.1:7897'',
      [19979, 36733, 22833, 36133, 21487, 20197, 25353, 21516, 26679, 26041, 27861, 37325, 35797,
        65307, 19981, 20462, 25913, 20840, 23616, 20195, 29702, 25110, 31995, 32479, 27169, 22359,
        37197, 32622, 12290],
      [22914, 26524, 27809, 26377, 33258, 21160, 25171, 24320, 27983, 35272, 22120, 65292, 35831,
        22797, 21046, 21551, 21160, 31383, 21475, 26174, 31034, 30340] @
        py '' http://127.0.0.1:'' @ [31471, 21475, 47, 32, 32593, 22336, 12290],
      [19979, 27425, 25171, 24320, 30340, 31471, 21475, 21487, 33021, 21464, 21270, 65292, 35831,
        20351, 29992, 36825, 27425, 26174, 31034, 30340, 26032, 32593, 22336, 12290],
      [33509, 19981, 24819, 33258, 21160, 25171, 24320, 40664, 35748, 27983, 35272, 22120, 65292,
        21487, 36816, 34892, 32, 46, 92] @ py ''Start.cmd --no-browser'' @ [65292, 25163, 21160,
        25171, 24320, 26174, 31034, 30340, 32593, 22336, 12290],
      [21516, 26102, 38656, 35201, 20195, 29702, 26102, 65306, 46, 92] @
        py ''Start.cmd http://127.0.0.1:7897 --no-browser'' @ [12290],
      [36825, 26159, 22266, 23450, 31243, 24207, 21644, 25991, 20214, 30340, 25945, 23398, 20307,
        39564, 65292, 19981, 26159] @ py '' Linux '' @ [21457, 34892, 29256, 12290],
      [],
      py ''English quick start'',
      py ''1. Extract this entire ZIP to a writable folder on Windows 10/11 x64.'',
      py ''2. Double-click Start.cmd. The first start downloads about 220 MB of official'',
      py ''   Python/QEMU archives and unpacks them inside runtime/. Internet is required.'',
      py ''   No compiler, GDB, WSL or existing Python/QEMU installation is needed.'',
      py ''3. A browser opens the actual 64 MiB QEMU guest. Try help, cat hello.txt,'',
      py ''   run reader, run counter-a counter-b, then run fault.'',
      [],
      py ''Keep the launcher window open. Ctrl+C closes LAB and its owned QEMU.'',
      py ''stop guest stops QEMU; restart guest starts a fresh guest.'',
      py ''This is a teaching preview with fixed programs and files, not a Linux distro.'',
      py ''If downloads need a proxy, run in PowerShell:'',
      [32, 32, 46, 92] @ py ''Start.cmd http://127.0.0.1:7897'',
      py ''Replace that URL with your own proxy. No global setting is changed.'',
      py ''Append --no-browser to leave the default browser alone and open the printed URL yourself.'',
      py ''A failed download can be retried with the same command. Verified archives'',
      py ''are cached for later offline starts.'',
      [],
      py ''Python: PSF license, included in the vendor archive.'',
      py ''QEMU: downloaded directly from qemu.weilnetz.de; upstream notices are retained.'',
      py ''7-Zip: Igor Pavlov, see runtime/extractor/License.txt and the included source.'',
      py ''Limine: runtime/images/LIMINE-LICENSE.txt. Tux: web/assets/TUX-README.md.'']"

end
