(* ===== verification/Packages.thy ===== *)
theory Packages
  imports Linux_Check Py_Parse Package_Texts
begin

text \<open>
  The package builders (\<open>tools/package-linux.py\<close>, \<open>tools/package-desktop.py\<close>): which files a
  package holds, what they are copied from, the manifest that names the source and the digests,
  and the conditions under which nothing is written. Writing an archive and the test whether a
  path exists are answers of the world; so are git, the image reader and the digest, which the
  build tools share.
\<close>

section \<open>UTF-8\<close>

definition utf8_char :: "nat \<Rightarrow> nat list" where
  "utf8_char c =
     (if c < 128 then [c]
      else if c < 2048 then [192 + c div 64, 128 + c mod 64]
      else if c < 65536 then [224 + c div 4096, 128 + c div 64 mod 64, 128 + c mod 64]
      else [240 + c div 262144, 128 + c div 4096 mod 64, 128 + c div 64 mod 64, 128 + c mod 64])"

definition utf8_encode :: "pystr \<Rightarrow> nat list" where
  "utf8_encode s = concat (map utf8_char s)"

lemma utf8_encode_ascii: "\<forall>c \<in> set s. c < 128 \<Longrightarrow> utf8_encode s = s"
  by (induction s) (auto simp: utf8_encode_def utf8_char_def)

section \<open>The world of a package builder\<close>

record package_world =
  pk_host :: linux_world
  pk_exists :: "path \<Rightarrow> machine \<Rightarrow> bool"
  pk_tar :: "(path \<Rightarrow> nat list option) \<Rightarrow> path list \<Rightarrow> nat list"  \<comment> \<open>a tree, and its executables\<close>
  pk_zip :: "(path \<Rightarrow> nat list option) \<Rightarrow> nat list"

text \<open>\<open>str.strip\<close> takes every white space of Unicode, more than the patterns on ASCII text.\<close>

definition str_space :: "nat \<Rightarrow> bool" where
  "str_space c \<longleftrightarrow> re_space c \<or> 8192 \<le> c \<and> c \<le> 8202 \<or>
     c \<in> {133, 160, 5760, 8232, 8233, 8239, 8287, 12288}"

definition str_strip :: "pystr \<Rightarrow> pystr" where
  "str_strip = strip_if str_space"

text \<open>\<open>subprocess.check_output(args, text=True)\<close>.\<close>

definition output_text :: "linux_world \<Rightarrow> pystr list \<Rightarrow> (machine, pystr) act" where
  "output_text h args = andthen (check_output h args) (\<lambda>bs. of_res (w_decode h bs))"

definition git_status :: "pystr list" where
  "git_status = map py [''git'', ''status'', ''--porcelain'']"

definition git_head :: "pystr list" where
  "git_head = map py [''git'', ''rev-parse'', ''HEAD'']"

definition path_exists :: "package_world \<Rightarrow> path \<Rightarrow> (machine, bool) act" where
  "path_exists w p = (\<lambda>m. Some (Inr (pk_exists w p m), m))"

text \<open>\<open>shutil.copy2\<close>, which refuses to copy a file onto itself, and \<open>write_text\<close>.\<close>

definition copy_file :: "path \<Rightarrow> path \<Rightarrow> (machine, unit) act" where
  "copy_file src dst =
     andthen (read_file src) (\<lambda>bs.
     andthen (check_that (src \<noteq> dst) (OSError (py ''the same file''))) (\<lambda>_. write_file dst bs))"

definition write_text :: "linux_world \<Rightarrow> path \<Rightarrow> pystr \<Rightarrow> (machine, unit) act" where
  "write_text h p s = write_file p (utf8_encode (text_bytes (w_os h) s))"

text \<open>The files of \<open>root\<close> under names that start with the name of \<open>root\<close> itself.\<close>

definition tree_of :: "path \<Rightarrow> machine \<Rightarrow> path \<Rightarrow> nat list option" where
  "tree_of root m = (\<lambda>p. case p of [] \<Rightarrow> None | n # q \<Rightarrow> if n = last root then files m (root @ q) else None)"

definition file_digest :: "linux_world \<Rightarrow> path \<Rightarrow> (machine, pystr) act" where
  "file_digest h p = andthen (read_file p) (\<lambda>bs. ret (w_sha256 h bs))"

definition manifest_text :: "(pystr \<times> json) list \<Rightarrow> pystr" where
  "manifest_text d = render indent_style 0 (JDict d)"

definition package_root :: "path \<Rightarrow> path" where
  "package_root output = output @ [py ''MiniLinux-LAB'']"

section \<open>The Linux package\<close>

definition linux_archive :: "path \<Rightarrow> path" where
  "linux_archive output = output @ [py ''MiniLinux-LAB-Linux-x86_64.tar.gz'']"

definition linux_tools :: "string list" where
  "linux_tools = [''qemu_host.py'', ''lab_guest.py'', ''lab-server.py'', ''desktop-launch.py'']"

definition linux_manifest :: "pystr \<Rightarrow> pystr \<Rightarrow> (pystr \<times> json) list" where
  "linux_manifest source digest =
     [(py ''format'', JInt 1), (py ''source'', JStr source), (py ''platform'', JStr (py ''Linux x86_64'')),
      (py ''iso_sha256'', JStr digest)]"

text \<open>The kernel inside the image has to be the one of the current build.\<close>

definition check_iso_kernel :: "linux_world \<Rightarrow> path \<Rightarrow> path \<Rightarrow> (machine, unit) act" where
  "check_iso_kernel h project image_file =
     andthen (read_file image_file) (\<lambda>disc.
     andthen (of_res (w_iso_read h disc (py ''/boot/kernel.elf''))) (\<lambda>payload.
     andthen (read_file (under project ''build/kernel.elf'')) (\<lambda>kernel.
       check_that (payload = kernel)
         (RuntimeError (py ''ISO kernel differs from the current build; rebuild LAB before packaging'')))))"

definition copy_common :: "package_world \<Rightarrow> path \<Rightarrow> path \<Rightarrow> string list \<Rightarrow> path \<Rightarrow> (machine, unit) act" where
  "copy_common w project root names image_file =
     andthen (copy_file (under project ''docs/USERLAND.md'') (under root ''docs/USERLAND.md'')) (\<lambda>_.
     andthen (path_exists w (project @ [py ''web''])) (\<lambda>found.
     andthen (check_that found (FileNotFoundError (py ''web''))) (\<lambda>_.
     andthen (copy_tree (project @ [py ''web'']) (root @ [py ''web''])) (\<lambda>_.
     andthen (each (\<lambda>name. copy_file (under project ''tools'' @ [py name]) (under root ''tools'' @ [py name]))
                names) (\<lambda>_.
       copy_file image_file (under root ''runtime/images/minilinux-lab.iso''))))))"

definition write_linux_texts :: "linux_world \<Rightarrow> path \<Rightarrow> pystr \<Rightarrow> pystr \<Rightarrow> (machine, unit) act" where
  "write_linux_texts h root source digest =
     andthen (write_text h (root @ [py ''package.json'']) (manifest_text (linux_manifest source digest))) (\<lambda>_.
     andthen (write_text h (root @ [py ''Start.sh'']) (lines_text start_sh_lines)) (\<lambda>_.
       write_text h (root @ [py ''READ-ME.txt'']) (linux_readme source)))"

text \<open>A clean tree and a fresh output directory; the result is the committed revision.\<close>

definition linux_guard :: "package_world \<Rightarrow> path \<Rightarrow> (machine, pystr) act" where
  "linux_guard w output =
     (let h = pk_host w
      in andthen (check_output h git_status) (\<lambda>pending.
         andthen (check_that (strip_if byte_space pending = [])
           (RuntimeError (py ''Commit source changes before packaging''))) (\<lambda>_.
         andthen (output_text h git_head) (\<lambda>revision.
         andthen (path_exists w (package_root output)) (\<lambda>old_root.
         andthen (path_exists w (linux_archive output)) (\<lambda>old_archive.
         andthen (check_that (\<not> (old_root \<or> old_archive))
           (RuntimeError (py ''Choose a fresh package output directory''))) (\<lambda>_.
           ret (str_strip revision))))))))"

definition linux_contents :: "package_world \<Rightarrow> path \<Rightarrow> path \<Rightarrow> path \<Rightarrow> path \<Rightarrow> pystr \<Rightarrow> (machine, unit) act" where
  "linux_contents w project root image_file limine_license source =
     (let h = pk_host w
      in andthen (copy_common w project root linux_tools image_file) (\<lambda>_.
         andthen (copy_file limine_license (under root ''runtime/images/LIMINE-LICENSE.txt'')) (\<lambda>_.
         andthen (file_digest h image_file) (\<lambda>digest.
           write_linux_texts h root source digest))))"

definition package_linux :: "package_world \<Rightarrow> path \<Rightarrow> path \<Rightarrow> path \<Rightarrow> path \<Rightarrow> (machine, unit) act" where
  "package_linux w project output image_file limine_license =
     (let root = package_root output
      in andthen (linux_guard w output) (\<lambda>source.
         andthen (check_iso_kernel (pk_host w) project image_file) (\<lambda>_.
         andthen (linux_contents w project root image_file limine_license source) (\<lambda>_.
           (\<lambda>m. write_file (linux_archive output)
                  (pk_tar w (tree_of root m) [[py ''MiniLinux-LAB'', py ''Start.sh'']]) m)))))"

section \<open>The Windows package\<close>

definition desktop_archive :: "path \<Rightarrow> path" where
  "desktop_archive output = output @ [py ''MiniLinux-LAB-Windows-x64.zip'']"

definition desktop_tools :: "string list" where
  "desktop_tools =
     [''qemu_host.py'', ''lab_guest.py'', ''lab-server.py'', ''desktop-launch.py'', ''prepare-desktop.ps1'']"

definition desktop_manifest :: "pystr \<Rightarrow> pystr \<Rightarrow> pystr \<Rightarrow> pystr \<Rightarrow> pystr \<Rightarrow> (pystr \<times> json) list" where
  "desktop_manifest source iso_digest app exe dll =
     [(py ''format'', JInt 1), (py ''source'', JStr source), (py ''iso_sha256'', JStr iso_digest),
      (py ''app_sha256'', JStr app), (py ''extractor_exe_sha256'', JStr exe),
      (py ''extractor_dll_sha256'', JStr dll)]"

definition desktop_guard :: "package_world \<Rightarrow> path \<Rightarrow> (machine, pystr) act" where
  "desktop_guard w output =
     (let h = pk_host w
      in andthen (path_exists w (package_root output)) (\<lambda>old_root.
         andthen (check_that (\<not> old_root)
           (ValueError (py ''Choose a fresh output directory; existing packages are preserved''))) (\<lambda>_.
         andthen (output_text h git_status) (\<lambda>pending.
         andthen (check_that (str_strip pending = [])
           (ValueError (py ''Commit changes before packaging so the manifest names the actual source''))) (\<lambda>_.
         andthen (output_text h git_head) (\<lambda>revision. ret (str_strip revision)))))))"

definition extractor_files :: "string list" where
  "extractor_files = [''7z.exe'', ''7z.dll'', ''License.txt'']"

definition desktop_files ::
  "package_world \<Rightarrow> path \<Rightarrow> path \<Rightarrow> path \<Rightarrow> path \<Rightarrow> path \<Rightarrow> path \<Rightarrow> (machine, unit) act" where
  "desktop_files w project root image_file extractor extractor_source limine_license =
     (let tool_dir = under root ''runtime/extractor''
      in andthen (copy_common w project root desktop_tools image_file) (\<lambda>_.
         andthen (each (\<lambda>name. copy_file (extractor @ [py name]) (tool_dir @ [py name])) extractor_files) (\<lambda>_.
         andthen (copy_file extractor_source (tool_dir @ [last extractor_source])) (\<lambda>_.
           copy_file limine_license (under root ''runtime/images/LIMINE-LICENSE.txt'')))))"

definition desktop_texts :: "package_world \<Rightarrow> path \<Rightarrow> path \<Rightarrow> path \<Rightarrow> pystr \<Rightarrow> (machine, unit) act" where
  "desktop_texts w root image_file extractor source =
     (let h = pk_host w
      in andthen (file_digest h image_file) (\<lambda>iso_digest.
         andthen (file_digest h (under root ''web/app.js'')) (\<lambda>app.
         andthen (file_digest h (extractor @ [py ''7z.exe''])) (\<lambda>exe.
         andthen (file_digest h (extractor @ [py ''7z.dll''])) (\<lambda>dll.
         andthen (write_text h (root @ [py ''package.json''])
           (manifest_text (desktop_manifest source iso_digest app exe dll))) (\<lambda>_.
         andthen (write_file (root @ [py ''Start.cmd'']) start_cmd) (\<lambda>_.
           write_text h (root @ [py ''READ-ME.txt'']) (lines_text desktop_readme_lines))))))))"

definition package_desktop ::
  "package_world \<Rightarrow> path \<Rightarrow> path \<Rightarrow> path \<Rightarrow> path \<Rightarrow> path \<Rightarrow> path \<Rightarrow> (machine, unit) act" where
  "package_desktop w project output image_file extractor extractor_source limine_license =
     (let root = package_root output
      in andthen (desktop_guard w output) (\<lambda>source.
         andthen (desktop_files w project root image_file extractor extractor_source limine_license) (\<lambda>_.
         andthen (desktop_texts w root image_file extractor source) (\<lambda>_.
         andthen (\<lambda>m. write_file (desktop_archive output) (pk_zip w (tree_of root m)) m) (\<lambda>_.
         andthen (file_digest (pk_host w) (desktop_archive output)) (\<lambda>_. ret ()))))))"

end
