(* ===== verification/Desktop_Launch.thy ===== *)
theory Desktop_Launch
  imports Packages Lab_Server
begin

text \<open>
  The launcher of an unpacked package (\<open>tools/desktop-launch.py\<close>): on Linux it checks Python,
  the digest of the image against the package's manifest, and QEMU; then it runs the bridge of
  \<open>lab-server.py\<close> with one guest, and closes it whatever happens.
\<close>

section \<open>Reading texts\<close>

text \<open>\<open>bytes.decode("utf-8")\<close>, strictly; and the line ends that \<open>read_text\<close> translates.\<close>

function utf8_decode :: "nat list \<Rightarrow> pystr option" where
  "utf8_decode [] = Some []"
| "utf8_decode (b # bs) =
     (if b < 128 then map_option (Cons b) (utf8_decode bs)
      else (case utf8_lead b of
              None \<Rightarrow> None
            | Some (n, v, lo, hi) \<Rightarrow>
                if continuation n lo hi bs = n
                then map_option (Cons (fold (\<lambda>c v. v * 64 + (c - 128)) (take n bs) v)) (utf8_decode (drop n bs))
                else None))"
  by pat_completeness auto
termination by (relation "measure length") auto

declare utf8_decode.simps [simp del]

fun universal_newlines :: "pystr \<Rightarrow> pystr" where
  "universal_newlines (c # d # s) =
     (if c = 13 \<and> d = 10 then 10 # universal_newlines s
      else (if c = 13 then 10 else c) # universal_newlines (d # s))"
| "universal_newlines s = map (\<lambda>c. if c = 13 then 10 else c) s"

definition read_text :: "path \<Rightarrow> (machine, pystr) act" where
  "read_text p =
     andthen (read_file p) (\<lambda>bs.
       of_res (case utf8_decode bs of None \<Rightarrow> Inl DecodeError | Some s \<Rightarrow> Inr (universal_newlines s)))"

lemma utf8_decode_ascii: "\<forall>b \<in> set bs. b < 128 \<Longrightarrow> utf8_decode bs = Some bs"
  by (induction bs) (auto simp: utf8_decode.simps)

lemma universal_newlines_Cons: "c \<noteq> 13 \<Longrightarrow> universal_newlines (c # s) = c # universal_newlines s"
  by (cases s) auto

lemma universal_newlines_text: "13 \<notin> set s \<Longrightarrow> universal_newlines (text_bytes os s) = s"
proof (induction s)
  case (Cons c s)
  have "text_bytes os (c # s) = (if os = Nt \<and> c = 10 then [13, 10] else [c]) @ text_bytes os s"
    by (cases os) (simp_all add: text_bytes_def)
  with Cons show ?case by (auto simp: universal_newlines_Cons)
qed (cases os; simp add: text_bytes_def)

section \<open>Before anything is started\<close>

text \<open>\<open>manifest["iso_sha256"]\<close>: only a dictionary has string keys.\<close>

definition manifest_entry :: "js_value \<Rightarrow> string \<Rightarrow> js_value res" where
  "manifest_entry v key =
     (case v of
        VDict d \<Rightarrow> (case dict_get d (py key) of None \<Rightarrow> Inl (KeyError (py key)) | Some x \<Rightarrow> Inr x)
      | _ \<Rightarrow> Inl TypeError)"

definition verify_image :: "linux_world \<Rightarrow> path \<Rightarrow> (machine, unit) act" where
  "verify_image h project =
     andthen (read_text (project @ [py ''package.json''])) (\<lambda>s.
     andthen (of_res (json_loads s)) (\<lambda>manifest.
     andthen (file_digest h (under project ''runtime/images/minilinux-lab.iso'')) (\<lambda>digest.
     andthen (of_res (manifest_entry manifest ''iso_sha256'')) (\<lambda>expected.
       check_that (VStr digest = expected)
         (SystemExit (py ''LAB image differs from package.json; unpack the original package again.''))))))"

definition launch_preflight :: "linux_world \<Rightarrow> bool \<Rightarrow> path \<Rightarrow> (machine, unit) act" where
  "launch_preflight h on_linux project =
     (if \<not> on_linux then ret ()
      else andthen (check_that (\<not> (fst (w_python_version h) < 3 \<or>
                       fst (w_python_version h) = 3 \<and> snd (w_python_version h) < 10))
             (SystemExit (py ''Use Python 3.10 or newer; see READ-ME.txt''))) (\<lambda>_.
           andthen (verify_image h project) (\<lambda>_.
             preflight h (project @ [py ''runtime'']))))"

section \<open>The launcher\<close>

text \<open>The exceptions that end with a message instead of a traceback.\<close>

definition launch_error :: "lab_world \<Rightarrow> exn \<Rightarrow> exn" where
  "launch_error w e =
     (if is_os_error e \<or> is_runtime_error e \<or> is_value_error e \<or> e = TimeoutExpired \<or> e = CalledProcessError
      then SystemExit (py ''LAB could not start: '' @ error_text w e @ [10] @ py ''See READ-ME.txt.'')
      else e)"

text \<open>
  \<open>main\<close> with its guard: the exception it ends with and the laboratory, if one was made. The
  browser is opened unless it is switched off; \<open>ending\<close> is what ends the serving.
\<close>

definition launch_server ::
  "int \<Rightarrow> bool \<Rightarrow> exn option \<Rightarrow> bind_outcome \<Rightarrow> lab_world \<Rightarrow> happening list \<Rightarrow> exn option \<Rightarrow> lab_world \<Rightarrow>
     (exn option \<times> laboratory option) option" where
  "launch_server port no_browser browser b w0 hs ending w_end =
     (case create_server port b of
        Inl e \<Rightarrow> Some (Some e, None)
      | Inr server_port \<Rightarrow>
          (case lab_restart w0 (new_laboratory 64) of
             None \<Rightarrow> None
           | Some (Some e, lab) \<Rightarrow> Some (close_down w_end (Some e) lab)
           | Some (None, lab) \<Rightarrow>
               (case (if no_browser then None else browser) of
                  Some e \<Rightarrow> Some (close_down w_end (Some e) lab)
                | None \<Rightarrow> map_option (close_down w_end ending) (serve server_port hs lab))))"

definition launch ::
  "linux_world \<Rightarrow> bool \<Rightarrow> path \<Rightarrow> int \<Rightarrow> bool \<Rightarrow> exn option \<Rightarrow> bind_outcome \<Rightarrow> lab_world \<Rightarrow> happening list \<Rightarrow>
     exn option \<Rightarrow> lab_world \<Rightarrow> machine \<Rightarrow> (exn option \<times> laboratory option) option" where
  "launch h on_linux project port no_browser browser b w0 hs ending w_end m =
     map_option (\<lambda>(e, lab). (map_option (launch_error w0) e, lab))
       (case launch_preflight h on_linux project m of
          None \<Rightarrow> None
        | Some (Inl e, _) \<Rightarrow> Some (Some e, None)
        | Some (Inr _, _) \<Rightarrow> launch_server port no_browser browser b w0 hs ending w_end)"

end
