(* ===== verification/Exporter.thy ===== *)
theory Exporter
  imports Recorder Desktop_Launch
begin

text \<open>
  The exporter of a recorded demo (\<open>tools/export-demo.py\<close>): it reads the recording, refuses
  what is none, and writes a static site with the page changed to replay instead of talking to
  a guest. Reading a floating-point number is the interpreter's; the code compares one with 1.
\<close>

section \<open>\<open>str.replace\<close>\<close>

lemma strip_prefix_length: "strip_prefix xs ys = Some zs \<Longrightarrow> length ys = length xs + length zs"
  by (simp add: strip_prefix_Some)

text \<open>For a text to be replaced that is not empty.\<close>

function py_replace :: "pystr \<Rightarrow> pystr \<Rightarrow> pystr \<Rightarrow> pystr" where
  "py_replace old new [] = []"
| "py_replace old new (c # s) =
     (if old = [] then c # s
      else (case strip_prefix old (c # s) of
              Some rest \<Rightarrow> new @ py_replace old new rest
            | None \<Rightarrow> c # py_replace old new s))"
  by pat_completeness auto
termination
  by (relation "measure (\<lambda>(old, new, s). length s)") (auto dest!: strip_prefix_length)

declare py_replace.simps [simp del]

section \<open>The site\<close>

text \<open>\<open>data["format"] != 1 or data["mode"] != "recorded-replay"\<close>; \<open>True == 1\<close> and \<open>1.0 == 1\<close> in Python.\<close>

definition equals_one :: "(pystr \<Rightarrow> bool) \<Rightarrow> js_value \<Rightarrow> bool" where
  "equals_one float_is_one v =
     (case v of VInt i \<Rightarrow> i = 1 | VBool b \<Rightarrow> b | VFloat s \<Rightarrow> float_is_one s | _ \<Rightarrow> False)"

definition check_recording :: "(pystr \<Rightarrow> bool) \<Rightarrow> js_value \<Rightarrow> unit res" where
  "check_recording float_is_one v =
     rbind (manifest_entry v ''format'') (\<lambda>f.
       if \<not> equals_one float_is_one f then Inl (ValueError (py ''Expected a real LAB recording''))
       else rbind (manifest_entry v ''mode'') (\<lambda>m.
         if m \<noteq> VStr (py ''recorded-replay'') then Inl (ValueError (py ''Expected a real LAB recording''))
         else Inr ()))"

definition live_script :: pystr where
  "live_script = py ''src='' @ [34] @ py ''live.js'' @ [34]"

definition replay_script :: pystr where
  "replay_script = py ''src='' @ [34] @ py ''replay.js'' @ [34]"

definition live_title :: pystr where
  "live_title = py ''MiniLinux '' @ [8212] @ py '' mechanism laboratory''"

definition replay_title :: pystr where
  "replay_title = py ''MiniLinux '' @ [8212] @ py '' recorded replay''"

definition replay_page :: "pystr \<Rightarrow> pystr" where
  "replay_page index = py_replace live_title replay_title (py_replace live_script replay_script index)"

definition site_files :: "string list" where
  "site_files = [''app.js'', ''replay.js'', ''style.css'']"

definition export_demo :: "linux_world \<Rightarrow> (pystr \<Rightarrow> bool) \<Rightarrow> path \<Rightarrow> path \<Rightarrow> path \<Rightarrow> (machine, unit) act" where
  "export_demo h float_is_one project recording_path output =
     (let web = project @ [py ''web'']
      in andthen (read_text recording_path) (\<lambda>s.
         andthen (of_res (json_loads s)) (\<lambda>v.
         andthen (of_res (check_recording float_is_one v)) (\<lambda>_.
         andthen (each (\<lambda>name. copy_file (web @ [py name]) (output @ [py name])) site_files) (\<lambda>_.
         andthen (copy_tree (web @ [py ''assets'']) (output @ [py ''assets''])) (\<lambda>_.
         andthen (read_text (web @ [py ''index.html''])) (\<lambda>index.
         andthen (write_text h (output @ [py ''index.html'']) (replay_page index)) (\<lambda>_.
         andthen (copy_file recording_path (output @ [py ''recording.json''])) (\<lambda>_.
         andthen (\<lambda>m. case files m (output @ [py ''.nojekyll'']) of
                         None \<Rightarrow> write_file (output @ [py ''.nojekyll'']) [] m
                       | Some _ \<Rightarrow> Some (Inr (), m)) (\<lambda>_.
         andthen (of_res (manifest_entry v ''source'')) (\<lambda>_. ret ())))))))))))"

section \<open>Replacing removes every occurrence\<close>

text \<open>
  A text \<open>a\<close> that cannot overlap the replacement: no end of \<open>a\<close> begins it, no end of it begins
  \<open>a\<close>, and neither contains the other.
\<close>

definition apart :: "pystr \<Rightarrow> pystr \<Rightarrow> bool" where
  "apart a new \<longleftrightarrow> new \<noteq> [] \<and>
     (\<forall>u \<in> set (suffixes a). u \<noteq> [] \<longrightarrow> \<not> prefix u new \<and> \<not> prefix new u) \<and>
     (\<forall>v \<in> set (suffixes new). v \<noteq> [] \<longrightarrow> \<not> prefix v a \<and> \<not> prefix a v)"

lemma apart_ends: "apart a new \<Longrightarrow> suffix u a \<Longrightarrow> u \<noteq> [] \<Longrightarrow> \<not> prefix u (new @ r)"
  by (auto simp: apart_def prefix_append)

lemma apart_starts: "apart a new \<Longrightarrow> suffix v new \<Longrightarrow> v \<noteq> [] \<Longrightarrow> \<not> prefix a (v @ r)"
  by (auto simp: apart_def prefix_append)

text \<open>What of \<open>a\<close> is seen at the beginning of the result was there before.\<close>

lemma replace_prefix:
  assumes "apart a new"
  shows "suffix u a \<Longrightarrow> prefix u (py_replace old new s) \<Longrightarrow> prefix u s"
proof (induction u arbitrary: s)
  case (Cons x u)
  show ?case
  proof (cases s)
    case Nil
    with Cons.prems(2) show ?thesis by (simp add: py_replace.simps)
  next
    case (Cons c t)
    show ?thesis
    proof (cases "old = []")
      case True
      with Cons.prems(2) Cons show ?thesis by (simp add: py_replace.simps)
    next
      case False
      have "strip_prefix old (c # t) = None"
        using apart_ends [OF assms Cons.prems(1)] Cons.prems(2) Cons False
        by (cases "strip_prefix old (c # t)") (auto simp: py_replace.simps simp del: strip_prefix.simps)
      moreover have "suffix u a" using Cons.prems(1) by (meson suffix_ConsD)
      ultimately show ?thesis
        using Cons.prems(2) Cons False Cons.IH [of t] by (simp add: py_replace.simps del: strip_prefix.simps)
    qed
  qed
qed simp

lemma replace_suffixes:
  "apart a new \<Longrightarrow> a \<noteq> [] \<Longrightarrow> suffix t (py_replace old new s) \<Longrightarrow> prefix a t \<Longrightarrow>
    \<exists>r. suffix r s \<and> prefix a r \<and> (old \<noteq> [] \<longrightarrow> \<not> prefix old r)"
proof (induction old new s arbitrary: t rule: py_replace.induct)
  case (1 old new)
  then show ?case by (simp add: py_replace.simps)
next
  case (2 old new c s)
  show ?case
  proof (cases "old = []")
    case True
    with 2 show ?thesis by (auto simp: py_replace.simps)
  next
    case False
    show ?thesis
    proof (cases "strip_prefix old (c # s)")
      case None
      let ?R = "py_replace old new s"
      have out: "py_replace old new (c # s) = c # ?R"
        using False None by (simp add: py_replace.simps del: strip_prefix.simps)
      have no: "\<not> prefix old (c # s)" using None by (auto simp: prefix_def strip_prefix_append)
      from "2.prems"(3) out consider "t = c # ?R" | "suffix t ?R" by (auto simp: suffix_Cons)
      then show ?thesis
      proof cases
        case 1
        with "2.prems"(2,4) obtain u where u: "a = c # u" "prefix u ?R" by (cases a) auto
        then have "prefix u s" using replace_prefix [OF "2.prems"(1)] by (meson suffix_ConsI suffix_order.refl)
        then have "prefix a (c # s)" using u(1) by simp
        with no show ?thesis by blast
      next
        case 2
        from "2.IH"(1) [OF False None "2.prems"(1,2) 2 "2.prems"(4)] show ?thesis
          by (meson suffix_ConsI)
      qed
    next
      case (Some rest)
      let ?R = "py_replace old new rest"
      have out: "py_replace old new (c # s) = new @ ?R"
        using False Some by (simp add: py_replace.simps del: strip_prefix.simps)
      have whole: "c # s = old @ rest" using Some by (simp add: strip_prefix_Some)
      from "2.prems"(3) have "suffix t ?R \<or> (\<exists>v. t = v @ ?R \<and> suffix v new)"
        unfolding out suffix_append .
      then have "suffix t ?R"
      proof (elim disjE exE conjE)
        fix v assume v: "t = v @ ?R" "suffix v new"
        then have "v = []" using apart_starts [OF "2.prems"(1) v(2)] "2.prems"(4) by blast
        then show ?thesis unfolding v(1) by simp
      qed
      from "2.IH"(2) [OF False Some "2.prems"(1,2) this "2.prems"(4)] show ?thesis
        unfolding whole by (meson suffix_appendI suffix_order.trans suffixI)
    qed
  qed
qed

lemma sublist_suffix: "sublist a s \<longleftrightarrow> (\<exists>t. suffix t s \<and> prefix a t)"
  by (auto simp: sublist_def suffix_def prefix_def)

lemma replaced_gone:
  assumes "apart old new" "old \<noteq> []"
  shows "\<not> sublist old (py_replace old new s)"
  using replace_suffixes [OF assms(1,2)] assms(2) unfolding sublist_suffix by blast

lemma replace_creates_none:
  assumes "apart a new" "a \<noteq> []" "sublist a (py_replace old new s)"
  shows "sublist a s"
  using replace_suffixes [OF assms(1,2)] assms(3) unfolding sublist_suffix by blast

lemma site_texts_apart:
  "apart live_script replay_script" "apart live_title replay_title" "apart live_script replay_title"
  by (simp_all add: apart_def live_script_def replay_script_def live_title_def replay_title_def py_def)

lemma replay_page_not_live: "\<not> sublist live_script (replay_page index) \<and> \<not> sublist live_title (replay_page index)"
proof -
  have ne: "live_script \<noteq> []" "live_title \<noteq> []" by (simp_all add: live_script_def live_title_def)
  show ?thesis unfolding replay_page_def
    using replaced_gone [OF site_texts_apart(1) ne(1)] replaced_gone [OF site_texts_apart(2) ne(2)]
      replace_creates_none [OF site_texts_apart(3) ne(1)] by blast
qed

end
