(* ===== verification/Linux_Facts.thy ===== *)
theory Linux_Facts
  imports Linux_Check
begin

text \<open>
  Facts about the Linux entry's actions: what they add to the history of commands and of passed
  labels, what a successful build has run, and how the user image reads back.
\<close>

section \<open>Histories only grow\<close>

definition grows_history :: "machine \<Rightarrow> machine \<Rightarrow> bool" where
  "grows_history m m' \<longleftrightarrow> prefix (ran m) (ran m')"

definition same_passed :: "machine \<Rightarrow> machine \<Rightarrow> bool" where
  "same_passed m m' \<longleftrightarrow> passed m' = passed m"

interpretation history: act_preorder grows_history
  by unfold_locales (auto simp: grows_history_def)

interpretation quiet: act_preorder same_passed
  by unfold_locales (simp_all add: same_passed_def)

lemma basic_histories:
  "moves grows_history (check_output w args)" "moves grows_history (read_file p)"
  "moves grows_history (write_file p bs)" "moves grows_history (serial_boot w args p)"
  "moves same_passed (check_output w args)" "moves same_passed (read_file p)"
  "moves same_passed (write_file p bs)" "moves same_passed (serial_boot w args p)"
  "moves same_passed (copy_tree p q)" "moves same_passed (remove_tree p)"
  by (auto simp: moves_def grows_history_def same_passed_def check_output_def read_file_def
      write_file_def serial_boot_def copy_tree_def remove_tree_def Let_def
      split: prod.splits option.splits if_splits)

lemmas history_rules = basic_histories history.moves_basic history.moves_andthen history.moves_each
  history.moves_finally

lemmas quiet_rules = basic_histories quiet.moves_basic quiet.moves_andthen quiet.moves_each
  quiet.moves_finally

lemma quiet_run: "moves same_passed (run_command w args)"
  unfolding run_command_def by (intro quiet_rules)

lemma quiet_build: "moves same_passed (build w project llvm_bin stage fault attack)"
  unfolding build_def build_user_def compile_kernel_def link_kernel_def check_elf_def Let_def
  by (auto intro!: quiet_rules quiet_run)

lemma quiet_read_all: "moves same_passed (read_all xs)"
proof (induction xs rule: read_all.induct)
  case 1
  then show ?case unfolding read_all.simps by (rule quiet.moves_basic)
next
  case (2 source iso_name rr joliet rest)
  then show ?case unfolding read_all.simps by (intro quiet_rules)
qed

lemma quiet_image: "moves same_passed (image w project root stage)"
  unfolding image_def make_image_def compare_file_def
  by (auto intro!: quiet_rules quiet_read_all split: prod.splits)

lemma quiet_doctor: "moves same_passed (doctor w root llvm_bin)"
  unfolding doctor_def preflight_def
  by (auto intro!: quiet_rules quiet_run split: prod.splits)

lemma quiet_fixture: "moves same_passed (check_fixture w project root llvm_bin)"
  unfolding check_fixture_def run_fixture_def boundary_test_def Let_def
  by (auto intro!: quiet_rules quiet_run quiet_build quiet_image)

section \<open>What a build runs\<close>

lemma sublist_line: "x \<in> set xs \<Longrightarrow> sublist x (concat (map (\<lambda>s. s @ [10 :: nat]) xs))"
proof -
  assume "x \<in> set xs"
  then obtain as bs where xs: "xs = as @ x # bs" by (meson split_list)
  let ?f = "\<lambda>s. s @ [10 :: nat]"
  have "concat (map ?f xs) = concat (map ?f as) @ x @ ([10] @ concat (map ?f bs))"
    by (simp add: xs)
  then show ?thesis by (metis sublist_appendI)
qed

lemma read_file_state: "read_file p m = Some (r, m') \<Longrightarrow> m' = m"
  by (auto simp: read_file_def split: option.splits)

lemma check_output_exec:
  "check_output w args m = Some (Inr out, m') \<Longrightarrow> \<exists>fs. w_exec w args m = (Inr out, fs)"
  by (auto simp: check_output_def split: prod.splits)

lemma run_command_ran: "run_command w args m = Some (Inr u, m') \<Longrightarrow> ran m' = ran m @ [args]"
  by (auto simp: run_command_def check_output_def res_simps split: prod.splits)

lemma each_command_ran:
  "each (\<lambda>x. run_command w (f x)) xs m = Some (Inr u, m') \<Longrightarrow> ran m' = ran m @ map f xs"
  by (induction xs arbitrary: m) (auto simp: res_simps dest!: run_command_ran)

lemma build_user_history: "moves grows_history (build_user w project llvm_bin level defines clang linker)"
  unfolding build_user_def run_command_def Let_def by (auto intro!: history_rules)

lemma check_elf_history: "moves grows_history (check_elf w project llvm_bin name)"
  unfolding check_elf_def Let_def by (auto intro!: history_rules)

definition link_args :: "linux_world \<Rightarrow> path \<Rightarrow> pystr \<Rightarrow> path list \<Rightarrow> pystr list" where
  "link_args w project linker objects =
     [linker] @ map py [''-m'', ''elf_x86_64'', ''-nostdlib'', ''-static'', ''-z'',
         ''max-page-size=0x1000'', ''-T''] @
       [path_str (w_os w) (project @ [py ''linker.ld'']), py ''-o'',
        path_str (w_os w) (project @ [py ''build'', py ''kernel.elf''])] @
       map (path_str (w_os w)) objects"

lemma link_kernel_args: "link_kernel w project linker objects = run_command w (link_args w project linker objects)"
  by (simp add: link_kernel_def link_args_def)

lemma build_steps:
  assumes "build w project llvm_bin stage fault attack m = Some (Inr u, m')"
  obtains clang linker m1 m2 m3 m4 where
    "tool w ''clang'' llvm_bin = Inr clang" "tool w ''ld.lld'' llvm_bin = Inr linker"
    "(if 4 \<le> level_of stage
      then build_user w project llvm_bin (level_of stage) (level_defines (level_of stage) fault attack) clang linker
      else ret ()) m = Some (Inr (), m1)"
    "each (compile_kernel w project (level_defines (level_of stage) fault attack) clang)
       (map (under project) (kernel_sources (level_of stage) attack)) m1 = Some (Inr (), m2)"
    "link_kernel w project linker (map (object_of (project @ [py ''build'']))
       (map (under project) (kernel_sources (level_of stage) attack))) m2 = Some (Inr (), m3)"
    "each (check_elf w project llvm_bin)
       (if 4 \<le> level_of stage then [''kernel.elf'', ''user.elf''] else [''kernel.elf'']) m3 = Some (Inr (), m4)"
    "m' = m4"
  using assms by (auto simp: build_def Let_def res_simps read_file_def split: if_splits option.splits)

section \<open>Stems and objects\<close>

definition stem_of :: "string \<Rightarrow> pystr" where
  "stem_of s = name_stem (last (split_on 47 (py s)))"

lemma object_of_under: "object_of output (under project s) = output @ [stem_of s @ py ''.o'']"
  by (simp add: object_of_def under_def stem_of_def)

lemma stems [simp]:
  "stem_of ''kernel/main.c'' = py ''main''" "stem_of ''kernel/counterexample.c'' = py ''counterexample''"
  "stem_of ''kernel/memory/page.c'' = py ''page''" "stem_of ''kernel/memory/page_test.c'' = py ''page_test''"
  "stem_of ''kernel/bytes.c'' = py ''bytes''" "stem_of ''kernel/memory/vm.c'' = py ''vm''"
  "stem_of ''kernel/memory/vm_test.c'' = py ''vm_test''" "stem_of ''kernel/cpu.c'' = py ''cpu''"
  "stem_of ''kernel/interrupt.c'' = py ''interrupt''" "stem_of ''kernel/entry.S'' = py ''entry''"
  "stem_of ''kernel/task.c'' = py ''task''" "stem_of ''kernel/usercopy.c'' = py ''usercopy''"
  "stem_of ''build/user-image.c'' = py ''user-image''" "stem_of ''kernel/laboratory.c'' = py ''laboratory''"
  "stem_of ''kernel/user.c'' = py ''user''" "stem_of ''kernel/syscall.c'' = py ''syscall''"
  "stem_of ''kernel/ramfs.c'' = py ''ramfs''"
  by (simp_all add: stem_of_def name_stem_def last_dot_def py_def)

definition source_pool :: "string list list" where
  "source_pool =
     [[''kernel/main.c''], [''kernel/counterexample.c''], [''kernel/memory/page.c'', ''kernel/memory/page_test.c''],
      [''kernel/bytes.c'', ''kernel/memory/vm.c'', ''kernel/memory/vm_test.c''],
      [''kernel/cpu.c'', ''kernel/interrupt.c'', ''kernel/entry.S''], [''kernel/task.c''],
      [''kernel/usercopy.c'', ''build/user-image.c''], [''kernel/laboratory.c''], [''kernel/user.c'', ''kernel/syscall.c''],
      [''kernel/ramfs.c'']]"

lemma pool_distinct: "distinct (map stem_of (concat source_pool))"
  by (simp add: source_pool_def)

lemma subseq_distinct: "subseq xs ys \<Longrightarrow> distinct ys \<Longrightarrow> distinct xs"
proof (induction rule: list_emb.induct)
  case (list_emb_Cons2 x y xs ys)
  moreover have "set xs \<subseteq> set ys"
    using list_emb_set [OF list_emb_Cons2(2)] by blast
  ultimately show ?case by auto
qed auto

lemma kernel_sources_subseq: "subseq (kernel_sources level attack) (concat source_pool)"
  unfolding kernel_sources_def source_pool_def concat.simps if_distrib [of "\<lambda>x. x @ _"]
  by (auto intro!: list_emb_append_mono)

lemma stems_distinct: "distinct (map stem_of (kernel_sources level attack))"
  using subseq_map [OF kernel_sources_subseq] pool_distinct subseq_distinct by blast

section \<open>The user image reads back\<close>

text \<open>A C literal \<open>0xHH\<close>.\<close>

definition literal_value :: "pystr \<Rightarrow> nat option" where
  "literal_value s =
     (case s of
        [z, x, a, b] \<Rightarrow>
          if z = 48 \<and> x = 120
          then (case (hex_value a, hex_value b) of (Some i, Some j) \<Rightarrow> Some (16 * i + j) | _ \<Rightarrow> None)
          else None
      | _ \<Rightarrow> None)"

lemma hex_value_char: "n < 16 \<Longrightarrow> hex_value (hex_char n) = Some n"
  by (auto simp: hex_value_def hex_char_def)

lemma literal_value_byte: "b < 256 \<Longrightarrow> literal_value (hex_byte b) = Some b"
  by (simp add: literal_value_def hex_byte_def py_def hex_value_char less_mult_imp_div_less)

lemma hex_byte_no_comma: "b < 256 \<Longrightarrow> 44 \<notin> set (hex_byte b)"
  by (auto simp: hex_byte_def hex_char_def py_def)

lemma user_image_reads_back:
  assumes "data \<noteq> []" "\<forall>b \<in> set data. b < 256"
  shows "map literal_value (split_on 44 (user_image_values data)) = map Some data"
proof -
  have "split_on 44 (user_image_values data) = map hex_byte data"
    unfolding user_image_values_def using assms hex_byte_no_comma by (intro split_on_join) auto
  then show ?thesis using assms(2) literal_value_byte by simp
qed

section \<open>Passed labels\<close>

lemma serial_check_steps:
  assumes "serial_check w project root stage memory marker case_name m = Some (Inr u, m')"
  obtains n m1 bytes where
    "stage = Stage n" "files m1 (serial_log project (serial_label stage memory case_name)) = Some bytes"
    "\<forall>x \<in> set (witnesses stage n marker). sublist x (decode_ascii bytes)"
    "m' = m1\<lparr>passed := passed m @ [serial_label stage memory case_name]\<rparr>"
proof -
  let ?p = "serial_log project (serial_label stage memory case_name)"
  obtain m0 args m1 bytes n where steps: "write_file ?p [] m = Some (Inr (), m0)"
    "serial_boot w args ?p m0 = Some (Inr (), m1)" "read_file ?p m1 = Some (Inr bytes, m1)"
    "stage_number stage = Inr n" "\<forall>x \<in> set (witnesses stage n marker). sublist x (decode_ascii bytes)"
    "m' = m1\<lparr>passed := passed m1 @ [serial_label stage memory case_name]\<rparr>"
    using assms by (auto simp: serial_check_def Let_def res_simps read_file_def split: option.splits)
  have "passed m1 = passed m0" "passed m0 = passed m"
    using movesD [OF basic_histories(8) steps(2)] movesD [OF basic_histories(7) steps(1)]
    by (simp_all add: same_passed_def)
  moreover have "stage = Stage n" using steps(4) by (auto simp: stage_number_def split: stage.splits)
  ultimately show ?thesis using steps that by (auto simp: read_file_def split: option.splits)
qed

lemma serial_check_passed:
  "serial_check w project root stage memory marker c m = Some (Inr u, m') \<Longrightarrow>
     passed m' = passed m @ [serial_label stage memory c]"
  by (erule serial_check_steps) simp

lemma each_passed:
  assumes "\<And>x u m m'. f x m = Some (Inr u, m') \<Longrightarrow> passed m' = passed m @ g x"
  shows "each f xs m = Some (Inr u, m') \<Longrightarrow> passed m' = passed m @ concat (map g xs)"
  by (induction xs arbitrary: m) (auto simp: res_simps dest!: assms)

lemma quiet_passed: "moves same_passed a \<Longrightarrow> a m = Some (r, m') \<Longrightarrow> passed m' = passed m"
  by (drule movesD) (auto simp: same_passed_def)

lemma check_stage_passed:
  assumes "check_stage w project root llvm_bin stage m = Some (Inr u, m')"
  shows "passed m' = passed m @ map (\<lambda>memory. serial_label stage memory None) memories"
proof -
  obtain m1 m2 where "build w project llvm_bin stage 1 0 m = Some (Inr (), m1)"
    "image w project root stage m1 = Some (Inr (), m2)"
    and steps: "each (\<lambda>memory. serial_check w project root stage memory [] None) memories m2 = Some (Inr u, m')"
    using assms by (auto simp: check_stage_def res_simps)
  then have "passed m2 = passed m" using quiet_passed [OF quiet_build] quiet_passed [OF quiet_image] by metis
  with each_passed [OF serial_check_passed steps] show ?thesis by (simp add: concat_map_singleton)
qed

lemma check_case_passed:
  assumes "check_case w project root llvm_bin (kind, n) m = Some (Inr u, m')"
  shows "passed m' = passed m @ map (\<lambda>memory. serial_label (Stage 6) memory (Some (case_label kind n))) memories"
proof -
  let ?depths = "\<lambda>memory. if kind = Attack \<and> n = 3 then check_depths w project (case_label kind n) memory else ret ()"
  obtain m1 m2 where "build w project llvm_bin (Stage 6) (if kind = Fault then n else 1)
      (if kind = Attack then n else 0) m = Some (Inr (), m1)"
    "image w project root (Stage 6) m1 = Some (Inr (), m2)"
    and steps: "each (\<lambda>memory. andthen (serial_check w project root (Stage 6) memory (case_marker kind n)
        (Some (case_label kind n))) (\<lambda>_. ?depths memory)) memories m2 = Some (Inr u, m')"
    using assms by (auto simp: check_case_def res_simps)
  then have base: "passed m2 = passed m" using quiet_passed [OF quiet_build] quiet_passed [OF quiet_image] by metis
  have depths: "moves same_passed (?depths memory)" for memory
    unfolding check_depths_def by (auto intro!: quiet_rules)
  have "passed t = passed s @ [serial_label (Stage 6) memory (Some (case_label kind n))]"
    if run: "andthen (serial_check w project root (Stage 6) memory (case_marker kind n)
        (Some (case_label kind n))) (\<lambda>_. ?depths memory) s = Some (Inr v, t)" for memory v s t
  proof -
    obtain s' where "serial_check w project root (Stage 6) memory (case_marker kind n)
        (Some (case_label kind n)) s = Some (Inr (), s')" "?depths memory s' = Some (Inr v, t)"
      using run by (auto simp: andthen_Inr)
    then show ?thesis using quiet_passed [OF depths] serial_check_passed by metis
  qed
  from each_passed [OF this steps] base show ?thesis by (simp add: concat_map_singleton)
qed

end
