(* ===== verification/Package_Facts.thy ===== *)
theory Package_Facts
  imports Packages Linux_Facts
begin

text \<open>
  What the package builders do to the files: every step changes only files under the package's
  root, and what each copied or written file holds in the end.
\<close>

section \<open>Single steps\<close>

lemma read_file_Inr [res_simps]: "read_file p m = Some (Inr bs, m') \<longleftrightarrow> files m p = Some bs \<and> m' = m"
  by (auto simp: read_file_def split: option.splits)

lemma write_file_Inr [res_simps]:
  "write_file p bs m = Some (r, m') \<longleftrightarrow> r = Inr () \<and> m' = m\<lparr>files := (files m)(p \<mapsto> bs)\<rparr>"
  by (auto simp: write_file_def)

lemma copy_file_Inr [res_simps]:
  "copy_file src dst m = Some (Inr u, m') \<longleftrightarrow>
     (\<exists>bs. files m src = Some bs \<and> src \<noteq> dst \<and> m' = m\<lparr>files := (files m)(dst \<mapsto> bs)\<rparr>)"
  by (auto simp: copy_file_def res_simps)

lemma write_text_Inr [res_simps]:
  "write_text h p s m = Some (r, m') \<longleftrightarrow>
     r = Inr () \<and> m' = m\<lparr>files := (files m)(p \<mapsto> utf8_encode (text_bytes (w_os h) s))\<rparr>"
  by (auto simp: write_text_def res_simps)

lemma path_exists_Inr [res_simps]:
  "path_exists w p m = Some (r, m') \<longleftrightarrow> r = Inr (pk_exists w p m) \<and> m' = m"
  by (auto simp: path_exists_def)

lemma file_digest_Inr [res_simps]:
  "file_digest h p m = Some (Inr d, m') \<longleftrightarrow> (\<exists>bs. files m p = Some bs \<and> d = w_sha256 h bs) \<and> m' = m"
  by (auto simp: file_digest_def res_simps)

lemma copy_tree_Inr [res_simps]:
  "copy_tree src dst m = Some (r, m') \<longleftrightarrow> r = Inr () \<and> m' = m\<lparr>files := (\<lambda>p.
     if prefix dst p \<and> files m (src @ drop (length dst) p) \<noteq> None
     then files m (src @ drop (length dst) p) else files m p)\<rparr>"
  by (auto simp: copy_tree_def)

section \<open>Frames\<close>

definition confined :: "path \<Rightarrow> machine \<Rightarrow> machine \<Rightarrow> bool" where
  "confined root m m' \<longleftrightarrow> (\<forall>p. \<not> prefix root p \<longrightarrow> files m' p = files m p)"

interpretation frame: act_preorder "confined root" for root
  by unfold_locales (simp_all add: confined_def)

lemma confined_steps:
  "moves (confined root) (read_file p)"
  "prefix root p \<Longrightarrow> moves (confined root) (write_file p bs)"
  "prefix root p \<Longrightarrow> moves (confined root) (copy_tree q p)"
  "moves (confined root) (path_exists w p)"
  "moves (confined root) (file_digest h p)"
  by (auto simp: moves_def confined_def read_file_def write_file_def copy_tree_def path_exists_def
      file_digest_def andthen_def split: option.splits sum.splits dest: prefix_order.trans)

lemma confined_writes:
  "prefix root q \<Longrightarrow> moves (confined root) (copy_file p q)"
  "prefix root p \<Longrightarrow> moves (confined root) (write_text h p s)"
  unfolding copy_file_def write_text_def by (auto intro!: frame.moves_andthen frame.moves_basic confined_steps)

lemma under_prefix [simp]: "prefix root (under root s @ t)" "prefix root (under root s)"
  by (simp_all add: under_def)

lemmas confined_rules = frame.moves_basic frame.moves_andthen frame.moves_each confined_steps confined_writes

lemma confined_copy_common: "moves (confined root) (copy_common w project root names image_file)"
  unfolding copy_common_def by (auto intro!: confined_rules)

section \<open>Sources lie outside the package\<close>

definition fresh :: "path \<Rightarrow> machine \<Rightarrow> bool" where
  "fresh root m \<longleftrightarrow> (\<forall>p. prefix root p \<longrightarrow> files m p = None)"

lemma freshD: "fresh root m \<Longrightarrow> files m p \<noteq> None \<Longrightarrow> \<not> prefix root p"
  by (auto simp: fresh_def)

lemma under_package_root:
  assumes "prefix (package_root output) (project @ xs)" "py ''MiniLinux-LAB'' \<notin> set xs"
  shows "prefix (package_root output) project"
proof (rule ccontr)
  assume "\<not> ?thesis"
  with assms(1) obtain us where "package_root output = project @ us" "prefix us xs"
    by (auto simp: prefix_append)
  moreover from this \<open>\<not> ?thesis\<close> have "us \<noteq> []" by auto
  ultimately have "py ''MiniLinux-LAB'' = last us" "set us \<subseteq> set xs"
    by (auto simp: package_root_def prefix_def dest: arg_cong [where f = last])
  with \<open>us \<noteq> []\<close> assms(2) show False by (metis last_in_set subsetD)
qed

lemma project_outside:
  assumes "fresh (package_root output) m" "files m (project @ xs) \<noteq> None"
  shows "\<not> prefix (package_root output) project"
  using freshD [OF assms] by (auto simp: prefix_def)

lemma source_outside:
  "\<not> prefix (package_root output) project \<Longrightarrow> py ''MiniLinux-LAB'' \<notin> set xs \<Longrightarrow>
     \<not> prefix (package_root output) (project @ xs)"
  using under_package_root by blast

section \<open>The common part\<close>

lemma copy_each:
  assumes "each (\<lambda>name. copy_file (src @ [py name]) (dst @ [py name])) names m = Some (Inr u, m')"
    "\<forall>name \<in> set names. \<not> prefix dst (src @ [py name])"
  shows "(\<forall>name \<in> set names. files m' (dst @ [py name]) = files m (src @ [py name]) \<and> files m (src @ [py name]) \<noteq> None) \<and>
    (\<forall>p. (\<forall>name \<in> set names. p \<noteq> dst @ [py name]) \<longrightarrow> files m' p = files m p)"
  using assms
proof (induction names arbitrary: m)
  case (Cons n ns)
  then obtain bs where bs: "files m (src @ [py n]) = Some bs"
    and rest: "each (\<lambda>name. copy_file (src @ [py name]) (dst @ [py name])) ns
        (m\<lparr>files := (files m)(dst @ [py n] \<mapsto> bs)\<rparr>) = Some (Inr u, m')"
    by (auto simp: res_simps)
  let ?m = "m\<lparr>files := (files m)(dst @ [py n] \<mapsto> bs)\<rparr>"
  have out: "src @ [py name] \<noteq> dst @ [py n]" if "name \<in> set (n # ns)" for name
    using Cons.prems(2) that by (metis prefixI)
  have IH: "(\<forall>name \<in> set ns. files m' (dst @ [py name]) = files ?m (src @ [py name]) \<and> files ?m (src @ [py name]) \<noteq> None) \<and>
    (\<forall>p. (\<forall>name \<in> set ns. p \<noteq> dst @ [py name]) \<longrightarrow> files m' p = files ?m p)"
    using Cons.IH [OF rest] Cons.prems(2) by simp
  have "files m' (dst @ [py n]) = Some bs"
  proof (cases "n \<in> set ns")
    case True
    with IH out bs show ?thesis by auto
  next
    case False
    then have "\<forall>name \<in> set ns. dst @ [py n] \<noteq> dst @ [py name]" by auto
    with IH show ?thesis by simp
  qed
  with IH bs out show ?case by auto
qed (simp add: ret_def)

text \<open>What the common part leaves under the root.\<close>

definition common_files :: "path \<Rightarrow> path \<Rightarrow> string list \<Rightarrow> nat list \<Rightarrow> machine \<Rightarrow> machine \<Rightarrow> bool" where
  "common_files project root names disc m m' \<longleftrightarrow>
     files m' (under root ''docs/USERLAND.md'') = files m (under project ''docs/USERLAND.md'') \<and>
     files m (under project ''docs/USERLAND.md'') \<noteq> None \<and>
     (\<forall>q. files m (project @ py ''web'' # q) \<noteq> None \<longrightarrow>
        files m' (root @ py ''web'' # q) = files m (project @ py ''web'' # q)) \<and>
     (\<forall>name \<in> set names. files m' (under root ''tools'' @ [py name]) = files m (under project ''tools'' @ [py name]) \<and>
        files m (under project ''tools'' @ [py name]) \<noteq> None) \<and>
     files m' (under root ''runtime/images/minilinux-lab.iso'') = Some disc"

lemma under_paths:
  "under root ''docs/USERLAND.md'' = root @ [py ''docs'', py ''USERLAND.md'']"
  "under root ''tools'' = root @ [py ''tools'']"
  "under root ''runtime/images/minilinux-lab.iso'' = root @ [py ''runtime'', py ''images'', py ''minilinux-lab.iso'']"
  "under root ''runtime/images/LIMINE-LICENSE.txt'' = root @ [py ''runtime'', py ''images'', py ''LIMINE-LICENSE.txt'']"
  "under root ''runtime/extractor'' = root @ [py ''runtime'', py ''extractor'']"
  "under root ''web/app.js'' = root @ [py ''web'', py ''app.js'']"
  "under root ''build/kernel.elf'' = root @ [py ''build'', py ''kernel.elf'']"
  by (simp_all add: under_def py_def)

lemma copy_common_files:
  assumes run: "copy_common w project root names image_file m = Some (Inr u, m')"
    and fresh: "root = package_root output" "\<not> prefix root project" "fresh root m"
    and disc: "files m image_file = Some disc" and names: "''MiniLinux-LAB'' \<notin> set names"
  shows "common_files project root names disc m m'"
proof -
  have out: "\<not> prefix root (project @ xs)" if "py ''MiniLinux-LAB'' \<notin> set xs" for xs
    using source_outside fresh(1,2) that by blast
  obtain doc m1 m2 m3 where steps:
    "files m (under project ''docs/USERLAND.md'') = Some doc"
    "m1 = m\<lparr>files := (files m)(under root ''docs/USERLAND.md'' \<mapsto> doc)\<rparr>"
    "copy_tree (project @ [py ''web'']) (root @ [py ''web'']) m1 = Some (Inr (), m2)"
    "each (\<lambda>name. copy_file (under project ''tools'' @ [py name]) (under root ''tools'' @ [py name])) names m2 = Some (Inr (), m3)"
    "copy_file image_file (under root ''runtime/images/minilinux-lab.iso'') m3 = Some (Inr u, m')"
    using run by (auto simp: copy_common_def res_simps)
  have conf: "confined root m m3"
  proof -
    have "confined root m m1" using steps(2) by (auto simp: confined_def under_def)
    moreover have "confined root m1 m2" using movesD [OF confined_steps(3) steps(3)] by simp
    moreover have "moves (confined root)
        (each (\<lambda>name. copy_file (under project ''tools'' @ [py name]) (under root ''tools'' @ [py name])) names)"
      by (intro confined_rules) simp
    then have "confined root m2 m3" using steps(4) by (rule movesD)
    ultimately show ?thesis by (meson frame.chain)
  qed
  then have outside: "files m3 p = files m p" "files m2 p = files m p" if "\<not> prefix root p" for p
    using that movesD [OF confined_steps(3) [of root "root @ [py ''web'']"] steps(3)] steps(2)
    by (auto simp: confined_def under_def)
  have web: "\<not> prefix root (project @ py ''web'' # q)" if "files m (project @ py ''web'' # q) \<noteq> None" for q
    using freshD [OF fresh(3) that] .
  have m2: "files m2 p = (if prefix (root @ [py ''web'']) p \<and> files m1 (project @ py ''web'' # drop (length root + 1) p) \<noteq> None
      then files m1 (project @ py ''web'' # drop (length root + 1) p) else files m1 p)" for p
    using steps(3) by (auto simp: res_simps)
  have tools: "\<forall>name \<in> set names. \<not> prefix (under root ''tools'') (under project ''tools'' @ [py name])"
  proof
    fix name assume "name \<in> set names"
    then have "\<not> prefix root (project @ [py ''tools'', py name])" using names by (intro out) auto
    then show "\<not> prefix (under root ''tools'') (under project ''tools'' @ [py name])"
      by (auto simp: under_paths dest: append_prefixD)
  qed
  note copied = copy_each [OF steps(4) tools]
  have m': "files m' p = (if p = under root ''runtime/images/minilinux-lab.iso'' then Some disc else files m3 p)" for p
    using steps(5) outside(1) [OF freshD [OF fresh(3)]] disc by (auto simp: res_simps)
  have "files m' (root @ py ''web'' # q) = files m (project @ py ''web'' # q)"
    if q: "files m (project @ py ''web'' # q) \<noteq> None" for q
  proof -
    have "files m1 (project @ py ''web'' # q) = files m (project @ py ''web'' # q)"
      using web [OF q] steps(2) by (auto simp: under_def)
    with q have "files m2 (root @ py ''web'' # q) = files m (project @ py ''web'' # q)" by (simp add: m2)
    then show ?thesis using copied by (simp add: m' under_paths)
  qed
  moreover have "files m2 (under project ''tools'' @ [py name]) = files m (under project ''tools'' @ [py name])"
    if "name \<in> set names" for name
    using names that by (intro outside(2)) (auto simp: under_paths intro!: out)
  moreover have "files m2 (under root ''docs/USERLAND.md'') = Some doc"
    using steps(2) by (simp add: m2 under_paths)
  ultimately show ?thesis
    using copied steps(1) by (auto simp: common_files_def m' under_paths)
qed

section \<open>The whole builders\<close>

text \<open>What the operating system and git are relied on for.\<close>

definition exists_faithful :: "package_world \<Rightarrow> bool" where
  "exists_faithful w \<longleftrightarrow> (\<forall>p q m. files m (p @ q) \<noteq> None \<longrightarrow> pk_exists w p m)"

definition git_reads_only :: "linux_world \<Rightarrow> bool" where
  "git_reads_only h \<longleftrightarrow> (\<forall>args m. args = git_status \<or> args = git_head \<longrightarrow> snd (w_exec h args m) = files m)"

lemma exists_freshD: "exists_faithful w \<Longrightarrow> \<not> pk_exists w p m \<Longrightarrow> fresh p m"
  by (fastforce simp: exists_faithful_def fresh_def prefix_def)

lemma check_output_Inr:
  "check_output h args m = Some (Inr out, m') \<longleftrightarrow>
     (\<exists>fs. w_exec h args m = (Inr out, fs) \<and> m' = m\<lparr>files := fs, ran := ran m @ [args]\<rparr>)"
  by (auto simp: check_output_def split: prod.splits)

lemma git_output:
  assumes "git_reads_only h" "args = git_status \<or> args = git_head" "check_output h args m = Some (Inr out, m')"
  shows "w_exec h args m = (Inr out, files m)" "m' = m\<lparr>ran := ran m @ [args]\<rparr>"
proof -
  obtain fs where fs: "w_exec h args m = (Inr out, fs)" "m' = m\<lparr>files := fs, ran := ran m @ [args]\<rparr>"
    using assms(3) by (auto simp: check_output_Inr)
  moreover have "snd (w_exec h args m) = files m" using assms(1,2) unfolding git_reads_only_def by blast
  ultimately have "fs = files m" by simp
  with fs show "w_exec h args m = (Inr out, files m)" "m' = m\<lparr>ran := ran m @ [args]\<rparr>" by simp_all
qed

text \<open>Both revisions of a package: the clean tree and the commit the manifest names.\<close>

definition clean_revision :: "linux_world \<Rightarrow> machine \<Rightarrow> pystr \<Rightarrow> bool" where
  "clean_revision h m revision \<longleftrightarrow>
     (\<exists>head. w_exec h git_head (m\<lparr>ran := ran m @ [git_status]\<rparr>) = (Inr head, files m) \<and> w_decode h head = Inr revision)"

lemma common_files_later:
  assumes "common_files project root names disc m m2"
    "\<And>p. prefix (root @ [py ''web'']) p \<or> prefix (root @ [py ''docs'']) p \<or> prefix (root @ [py ''tools'']) p \<or>
      p = under root ''runtime/images/minilinux-lab.iso'' \<Longrightarrow> files m' p = files m2 p"
  shows "common_files project root names disc m m'"
  using assms by (auto simp: common_files_def under_paths)

lemma common_files_from:
  assumes "common_files project root names disc m m'" "files m = files m0"
  shows "common_files project root names disc m0 m'"
  using assms by (auto simp: common_files_def)

lemma package_linux_steps:
  assumes "package_linux w project output image_file limine_license m = Some (Inr u, m')"
  obtains pending m0 head m1 revision disc kernel m2 lic digest m3 m4 where
    "check_output (pk_host w) git_status m = Some (Inr pending, m0)" "strip_if byte_space pending = []"
    "check_output (pk_host w) git_head m0 = Some (Inr head, m1)" "w_decode (pk_host w) head = Inr revision"
    "\<not> pk_exists w (package_root output) m1" "\<not> pk_exists w (linux_archive output) m1"
    "files m1 image_file = Some disc" "w_iso_read (pk_host w) disc (py ''/boot/kernel.elf'') = Inr kernel"
    "files m1 (under project ''build/kernel.elf'') = Some kernel"
    "copy_common w project (package_root output) linux_tools image_file m1 = Some (Inr (), m2)"
    "files m2 limine_license = Some lic"
    "m3 = m2\<lparr>files := (files m2)(under (package_root output) ''runtime/images/LIMINE-LICENSE.txt'' \<mapsto> lic)\<rparr>"
    "\<exists>bs. files m3 image_file = Some bs \<and> digest = w_sha256 (pk_host w) bs"
    "write_linux_texts (pk_host w) (package_root output) (str_strip revision) digest m3 = Some (Inr (), m4)"
    "\<exists>tar. m' = m4\<lparr>files := (files m4)(linux_archive output \<mapsto> tar)\<rparr>"
proof -
  let ?h = "pk_host w" and ?root = "package_root output"
  have "\<exists>pending m0 revision m1 m2 m3 digest m4.
    check_output ?h git_status m = Some (Inr pending, m0) \<and> strip_if byte_space pending = [] \<and>
    output_text ?h git_head m0 = Some (Inr revision, m1) \<and>
    \<not> pk_exists w ?root m1 \<and> \<not> pk_exists w (linux_archive output) m1 \<and>
    check_iso_kernel ?h project image_file m1 = Some (Inr (), m1) \<and>
    copy_common w project ?root linux_tools image_file m1 = Some (Inr (), m2) \<and>
    copy_file limine_license (under ?root ''runtime/images/LIMINE-LICENSE.txt'') m2 = Some (Inr (), m3) \<and>
    file_digest ?h image_file m3 = Some (Inr digest, m3) \<and>
    write_linux_texts ?h ?root (str_strip revision) digest m3 = Some (Inr (), m4) \<and>
    write_file (linux_archive output) (pk_tar w (tree_of ?root m4) [[py ''MiniLinux-LAB'', py ''Start.sh'']]) m4 = Some (Inr (), m')"
    using assms unfolding package_linux_def linux_guard_def linux_contents_def Let_def andthen_Inr
      check_that_Inr path_exists_Inr
    by (elim exE conjE) (auto simp: check_iso_kernel_def res_simps simp del: split_paired_Ex)
  then obtain pending m0 revision m1 m2 m3 digest m4 where r:
    "check_output ?h git_status m = Some (Inr pending, m0)" "strip_if byte_space pending = []"
    "output_text ?h git_head m0 = Some (Inr revision, m1)"
    "\<not> pk_exists w ?root m1" "\<not> pk_exists w (linux_archive output) m1"
    "check_iso_kernel ?h project image_file m1 = Some (Inr (), m1)"
    "copy_common w project ?root linux_tools image_file m1 = Some (Inr (), m2)"
    "copy_file limine_license (under ?root ''runtime/images/LIMINE-LICENSE.txt'') m2 = Some (Inr (), m3)"
    "file_digest ?h image_file m3 = Some (Inr digest, m3)"
    "write_linux_texts ?h ?root (str_strip revision) digest m3 = Some (Inr (), m4)"
    "write_file (linux_archive output) (pk_tar w (tree_of ?root m4) [[py ''MiniLinux-LAB'', py ''Start.sh'']]) m4 = Some (Inr (), m')"
    by (elim exE conjE)
  from r(3) obtain head where head: "check_output ?h git_head m0 = Some (Inr head, m1)" "w_decode ?h head = Inr revision"
    by (auto simp: output_text_def res_simps)
  from r(6) obtain disc kernel where disc: "files m1 image_file = Some disc"
    "w_iso_read ?h disc (py ''/boot/kernel.elf'') = Inr kernel" "files m1 (under project ''build/kernel.elf'') = Some kernel"
    by (auto simp: check_iso_kernel_def res_simps)
  from r(8) obtain lic where lic: "files m2 limine_license = Some lic"
    "m3 = m2\<lparr>files := (files m2)(under ?root ''runtime/images/LIMINE-LICENSE.txt'' \<mapsto> lic)\<rparr>"
    by (auto simp: res_simps)
  show ?thesis
    by (rule that [OF r(1,2) head r(4,5) disc r(7) lic _ r(10)])
      (use r(9,11) in \<open>auto simp: res_simps\<close>)
qed

lemma package_linux_result:
  assumes run: "package_linux w project output image_file limine_license m = Some (Inr u, m')"
    and os: "exists_faithful w" "git_reads_only (pk_host w)"
  obtains pending revision disc kernel where
    "w_exec (pk_host w) git_status m = (Inr pending, files m)" "strip_if byte_space pending = []"
    "clean_revision (pk_host w) m revision"
    "files m image_file = Some disc" "w_iso_read (pk_host w) disc (py ''/boot/kernel.elf'') = Inr kernel"
    "files m (under project ''build/kernel.elf'') = Some kernel"
    "fresh (package_root output) m" "files m (linux_archive output) = None"
    "\<forall>p. \<not> prefix (package_root output) p \<and> p \<noteq> linux_archive output \<longrightarrow> files m' p = files m p"
    "common_files project (package_root output) linux_tools disc m m'"
    "files m' (package_root output @ [py ''package.json'']) = Some (utf8_encode (text_bytes (w_os (pk_host w))
       (manifest_text (linux_manifest (str_strip revision) (w_sha256 (pk_host w) disc)))))"
proof -
  let ?h = "pk_host w" and ?root = "package_root output" and ?archive = "linux_archive output"
  obtain pending m0 head m1 revision disc kernel m2 lic digest m3 m4 where steps:
    "check_output ?h git_status m = Some (Inr pending, m0)" "strip_if byte_space pending = []"
    "check_output ?h git_head m0 = Some (Inr head, m1)" "w_decode ?h head = Inr revision"
    "\<not> pk_exists w ?root m1" "\<not> pk_exists w ?archive m1"
    "files m1 image_file = Some disc" "w_iso_read ?h disc (py ''/boot/kernel.elf'') = Inr kernel"
    "files m1 (under project ''build/kernel.elf'') = Some kernel"
    "copy_common w project ?root linux_tools image_file m1 = Some (Inr (), m2)"
    "files m2 limine_license = Some lic"
    and final: "m3 = m2\<lparr>files := (files m2)(under ?root ''runtime/images/LIMINE-LICENSE.txt'' \<mapsto> lic)\<rparr>"
    "\<exists>bs. files m3 image_file = Some bs \<and> digest = w_sha256 ?h bs"
    "write_linux_texts ?h ?root (str_strip revision) digest m3 = Some (Inr (), m4)"
    "\<exists>tar. m' = m4\<lparr>files := (files m4)(?archive \<mapsto> tar)\<rparr>"
    using package_linux_steps [OF run] .
  note s = git_output [OF os(2) _ steps(1)] git_output [OF os(2) _ steps(3)]
  have m1: "files m1 = files m" "m0 = m\<lparr>ran := ran m @ [git_status]\<rparr>" using s by simp_all
  have fresh: "fresh ?root m1" "fresh ?archive m1" using exists_freshD os(1) steps(5,6) by blast+
  have img: "\<not> prefix ?root image_file" using freshD [OF fresh(1)] steps(7) by blast
  have project: "\<not> prefix ?root project"
    using project_outside [OF fresh(1), of project "split_on 47 (py ''build/kernel.elf'')"] steps(9)
    by (simp add: under_def)
  have conf: "confined ?root m1 m2" using movesD [OF confined_copy_common steps(10)] .
  have common: "common_files project ?root linux_tools disc m1 m2"
    using copy_common_files [OF steps(10) refl project fresh(1) steps(7)] by (simp add: linux_tools_def)
  have digest: "digest = w_sha256 ?h disc"
    using final(1,2) conf img steps(7) by (auto simp: confined_def under_def split: if_splits)
  have archive: "?archive \<noteq> ?root @ p" for p by (simp add: linux_archive_def package_root_def)
  obtain tar readme start where m': "files m' = ((((files m2)(under ?root ''runtime/images/LIMINE-LICENSE.txt'' \<mapsto> lic))
        (?root @ [py ''package.json''] \<mapsto> utf8_encode (text_bytes (w_os ?h)
           (manifest_text (linux_manifest (str_strip revision) digest)))))
        (?root @ [py ''Start.sh''] \<mapsto> start, ?root @ [py ''READ-ME.txt''] \<mapsto> readme, ?archive \<mapsto> tar))"
    using final(1,3,4) by (auto simp: write_linux_texts_def res_simps)
  have later: "files m' p = files m2 p"
    if place: "prefix (?root @ [py ''web'']) p \<or> prefix (?root @ [py ''docs'']) p \<or> prefix (?root @ [py ''tools'']) p \<or>
      p = under ?root ''runtime/images/minilinux-lab.iso''" for p
  proof -
    obtain q where "p = ?root @ q" "q \<notin> {[py ''package.json''], [py ''Start.sh''], [py ''READ-ME.txt'']}"
      "q \<noteq> [py ''runtime'', py ''images'', py ''LIMINE-LICENSE.txt'']"
      using place by (auto simp: under_paths prefix_def)
    then show ?thesis using archive [of q] by (auto simp: m' under_paths)
  qed
  show ?thesis
  proof (rule that [of pending revision disc kernel])
    show "w_exec ?h git_status m = (Inr pending, files m)" using s(1) by simp
    show "clean_revision ?h m revision"
      using s(3) m1 steps(4) by (auto simp: clean_revision_def)
    show "common_files project ?root linux_tools disc m m'"
      using common_files_from [OF common_files_later [OF common later] m1(1)] by simp
    show "files m' (?root @ [py ''package.json'']) = Some (utf8_encode (text_bytes (w_os ?h)
       (manifest_text (linux_manifest (str_strip revision) (w_sha256 ?h disc)))))"
      using archive [symmetric] digest by (simp add: m')
    show "\<forall>p. \<not> prefix ?root p \<and> p \<noteq> ?archive \<longrightarrow> files m' p = files m p"
      using conf m1(1) by (auto simp: m' confined_def under_def)
    show "fresh ?root m" "files m ?archive = None"
      using fresh m1(1) by (simp_all add: fresh_def)
    show "files m image_file = Some disc" "files m (under project ''build/kernel.elf'') = Some kernel"
      using steps(7,9) m1(1) by simp_all
  qed (rule steps(2,8))+
qed

section \<open>The Windows package\<close>

lemma desktop_guard_result:
  assumes "desktop_guard w output m = Some (Inr source, m1)" "exists_faithful w" "git_reads_only (pk_host w)"
  shows "fresh (package_root output) m" "files m1 = files m"
    "\<exists>revision. clean_revision (pk_host w) m revision \<and> source = str_strip revision"
proof -
  let ?h = "pk_host w"
  obtain pending m0 head revision where g: "\<not> pk_exists w (package_root output) m"
    "check_output ?h git_status m = Some (Inr pending, m0)"
    "check_output ?h git_head m0 = Some (Inr head, m1)" "w_decode ?h head = Inr revision" "source = str_strip revision"
    using assms(1) unfolding desktop_guard_def Let_def output_text_def andthen_Inr check_that_Inr path_exists_Inr
    by (elim exE conjE) (auto simp: ret_def of_res_def)
  note s = git_output [OF assms(3) _ g(2)] git_output [OF assms(3) _ g(3)]
  show "fresh (package_root output) m" using exists_freshD [OF assms(2) g(1)] .
  show "files m1 = files m" using s by simp
  show "\<exists>revision. clean_revision ?h m revision \<and> source = str_strip revision"
    using s g(4,5) by (auto simp: clean_revision_def)
qed

lemma desktop_files_result:
  assumes run: "desktop_files w project (package_root output) image_file extractor extractor_source limine_license m1 =
      Some (Inr u, m2)"
    and fresh: "fresh (package_root output) m1" and image_file: "files m1 image_file = Some disc"
    and extractor: "\<not> prefix (package_root output) extractor" "last extractor_source \<notin> py ` set extractor_files"
  shows "confined (package_root output) m1 m2"
    "files m2 (under (package_root output) ''runtime/images/minilinux-lab.iso'') = Some disc"
    "\<forall>name \<in> set extractor_files. files m1 (extractor @ [py name]) \<noteq> None \<and>
       files m2 (under (package_root output) ''runtime/extractor'' @ [py name]) = files m1 (extractor @ [py name])"
proof -
  let ?root = "package_root output" and ?dir = "under (package_root output) ''runtime/extractor''"
  obtain ma mb src lic where steps:
    "copy_common w project ?root desktop_tools image_file m1 = Some (Inr (), ma)"
    "each (\<lambda>name. copy_file (extractor @ [py name]) (?dir @ [py name])) extractor_files ma = Some (Inr (), mb)"
    "m2 = mb\<lparr>files := (files mb)(?dir @ [last extractor_source] \<mapsto> src,
       under ?root ''runtime/images/LIMINE-LICENSE.txt'' \<mapsto> lic)\<rparr>"
    using run unfolding desktop_files_def Let_def andthen_Inr copy_file_Inr by (elim exE conjE) auto
  have doc: "files m1 (project @ split_on 47 (py ''docs/USERLAND.md'')) \<noteq> None"
    using steps(1) unfolding copy_common_def andthen_Inr copy_file_Inr under_def by auto
  have common: "common_files project ?root desktop_tools disc m1 ma"
    using copy_common_files [OF steps(1) refl project_outside [OF fresh doc] fresh image_file] by (simp add: desktop_tools_def)
  have conf_a: "confined ?root m1 ma" using movesD [OF confined_copy_common steps(1)] .
  have "moves (confined ?root) (each (\<lambda>name. copy_file (extractor @ [py name]) (?dir @ [py name])) extractor_files)"
    by (intro confined_rules) simp
  then have conf_b: "confined ?root ma mb" using steps(2) by (rule movesD)
  have out: "\<not> prefix ?root (extractor @ [py name])" if "name \<in> set extractor_files" for name
    using that extractor(1) by (intro source_outside) (auto simp: extractor_files_def)
  have "\<forall>name \<in> set extractor_files. \<not> prefix ?dir (extractor @ [py name])"
    using out by (meson prefix_order.trans under_prefix(2))
  note copied = copy_each [OF steps(2) this]
  have "confined ?root mb m2" using steps(3) by (auto simp: confined_def under_def)
  then show "confined ?root m1 m2" using conf_a conf_b frame.chain by blast
  have "files mb (under ?root ''runtime/images/minilinux-lab.iso'') = files ma (under ?root ''runtime/images/minilinux-lab.iso'')"
    using copied by (simp add: under_paths)
  then show "files m2 (under ?root ''runtime/images/minilinux-lab.iso'') = Some disc"
    using common by (simp add: steps(3) common_files_def under_paths)
  show "\<forall>name \<in> set extractor_files. files m1 (extractor @ [py name]) \<noteq> None \<and>
       files m2 (?dir @ [py name]) = files m1 (extractor @ [py name])"
  proof
    fix name assume name: "name \<in> set extractor_files"
    then have "files ma (extractor @ [py name]) = files m1 (extractor @ [py name])"
      using out conf_a by (simp add: confined_def)
    moreover have "last extractor_source \<noteq> py name" using extractor(2) name by auto
    ultimately show "files m1 (extractor @ [py name]) \<noteq> None \<and> files m2 (?dir @ [py name]) = files m1 (extractor @ [py name])"
      using bspec [OF conjunct1 [OF copied] name] by (simp add: steps(3) under_paths)
  qed
qed

lemma desktop_texts_result:
  assumes "desktop_texts w root image_file extractor source m2 = Some (Inr u, m3)"
  obtains disc app exe dll where
    "files m2 image_file = Some disc" "files m2 (under root ''web/app.js'') = Some app"
    "files m2 (extractor @ [py ''7z.exe'']) = Some exe" "files m2 (extractor @ [py ''7z.dll'']) = Some dll"
    "files m3 (root @ [py ''package.json'']) = Some (utf8_encode (text_bytes (w_os (pk_host w))
       (manifest_text (desktop_manifest source (w_sha256 (pk_host w) disc) (w_sha256 (pk_host w) app)
          (w_sha256 (pk_host w) exe) (w_sha256 (pk_host w) dll)))))"
    "\<And>p. p \<notin> {root @ [py ''package.json''], root @ [py ''Start.cmd''], root @ [py ''READ-ME.txt'']} \<Longrightarrow> files m3 p = files m2 p"
  using assms unfolding desktop_texts_def Let_def andthen_Inr file_digest_Inr write_text_Inr write_file_Inr
  by (elim exE conjE) (rule that, auto)

end
