(* ===== verification/Package_Claims.thy ===== *)
theory Package_Claims
  imports Package_Facts Desktop_Launch
begin

text \<open>
  Properties of the packages and of their launcher: what a package is made of, that the
  launcher accepts it and nothing else, and that no guest outlives the launcher.
\<close>

section \<open>The manifest reads back\<close>

lemma manifest_bytes:
  "utf8_encode (text_bytes os (manifest_text d)) = text_bytes os (manifest_text d)"
  "\<forall>b \<in> set (text_bytes os (manifest_text d)). b < 128"
  "universal_newlines (text_bytes os (manifest_text d)) = manifest_text d"
proof -
  have ascii: "ascii_text (manifest_text d)" by (simp add: manifest_text_def ascii_styles del: render.simps)
  then show "\<forall>b \<in> set (text_bytes os (manifest_text d)). b < 128"
    by (cases os) (auto simp: text_bytes_def ascii_text_def)
  then show "utf8_encode (text_bytes os (manifest_text d)) = text_bytes os (manifest_text d)"
    by (rule utf8_encode_ascii)
  show "universal_newlines (text_bytes os (manifest_text d)) = manifest_text d"
    using ascii by (intro universal_newlines_text) (auto simp: ascii_text_def)
qed

lemma manifest_loads:
  assumes "json_ok (JDict d)"
  shows "json_loads (manifest_text d) = Inr (VDict (map (\<lambda>(k, v). (k, of_json v)) d))"
  using loads_render [OF styles_ok(2) assms, of 0] by (simp add: manifest_text_def)

lemma dict_get_of_json:
  "dict_get (map (\<lambda>(k, v). (k, of_json v)) d) key = map_option of_json (dict_get d key)"
  by (induction d) (auto simp: dict_get_def)

lemma read_manifest:
  assumes "files m p = Some (utf8_encode (text_bytes os (manifest_text d)))"
  shows "read_text p m = Some (Inr (manifest_text d), m)"
  using assms manifest_bytes utf8_decode_ascii [OF manifest_bytes(2)]
  by (simp add: read_text_def andthen_def read_file_def)

definition altered_image :: exn where
  "altered_image = SystemExit (py ''LAB image differs from package.json; unpack the original package again.'')"

lemma verify_image_manifest:
  assumes "files m (place @ [py ''package.json'']) = Some (utf8_encode (text_bytes os (manifest_text d)))"
    "json_ok (JDict d)" "dict_get d (py ''iso_sha256'') = Some (JStr digest)"
    "files m (under place ''runtime/images/minilinux-lab.iso'') = Some bs"
  shows "verify_image h place m = Some (if w_sha256 h bs = digest then Inr () else Inl altered_image, m)"
  using assms(3,4) read_manifest [OF assms(1)] manifest_loads [OF assms(2)]
  by (simp add: verify_image_def andthen_def manifest_entry_def dict_get_of_json file_digest_def
      read_file_def check_that_def altered_image_def)

section \<open>The Linux package\<close>

text \<open>What the digest and the decoding of a command's output are relied on for.\<close>

definition texts_valid :: "linux_world \<Rightarrow> bool" where
  "texts_valid h \<longleftrightarrow> (\<forall>bs. \<forall>c \<in> set (w_sha256 h bs). char_ok c) \<and>
     (\<forall>bs s. w_decode h bs = Inr s \<longrightarrow> (\<forall>c \<in> set s. char_ok c))"

lemma str_strip_set: "c \<in> set (str_strip s) \<Longrightarrow> c \<in> set s"
  by (auto simp: str_strip_def strip_if_def rstrip_if_def lstrip_if_def dest!: set_dropWhileD)

subsection \<open>A small project\<close>

definition small_project :: machine where
  "small_project = \<lparr>files = map_of
     [([py ''p'', py ''docs'', py ''USERLAND.md''], [1]), ([py ''p'', py ''web'', py ''index.html''], [2]),
      ([py ''p'', py ''web'', py ''app.js''], [3]), ([py ''p'', py ''tools'', py ''qemu_host.py''], [4]),
      ([py ''p'', py ''tools'', py ''lab_guest.py''], [5]), ([py ''p'', py ''tools'', py ''lab-server.py''], [6]),
      ([py ''p'', py ''tools'', py ''desktop-launch.py''], [7]), ([py ''p'', py ''tools'', py ''prepare-desktop.ps1''], [8]),
      ([py ''p'', py ''build'', py ''kernel.elf''], [9]), ([py ''i''], [10]), ([py ''l''], [11]),
      ([py ''e'', py ''7z.exe''], [12]), ([py ''e'', py ''7z.dll''], [13]), ([py ''e'', py ''License.txt''], [14]),
      ([py ''7z-src.tar.xz''], [15])], ran = [], passed = []\<rparr>"

definition packing_host :: linux_world where
  "packing_host = \<lparr>w_os = Posix, w_which = Some,
     w_exec = (\<lambda>args m. (Inr (if args = git_head then py ''c0ffee'' else []), files m)),
     w_sha256 = (\<lambda>bs. if bs = [10] then py ''d1'' else py ''d2''), w_version = Finished (banner_prefix @ version_text 8 2 1),
     w_serial = (\<lambda>_ _. \<lparr>sr_launch = None, sr_looks = [], sr_deadline = 0, sr_still_running = False,
        sr_term_ends = True, sr_kill_ends = True, sr_log = []\<rparr>),
     w_master = (\<lambda>_. []), w_iso_read = (\<lambda>_ _. Inr [9]), w_decode = encode_ascii, w_python = py ''python3'',
     w_python_version = (3, 12), w_pycdlib = None, w_download = Inr [], w_unzip = (\<lambda>_ _. Inr []),
     w_temporary = py ''x''\<rparr>"

definition packing_world :: package_world where
  "packing_world = \<lparr>pk_host = packing_host, pk_exists = (\<lambda>p m. \<exists>q. files m (p @ q) \<noteq> None),
     pk_tar = (\<lambda>_ _. []), pk_zip = (\<lambda>_. [])\<rparr>"

lemma packing_world_ok: "exists_faithful packing_world" "git_reads_only (pk_host packing_world)"
  "texts_valid (pk_host packing_world)"
proof -
  show "exists_faithful packing_world" by (auto simp: exists_faithful_def packing_world_def)
  show "git_reads_only (pk_host packing_world)" by (simp add: git_reads_only_def packing_world_def packing_host_def)
  show "texts_valid (pk_host packing_world)"
    using char_ok_py by (auto simp: texts_valid_def packing_world_def packing_host_def encode_ascii_def char_ok_def
      split: if_splits)
qed

text \<open>While the package is built the files of a set stay.\<close>

definition keeps :: "path set \<Rightarrow> (path \<Rightarrow> nat list option) \<Rightarrow> machine \<Rightarrow> bool" where
  "keeps K ref m \<longleftrightarrow> (\<forall>p \<in> K. files m p = ref p)"

lemma keeps_copy:
  "src \<in> K \<Longrightarrow> ref src \<noteq> None \<Longrightarrow> dst \<notin> K \<Longrightarrow> total_on (keeps K ref) (copy_file src dst)"
  by (auto simp: total_on_def keeps_def copy_file_def andthen_def read_file_def write_file_def check_that_def)

lemma keeps_write: "p \<notin> K \<Longrightarrow> total_on (keeps K ref) (write_file p bs)"
  by (auto simp: total_on_def keeps_def write_file_def)

lemma keeps_text: "p \<notin> K \<Longrightarrow> total_on (keeps K ref) (write_text h p s)"
  unfolding write_text_def by (rule keeps_write)

lemma keeps_digest: "p \<in> K \<Longrightarrow> ref p \<noteq> None \<Longrightarrow> total_on (keeps K ref) (file_digest h p)"
  by (auto simp: total_on_def keeps_def file_digest_def andthen_def read_file_def)

lemma keeps_tree: "\<forall>p \<in> K. \<not> prefix dst p \<Longrightarrow> total_on (keeps K ref) (copy_tree src dst)"
  by (auto simp: total_on_def keeps_def copy_tree_def)

definition project_there :: "machine \<Rightarrow> bool" where
  "project_there = keeps {p. \<not> prefix [py ''o''] p} (files small_project)"

lemma there_copy:
  "\<not> prefix [py ''o''] src \<Longrightarrow> files small_project src \<noteq> None \<Longrightarrow> prefix [py ''o''] dst \<Longrightarrow>
     total_on project_there (copy_file src dst)"
  unfolding project_there_def by (rule keeps_copy) simp_all

lemma there_text: "prefix [py ''o''] p \<Longrightarrow> total_on project_there (write_text h p s)"
  unfolding project_there_def by (rule keeps_text) simp

lemma there_digest:
  "\<not> prefix [py ''o''] p \<Longrightarrow> files small_project p \<noteq> None \<Longrightarrow> total_on project_there (file_digest h p)"
  unfolding project_there_def by (rule keeps_digest) simp_all

lemma there_tree: "prefix [py ''o''] dst \<Longrightarrow> total_on project_there (copy_tree src dst)"
  unfolding project_there_def by (rule keeps_tree) (auto dest: prefix_order.trans)

lemma there_web:
  assumes "total_on project_there (f True)"
  shows "total_on project_there (andthen (path_exists packing_world [py ''p'', py ''web'']) f)"
proof (rule total_known [where x = True])
  fix m assume m: "project_there m"
  have "files small_project [py ''p'', py ''web'', py ''index.html''] = Some [2]" by (simp add: small_project_def)
  then have "files m ([py ''p'', py ''web''] @ [py ''index.html'']) \<noteq> None" using m by (simp add: project_there_def keeps_def)
  then have "pk_exists packing_world [py ''p'', py ''web''] m" unfolding packing_world_def package_world.simps by blast
  with m show "\<exists>t. path_exists packing_world [py ''p'', py ''web''] m = Some (Inr True, t) \<and> project_there t"
    by (simp add: path_exists_def)
qed (rule assms)

lemma there_common:
  assumes "set names \<subseteq> set desktop_tools"
  shows "total_on project_there (copy_common packing_world [py ''p''] [py ''o'', py ''MiniLinux-LAB''] names [py ''i''])"
proof -
  have names: "files small_project [py ''p'', py ''tools'', py name] \<noteq> None" if "name \<in> set names" for name
  proof -
    have "\<forall>n \<in> set desktop_tools. files small_project [py ''p'', py ''tools'', py n] \<noteq> None"
      by (simp add: desktop_tools_def small_project_def)
    then show ?thesis using assms that by blast
  qed
  have fixed: "files small_project [py ''p'', py ''docs'', py ''USERLAND.md''] \<noteq> None" "files small_project [py ''i''] \<noteq> None"
    by (simp_all add: small_project_def)
  have tools: "total_on project_there (each (\<lambda>name. copy_file ([py ''p'', py ''tools''] @ [py name])
      ([py ''o'', py ''MiniLinux-LAB'', py ''tools''] @ [py name])) names)"
    using names by (intro total_each there_copy) auto
  have image: "total_on project_there (copy_file [py ''i'']
      [py ''o'', py ''MiniLinux-LAB'', py ''runtime'', py ''images'', py ''minilinux-lab.iso''])"
    using fixed(2) by (intro there_copy) auto
  have doc: "total_on project_there (copy_file [py ''p'', py ''docs'', py ''USERLAND.md'']
      [py ''o'', py ''MiniLinux-LAB'', py ''docs'', py ''USERLAND.md''])"
    using fixed(1) by (intro there_copy) auto
  have tree: "total_on project_there (copy_tree [py ''p'', py ''web''] [py ''o'', py ''MiniLinux-LAB'', py ''web''])"
    by (rule there_tree) simp
  show ?thesis
    unfolding copy_common_def under_paths append_Cons append_Nil
    by (rule total_andthen [OF doc], rule there_web, rule total_andthen [OF total_basic(2) [OF TrueI]],
        rule total_andthen [OF tree], rule total_andthen [OF tools [unfolded append_Cons append_Nil]], rule image)
qed

lemma there_archive: "prefix [py ''o''] p \<Longrightarrow> total_on project_there (\<lambda>m. write_file p (f m) m)"
  by (auto simp: total_on_def project_there_def keeps_def write_file_def)

lemma fresh_start:
  assumes "files m = files small_project"
  shows "\<not> pk_exists packing_world [py ''o'', n] m"
  using assms by (simp add: packing_world_def small_project_def)

lemma small_guard:
  "\<exists>m. linux_guard packing_world [py ''o''] small_project = Some (Inr (py ''c0ffee''), m) \<and> project_there m"
proof -
  let ?m0 = "small_project\<lparr>ran := [git_status]\<rparr>" and ?m1 = "small_project\<lparr>ran := [git_status, git_head]\<rparr>"
  have distinct: "git_status \<noteq> git_head" by (simp add: git_status_def git_head_def)
  have status: "check_output packing_host git_status small_project = Some (Inr [], ?m0)"
    using distinct by (simp add: check_output_def packing_host_def small_project_def)
  have head: "output_text packing_host git_head ?m0 = Some (Inr (py ''c0ffee''), ?m1)"
    by (simp add: output_text_def andthen_def check_output_def packing_host_def encode_ascii_def small_project_def py_def)
  have fresh: "path_exists packing_world [py ''o'', n] ?m1 = Some (Inr False, ?m1)" for n
    using fresh_start [of ?m1] by (simp add: path_exists_def)
  have strip: "str_strip (py ''c0ffee'') = py ''c0ffee''"
    unfolding str_strip_def by (rule strip_if_none) (auto simp: py_def str_space_def re_space_def int_space_def)
  have "linux_guard packing_world [py ''o''] small_project = Some (Inr (py ''c0ffee''), ?m1)"
    unfolding linux_guard_def Let_def package_root_def linux_archive_def append_Cons append_Nil
    using status head fresh strip
    by (simp add: andthen_def check_that_def packing_world_def strip_if_def lstrip_if_def rstrip_if_def)
  then show ?thesis by (auto simp: project_there_def keeps_def)
qed

lemma small_project_packs:
  "\<exists>m'. package_linux packing_world [py ''p''] [py ''o''] [py ''i''] [py ''l''] small_project = Some (Inr (), m')"
proof -
  have sources: "files small_project [py ''i''] = Some [10]" "files small_project [py ''l''] = Some [11]"
    "files small_project [py ''p'', py ''build'', py ''kernel.elf''] = Some [9]"
    by (simp_all add: small_project_def)
  have kernel: "total_on project_there (check_iso_kernel packing_host [py ''p''] [py ''i''])"
    using sources by (auto simp: total_on_def check_iso_kernel_def andthen_def read_file_def project_there_def keeps_def
        under_paths check_that_def packing_host_def)
  let ?root = "[py ''o'', py ''MiniLinux-LAB'']"
  have texts: "total_on project_there (write_linux_texts packing_host ?root s d)" for s d
    unfolding write_linux_texts_def by (intro total_andthen there_text) auto
  have common: "total_on project_there (copy_common packing_world [py ''p''] ?root linux_tools [py ''i''])"
    by (rule there_common) (auto simp: linux_tools_def desktop_tools_def)
  have license: "total_on project_there (copy_file [py ''l'']
      [py ''o'', py ''MiniLinux-LAB'', py ''runtime'', py ''images'', py ''LIMINE-LICENSE.txt''])"
    using sources by (intro there_copy) auto
  have digest: "total_on project_there (file_digest packing_host [py ''i''])"
    using sources by (intro there_digest) auto
  have host: "pk_host packing_world = packing_host" by (simp add: packing_world_def)
  have contents: "total_on project_there (linux_contents packing_world [py ''p''] ?root [py ''i''] [py ''l''] s)" for s
    unfolding linux_contents_def Let_def under_paths append_Cons append_Nil host
    by (intro total_andthen common license digest texts)
  obtain m where m: "linux_guard packing_world [py ''o''] small_project = Some (Inr (py ''c0ffee''), m)"
    "project_there m" using small_guard by blast
  let ?rest = "andthen (check_iso_kernel packing_host [py ''p''] [py ''i'']) (\<lambda>_.
      andthen (linux_contents packing_world [py ''p''] ?root [py ''i''] [py ''l''] (py ''c0ffee'')) (\<lambda>_.
        (\<lambda>m. write_file (linux_archive [py ''o''])
           (pk_tar packing_world (tree_of ?root m) [[py ''MiniLinux-LAB'', py ''Start.sh'']]) m)))"
  have "total_on project_there ?rest"
    by (intro total_andthen kernel contents there_archive) (simp add: linux_archive_def)
  from total_run [OF this m(2)] obtain m' where "?rest m = Some (Inr (), m')" by auto
  then show ?thesis
    unfolding package_linux_def Let_def package_root_def append_Cons append_Nil host
      andthen_of(1) [of "linux_guard packing_world [py ''o'']" small_project, OF m(1)] by blast
qed

text \<open>
  C26. A Linux package is the committed build: if the builder succeeds, git reported a clean tree,
  the kernel inside the image is byte for byte the kernel of the build, the package holds that
  image and the tools, the manual and the web pages of the project, nothing that existed before
  was changed, and the manifest is the one for the committed revision and the image's digest.
\<close>

theorem package_is_the_build:
  assumes "package_linux w project output image_file limine_license m = Some (Inr u, m')"
    "exists_faithful w" "git_reads_only (pk_host w)"
  shows "\<exists>pending revision disc kernel.
    w_exec (pk_host w) git_status m = (Inr pending, files m) \<and> strip_if byte_space pending = [] \<and>
    clean_revision (pk_host w) m revision \<and>
    w_iso_read (pk_host w) disc (py ''/boot/kernel.elf'') = Inr kernel \<and>
    files m (under project ''build/kernel.elf'') = Some kernel \<and>
    common_files project (package_root output) linux_tools disc m m' \<and>
    (\<forall>p. files m p \<noteq> None \<longrightarrow> files m' p = files m p) \<and>
    files m' (package_root output @ [py ''package.json'']) = Some (utf8_encode (text_bytes (w_os (pk_host w))
      (manifest_text (linux_manifest (str_strip revision) (w_sha256 (pk_host w) disc)))))"
proof -
  obtain pending revision disc kernel where r:
    "w_exec (pk_host w) git_status m = (Inr pending, files m)" "strip_if byte_space pending = []"
    "clean_revision (pk_host w) m revision"
    "files m image_file = Some disc" "w_iso_read (pk_host w) disc (py ''/boot/kernel.elf'') = Inr kernel"
    "files m (under project ''build/kernel.elf'') = Some kernel"
    "fresh (package_root output) m" "files m (linux_archive output) = None"
    "\<forall>p. \<not> prefix (package_root output) p \<and> p \<noteq> linux_archive output \<longrightarrow> files m' p = files m p"
    "common_files project (package_root output) linux_tools disc m m'"
    "files m' (package_root output @ [py ''package.json'']) = Some (utf8_encode (text_bytes (w_os (pk_host w))
       (manifest_text (linux_manifest (str_strip revision) (w_sha256 (pk_host w) disc)))))"
    using package_linux_result [OF assms] .
  have "files m' p = files m p" if p: "files m p \<noteq> None" for p
    using r(9) freshD [OF r(7) p] p r(8) by auto
  with r show ?thesis by blast
qed

theorem package_is_the_build_witness:
  "\<exists>m' disc kernel. package_linux packing_world [py ''p''] [py ''o''] [py ''i''] [py ''l''] small_project = Some (Inr (), m') \<and>
     w_iso_read packing_host disc (py ''/boot/kernel.elf'') = Inr kernel \<and>
     files small_project [py ''p'', py ''build'', py ''kernel.elf''] = Some kernel \<and>
     common_files [py ''p''] [py ''o'', py ''MiniLinux-LAB''] linux_tools disc small_project m'"
proof -
  obtain m' where run: "package_linux packing_world [py ''p''] [py ''o''] [py ''i''] [py ''l''] small_project = Some (Inr (), m')"
    using small_project_packs by blast
  from package_is_the_build [OF run packing_world_ok(1,2)] run show ?thesis
    unfolding package_root_def under_paths append_Cons append_Nil by (auto simp: packing_world_def)
qed

lemma packed_image_check:
  assumes "package_linux w project output image_file limine_license m = Some (Inr u, m')"
    "exists_faithful w" "git_reads_only (pk_host w)" "texts_valid (pk_host w)"
    "files m2 (place @ [py ''package.json'']) = files m' (package_root output @ [py ''package.json''])"
    "files m2 (under place ''runtime/images/minilinux-lab.iso'') = Some bs"
  shows "\<exists>disc. files m image_file = Some disc \<and>
    files m' (under (package_root output) ''runtime/images/minilinux-lab.iso'') = Some disc \<and>
    verify_image (pk_host w) place m2 =
      Some (if w_sha256 (pk_host w) bs = w_sha256 (pk_host w) disc then Inr () else Inl altered_image, m2)"
proof -
  obtain revision disc where r: "clean_revision (pk_host w) m revision" "files m image_file = Some disc"
    "common_files project (package_root output) linux_tools disc m m'"
    "files m' (package_root output @ [py ''package.json'']) = Some (utf8_encode (text_bytes (w_os (pk_host w))
       (manifest_text (linux_manifest (str_strip revision) (w_sha256 (pk_host w) disc)))))"
    using package_linux_result [OF assms(1-3)] by metis
  let ?d = "linux_manifest (str_strip revision) (w_sha256 (pk_host w) disc)"
  obtain head where "w_decode (pk_host w) head = Inr revision" using r(1) by (auto simp: clean_revision_def)
  then have "json_ok (JDict ?d)"
    using assms(4) str_strip_set char_ok_py by (auto simp: linux_manifest_def texts_valid_def)
  moreover have "dict_get ?d (py ''iso_sha256'') = Some (JStr (w_sha256 (pk_host w) disc))"
    by (simp add: linux_manifest_def dict_get_def)
  ultimately have "verify_image (pk_host w) place m2 =
      Some (if w_sha256 (pk_host w) bs = w_sha256 (pk_host w) disc then Inr () else Inl altered_image, m2)"
    using assms(5,6) r(4) by (intro verify_image_manifest) simp_all
  with r show ?thesis by (auto simp: common_files_def)
qed

lemma small_package_verifies:
  assumes "package_linux packing_world [py ''p''] [py ''o''] [py ''i''] [py ''l''] small_project = Some (Inr (), m')"
  shows "verify_image packing_host (package_root [py ''o'']) m' = Some (Inr (), m')"
proof -
  have host: "pk_host packing_world = packing_host" by (simp add: packing_world_def)
  obtain disc where "files m' (under (package_root [py ''o'']) ''runtime/images/minilinux-lab.iso'') = Some disc"
    using package_linux_result [OF assms packing_world_ok(1,2)] by (metis common_files_def)
  from packed_image_check [OF assms packing_world_ok refl this] this show ?thesis by (auto simp: host)
qed

text \<open>
  C27. What the builder packs the launcher accepts, and only that: on any unpacked copy of a
  package the launcher's check of the image succeeds exactly if the image has the digest of the
  packed one, and otherwise ends with its message.
\<close>

theorem packed_image_verifies:
  assumes "package_linux w project output image_file limine_license m = Some (Inr u, m')"
    "exists_faithful w" "git_reads_only (pk_host w)" "texts_valid (pk_host w)"
    "files m2 (place @ [py ''package.json'']) = files m' (package_root output @ [py ''package.json''])"
    "files m2 (under place ''runtime/images/minilinux-lab.iso'') = Some bs"
  shows "\<exists>disc. files m image_file = Some disc \<and>
    files m' (under (package_root output) ''runtime/images/minilinux-lab.iso'') = Some disc \<and>
    verify_image (pk_host w) place m2 =
      Some (if w_sha256 (pk_host w) bs = w_sha256 (pk_host w) disc then Inr () else Inl altered_image, m2)"
  using packed_image_check [OF assms] .

theorem packed_image_verifies_witness:
  "\<exists>m' disc. package_linux packing_world [py ''p''] [py ''o''] [py ''i''] [py ''l''] small_project = Some (Inr (), m') \<and>
     files small_project [py ''i''] = Some disc \<and>
     verify_image packing_host (package_root [py ''o'']) m' = Some (Inr (), m')"
proof -
  obtain m' where run: "package_linux packing_world [py ''p''] [py ''o''] [py ''i''] [py ''l''] small_project = Some (Inr (), m')"
    using small_project_packs by blast
  have host: "pk_host packing_world = packing_host" by (simp add: packing_world_def)
  obtain disc where "files m' (under (package_root [py ''o'']) ''runtime/images/minilinux-lab.iso'') = Some disc"
    using package_linux_result [OF run packing_world_ok(1,2)] by (metis common_files_def)
  from packed_image_verifies [OF run packing_world_ok refl this] run this show ?thesis by (auto simp: host)
qed

section \<open>The Windows package\<close>



definition app_path :: path where
  "app_path = [py ''o'', py ''MiniLinux-LAB'', py ''web'', py ''app.js'']"

definition pages_there :: "machine \<Rightarrow> bool" where
  "pages_there = keeps (insert app_path {p. \<not> prefix [py ''o''] p}) ((files small_project)(app_path \<mapsto> [3]))"




lemma pages_archive: "prefix [py ''o''] p \<Longrightarrow> p \<noteq> app_path \<Longrightarrow> total_on pages_there (\<lambda>m. write_file p (f m) m)"
  unfolding pages_there_def by (auto simp: total_on_def keeps_def write_file_def)



end
