(* ===== verification/Recorder_Claims.thy ===== *)
theory Recorder_Claims
  imports Exporter Package_Claims
begin

text \<open>
  The properties of the demo recorder and exporter (\<open>tools/record-demo.py\<close>,
  \<open>tools/export-demo.py\<close>).
\<close>

section \<open>A take for the instances\<close>







section \<open>The properties\<close>








section \<open>The exported site\<close>








end
