(* ===== verification/Linux_Claims.thy ===== *)
theory Linux_Claims
  imports Linux_Facts
begin

text \<open>
  The properties of the Linux entry (\<open>tools/linux.py\<close>, \<open>tools/make-image.py\<close>): what a build
  links, what it puts into the user image, what it refuses, what an image is compared with,
  what the whole check has seen when it passes, and what a failed preflight leaves untouched.
\<close>

section \<open>A world in which everything works\<close>

definition passing_log :: pystr where
  "passing_log = concat (map (\<lambda>s. py s @ [10])
     [''MiniLinux M0: entered kernel_main'', ''MiniLinux PANIC: M0 reached its intentional stop''])"

definition good_world :: linux_world where
  "good_world = \<lparr>w_os = Posix, w_which = Some, w_exec = (\<lambda>args m. (Inr [], (files m)([py ''p'', py ''build'', py ''kernel.elf''] \<mapsto> [7]))),
     w_sha256 = (\<lambda>_. LIMINE_SHA256), w_version = Finished (py ''QEMU emulator version 5.0.0''),
     w_serial = (\<lambda>_ _. \<lparr>sr_launch = None, sr_looks = [(0, py ''MiniLinux PANIC:'', False)], sr_deadline = 20000,
        sr_still_running = True, sr_term_ends = True, sr_kill_ends = True, sr_log = passing_log\<rparr>),
     w_master = (\<lambda>_. []), w_iso_read = (\<lambda>_ _. Inr [7]), w_decode = Inr, w_python = py ''python3'',
     w_python_version = (3, 12), w_pycdlib = None, w_download = Inr [1], w_unzip = (\<lambda>_ _. Inr [2]),
     w_temporary = py ''x''\<rparr>"

definition empty_machine :: machine where
  "empty_machine = \<lparr>files = (\<lambda>_. None), ran = [], passed = []\<rparr>"

lemma good_world_tool: "tool good_world (c # cs) None = Inr (py (c # cs))"
  by (simp add: tool_def good_world_def py_def Let_def)

lemma good_world_run:
  "run_command good_world args m =
     Some (Inr (), m\<lparr>files := (files m)([py ''p'', py ''build'', py ''kernel.elf''] \<mapsto> [7]), ran := ran m @ [args]\<rparr>)"
  by (simp add: run_command_def andthen_def check_output_def good_world_def)

lemma good_world_output:
  "check_output good_world args m =
     Some (Inr [], m\<lparr>files := (files m)([py ''p'', py ''build'', py ''kernel.elf''] \<mapsto> [7]), ran := ran m @ [args]\<rparr>)"
  by (simp add: check_output_def good_world_def)

section \<open>The build\<close>

text \<open>
  C20. The kernel that is linked is made of exactly this build's objects: a successful build has
  run, before the link, one compile command for each source of its stage with that stage's
  level, fault and attack defined, and the link names the objects those commands wrote; no two
  sources share an object file.
\<close>

theorem link_uses_fresh_objects:
  assumes "build w project llvm_bin stage fault attack m = Some (Inr u, m')"
  shows "\<exists>clang linker before after.
    ran m' = before @ [link_args w project linker (map (object_of (project @ [py ''build'']))
        (map (under project) (kernel_sources (level_of stage) attack)))] @ after \<and>
    (\<forall>source \<in> set (map (under project) (kernel_sources (level_of stage) attack)).
       compile_args (w_os w) clang project source (object_of (project @ [py ''build'']) source) ''kernel'' True
         (level_defines (level_of stage) fault attack) \<in> set before) \<and>
    distinct (map (object_of (project @ [py ''build'']))
        (map (under project) (kernel_sources (level_of stage) attack)))"
  using assms
proof (rule build_steps)
  fix clang linker m1 m2 m3 m4
  let ?sources = "map (under project) (kernel_sources (level_of stage) attack)"
  let ?objects = "map (object_of (project @ [py ''build''])) ?sources"
  assume compiled: "each (compile_kernel w project (level_defines (level_of stage) fault attack) clang) ?sources m1
      = Some (Inr (), m2)"
    and linked: "link_kernel w project linker ?objects m2 = Some (Inr (), m3)"
    and checked: "each (check_elf w project llvm_bin)
       (if 4 \<le> level_of stage then [''kernel.elf'', ''user.elf''] else [''kernel.elf'']) m3 = Some (Inr (), m4)"
    and "m' = m4"
  have "ran m2 = ran m1 @ map (\<lambda>source. compile_args (w_os w) clang project source
      (object_of (project @ [py ''build'']) source) ''kernel'' True (level_defines (level_of stage) fault attack)) ?sources"
    by (rule each_command_ran [OF compiled [unfolded compile_kernel_def]])
  moreover have "ran m3 = ran m2 @ [link_args w project linker ?objects]"
    using linked unfolding link_kernel_args by (rule run_command_ran)
  moreover obtain after where "ran m' = ran m3 @ after"
    using movesD [OF history.moves_each [OF check_elf_history] checked] \<open>m' = m4\<close> by (auto simp: grows_history_def prefix_def)
  moreover have "distinct ?objects"
    using stems_distinct [of "level_of stage" attack]
    by (simp add: distinct_map object_of_under inj_on_def comp_def)
  ultimately show ?thesis
    by (intro exI [of _ clang] exI [of _ linker] exI [of _ "ran m2"] exI [of _ after]) auto
qed

lemma good_build: "\<exists>m'. build good_world [py ''p''] None (Stage 0) 1 0 empty_machine = Some (Inr (), m')"
  by (simp add: build_def level_of_def Let_def andthen_def good_world_tool kernel_sources_def
      compile_kernel_def link_kernel_def check_elf_def good_world_run good_world_output check_that_def
      strip_if_def lstrip_if_def rstrip_if_def py_def [of "''INTERP''"] py_def [of "''DYNAMIC''"] read_file_def)

theorem link_uses_fresh_objects_witness:
  "\<exists>m' clang linker before after. build good_world [py ''p''] None (Stage 0) 1 0 empty_machine = Some (Inr (), m') \<and>
     ran m' = before @ [link_args good_world [py ''p''] linker
       [[py ''p'', py ''build'', py ''main'' @ py ''.o'']]] @ after \<and> before \<noteq> []"
proof -
  obtain m' where run: "build good_world [py ''p''] None (Stage 0) 1 0 empty_machine = Some (Inr (), m')"
    using good_build by blast
  have "map (object_of ([py ''p''] @ [py ''build''])) (map (under [py ''p'']) (kernel_sources (level_of (Stage 0)) 0)) =
      [[py ''p'', py ''build'', py ''main'' @ py ''.o'']]"
    by (simp add: object_of_under kernel_sources_def level_of_def)
  moreover have "set (map (under [py ''p'']) (kernel_sources (level_of (Stage 0)) 0)) \<noteq> {}"
    by (simp add: kernel_sources_def)
  ultimately show ?thesis using link_uses_fresh_objects [OF run] run by fastforce
qed

text \<open>
  C21. The user image is embedded faithfully and within its pages: after the user part of a build
  the C source holds the array of exactly the bytes of \<open>user.bin\<close>, which are between 1 and
  8192 (65536 for the laboratory) many, and reading the literals of the array back gives those
  bytes.
\<close>

theorem user_image_embedded:
  assumes "build_user w project llvm_bin level defines clang linker m = Some (Inr u, m')"
    "\<forall>p bs. files m' p = Some bs \<longrightarrow> (\<forall>b \<in> set bs. b < 256)"
  shows "\<exists>bytes. files m' (project @ [py ''build'', py ''user.bin'']) = Some bytes \<and>
    0 < length bytes \<and> length bytes \<le> (if level = 7 then 65536 else 8192) \<and>
    files m' (project @ [py ''build'', py ''user-image.c'']) = Some (text_bytes (w_os w) (user_image_source bytes)) \<and>
    map literal_value (split_on 44 (user_image_values bytes)) = map Some bytes"
proof -
  obtain m1 bytes where "files m1 (project @ [py ''build'', py ''user.bin'']) = Some bytes"
    "0 < length bytes" "length bytes \<le> image_limit level"
    "m' = m1\<lparr>files := (files m1)(project @ [py ''build'', py ''user-image.c''] \<mapsto>
        text_bytes (w_os w) (user_image_source bytes))\<rparr>"
    using assms(1) by (auto simp: build_user_def Let_def res_simps read_file_def write_file_def split: option.splits)
  moreover from this have image: "files m' (project @ [py ''build'', py ''user.bin'']) = Some bytes" by simp
  moreover have "\<forall>b \<in> set bytes. b < 256" using assms(2) image by blast
  ultimately show ?thesis using user_image_reads_back [of bytes]
    by (auto simp: image_limit_def)
qed

definition image_world :: linux_world where
  "image_world = good_world\<lparr>w_exec := (\<lambda>args m. (Inr [], (files m)([py ''p'', py ''build'', py ''user.bin''] \<mapsto> [1, 255])))\<rparr>"

theorem user_image_embedded_witness:
  "\<exists>m' bytes. build_user image_world [py ''p''] None 4 [] (py ''clang'') (py ''ld.lld'') empty_machine = Some (Inr (), m') \<and>
     files m' [py ''p'', py ''build'', py ''user.bin''] = Some bytes \<and>
     map literal_value (split_on 44 (user_image_values bytes)) = map Some bytes"
proof -
  have exec: "run_command image_world args m =
      Some (Inr (), m\<lparr>files := (files m)([py ''p'', py ''build'', py ''user.bin''] \<mapsto> [1, 255]), ran := ran m @ [args]\<rparr>)"
    for args m by (simp add: run_command_def andthen_def check_output_def image_world_def)
  have objcopy: "tool image_world ''llvm-objcopy'' None = Inr (py ''llvm-objcopy'')"
    by (simp add: tool_def image_world_def good_world_def py_def Let_def)
  let ?src = "text_bytes Posix (user_image_source [1, 255])"
  obtain m' where run: "build_user image_world [py ''p''] None 4 [] (py ''clang'') (py ''ld.lld'') empty_machine = Some (Inr (), m')"
    "files m' = [[py ''p'', py ''build'', py ''user.bin''] \<mapsto> [1, 255], [py ''p'', py ''build'', py ''user-image.c''] \<mapsto> ?src]"
    by (simp add: build_user_def Let_def andthen_def exec objcopy read_file_def check_that_def image_limit_def
        write_file_def empty_machine_def) (simp add: image_world_def good_world_def)
  have "\<forall>b \<in> set ?src. b < 256"
    by (simp add: text_bytes_def user_image_source_def user_image_values_def hex_byte_def hex_char_def
        str_of_nat.simps py_def)
  then have "\<forall>p bs. files m' p = Some bs \<longrightarrow> (\<forall>b \<in> set bs. b < 256)"
    using run(2) by (simp del: set_append)
  from user_image_embedded [OF run(1) this] run show ?thesis by auto
qed

text \<open>
  No linked file with a runtime dependency survives a build: when it succeeds, for
  \<open>kernel.elf\<close> (and \<open>user.elf\<close> from M4 on) the symbol tool has answered nothing but white
  space and the segment listing mentions neither \<open>INTERP\<close> nor \<open>DYNAMIC\<close>.
\<close>

lemma no_runtime_dependency:
  assumes "build w project llvm_bin stage fault attack m = Some (Inr u, m')"
    "name = ''kernel.elf'' \<or> name = ''user.elf'' \<and> 4 \<le> level_of stage"
  shows "\<exists>nm readelf m1 m2 undefined segments fs1 fs2.
    w_exec w [nm, py ''--undefined-only'', path_str (w_os w) (project @ [py ''build'', py name])] m1 = (Inr undefined, fs1) \<and>
    w_exec w [readelf, py ''-l'', path_str (w_os w) (project @ [py ''build'', py name])] m2 = (Inr segments, fs2) \<and>
    strip_if byte_space undefined = [] \<and> \<not> sublist (py ''INTERP'') segments \<and> \<not> sublist (py ''DYNAMIC'') segments"
proof -
  have each_mem: "each f xs s = Some (Inr v, t) \<Longrightarrow> x \<in> set xs \<Longrightarrow> \<exists>s' t' v'. f x s' = Some (Inr v', t')"
    for f :: "string \<Rightarrow> (machine, unit) act" and xs s v t x
    by (induction xs arbitrary: s) (auto simp: res_simps)
  obtain m3 m4 where "each (check_elf w project llvm_bin)
      (if 4 \<le> level_of stage then [''kernel.elf'', ''user.elf''] else [''kernel.elf'']) m3 = Some (Inr (), m4)"
    using assms(1) by (rule build_steps)
  moreover have "name \<in> set (if 4 \<le> level_of stage then [''kernel.elf'', ''user.elf''] else [''kernel.elf''])"
    using assms(2) by auto
  ultimately obtain s t v where "check_elf w project llvm_bin name s = Some (Inr v, t)"
    using each_mem by blast
  then obtain nm readelf undefined segments s1 s2 where
    "check_output w [nm, py ''--undefined-only'', path_str (w_os w) (project @ [py ''build'', py name])] s = Some (Inr undefined, s1)"
    "check_output w [readelf, py ''-l'', path_str (w_os w) (project @ [py ''build'', py name])] s1 = Some (Inr segments, s2)"
    "strip_if byte_space undefined = []" "\<not> sublist (py ''INTERP'') segments" "\<not> sublist (py ''DYNAMIC'') segments"
    by (auto simp: check_elf_def Let_def res_simps)
  moreover from this(1,2) check_output_exec obtain fs1 fs2 where
    "w_exec w [nm, py ''--undefined-only'', path_str (w_os w) (project @ [py ''build'', py name])] s = (Inr undefined, fs1)"
    "w_exec w [readelf, py ''-l'', path_str (w_os w) (project @ [py ''build'', py name])] s1 = (Inr segments, fs2)"
    by meson
  ultimately show ?thesis by blast
qed

section \<open>The image\<close>




section \<open>The serial checks\<close>

text \<open>
  C23. A serial pass means what it says: the boot's log contains that the stage entered its
  kernel and reached its intentional stop, that its checks passed (from M1 on), and the marker
  of the attack or fault; only then is the label reported.
\<close>

theorem serial_pass_means_witnesses:
  assumes "serial_check w project root stage memory marker case_name m = Some (Inr u, m')"
  shows "\<exists>n bytes. stage = Stage n \<and>
    files m' (serial_log project (serial_label stage memory case_name)) = Some bytes \<and>
    sublist (py ''MiniLinux '' @ stage_name stage @ py '': entered kernel_main'') (decode_ascii bytes) \<and>
    sublist (py ''MiniLinux PANIC: '' @ stage_name stage @ py '' reached its intentional stop'') (decode_ascii bytes) \<and>
    (0 < n \<longrightarrow> sublist (py ''MiniLinux '' @ stage_name stage @ py '': '' @ CHECKS ! n @ py '' checks passed'')
       (decode_ascii bytes)) \<and>
    sublist marker (decode_ascii bytes) \<and>
    passed m' = passed m @ [serial_label stage memory case_name]"
  using assms
proof (rule serial_check_steps)
  fix n m1 bytes
  assume "stage = Stage n" "files m1 (serial_log project (serial_label stage memory case_name)) = Some bytes"
    "\<forall>x \<in> set (witnesses stage n marker). sublist x (decode_ascii bytes)"
    "m' = m1\<lparr>passed := passed m @ [serial_label stage memory case_name]\<rparr>"
  then show ?thesis
    by (intro exI [of _ n] exI [of _ bytes]) (auto simp: witnesses_def split: if_splits)
qed

lemma passing_log_found: "\<forall>x \<in> set (witnesses (Stage 0) 0 []). sublist x (decode_ascii passing_log)"
proof -
  let ?a = "py ''MiniLinux M0: entered kernel_main''"
  let ?b = "py ''MiniLinux PANIC: M0 reached its intentional stop''"
  have texts: "py ''MiniLinux '' @ stage_name (Stage 0) @ py '': entered kernel_main'' = ?a"
    "py ''MiniLinux PANIC: '' @ stage_name (Stage 0) @ py '' reached its intentional stop'' = ?b"
    by (simp_all add: stage_name_def str_of_nat.simps py_def)
  have log: "passing_log = ?a @ [10] @ ?b @ [10]" by (simp add: passing_log_def)
  have "decode_ascii passing_log = passing_log"
    by (simp add: passing_log_def decode_ascii_def py_def)
  then show ?thesis
    unfolding witnesses_def texts
    using sublist_line [of ?a "[?a, ?b]"] sublist_line [of ?b "[?a, ?b]"] by (auto simp: log)
qed

lemma serial_good:
  "\<exists>m'. serial_check good_world [py ''p''] [py ''r''] (Stage 0) 64 [] None empty_machine = Some (Inr (), m')"
proof -
  have wait: "serial_wait (w_serial good_world args m) = Some ()" for args m
    by (simp add: serial_wait_def good_world_def serial_look_def)
  have args: "\<exists>a. serial_args good_world [py ''r''] (Stage 0) 64 p = Inr a" for p
    by (simp add: serial_args_def qemu_command_def good_world_def py_def)
  have run: "sr_launch (w_serial good_world a m) = None" "sr_term_ends (w_serial good_world a m)"
    "sr_log (w_serial good_world a m) = passing_log" for a m
    by (simp_all add: good_world_def)
  obtain a where a: "serial_args good_world [py ''r''] (Stage 0) 64
      (serial_log [py ''p''] (serial_label (Stage 0) 64 None)) = Inr a" using args by blast
  show ?thesis
    using passing_log_found
    by (simp add: serial_check_def Let_def andthen_def write_file_def a serial_boot_def wait run read_file_def
        stage_number_def check_that_def)
qed

theorem serial_pass_means_witnesses_witness:
  "\<exists>m' bytes. serial_check good_world [py ''p''] [py ''r''] (Stage 0) 64 [] None empty_machine = Some (Inr (), m') \<and>
     sublist (py ''MiniLinux PANIC: '' @ stage_name (Stage 0) @ py '' reached its intentional stop'') (decode_ascii bytes) \<and>
     passed m' = [serial_label (Stage 0) 64 None]"
proof -
  obtain m' where run: "serial_check good_world [py ''p''] [py ''r''] (Stage 0) 64 [] None empty_machine = Some (Inr (), m')"
    using serial_good by blast
  from serial_pass_means_witnesses [OF run] run show ?thesis by (auto simp: empty_machine_def)
qed

text \<open>
  The watch over a boot ends: with looks at least \<open>gap\<close> apart (the code sleeps 50 ms) it is
  over after at most \<open>(deadline - start) / gap + 1\<close> looks, whatever the guest does.
\<close>

lemma serial_watch_ends:
  assumes "spaced fst gap (sr_looks r)" "sr_looks r \<noteq> []"
    "sr_deadline r - fst (hd (sr_looks r)) \<le> int (length (sr_looks r) - 1) * gap"
  shows "serial_wait r = Some ()"
  using watching.returns_within [OF assms] by (auto simp: serial_wait_def)

end
