(* ===== verification/Entry_Claims.thy ===== *)
theory Entry_Claims
  imports Linux_Claims
begin

text \<open>
  The properties of the Linux entry's commands as a whole (\<open>tools/linux.py\<close>): what the check
  has covered when it passes, what a failed preflight leaves untouched, and what the boot
  loader's preparation and the disposable fixture can change.
\<close>

section \<open>The whole check\<close>

definition check_labels :: "pystr list" where
  "check_labels =
     concat (map (\<lambda>stage. map (\<lambda>memory. serial_label stage memory None) memories) (butlast STAGES)) @
     concat (map (\<lambda>(kind, n). map (\<lambda>memory. serial_label (Stage 6) memory (Some (case_label kind n))) memories) M6_cases)"

lemma check_labels_literal:
  "check_labels = map py
     [''m0-64m'', ''m0-256m'', ''m1-64m'', ''m1-256m'', ''m2-64m'', ''m2-256m'', ''m3-64m'', ''m3-256m'',
      ''m4-64m'', ''m4-256m'', ''m5-64m'', ''m5-256m'', ''m6-64m'', ''m6-256m'',
      ''m6-attack-1-64m'', ''m6-attack-1-256m'', ''m6-attack-2-64m'', ''m6-attack-2-256m'',
      ''m6-attack-3-64m'', ''m6-attack-3-256m'', ''m6-attack-4-64m'', ''m6-attack-4-256m'',
      ''m6-attack-5-64m'', ''m6-attack-5-256m'', ''m6-fault-2-64m'', ''m6-fault-2-256m'',
      ''m6-fault-3-64m'', ''m6-fault-3-256m'', ''m6-fault-4-64m'', ''m6-fault-4-256m'',
      ''m6-fault-5-64m'', ''m6-fault-5-256m'', ''m6-fault-6-64m'', ''m6-fault-6-256m'',
      ''m6-fault-7-64m'', ''m6-fault-7-256m'']"
  by (simp add: check_labels_def STAGES_def M6_cases_def memories_def serial_label_def stage_name_def
      case_label_def kind_name_def lower_ascii_def str_of_int_def str_of_nat.simps upt_rec py_def)

section \<open>A world in which the whole check passes\<close>

text \<open>All the lines the serial checks look for, and a machine whose files never go away.\<close>

definition report_lines :: "pystr list" where
  "report_lines =
     concat (map (\<lambda>n. witnesses (Stage n) n []) [0..<7]) @ drop 1 ATTACKS @ drop 2 FAULTS @
     map (\<lambda>spare. py ''OOM with spare pages='' @ str_of_nat spare @ py '' rejected'') [0..<3]"

definition full_report :: pystr where
  "full_report = concat (map (\<lambda>s. s @ [10]) report_lines)"

definition stable_files :: "(pystr \<times> nat list) list" where
  "stable_files = [(py ''limine-bios-cd.bin'', [1]), (py ''limine-bios.sys'', [2]), (py ''LICENSE'', [3]),
     (py ''limine.conf'', [4]), (py ''kernel.elf'', [5]), (py ''user.bin'', [6]), (py ''linker.ld'', [7])]"

definition stable_content :: "machine \<Rightarrow> path \<Rightarrow> nat list option" where
  "stable_content m p =
     (if last p = py ''laboratory.c'' then Some [length (machine.ran m)] else map_of stable_files (last p))"

definition check_world :: linux_world where
  "check_world = \<lparr>w_os = Posix, w_which = Some, w_exec = (\<lambda>args m. (Inr [], stable_content m)),
     w_sha256 = (\<lambda>bs. py (if bs = [1] then snd (LIMINE_FILES ! 0) else snd (LIMINE_FILES ! 1))),
     w_version = Finished (banner_prefix @ version_text 8 2 1),
     w_serial = (\<lambda>_ _. \<lparr>sr_launch = None, sr_looks = [(0, py ''MiniLinux PANIC:'', False)], sr_deadline = 20000,
        sr_still_running = True, sr_term_ends = True, sr_kill_ends = True, sr_log = full_report\<rparr>),
     w_master = (\<lambda>_. []),
     w_iso_read = (\<lambda>_ name. Inr (if name = py ''/boot/kernel.elf'' then [5] else if name = py ''/limine.conf'' then [4] else [2])),
     w_decode = Inr, w_python = py ''python3'', w_python_version = (3, 12), w_pycdlib = Some (py ''1.20.0''),
     w_download = Inr [], w_unzip = (\<lambda>_ _. Inr []), w_temporary = py ''x''\<rparr>"

definition settled :: "machine \<Rightarrow> bool" where
  "settled m \<longleftrightarrow>
     (\<forall>p. last p \<in> fst ` set stable_files \<longrightarrow> files m p = map_of stable_files (last p)) \<and>
     (\<forall>p. last p = py ''laboratory.c'' \<longrightarrow> (\<exists>k < length (machine.ran m). files m p = Some [k]))"

definition succeeds :: "(machine, 'a) act \<Rightarrow> bool" where
  "succeeds a \<longleftrightarrow> (\<forall>m. settled m \<longrightarrow> (\<exists>x m'. a m = Some (Inr x, m') \<and> settled m'))"

lemma succeeds_basic: "succeeds (ret x)" "b \<Longrightarrow> succeeds (check_that b e)" "r = Inr x \<Longrightarrow> succeeds (of_res r)"
  by (auto simp: succeeds_def check_that_def)

lemma succeeds_andthen: "succeeds a \<Longrightarrow> (\<And>x. succeeds (f x)) \<Longrightarrow> succeeds (andthen a f)"
  unfolding succeeds_def andthen_Inr by blast

lemma succeeds_of_res: "r = Inr x \<Longrightarrow> succeeds (f x) \<Longrightarrow> succeeds (andthen (of_res r) f)"
  by (auto simp: succeeds_def andthen_def)

lemma succeeds_each: "(\<And>x. x \<in> set xs \<Longrightarrow> succeeds (f x)) \<Longrightarrow> succeeds (each f xs)"
  by (induction xs) (auto intro: succeeds_basic succeeds_andthen)

lemma settled_read: "settled m \<Longrightarrow> map_of stable_files (last p) = Some bs \<Longrightarrow> files m p = Some bs"
  using map_of_SomeD [of stable_files "last p" bs] unfolding settled_def by force

lemma succeeds_read:
  assumes "map_of stable_files (last p) = Some bs" "succeeds (f bs)"
  shows "succeeds (andthen (read_file p) f)"
proof -
  have "andthen (read_file p) f m = f bs m" if "settled m" for m
    using settled_read [OF that assms(1)] by (simp add: andthen_def read_file_def)
  with assms(2) show ?thesis by (simp add: succeeds_def)
qed

lemma settled_write:
  "settled m \<Longrightarrow> last p \<notin> insert (py ''laboratory.c'') (fst ` set stable_files) \<Longrightarrow>
     settled (m\<lparr>files := (files m)(p \<mapsto> bs)\<rparr>)"
  by (auto simp: settled_def)

lemma settled_write_same:
  "settled m \<Longrightarrow> map_of stable_files (last p) = Some bs \<Longrightarrow> last p \<noteq> py ''laboratory.c'' \<Longrightarrow>
     settled (m\<lparr>files := (files m)(p \<mapsto> bs)\<rparr>)"
  by (auto simp: settled_def)

lemma succeeds_write: "last p \<notin> insert (py ''laboratory.c'') (fst ` set stable_files) \<Longrightarrow> succeeds (write_file p bs)"
  using settled_write by (simp add: succeeds_def write_file_def)

lemma succeeds_write_same:
  "map_of stable_files (last p) = Some bs \<Longrightarrow> last p \<noteq> py ''laboratory.c'' \<Longrightarrow> succeeds (write_file p bs)"
  using settled_write_same by (simp add: succeeds_def write_file_def)

lemma stable_lab: "py ''laboratory.c'' \<notin> fst ` set stable_files"
  by (simp add: stable_files_def)

lemma settled_exec: "settled (m\<lparr>files := stable_content m, ran := machine.ran m @ [args]\<rparr>)"
  using stable_lab by (auto simp: settled_def stable_content_def)

lemma check_world_output:
  "check_output check_world args m =
     Some (Inr [], m\<lparr>files := stable_content m, ran := machine.ran m @ [args]\<rparr>)"
  by (simp add: check_output_def check_world_def)

lemma succeeds_output: "succeeds (f []) \<Longrightarrow> succeeds (andthen (check_output check_world args) f)"
  using settled_exec by (simp add: succeeds_def andthen_def check_world_output)

lemma succeeds_run: "succeeds (run_command check_world args)"
  unfolding run_command_def by (intro succeeds_output succeeds_basic)

lemma check_world_tool: "tool check_world (c # cs) None = Inr (py (c # cs))"
  by (simp add: tool_def check_world_def py_def Let_def)

lemma succeeds_copy:
  assumes "src \<noteq> []" "dst \<noteq> []" "last src = last dst"
  shows "succeeds (copy_tree src dst)"
proof -
  have same: "last (src @ drop (length dst) p) = last p" if "prefix dst p" for p
    using that assms by (auto simp: prefix_def last_append)
  have "settled (m\<lparr>files := \<lambda>p. if prefix dst p \<and> files m (src @ drop (length dst) p) \<noteq> None
      then files m (src @ drop (length dst) p) else files m p\<rparr>)" if "settled m" for m
    using that same unfolding settled_def by simp
  then show ?thesis by (simp add: succeeds_def copy_tree_def)
qed

section \<open>Builds and images in that world\<close>

lemma succeeds_user:
  "succeeds (build_user check_world project None level defs clang linker)"
proof -
  have bin: "map_of stable_files (last ((project @ [py ''build'']) @ [py ''user.bin''])) = Some [6]"
    by (simp add: stable_files_def)
  have source: "last ((project @ [py ''build'']) @ [py ''user-image.c'']) \<notin> insert (py ''laboratory.c'') (fst ` set stable_files)"
    by (simp add: stable_files_def)
  have bytes: "succeeds (if level = 7 then run_command check_world args else ret ())" for args
    by (simp add: succeeds_run succeeds_basic(1))
  have limit: "0 < length [6::nat] \<and> length [6::nat] \<le> image_limit level" by (simp add: image_limit_def)
  show ?thesis unfolding build_user_def Let_def
    by (intro succeeds_of_res [OF check_world_tool] succeeds_read [OF bin] succeeds_andthen succeeds_run bytes
        succeeds_basic(2) [OF limit] succeeds_write [OF source])
qed

lemma succeeds_elf: "succeeds (check_elf check_world project None name)"
  unfolding check_elf_def Let_def
  by (intro succeeds_of_res [OF check_world_tool] succeeds_output succeeds_basic(2))
    (simp add: strip_if_def lstrip_if_def rstrip_if_def)

lemma succeeds_build:
  assumes "stage = Stage 6 \<or> fault = 1 \<and> attack = 0"
  shows "succeeds (build check_world project None stage fault attack)"
proof -
  have kernel: "map_of stable_files (last ((project @ [py ''build'']) @ [py ''kernel.elf''])) = Some [5]"
    by (simp add: stable_files_def)
  have "succeeds (compile_kernel check_world project defs clang source)" for defs clang source
    unfolding compile_kernel_def by (rule succeeds_run)
  moreover have "succeeds (link_kernel check_world project linker objects)" for linker objects
    unfolding link_kernel_def by (rule succeeds_run)
  moreover have "succeeds (if 4 \<le> level then build_user check_world project None level defs clang linker else ret ())"
    for level defs clang linker by (simp add: succeeds_user succeeds_basic(1))
  moreover have "\<not> (stage \<noteq> Stage 6 \<and> (fault \<noteq> 1 \<or> attack \<noteq> 0))" using assms by auto
  ultimately show ?thesis
    unfolding build_def Let_def
    by (simp only: if_False not_False_eq_True)
      (intro succeeds_of_res [OF check_world_tool] succeeds_read [OF kernel] succeeds_andthen succeeds_each
        succeeds_elf succeeds_basic(1))
qed

lemma succeeds_image: "succeeds (image check_world project root stage)"
proof -
  let ?p = "image_path root stage"
  have fresh: "last ?p \<notin> insert (py ''laboratory.c'') (fst ` set stable_files)"
    by (simp add: image_path_def stable_files_def py_def)
  have names: "map_of stable_files (py ''limine-bios-cd.bin'') = Some [1]"
    "map_of stable_files (py ''limine-bios.sys'') = Some [2]" "map_of stable_files (py ''limine.conf'') = Some [4]"
    "map_of stable_files (py ''kernel.elf'') = Some [5]"
    by (simp_all add: stable_files_def)
  have under: "last (under project ''boot/limine.conf'') = py ''limine.conf''"
    "last (under project ''build/kernel.elf'') = py ''kernel.elf''"
    by (simp_all add: under_def py_def)
  have iso: "w_iso_read check_world disc (py ''/boot/kernel.elf'') = Inr [5]"
    "w_iso_read check_world disc (py ''/limine.conf'') = Inr [4]"
    "w_iso_read check_world disc (py ''/limine-bios.sys'') = Inr [2]" for disc
    by (simp_all add: check_world_def)
  have compare: "succeeds (each (compare_file check_world disc) (compared_files project root))" for disc
    by (auto simp: compared_files_def compare_file_def limine_dir_def under names
        intro!: succeeds_andthen succeeds_basic succeeds_of_res [OF iso(1)] succeeds_of_res [OF iso(2)]
          succeeds_of_res [OF iso(3)] succeeds_read)
  have "\<exists>entries. read_all (image_files project root) m = Some (Inr entries, m)" if "settled m" for m
  proof -
    have "files m (limine_dir root @ [py ''limine-bios-cd.bin'']) = Some [1]"
      "files m (limine_dir root @ [py ''limine-bios.sys'']) = Some [2]"
      "files m (under project ''boot/limine.conf'') = Some [4]" "files m (under project ''build/kernel.elf'') = Some [5]"
      by (auto intro!: settled_read [OF that] simp: under names)
    then show ?thesis by (simp add: image_files_def andthen_def read_file_def)
  qed
  moreover have "succeeds (andthen (write_file ?p bs) (\<lambda>_. andthen (read_file ?p)
      (\<lambda>disc. each (compare_file check_world disc) (compared_files project root))))" for bs
    using compare [of bs] settled_write [OF _ fresh] by (simp add: succeeds_def andthen_def write_file_def read_file_def)
  ultimately show ?thesis
    unfolding succeeds_def image_def make_image_def andthen_def by fastforce
qed

section \<open>Serial checks in that world\<close>

definition ascii :: "pystr \<Rightarrow> bool" where
  "ascii s \<longleftrightarrow> (\<forall>c \<in> set s. c < 128)"

lemma ascii_simps [simp]:
  "ascii []" "ascii (s @ t) \<longleftrightarrow> ascii s \<and> ascii t" "ascii (str_of_nat n)"
  "ascii (py cs) \<longleftrightarrow> list_all (\<lambda>c. of_char c < (128 :: nat)) cs"
  using str_of_nat_digits [of _ n] by (auto simp: ascii_def py_def list_all_iff) force

lemma checks_ascii: "n < 7 \<Longrightarrow> ascii (CHECKS ! n)"
proof -
  have "list_all ascii CHECKS" by (simp add: CHECKS_def)
  moreover assume "n < 7"
  then have "n < length CHECKS" by (simp add: CHECKS_def)
  ultimately show ?thesis by (simp add: list_all_length)
qed

lemma report_ascii: "\<forall>c \<in> set full_report. c < 128"
proof -
  have "ascii x" if "x \<in> set (witnesses (Stage n) n [])" "n < 7" for n x
    using that checks_ascii [of n] by (auto simp: witnesses_def stage_name_def split: if_splits)
  moreover have "list_all ascii (drop 1 ATTACKS @ drop 2 FAULTS)" by (simp add: ATTACKS_def FAULTS_def)
  ultimately have "\<forall>x \<in> set report_lines. ascii x"
    by (auto simp: report_lines_def list_all_iff)
  then show ?thesis by (auto simp: full_report_def ascii_def)
qed

lemma report_decoded: "decode_ascii full_report = full_report"
  using report_ascii by (simp add: decode_ascii_def map_idI)

lemma report_found:
  assumes "n < 7" "marker \<in> insert [] (set (drop 1 ATTACKS @ drop 2 FAULTS))"
  shows "\<forall>x \<in> set (witnesses (Stage n) n marker). sublist x full_report"
proof -
  have "set (witnesses (Stage n) n []) \<subseteq> set report_lines" using assms(1) by (auto simp: report_lines_def)
  moreover have "set (witnesses (Stage n) n marker) \<subseteq> set (witnesses (Stage n) n []) \<union> {marker}"
    by (auto simp: witnesses_def)
  moreover have "marker = [] \<or> marker \<in> set report_lines" using assms(2) by (auto simp: report_lines_def)
  ultimately have "x = [] \<or> x \<in> set report_lines" if "x \<in> set (witnesses (Stage n) n marker)" for x
    using that by blast
  then show ?thesis using sublist_line unfolding full_report_def by (metis sublist_Nil_left)
qed

lemma settled_ran: "settled m \<Longrightarrow> settled (m\<lparr>ran := machine.ran m @ xs, passed := q\<rparr>)"
  unfolding settled_def by (simp, meson trans_less_add1)

lemma serial_check_good:
  assumes "settled m" "n < 7" "marker \<in> insert [] (set (drop 1 ATTACKS @ drop 2 FAULTS))"
  shows "\<exists>m'. serial_check check_world project root (Stage n) memory marker c m = Some (Inr (), m') \<and> settled m' \<and>
    files m' (serial_log project (serial_label (Stage n) memory c)) = Some full_report"
proof -
  let ?p = "serial_log project (serial_label (Stage n) memory c)"
  have fresh: "last ?p \<notin> insert (py ''laboratory.c'') (fst ` set stable_files)"
  proof -
    have "last ?p = (serial_label (Stage n) memory c @ py ''-serial.lo'') @ [103]"
      by (simp add: serial_log_def py_def)
    then have "last (last ?p) = 103" by simp
    moreover have "last y \<noteq> 103" if "y \<in> insert (py ''laboratory.c'') (fst ` set stable_files)" for y
      using that by (auto simp: stable_files_def py_def)
    ultimately show ?thesis by blast
  qed
  have "\<exists>args. serial_args check_world root (Stage n) memory ?p = Inr args"
    by (simp add: serial_args_def qemu_command_def check_world_def py_def)
  then obtain args where args: "serial_args check_world root (Stage n) memory ?p = Inr args" by blast
  have run: "serial_wait (w_serial check_world a m) = Some ()" "sr_launch (w_serial check_world a m) = None"
    "sr_term_ends (w_serial check_world a m)" "sr_log (w_serial check_world a m) = full_report" for a m
    by (simp_all add: check_world_def serial_wait_def serial_look_def)
  have "settled (m\<lparr>files := (files m)(?p \<mapsto> full_report), ran := machine.ran m @ [args], passed := q\<rparr>)" for q
    using settled_ran [OF settled_write [OF assms(1) fresh, of full_report], where xs = "[args]" and q = q] by simp
  then show ?thesis
    using report_found [OF assms(2,3)]
    by (simp add: serial_check_def Let_def andthen_def write_file_def args serial_boot_def run read_file_def
        stage_number_def check_that_def report_decoded)
qed

section \<open>The whole check in that world\<close>

lemma succeeds_serial:
  "n < 7 \<Longrightarrow> marker \<in> insert [] (set (drop 1 ATTACKS @ drop 2 FAULTS)) \<Longrightarrow>
     succeeds (serial_check check_world project root (Stage n) memory marker c)"
  using serial_check_good unfolding succeeds_def by blast

lemma succeeds_depths:
  assumes "marker \<in> insert [] (set (drop 1 ATTACKS @ drop 2 FAULTS))"
  shows "succeeds (andthen (serial_check check_world project root (Stage 6) memory marker (Some label))
    (\<lambda>_. check_depths check_world project label memory))"
proof -
  have "py ''OOM with spare pages='' @ str_of_nat spare @ py '' rejected'' \<in> set report_lines" if "spare < 3" for spare
    using that by (auto simp: report_lines_def)
  then have found: "\<forall>spare \<in> set [0..<3]. sublist (py ''OOM with spare pages='' @ str_of_nat spare @ py '' rejected'') full_report"
    using sublist_line by (auto simp: full_report_def)
  have decode: "w_decode check_world = Inr" by (simp add: check_world_def)
  have "check_depths check_world project label memory m = Some (Inr (), m)"
    if "files m (serial_log project (serial_label (Stage 6) memory (Some label))) = Some full_report" for m
    using that found by (simp add: check_depths_def andthen_def read_file_def serial_label_def decode check_that_def
        del: set_upt)
  then show ?thesis
    using serial_check_good [of _ 6 marker] assms unfolding succeeds_def andthen_Inr by fastforce
qed

lemma case_marker_known:
  "(kind, n) \<in> set M6_cases \<Longrightarrow> case_marker kind n \<in> insert [] (set (drop 1 ATTACKS @ drop 2 FAULTS))"
  by (auto simp: M6_cases_def case_marker_def ATTACKS_def FAULTS_def less_Suc_eq numeral_eq_Suc)

lemma succeeds_case:
  assumes "x \<in> set M6_cases"
  shows "succeeds (check_case check_world project root None x)"
proof -
  obtain kind n where x: "x = (kind, n)" by (cases x)
  note marker = case_marker_known [OF assms [unfolded x]]
  have step: "succeeds (andthen (serial_check check_world project root (Stage 6) memory (case_marker kind n) (Some (case_label kind n)))
      (\<lambda>_. if kind = Attack \<and> n = 3 then check_depths check_world project (case_label kind n) memory else ret ()))" for memory
  proof (cases "kind = Attack \<and> n = 3")
    case True
    then show ?thesis using succeeds_depths [OF marker] by simp
  next
    case False
    have "succeeds (andthen (serial_check check_world project root (Stage 6) memory (case_marker kind n)
        (Some (case_label kind n))) (\<lambda>_. ret ()))"
      by (intro succeeds_andthen succeeds_serial [OF _ marker] succeeds_basic(1)) simp
    with False show ?thesis by (simp only: if_False)
  qed
  show ?thesis unfolding x check_case_def prod.case
    by (intro succeeds_andthen [OF succeeds_build] succeeds_andthen [OF succeeds_image] succeeds_each step) simp
qed

lemma succeeds_stage: "n < 7 \<Longrightarrow> succeeds (check_stage check_world project root None (Stage n))"
  unfolding check_stage_def
  by (intro succeeds_andthen succeeds_build succeeds_image succeeds_each succeeds_serial) simp_all

lemma succeeds_doctor: "succeeds (doctor check_world root None)"
proof -
  have "check_qemu (w_os check_world) (w_which check_world (py ''qemu-system-x86_64'')) root (w_version check_world) = Inr ()"
  proof -
    have "version_end []" by (simp add: version_end_def)
    from qemu_version_banner [OF this, of 8 2 1]
    have "qemu_version (banner_prefix @ version_text 8 2 1) = Some (Version 8 2 1)" by simp
    then have "check_banner (banner_prefix @ version_text 8 2 1) = Inr ()"
      by (simp add: check_banner_ok required_version_def)
    moreover have "\<exists>command. qemu_command Posix (Some (py ''qemu-system-x86_64'')) root = Inr command"
      by (simp add: qemu_command_def)
    moreover have "w_os check_world = Posix" "w_which check_world = Some"
      "w_version check_world = Finished (banner_prefix @ version_text 8 2 1)"
      by (simp_all add: check_world_def)
    ultimately show ?thesis by (auto simp: check_qemu_def)
  qed
  then have pre: "succeeds (preflight check_world root)" unfolding preflight_def by (rule succeeds_basic(3))
  have asset: "succeeds (case x of (name, expected) \<Rightarrow> andthen (read_file (limine_dir root @ [py name])) (\<lambda>asset.
      check_that (w_sha256 check_world asset = py expected)
        (RuntimeError (py ''Limine asset changed: '' @ path_str (w_os check_world) (limine_dir root @ [py name])))))"
    if "x \<in> set LIMINE_FILES" for x
    using that by (auto simp: LIMINE_FILES_def check_world_def stable_files_def intro!: succeeds_read succeeds_basic(2))
  have tools: "succeeds (andthen (of_res (tool check_world name None)) (\<lambda>executable.
      run_command check_world [executable, py ''--version'']))" if "name \<in> set llvm_tools" for name
    using that by (auto simp: llvm_tools_def intro!: succeeds_of_res [OF check_world_tool] succeeds_run)
  have version: "(case w_pycdlib check_world of None \<Rightarrow> Inl (KeyError (py ''pycdlib'')) | Some v \<Rightarrow> Inr v) = Inr (py ''1.20.0'')"
    by (simp add: check_world_def)
  show ?thesis unfolding doctor_def
    by (intro succeeds_of_res [OF version] succeeds_andthen succeeds_run pre succeeds_each succeeds_basic(2) tools asset) simp_all
qed

lemma settled_source: "settled m \<Longrightarrow> last p = py ''laboratory.c'' \<Longrightarrow> \<exists>k < length (machine.ran m). files m p = Some [k]"
  unfolding settled_def by simp

text \<open>The patch changes the copied source, because every command leaves a new content in it.\<close>

lemma succeeds_patched:
  assumes "last p = py ''laboratory.c''" "succeeds rest"
  shows "succeeds (andthen (read_file p) (\<lambda>original. andthen (run_command check_world args) (\<lambda>_.
    andthen (read_file p) (\<lambda>patched. andthen (check_that (patched \<noteq> original) e) (\<lambda>_. rest)))))"
proof -
  have "\<exists>m'. settled m' \<and> andthen (read_file p) (\<lambda>original. andthen (run_command check_world args) (\<lambda>_.
      andthen (read_file p) (\<lambda>patched. andthen (check_that (patched \<noteq> original) e) (\<lambda>_. rest)))) m = rest m'" if set: "settled m" for m
  proof -
    let ?n = "m\<lparr>files := stable_content m, ran := machine.ran m @ [args]\<rparr>"
    obtain k where k: "k < length (machine.ran m)" "files m p = Some [k]"
      using settled_source [OF set assms(1)] by blast
    have a: "read_file p m = Some (Inr [k], m)" using k by (simp add: read_file_def)
    have b: "run_command check_world args m = Some (Inr (), ?n)"
      by (simp add: run_command_def andthen_def check_world_output)
    have c: "read_file p ?n = Some (Inr [length (machine.ran m)], ?n)"
      by (simp add: read_file_def stable_content_def assms(1))
    have d: "check_that ([length (machine.ran m)] \<noteq> [k]) e ?n = Some (Inr (), ?n)"
      using k(1) by (simp add: check_that_def)
    show ?thesis
      unfolding andthen_of(1) [of "read_file p" m, OF a] andthen_of(1) [of "run_command check_world args" m, OF b]
        andthen_of(1) [of "read_file p" ?n, OF c] andthen_of(1) [of "check_that _ e" ?n, OF d]
      using settled_exec [of m args] by blast
  qed
  with assms(2) show ?thesis unfolding succeeds_def by metis
qed

lemma fixture_runs:
  assumes "settled m"
  shows "\<exists>m'. check_fixture check_world project root None m = Some (Inr (), m')"
proof -
  have lab: "last (under p ''user/laboratory.c'') = py ''laboratory.c''" for p by (simp add: under_def py_def)
  have ld: "map_of stable_files (last (p @ [py ''linker.ld''])) = Some [7]" for p by (simp add: stable_files_def)
  have ld': "last (p @ [py ''linker.ld'']) \<noteq> py ''laboratory.c''" for p by simp
  have limine: "p @ [x] \<noteq> []" "last (p @ [x]) = last (q @ [x])" for p q :: path and x by simp_all
  have "succeeds (run_fixture check_world project root None)"
    unfolding run_fixture_def boundary_test_def Let_def
    by (intro succeeds_read [OF ld] succeeds_patched [OF lab] succeeds_andthen succeeds_each succeeds_copy limine
        succeeds_write_same [OF ld ld'] succeeds_build succeeds_image succeeds_run) simp_all
  with assms show ?thesis
    by (fastforce simp: succeeds_def check_fixture_def finally_do_def remove_tree_def)
qed

lemma check_passes:
  assumes "settled m"
  shows "\<exists>m'. check check_world project root None m = Some (Inr (), m')"
proof -
  have stage: "succeeds (check_stage check_world project root None s)" if "s \<in> set (butlast STAGES)" for s
    using that succeeds_stage by (auto simp: STAGES_def)
  have "succeeds (check_this_tree check_world project root None)"
    unfolding check_this_tree_def boundary_test_def Let_def
    by (intro succeeds_andthen succeeds_doctor succeeds_each stage succeeds_case succeeds_build succeeds_image succeeds_run)
      simp_all
  with assms obtain u m' where "check_this_tree check_world project root None m = Some (Inr u, m')" "settled m'"
    unfolding succeeds_def by blast
  then show ?thesis using fixture_runs by (simp add: check_def andthen_def)
qed

definition settled_machine :: machine where
  "settled_machine = \<lparr>files = (\<lambda>p. if last p = py ''laboratory.c'' then Some [0] else map_of stable_files (last p)),
     ran = [[]], passed = []\<rparr>"

lemma settled_machine_ok: "settled settled_machine"
  using stable_lab by (auto simp: settled_def settled_machine_def)

section \<open>The properties\<close>

text \<open>
  C24. When the whole check passes, every promised boot has been checked, in order and with a log
  of its own: each stage M0 to M6 with 64 and 256 MiB, and each of the five attacks and six
  faults of M6 with both sizes; no label (and so no log) is used twice.
\<close>

theorem full_check_covers_all:
  assumes "check w project root llvm_bin m = Some (Inr u, m')"
  shows "passed m' = passed m @ check_labels \<and> distinct check_labels \<and> length check_labels = 36"
proof -
  obtain m1 m2 m3 m4 m5 m6 m7 m8 m9 where steps:
    "doctor w root llvm_bin m = Some (Inr (), m1)"
    "each (check_stage w project root llvm_bin) (butlast STAGES) m1 = Some (Inr (), m2)"
    "each (check_case w project root llvm_bin) M6_cases m2 = Some (Inr (), m3)"
    "build w project llvm_bin (Stage 6) 1 0 m3 = Some (Inr (), m4)"
    "image w project root (Stage 6) m4 = Some (Inr (), m5)"
    "build w project llvm_bin LAB 1 0 m5 = Some (Inr (), m6)"
    "image w project root LAB m6 = Some (Inr (), m7)"
    "each (\<lambda>name. run_command w [w_python w, py ''-B'', path_str (w_os w) (under project ''tools'' @ [py name]),
        py ''--tool-root'', path_str (w_os w) root]) [''test-userland.py'', ''test-lab-bridge.py''] m7 = Some (Inr (), m8)"
    "boundary_test w project ''baseline'' project root m8 = Some (Inr (), m9)"
    "check_fixture w project root llvm_bin m9 = Some (Inr u, m')"
    using assms unfolding check_def check_this_tree_def andthen_Inr by auto
  have quiet: "passed m1 = passed m" "passed m4 = passed m3" "passed m5 = passed m4" "passed m6 = passed m5"
    "passed m7 = passed m6" "passed m9 = passed m8" "passed m' = passed m9"
    using quiet_passed [OF quiet_doctor steps(1)] quiet_passed [OF quiet_build steps(4)]
      quiet_passed [OF quiet_image steps(5)] quiet_passed [OF quiet_build steps(6)]
      quiet_passed [OF quiet_image steps(7)] quiet_passed [OF quiet_fixture steps(10)]
      quiet_passed [OF quiet_run steps(9) [unfolded boundary_test_def Let_def]] by simp_all
  have "passed m8 = passed m7"
    using quiet_passed [OF quiet.moves_each steps(8)] quiet_run by blast
  moreover have "passed m2 = passed m1 @
      concat (map (\<lambda>stage. map (\<lambda>memory. serial_label stage memory None) memories) (butlast STAGES))"
    using each_passed [OF check_stage_passed steps(2)] .
  moreover have "passed m3 = passed m2 @
      concat (map (\<lambda>(kind, n). map (\<lambda>memory. serial_label (Stage 6) memory (Some (case_label kind n))) memories) M6_cases)"
    by (rule each_passed [OF _ steps(3)]) (auto simp: check_case_passed)
  ultimately have "passed m' = passed m @ check_labels" using quiet by (simp add: check_labels_def)
  then show ?thesis by (simp add: check_labels_literal)
qed

theorem full_check_covers_all_witness:
  "\<exists>m'. check check_world [py ''p''] [py ''r''] None settled_machine = Some (Inr (), m') \<and>
     passed m' = check_labels \<and> length (passed m') = 36"
proof -
  obtain m' where run: "check check_world [py ''p''] [py ''r''] None settled_machine = Some (Inr (), m')"
    using check_passes [OF settled_machine_ok] by blast
  from full_check_covers_all [OF run] run show ?thesis by (auto simp: settled_machine_def)
qed

text \<open>
  A machine without a suitable QEMU is left alone: when the version preflight fails,
  \<open>run\<close>, \<open>lab\<close> and \<open>setup\<close> end with an exception before a single command is run or a single
  file written, so nothing is built, installed or downloaded.
\<close>

lemma failed_preflight_touches_nothing:
  assumes "check_qemu (w_os w) (w_which w (py ''qemu-system-x86_64'')) (o_root opts) (w_version w) = Inl e"
    "o_command opts \<in> {Run, Lab, Setup}"
  shows "\<exists>x. linux_main w project opts m = Some (Inl x, m)"
  using assms
  by (auto simp: linux_main_def linux_setup_def preflight_def check_that_def andthen_def Let_def)

definition plain_options :: options where
  "plain_options = \<lparr>o_command = Lab, o_root = [py ''r''], o_llvm_bin = None, o_limine_zip = None,
     o_stage = LAB, o_fault = 1, o_attack = 0, o_memory = 64, o_port = 0\<rparr>"

lemma old_qemu_refused:
  "\<exists>e. check_qemu (w_os good_world) (w_which good_world (py ''qemu-system-x86_64'')) root (w_version good_world) = Inl e"
proof -
  have "version_end []" by (simp add: version_end_def)
  from qemu_version_banner [OF this, of 5 0 0]
  have "qemu_version (banner_prefix @ version_text 5 0 0) = Some (Version 5 0 0)" by simp
  moreover have "banner_prefix @ version_text 5 0 0 = py ''QEMU emulator version 5.0.0''"
    by (simp add: banner_prefix_def version_text_def str_of_nat.simps py_def)
  ultimately have "\<exists>e. check_banner (py ''QEMU emulator version 5.0.0'') = Inl e"
    by (simp add: check_banner_def required_version_def less_version_def)
  moreover have "w_os good_world = Posix" "w_which good_world = Some"
    "w_version good_world = Finished (py ''QEMU emulator version 5.0.0'')"
    by (simp_all add: good_world_def)
  ultimately show ?thesis by (simp add: check_qemu_def qemu_command_def)
qed

text \<open>
  Only the retained boot loader is unpacked: \<open>prepare\<close> writes nothing unless the archive's
  digest is the recorded one, and it never writes anything but the two boot files and the
  licence under the tool root, whatever names the archive holds.
\<close>

lemma prepare_writes_verified_files:
  assumes "prepare w root archive m = Some (r, m')" "files m' p \<noteq> files m p"
  shows "p \<in> {limine_dir root @ [py name] |name. name \<in> {''limine-bios-cd.bin'', ''limine-bios.sys'', ''LICENSE''}} \<and>
    (\<exists>package. (archive = None \<longrightarrow> w_download w = Inr package) \<and>
       (\<forall>a. archive = Some a \<longrightarrow> files m a = Some package) \<and> w_sha256 w package = LIMINE_SHA256)"
proof -
  let ?f = "\<lambda>package name. andthen (of_res (w_unzip w package (py ''limine-binary/'' @ py name)))
                       (write_file (limine_dir root @ [py name]))"
  have step: "?f package name s = Some (x, t) \<Longrightarrow> files t p \<noteq> files s p \<Longrightarrow> p = limine_dir root @ [py name]"
    for package name s x t
    by (auto simp: andthen_def write_file_def split: sum.splits if_splits)
  have loop: "each (?f package) names s = Some (x, t) \<Longrightarrow> files t p \<noteq> files s p \<Longrightarrow>
      \<exists>name \<in> set names. p = limine_dir root @ [py name]" for package names s x t
  proof (induction names arbitrary: s)
    case (Cons name names)
    from Cons.prems(1) consider (stop) e where "?f package name s = Some (Inl e, t)"
      | (more) u y where "?f package name s = Some (Inr y, u)" "each (?f package) names u = Some (x, t)"
      unfolding each.simps by (auto simp: andthen_def split: option.splits sum.splits)
    then show ?case
    proof cases
      case stop
      from step [OF stop Cons.prems(2)] show ?thesis by (metis list.set_intros(1))
    next
      case more
      show ?thesis
      proof (cases "files u p = files s p")
        case True
        from Cons.IH [OF more(2)] Cons.prems(2) True show ?thesis by (metis list.set_intros(2))
      next
        case False
        from step [OF more(1) this] show ?thesis by (metis list.set_intros(1))
      qed
    qed
  qed simp
  obtain package where package: "(case archive of Some a \<Rightarrow> read_file a | None \<Rightarrow> of_res (w_download w)) m = Some (Inr package, m)"
    "w_sha256 w package = LIMINE_SHA256"
    "each (?f package) [''limine-bios-cd.bin'', ''limine-bios.sys'', ''LICENSE''] m = Some (r, m')"
    using assms by (cases archive)
      (auto simp: prepare_def andthen_def read_file_def check_that_def
        simp del: each.simps split: option.splits sum.splits if_splits)
  from loop [OF package(3) assms(2)]
  have "p \<in> {limine_dir root @ [py name] |name. name \<in> {''limine-bios-cd.bin'', ''limine-bios.sys'', ''LICENSE''}}"
    by auto
  moreover have "(archive = None \<longrightarrow> w_download w = Inr package) \<and> (\<forall>a. archive = Some a \<longrightarrow> files m a = Some package)"
    using package(1) by (cases archive) (auto simp: read_file_def split: option.splits)
  ultimately show ?thesis using package(2) by blast
qed



end
