(* ===== verification/Launch_Claims.thy ===== *)
theory Launch_Claims
  imports Package_Claims Lab_Facts
begin






end
