(* ===== verification/Hygiene.thy ===== *)
theory Hygiene
  imports Desktop_Launch "HOL-Library.List_Lexorder"
begin

text \<open>
  The repository's closing check (\<open>tools/check-hygiene.py\<close>): every local inline link of every
  tracked Markdown file leads to a file or directory, the build directory is empty, and no
  Python cache lies in the tree. The files, the tracked names and the directory tree are
  answers of the world.
\<close>

section \<open>Fenced code\<close>

text \<open>
  \<open>re.sub(r"(?ms)^(```|~~~).*?^\1[^\n]*$", "", text)\<close>, line by line: from a line that starts with
  a fence to the first later line that starts with the same one; the lines between go, and an
  empty line stays. A fence that is not closed is an ordinary line.
\<close>

definition backticks :: pystr where
  "backticks = [96, 96, 96]"

definition tildes :: pystr where
  "tildes = [126, 126, 126]"

definition fence_of :: "pystr \<Rightarrow> pystr option" where
  "fence_of line =
     (if prefix backticks line then Some backticks else if prefix tildes line then Some tildes else None)"

definition closing :: "pystr \<Rightarrow> pystr list \<Rightarrow> pystr list option" where
  "closing fence ls =
     (case dropWhile (\<lambda>line. \<not> prefix fence line) ls of [] \<Rightarrow> None | _ # rest \<Rightarrow> Some rest)"

lemma closing_length: "closing fence ls = Some rest \<Longrightarrow> length rest < length ls"
  using length_dropWhile_le [of "\<lambda>line. \<not> prefix fence line" ls]
  by (auto simp: closing_def split: list.splits)

function strip_fences :: "pystr list \<Rightarrow> pystr list" where
  "strip_fences [] = []"
| "strip_fences (line # ls) =
     (case fence_of line of
        None \<Rightarrow> line # strip_fences ls
      | Some fence \<Rightarrow>
          (case closing fence ls of
             None \<Rightarrow> line # strip_fences ls
           | Some rest \<Rightarrow> [] # strip_fences rest))"
  by pat_completeness auto
termination
  by (relation "measure length") (auto dest!: closing_length)

declare strip_fences.simps [simp del]

definition without_fences :: "pystr \<Rightarrow> pystr" where
  "without_fences s = join_with 10 (strip_fences (split_on 10 s))"

section \<open>Links\<close>

text \<open>The rest of \<open>\[[^\]\n]*\]\(([^)\n]+)\)\<close> behind its first bracket: the target and what follows.\<close>

definition link_at :: "pystr \<Rightarrow> (pystr \<times> pystr) option" where
  "link_at s =
     (let r = dropWhile (\<lambda>c. c \<noteq> 93 \<and> c \<noteq> 10) s
      in if \<not> prefix [93, 40] r then None
         else (let q = drop 2 r;
                   goal = takeWhile (\<lambda>c. c \<noteq> 41 \<and> c \<noteq> 10) q;
                   rest = dropWhile (\<lambda>c. c \<noteq> 41 \<and> c \<noteq> 10) q
               in if goal \<noteq> [] \<and> prefix [41] rest then Some (goal, tl rest) else None))"

lemma tl_shorter: "prefix [c] d \<Longrightarrow> length (tl d) < length d"
  by (cases d) auto

lemma link_at_length: "link_at s = Some (t, rest) \<Longrightarrow> length rest < length s"
proof -
  assume run: "link_at s = Some (t, rest)"
  let ?r = "dropWhile (\<lambda>c. c \<noteq> 93 \<and> c \<noteq> 10) s"
  let ?d = "dropWhile (\<lambda>c. c \<noteq> 41 \<and> c \<noteq> 10) (drop 2 ?r)"
  from run have "rest = tl ?d" and "prefix [41] ?d" 
    by (simp_all only: link_at_def Let_def option.inject prod.inject option.distinct simp_thms split: if_splits)
  then have "length rest < length ?d" using tl_shorter [of 41 ?d] by simp
  moreover have "length ?d \<le> length (drop 2 ?r)" by (rule length_dropWhile_le)
  moreover have "length (drop 2 ?r) \<le> length ?r" by simp
  moreover have "length ?r \<le> length s" by (rule length_dropWhile_le)
  ultimately show ?thesis by linarith
qed

text \<open>\<open>re.findall\<close>; the optional exclamation mark changes no match.\<close>

function find_links :: "pystr \<Rightarrow> pystr list" where
  "find_links [] = []"
| "find_links (c # s) =
     (if c \<noteq> 91 then find_links s
      else (case link_at s of
              None \<Rightarrow> find_links s
            | Some (goal, rest) \<Rightarrow> goal # find_links rest))"
  by pat_completeness auto
termination
  by (relation "measure length") (auto dest!: link_at_length)

declare find_links.simps [simp del]

text \<open>\<open>target.split(">", 1)[0][1:]\<close> or \<open>target.split(' "', 1)[0]\<close>.\<close>

fun before_title :: "pystr \<Rightarrow> pystr" where
  "before_title (c # d # s) = (if c = 32 \<and> d = 34 then [] else c # before_title (d # s))"
| "before_title s = s"

definition link_goal :: "pystr \<Rightarrow> pystr" where
  "link_goal raw =
     (let t = str_strip raw
      in if prefix [60] t then tl (takeWhile (\<lambda>c. c \<noteq> 62) t) else before_title t)"

section \<open>The world\<close>

text \<open>
  A directory as \<open>os.walk\<close> sees it: its subdirectories in order, each with its name, whether it
  is a link (or a reparse point), and its content.
\<close>

datatype dir = Dir "(pystr \<times> bool \<times> dir) list"

record hygiene_world =
  hy_names :: "nat list res"
  hy_file :: "path \<Rightarrow> nat list option"    \<comment> \<open>the bytes, if the path is a file\<close>
  hy_dir :: "path \<Rightarrow> bool"
  hy_build :: "pystr list option"          \<comment> \<open>the entries of \<open>build\<close>, if it exists\<close>
  hy_tree :: dir
  hy_bracket :: "pystr \<Rightarrow> pystr option"

text \<open>\<open>base / relative\<close>: empty and dot components vanish, an absolute path replaces the base.\<close>

definition path_join :: "path \<Rightarrow> pystr \<Rightarrow> path" where
  "path_join base relative =
     (let parts = filter (\<lambda>c. c \<noteq> [] \<and> c \<noteq> [46]) (split_on 47 relative)
      in if prefix [47] relative then parts else base @ parts)"

definition utf8_text :: "nat list \<Rightarrow> pystr res" where
  "utf8_text bs = (case utf8_decode bs of None \<Rightarrow> Inl DecodeError | Some s \<Rightarrow> Inr s)"

section \<open>The check\<close>

text \<open>
  A link: \<open>None\<close> if it is not local, else whether it is missing. The count of the links
  checked and the messages of the missing ones.
\<close>

definition check_link :: "hygiene_world \<Rightarrow> path \<Rightarrow> pystr \<Rightarrow> pystr option res" where
  "check_link w file raw =
     (let goal = link_goal raw
      in rbind (urlsplit (hy_bracket w) goal) (\<lambda>url.
           if u_scheme url \<noteq> [] \<or> u_netloc url \<noteq> [] \<or> u_path url = [] then Inr None
           else (let place = path_join (butlast file) (unquote (u_path url))
                 in Inr (Some (if hy_file w place = None \<and> \<not> hy_dir w place
                               then py ''missing '' @ goal else [])))))"

definition markdown_links :: "nat list \<Rightarrow> pystr list res" where
  "markdown_links bs =
     rbind (utf8_text bs) (\<lambda>s. Inr (find_links (without_fences (universal_newlines s))))"

definition check_file :: "hygiene_world \<Rightarrow> path \<Rightarrow> pystr \<Rightarrow> (nat \<times> pystr list) res" where
  "check_file w project name =
     (let file = path_join project name
      in if file = [] \<or> name_suffix (last file) \<noteq> py ''.md'' then Inr (0, [])
         else (case hy_file w file of
                 None \<Rightarrow> Inr (0, [])
               | Some bs \<Rightarrow>
                   rbind (markdown_links bs) (\<lambda>links.
                   rbind (traverse (check_link w file) links) (\<lambda>rs.
                     let local = List.map_filter id rs
                     in Inr (length local, map (\<lambda>m. name @ py '': '' @ m) (filter (\<lambda>m. m \<noteq> []) local))))))"

fun cache_errors :: "path \<Rightarrow> dir \<Rightarrow> pystr list" where
  "cache_errors rel (Dir ds) =
     concat (map (\<lambda>(name, link, d). if name = py ''__pycache__''
        then [py ''disposable cache: '' @ join_with 47 (rel @ [name])] else []) ds) @
     concat (map (\<lambda>(name, link, d). if name \<noteq> py ''.git'' \<and> \<not> link
        then cache_errors (rel @ [name]) d else []) ds)"

definition build_errors :: "hygiene_world \<Rightarrow> pystr list" where
  "build_errors w =
     (case hy_build w of
        Some (e # es) \<Rightarrow> [py ''build/ still contains outputs; classify and close them out first'']
      | _ \<Rightarrow> [])"

definition check_hygiene :: "hygiene_world \<Rightarrow> path \<Rightarrow> nat res" where
  "check_hygiene w project =
     rbind (hy_names w) (\<lambda>out.
     rbind (utf8_text out) (\<lambda>s.
     rbind (traverse (check_file w project) (sort (remdups (split_on 0 s)))) (\<lambda>rs.
       let checked = sum_list (map fst rs);
           errors = concat (map snd rs) @ build_errors w @ cache_errors [] (hy_tree w)
       in if errors \<noteq> [] then Inl (SystemExit (join_with 10 errors)) else Inr checked)))"

end
