(* ===== verification/Hygiene_Claims.thy ===== *)
theory Hygiene_Claims
  imports Hygiene
begin

text \<open>
  Properties of the closing check (\<open>tools/check-hygiene.py\<close>): it passes for exactly the tidy
  repositories, and it sees exactly the links outside fenced code.
\<close>

section \<open>What a tidy repository is\<close>

definition tidy_link :: "hygiene_world \<Rightarrow> path \<Rightarrow> pystr \<Rightarrow> bool" where
  "tidy_link w file raw \<longleftrightarrow>
     (\<exists>url. urlsplit (hy_bracket w) (link_goal raw) = Inr url \<and>
        (u_scheme url = [] \<and> u_netloc url = [] \<and> u_path url \<noteq> [] \<longrightarrow>
           hy_file w (path_join (butlast file) (unquote (u_path url))) \<noteq> None \<or>
           hy_dir w (path_join (butlast file) (unquote (u_path url)))))"

text \<open>
  The directories below one that \<open>os.walk\<close> may reach: through neither a link nor Git's own
  directory.
\<close>

inductive walked :: "dir \<Rightarrow> pystr list \<Rightarrow> bool" where
  here: "(name, link, d) \<in> set ds \<Longrightarrow> walked (Dir ds) [name]"
| below: "(name, False, d) \<in> set ds \<Longrightarrow> name \<noteq> py ''.git'' \<Longrightarrow> walked d p \<Longrightarrow> walked (Dir ds) (name # p)"

inductive_simps walked_Dir: "walked (Dir ds) p"

text \<open>The cases of a link, and of a list of links, that raise nothing and report nothing.\<close>

lemma check_link_tidy:
  "(\<exists>r. check_link w file raw = Inr r \<and> r \<in> {None, Some []}) \<longleftrightarrow> tidy_link w file raw"
  by (cases "urlsplit (hy_bracket w) (link_goal raw)")
    (auto simp: check_link_def tidy_link_def Let_def py_def)

lemma traverse_into:
  "(\<exists>ys. traverse f xs = Inr ys \<and> (\<forall>y \<in> set ys. P y)) \<longleftrightarrow> (\<forall>x \<in> set xs. \<exists>y. f x = Inr y \<and> P y)"
proof (induction xs)
  case (Cons x xs)
  have "(\<exists>ys. traverse f (x # xs) = Inr ys \<and> (\<forall>y \<in> set ys. P y)) \<longleftrightarrow>
      (\<exists>y ys. f x = Inr y \<and> traverse f xs = Inr ys \<and> P y \<and> (\<forall>y \<in> set ys. P y))"
    by (auto simp: res_simps)
  then show ?case using Cons.IH by auto
qed simp

lemma walked_nonempty: "walked d p \<Longrightarrow> p \<noteq> []"
  by (induction rule: walked.induct) auto

lemma cache_errors_walked:
  "cache_errors rel d = [] \<longleftrightarrow> \<not> (\<exists>p. walked d p \<and> last p = py ''__pycache__'')"
proof (induction rel d rule: cache_errors.induct)
  case IH: (1 rel ds)
  have "(\<exists>p. walked (Dir ds) p \<and> last p = py ''__pycache__'') \<longleftrightarrow>
      (\<exists>x \<in> set ds. fst x = py ''__pycache__'') \<or>
      (\<exists>(name, link, d) \<in> set ds. name \<noteq> py ''.git'' \<and> \<not> link \<and>
         (\<exists>p. walked d p \<and> last p = py ''__pycache__''))"
    (is "?l \<longleftrightarrow> ?r")
  proof
    assume ?l
    then show ?r by (fastforce simp: walked_Dir dest: walked_nonempty)
  next
    assume ?r
    then show ?l
    proof
      assume "\<exists>x \<in> set ds. fst x = py ''__pycache__''"
      then obtain l d where "(py ''__pycache__'', l, d) \<in> set ds" by force
      from walked.here [OF this] have "walked (Dir ds) [py ''__pycache__'']" .
      moreover have "last [py ''__pycache__''] = py ''__pycache__''" by simp
      ultimately show ?l by blast
    next
      assume "\<exists>(name, link, d) \<in> set ds. name \<noteq> py ''.git'' \<and> \<not> link \<and>
         (\<exists>p. walked d p \<and> last p = py ''__pycache__'')"
      then obtain name d p where "(name, False, d) \<in> set ds" "name \<noteq> py ''.git''" "walked d p"
        "last p = py ''__pycache__''" by auto
      have "walked (Dir ds) (name # p)" by (rule walked.below) fact+
      moreover have "last (name # p) = py ''__pycache__''"
        using walked_nonempty [OF \<open>walked d p\<close>] \<open>last p = py ''__pycache__''\<close> by simp
      ultimately show ?l by blast
    qed
  qed
  moreover have "cache_errors rel (Dir ds) = [] \<longleftrightarrow> \<not> (\<exists>x \<in> set ds. fst x = py ''__pycache__'') \<and>
      (\<forall>(name, link, d) \<in> set ds. name \<noteq> py ''.git'' \<and> \<not> link \<longrightarrow> cache_errors (rel @ [name]) d = [])"
    by fastforce
  moreover have "(\<forall>(name, link, d) \<in> set ds. name \<noteq> py ''.git'' \<and> \<not> link \<longrightarrow>
        cache_errors (rel @ [name]) d = []) \<longleftrightarrow>
      (\<forall>(name, link, d) \<in> set ds. name \<noteq> py ''.git'' \<and> \<not> link \<longrightarrow>
        \<not> (\<exists>p. walked d p \<and> last p = py ''__pycache__''))"
  proof (rule ball_cong [OF refl], goal_cases)
    case (1 x)
    obtain name link d where x: "x = (name, link, d)" by (cases x)
    show ?case using IH [of x name "(link, d)" link d] 1
      unfolding x case_prod_conv by (cases link) blast+
  qed
  moreover have "(\<forall>(name, link, d) \<in> set ds. name \<noteq> py ''.git'' \<and> \<not> link \<longrightarrow>
        \<not> (\<exists>p. walked d p \<and> last p = py ''__pycache__'')) \<longleftrightarrow>
      \<not> (\<exists>(name, link, d) \<in> set ds. name \<noteq> py ''.git'' \<and> \<not> link \<and>
         (\<exists>p. walked d p \<and> last p = py ''__pycache__''))"
    by (simp add: split_beta) blast
  ultimately show ?case by argo
qed

lemma build_errors_none: "build_errors w = [] \<longleftrightarrow> hy_build w \<in> {None, Some []}"
  by (auto simp: build_errors_def py_def split: option.splits list.splits)

text \<open>A Markdown file is fine if its links can be read and are all tidy.\<close>

definition tidy_file :: "hygiene_world \<Rightarrow> path \<Rightarrow> pystr \<Rightarrow> bool" where
  "tidy_file w project name \<longleftrightarrow>
     (\<forall>file bs. file = path_join project name \<and> file \<noteq> [] \<and> name_suffix (last file) = py ''.md'' \<and>
        hy_file w file = Some bs \<longrightarrow>
        (\<exists>links. markdown_links bs = Inr links \<and> (\<forall>raw \<in> set links. tidy_link w file raw)))"

lemma no_local_errors:
  "filter (\<lambda>x. x \<noteq> []) (List.map_filter id rs) = [] \<longleftrightarrow> (\<forall>r \<in> set rs. r \<in> {None, Some []})"
proof (induction rs)
  case (Cons r rs)
  then show ?case by (cases r) (simp_all add: map_filter_simps)
qed (simp add: map_filter_simps)

lemma check_file_tidy:
  "(\<exists>r. check_file w project name = Inr r \<and> snd r = []) \<longleftrightarrow> tidy_file w project name"
proof (cases "path_join project name = [] \<or> name_suffix (last (path_join project name)) \<noteq> py ''.md'' \<or>
    hy_file w (path_join project name) = None")
  case True
  then show ?thesis by (auto simp: check_file_def tidy_file_def Let_def)
next
  case False
  then obtain bs where bs: "hy_file w (path_join project name) = Some bs" by auto
  show ?thesis
  proof (cases "markdown_links bs")
    case (Inl e)
    with False bs show ?thesis by (simp add: check_file_def tidy_file_def Let_def)
  next
    case (Inr links)
    have "(\<exists>r. check_file w project name = Inr r \<and> snd r = []) \<longleftrightarrow>
        (\<exists>rs. traverse (check_link w (path_join project name)) links = Inr rs \<and>
           (\<forall>r \<in> set rs. r \<in> {None, Some []}))"
      using False bs Inr
      by (simp add: check_file_def Let_def res_simps no_local_errors)
    also have "\<dots> \<longleftrightarrow> (\<forall>raw \<in> set links. tidy_link w (path_join project name) raw)"
      by (simp only: traverse_into check_link_tidy)
    finally show ?thesis using False bs Inr by (auto simp: tidy_file_def)
  qed
qed

section \<open>The check\<close>

text \<open>
  C31. The closing check passes for exactly the tidy repositories: the tracked names can be read,
  every inline link outside fenced code that names no scheme and no host leads to a file or a
  directory, the build directory is missing or empty, and no cache lies where the walk may go.
\<close>

theorem hygiene_check_exact:
  "(\<exists>n. check_hygiene w project = Inr n) \<longleftrightarrow>
   (\<exists>out s. hy_names w = Inr out \<and> utf8_decode out = Some s \<and>
      (\<forall>name \<in> set (split_on 0 s). tidy_file w project name)) \<and>
   hy_build w \<in> {None, Some []} \<and>
   \<not> (\<exists>p. walked (hy_tree w) p \<and> last p = py ''__pycache__'')"
proof (cases "\<exists>out s. hy_names w = Inr out \<and> utf8_decode out = Some s")
  case False
  then show ?thesis by (auto simp: check_hygiene_def utf8_text_def res_simps split: option.splits)
next
  case True
  then obtain out s where out: "hy_names w = Inr out" "utf8_decode out = Some s" by blast
  let ?names = "sort (remdups (split_on 0 s))"
  have "(\<exists>n. check_hygiene w project = Inr n) \<longleftrightarrow>
      (\<exists>rs. traverse (check_file w project) ?names = Inr rs \<and> (\<forall>r \<in> set rs. snd r = [])) \<and>
      build_errors w = [] \<and> cache_errors [] (hy_tree w) = []"
    using out by (simp add: check_hygiene_def utf8_text_def res_simps Let_def) blast
  also have "\<dots> \<longleftrightarrow> (\<forall>name \<in> set (split_on 0 s). tidy_file w project name) \<and>
      hy_build w \<in> {None, Some []} \<and> \<not> (\<exists>p. walked (hy_tree w) p \<and> last p = py ''__pycache__'')"
    by (simp only: traverse_into check_file_tidy build_errors_none cache_errors_walked set_sort set_remdups)
  finally show ?thesis using out by simp
qed

text \<open>A repository with one file that links to itself, to a heading and to the web.\<close>

definition one_page :: hygiene_world where
  "one_page = \<lparr>hy_names = Inr (py ''a.md'' @ [0]),
     hy_file = (\<lambda>p. if p = [py ''r'', py ''a.md'']
                   then Some (py ''[self](./a.md) [x](#h) [y](https://e.org)'') else None),
     hy_dir = (\<lambda>p. False), hy_build = Some [],
     hy_tree = Dir [(py ''.git'', False, Dir [(py ''__pycache__'', False, Dir [])])],
     hy_bracket = (\<lambda>x. None)\<rparr>"


lemma one_page_links:
  "markdown_links (py ''[self](./a.md) [x](#h) [y](https://e.org)'') =
     Inr [py ''./a.md'', py ''#h'', py ''https://e.org'']"
proof -
  have "utf8_decode (py ''[self](./a.md) [x](#h) [y](https://e.org)'') =
      Some (py ''[self](./a.md) [x](#h) [y](https://e.org)'')"
    by (rule utf8_decode_ascii) (simp add: py_def)
  moreover have "find_links (without_fences (universal_newlines
      (py ''[self](./a.md) [x](#h) [y](https://e.org)''))) = [py ''./a.md'', py ''#h'', py ''https://e.org'']"
    by code_simp
  ultimately show ?thesis by (simp add: markdown_links_def utf8_text_def)
qed

lemma link_goal_plain:
  "str_strip t = t \<Longrightarrow> \<not> prefix [60] t \<Longrightarrow> 32 \<notin> set t \<Longrightarrow> link_goal t = t"
proof -
  have "32 \<notin> set t \<Longrightarrow> before_title t = t" by (induction t rule: before_title.induct) auto
  then show "str_strip t = t \<Longrightarrow> \<not> prefix [60] t \<Longrightarrow> 32 \<notin> set t \<Longrightarrow> link_goal t = t"
    by (simp add: link_goal_def)
qed

lemma one_page_goals:
  "link_goal (py ''./a.md'') = py ''./a.md''"
  "link_goal (py ''#h'') = py ''#h''"
  "link_goal (py ''https://e.org'') = py ''https://e.org''"
  by (rule link_goal_plain; simp add: str_strip_def strip_if_def lstrip_if_def rstrip_if_def
      str_space_def re_space_def int_space_def py_def)+

lemma one_page_each:
  "check_link one_page [py ''r'', py ''a.md''] (py ''./a.md'') = Inr (Some [])"
  "check_link one_page [py ''r'', py ''a.md''] (py ''#h'') = Inr None"
  "check_link one_page [py ''r'', py ''a.md''] (py ''https://e.org'') = Inr None"
proof -
  have "urlsplit (hy_bracket one_page) (py ''./a.md'') =
      Inr \<lparr>u_scheme = [], u_netloc = [], u_path = py ''./a.md'', u_query = []\<rparr>"
    by code_simp
  moreover have "path_join [py ''r''] (unquote (py ''./a.md'')) = [py ''r'', py ''a.md'']" by code_simp
  moreover have "hy_file one_page [py ''r'', py ''a.md''] \<noteq> None" by (simp add: one_page_def)
  moreover have "py ''./a.md'' \<noteq> []" by (simp add: py_def)
  ultimately show "check_link one_page [py ''r'', py ''a.md''] (py ''./a.md'') = Inr (Some [])"
    by (simp add: check_link_def Let_def one_page_goals)
  have "urlsplit (hy_bracket one_page) (py ''#h'') =
      Inr \<lparr>u_scheme = [], u_netloc = [], u_path = [], u_query = []\<rparr>"
    by code_simp
  then show "check_link one_page [py ''r'', py ''a.md''] (py ''#h'') = Inr None"
    by (simp add: check_link_def one_page_goals)
  have "urlsplit (hy_bracket one_page) (py ''https://e.org'') =
      Inr \<lparr>u_scheme = py ''https'', u_netloc = py ''e.org'', u_path = [], u_query = []\<rparr>"
    by code_simp
  moreover have "py ''https'' \<noteq> []" by (simp add: py_def)
  ultimately show "check_link one_page [py ''r'', py ''a.md''] (py ''https://e.org'') = Inr None"
    by (simp add: check_link_def one_page_goals)
qed

lemma one_page_files:
  "check_file one_page [py ''r''] [] = Inr (0, [])"
  "check_file one_page [py ''r''] (py ''a.md'') = Inr (1, [])"
proof -
  show "check_file one_page [py ''r''] [] = Inr (0, [])" by code_simp
  have "path_join [py ''r''] (py ''a.md'') = [py ''r'', py ''a.md'']" "name_suffix (py ''a.md'') = py ''.md''"
    by code_simp+
  moreover have "hy_file one_page [py ''r'', py ''a.md''] = Some (py ''[self](./a.md) [x](#h) [y](https://e.org)'')"
    by (simp add: one_page_def)
  ultimately show "check_file one_page [py ''r''] (py ''a.md'') = Inr (1, [])"
    by (simp add: check_file_def Let_def one_page_links one_page_each map_filter_simps)
qed

lemma one_page_names:
  "utf8_decode (py ''a.md'' @ [0]) = Some (py ''a.md'' @ [0])"
  "sort (remdups (split_on 0 (py ''a.md'' @ [0]))) = [[], py ''a.md'']"
proof -
  show "utf8_decode (py ''a.md'' @ [0]) = Some (py ''a.md'' @ [0])"
    by (rule utf8_decode_ascii) (simp add: py_def)
  show "sort (remdups (split_on 0 (py ''a.md'' @ [0]))) = [[], py ''a.md'']" by code_simp
qed

lemma one_page_checked: "check_hygiene one_page [py ''r''] = Inr 1"
proof -
  have "build_errors one_page = []" by (simp add: build_errors_def one_page_def)
  moreover have "cache_errors [] (hy_tree one_page) = []" by code_simp
  moreover have "hy_names one_page = Inr (py ''a.md'' @ [0])" by (simp add: one_page_def)
  ultimately show ?thesis
    by (simp add: check_hygiene_def utf8_text_def one_page_names one_page_files Let_def)
qed

theorem hygiene_check_exact_witness:
  "tidy_file one_page [py ''r''] (py ''a.md'') \<and>
   \<not> (\<exists>p. walked (hy_tree one_page) p \<and> last p = py ''__pycache__'')"
proof -
  have "set (split_on 0 (py ''a.md'' @ [0])) = {py ''a.md'', []}"
    using arg_cong [OF one_page_names(2), of set] by (simp add: insert_commute)
  moreover have "hy_names one_page = Inr (py ''a.md'' @ [0])" by (simp add: one_page_def)
  ultimately show ?thesis
    using hygiene_check_exact [of one_page "[py ''r'']"] one_page_checked one_page_names(1) by simp
qed

section \<open>The links of a document\<close>

text \<open>
  A document of lines with links in them, and of fenced blocks, as Markdown writes it. The
  flag of a block says which fence it has.
\<close>

datatype piece = Plain pystr | Link pystr pystr

datatype block = Line "piece list" | Fenced bool pystr "pystr list" pystr

fun piece_text :: "piece \<Rightarrow> pystr" where
  "piece_text (Plain s) = s"
| "piece_text (Link label goal) = 91 # label @ [93, 40] @ goal @ [41]"

fun piece_ok :: "piece \<Rightarrow> bool" where
  "piece_ok (Plain s) = (91 \<notin> set s \<and> 10 \<notin> set s)"
| "piece_ok (Link label goal) =
     (93 \<notin> set label \<and> 10 \<notin> set label \<and> goal \<noteq> [] \<and> 41 \<notin> set goal \<and> 10 \<notin> set goal)"

fun piece_links :: "piece \<Rightarrow> pystr list" where
  "piece_links (Plain s) = []"
| "piece_links (Link label goal) = [goal]"

definition fence_text :: "bool \<Rightarrow> pystr" where
  "fence_text tick = (if tick then backticks else tildes)"

fun block_lines :: "block \<Rightarrow> pystr list" where
  "block_lines (Line ps) = [concat (map piece_text ps)]"
| "block_lines (Fenced tick info body rest) = (fence_text tick @ info) # body @ [fence_text tick @ rest]"

fun block_ok :: "block \<Rightarrow> bool" where
  "block_ok (Line ps) = ((\<forall>p \<in> set ps. piece_ok p) \<and> fence_of (concat (map piece_text ps)) = None)"
| "block_ok (Fenced tick info body rest) =
     (10 \<notin> set info \<and> 10 \<notin> set rest \<and> (\<forall>l \<in> set body. 10 \<notin> set l \<and> \<not> prefix (fence_text tick) l))"

fun block_links :: "block \<Rightarrow> pystr list" where
  "block_links (Line ps) = concat (map piece_links ps)"
| "block_links (Fenced tick info body rest) = []"

definition document :: "block list \<Rightarrow> pystr" where
  "document bs = join_with 10 (concat (map block_lines bs))"

lemma find_links_plain: "91 \<notin> set s \<Longrightarrow> find_links (s @ r) = find_links r"
  by (induction s) (auto simp: find_links.simps)

lemma dropWhile_stop: "(\<And>x. x \<in> set a \<Longrightarrow> P x) \<Longrightarrow> \<not> P c \<Longrightarrow> dropWhile P (a @ c # r) = c # r"
  by (induction a) auto

lemma takeWhile_stop: "(\<And>x. x \<in> set a \<Longrightarrow> P x) \<Longrightarrow> \<not> P c \<Longrightarrow> takeWhile P (a @ c # r) = a"
  by (induction a) auto

lemma find_links_link:
  assumes "piece_ok (Link label goal)"
  shows "find_links (piece_text (Link label goal) @ r) = goal # find_links r"
proof -
  have "dropWhile (\<lambda>c. c \<noteq> 93 \<and> c \<noteq> 10) (label @ 93 # 40 # goal @ 41 # r) = 93 # 40 # goal @ 41 # r"
    using assms by (intro dropWhile_stop) auto
  moreover have "dropWhile (\<lambda>c. c \<noteq> 41 \<and> c \<noteq> 10) (goal @ 41 # r) = 41 # r"
    "takeWhile (\<lambda>c. c \<noteq> 41 \<and> c \<noteq> 10) (goal @ 41 # r) = goal"
    using assms by (intro dropWhile_stop takeWhile_stop; auto)+
  ultimately have "link_at (label @ 93 # 40 # goal @ 41 # r) = Some (goal, r)"
    using assms by (simp add: link_at_def Let_def)
  then show ?thesis by (simp add: find_links.simps)
qed

lemma find_links_pieces:
  "\<forall>p \<in> set ps. piece_ok p \<Longrightarrow>
   find_links (concat (map piece_text ps) @ r) = concat (map piece_links ps) @ find_links r"
proof (induction ps)
  case (Cons p ps)
  then show ?case
    by (cases p) (simp_all add: find_links_plain find_links_link del: piece_text.simps(2) piece_ok.simps(2))
qed simp

fun kept_lines :: "block \<Rightarrow> pystr list" where
  "kept_lines (Line ps) = [concat (map piece_text ps)]"
| "kept_lines (Fenced tick info body rest) = [[]]"

lemma strip_fences_block:
  assumes "block_ok b"
  shows "strip_fences (block_lines b @ ls) = kept_lines b @ strip_fences ls"
proof (cases b)
  case (Line ps)
  with assms show ?thesis by (simp add: strip_fences.simps)
next
  case (Fenced tick info body rest)
  have "fence_of (fence_text tick @ info) = Some (fence_text tick)"
    by (auto simp: fence_of_def fence_text_def backticks_def tildes_def)
  moreover have "closing (fence_text tick) (body @ (fence_text tick @ rest) # ls) = Some ls"
    using assms Fenced by (simp add: closing_def dropWhile_stop)
  ultimately show ?thesis using Fenced by (simp add: strip_fences.simps)
qed

lemma strip_fences_blocks:
  "\<forall>b \<in> set bs. block_ok b \<Longrightarrow>
   strip_fences (concat (map block_lines bs)) = concat (map kept_lines bs)"
  by (induction bs) (simp_all add: strip_fences_block strip_fences.simps)

lemma find_links_newline: "find_links (10 # r) = find_links r"
  by (simp add: find_links.simps)

lemma kept_links:
  assumes "\<forall>b \<in> set bs. block_ok b"
  shows "find_links (join_with 10 (concat (map kept_lines bs))) = concat (map block_links bs)"
  using assms
proof (induction bs)
  case (Cons b bs)
  have head: "find_links (hd (kept_lines b) @ r) = block_links b @ find_links r" for r
    using Cons.prems by (cases b) (simp_all add: find_links_pieces)
  show ?case
  proof (cases bs)
    case Nil
    with head [of "[]"] show ?thesis by (cases b) (simp_all add: find_links.simps)
  next
    case (Cons b1 bs1)
    then have "concat (map kept_lines bs) \<noteq> []" by (cases b1) auto
    then have "join_with 10 (concat (map kept_lines (b # bs))) =
        hd (kept_lines b) @ 10 # join_with 10 (concat (map kept_lines bs))"
      by (cases b) (simp_all add: join_with_Cons)
    with Cons.IH Cons.prems head show ?thesis by (simp add: find_links_newline)
  qed
qed (simp add: find_links.simps)

lemma piece_text_line: "piece_ok p \<Longrightarrow> 10 \<notin> set (piece_text p)"
  by (cases p) auto

lemma fence_text_line: "10 \<notin> set (fence_text tick)"
  by (simp add: fence_text_def backticks_def tildes_def)

lemma block_line: "block_ok b \<Longrightarrow> l \<in> set (block_lines b) \<Longrightarrow> 10 \<notin> set l"
  by (cases b) (auto simp: fence_text_line dest: piece_text_line)

text \<open>
  C32. The check reads the links of a document as it was written: from lines of plain text and
  inline links, between fenced blocks, it takes the targets of the links in order, and
  nothing that a fenced block contains, whatever it looks like.
\<close>

theorem document_links_found:
  assumes "\<forall>b \<in> set bs. block_ok b"
  shows "find_links (without_fences (document bs)) = concat (map block_links bs)"
proof (cases bs)
  case Nil
  then show ?thesis by (simp add: document_def without_fences_def strip_fences.simps find_links.simps fence_of_def
      backticks_def tildes_def)
next
  case (Cons b1 bs1)
  then have "concat (map block_lines bs) \<noteq> []" by (cases b1) auto
  moreover have "\<forall>l \<in> set (concat (map block_lines bs)). 10 \<notin> set l"
    using assms block_line by fastforce
  ultimately have "split_on 10 (document bs) = concat (map block_lines bs)"
    by (simp add: document_def split_on_join)
  then show ?thesis using assms by (simp add: without_fences_def strip_fences_blocks kept_links)
qed

definition sample_page :: "block list" where
  "sample_page =
     [Line [Plain (py ''see ''), Link (py ''the docs'') (py ''docs/a.md''), Plain (py ''.'')],
      Fenced True (py ''md'') [py ''[not a link](nowhere.md)'', py ''~~~''] [],
      Line [Link [] (py ''b.md#x'')]]"

theorem document_links_found_witness:
  "find_links (without_fences (document sample_page)) = [py ''docs/a.md'', py ''b.md#x'']"
proof -
  have "\<forall>b \<in> set sample_page. block_ok b"
    by (simp add: sample_page_def py_def fence_text_def fence_of_def backticks_def tildes_def)
  from document_links_found [OF this] show ?thesis by (simp add: sample_page_def)
qed

end
