(* ===== verification/Guest_Session.thy ===== *)
theory Guest_Session
  imports Guest_Snapshot Effects Py_Url
begin

text \<open>
  Test drivers talk to one running guest: they take snapshots, send lines, wait for a condition
  and look at the console, while the reader threads change the guest in between. A session is
  the sequence of the looks that the driver will get, one per time it takes the guest's lock;
  what it types is recorded. An operation is an action of \<open>Effects\<close> on the session, \<open>None\<close>
  when the looks run out.
\<close>

section \<open>Looks\<close>

record look =
  l_guest :: guest
  l_now :: int                              \<comment> \<open>milliseconds of the monotonic clock\<close>
  l_proc :: "(int \<times> bool) option"           \<comment> \<open>the QEMU process, as in \<open>snapshot\<close>\<close>
  l_sock :: "nat \<Rightarrow> pystr option"

record session =
  looks :: "look list"
  typed :: "nat list"

definition take_look :: "(session, look) act" where
  "take_look s = (case looks s of [] \<Rightarrow> None | l # ls \<Rightarrow> Some (Inr l, s\<lparr>looks := ls\<rparr>))"

text \<open>The guest after \<open>snapshot\<close>, which is also what the snapshot holds.\<close>

definition seen :: "look \<Rightarrow> guest" where
  "seen l = fst (snapshot (l_proc l) (l_guest l))"

definition g_snapshot :: "(session, guest) act" where
  "g_snapshot = andthen take_look (\<lambda>l. ret (seen l))"

definition g_console :: "(session, pystr) act" where
  "g_console = andthen take_look (\<lambda>l. ret (console (l_guest l)))"

section \<open>Sending and waiting\<close>

definition g_send :: "pystr \<Rightarrow> (session, unit) act" where
  "g_send line = andthen take_look (\<lambda>l. \<lambda>s.
     case send (l_sock l) (l_guest l) line of
       (None, sent) \<Rightarrow> Some (Inr (), s\<lparr>typed := typed s @ sent\<rparr>)
     | (Some e, sent) \<Rightarrow> Some (Inl e, s\<lparr>typed := typed s @ sent\<rparr>))"

text \<open>
  \<open>wait_for\<close>; \<open>found\<close> is the guest as the predicate leaves it, since a predicate that takes a
  snapshot may change the status that is asked behind it.
\<close>

fun await :: "(look \<Rightarrow> guest) \<Rightarrow> (guest \<Rightarrow> bool) \<Rightarrow> int \<Rightarrow> look list \<Rightarrow> (unit res \<times> look list) option" where
  "await found p deadline [] = None"
| "await found p deadline (l # ls) =
     (case wait_decide p deadline (l_now l, found l) of
        Some r \<Rightarrow> Some (r, ls)
      | None \<Rightarrow> await found p deadline ls)"

definition g_wait :: "(look \<Rightarrow> guest) \<Rightarrow> (guest \<Rightarrow> bool) \<Rightarrow> int \<Rightarrow> (session, unit) act" where
  "g_wait found p limit = andthen take_look (\<lambda>l. \<lambda>s.
     map_option (\<lambda>(r, ls). (r, s\<lparr>looks := ls\<rparr>)) (await found p (l_now l + limit) (looks s)))"

text \<open>\<open>command\<close>: the position, the line, the wait for the prompt, and what came.\<close>

definition prompted :: "nat \<Rightarrow> guest \<Rightarrow> bool" where
  "prompted before g = sublist prompt (drop before (console g))"

definition g_command :: "pystr \<Rightarrow> int \<Rightarrow> (session, pystr) act" where
  "g_command line limit =
     andthen g_console (\<lambda>c0.
     andthen (g_send (line @ [13])) (\<lambda>_.
     andthen (g_wait l_guest (prompted (length c0)) limit) (\<lambda>_.
     andthen g_console (\<lambda>c. ret (drop (length c0) c)))))"

section \<open>A session and \<open>Guest.command\<close>\<close>

lemma await_poll:
  "await found p deadline ls = Some (r, rest) \<Longrightarrow>
     \<exists>used. ls = used @ rest \<and> wait_for p deadline (map (\<lambda>l. (l_now l, found l)) used) = Some r"
proof (induction ls)
  case (Cons l ls)
  show ?case
  proof (cases "wait_decide p deadline (l_now l, found l)")
    case None
    with Cons obtain used where "ls = used @ rest"
      "wait_for p deadline (map (\<lambda>l. (l_now l, found l)) used) = Some r" by auto
    with None have "l # ls = (l # used) @ rest"
      "wait_for p deadline (map (\<lambda>l. (l_now l, found l)) (l # used)) = Some r"
      by (simp_all add: wait_for_def)
    then show ?thesis by blast
  next
    case (Some x)
    with Cons.prems have "l # ls = [l] @ rest"
      "wait_for p deadline (map (\<lambda>l. (l_now l, found l)) [l]) = Some r"
      by (simp_all add: wait_for_def)
    then show ?thesis by blast
  qed
qed simp

text \<open>What a session does is what \<open>command\<close> does on the looks it used.\<close>

lemma take_look_Inr [res_simps]:
  "take_look s = Some (Inr l, t) \<longleftrightarrow> looks s = l # looks t \<and> typed t = typed s"
  by (cases s; cases t) (auto simp: take_look_def split: list.splits)

lemma take_look_never [simp]: "take_look s \<noteq> Some (Inl e, t)"
  by (auto simp: take_look_def split: list.splits)

lemma g_snapshot_Inr [res_simps]:
  "g_snapshot s = Some (Inr g, t) \<longleftrightarrow> (\<exists>l. looks s = l # looks t \<and> typed t = typed s \<and> g = seen l)"
  by (auto simp: g_snapshot_def res_simps)

lemma g_console_Inr [res_simps]:
  "g_console s = Some (Inr c, t) \<longleftrightarrow> (\<exists>l. looks s = l # looks t \<and> typed t = typed s \<and> c = console (l_guest l))"
  by (auto simp: g_console_def res_simps)

lemma g_snapshotE:
  assumes "g_snapshot s = Some (Inr g, t)"
  obtains l where "looks s = l # looks t" "typed t = typed s" "g = seen l"
  using assms by (auto simp: g_snapshot_Inr)

lemma g_consoleE:
  assumes "g_console s = Some (Inr c, t)"
  obtains l where "looks s = l # looks t" "typed t = typed s" "c = console (l_guest l)"
  using assms by (auto simp: g_console_Inr)

lemmas session_elims = act_elims g_snapshotE g_consoleE

lemma g_send_Inr [res_simps]:
  "g_send line s = Some (Inr u, t) \<longleftrightarrow>
     (\<exists>l sent. looks s = l # looks t \<and> send (l_sock l) (l_guest l) line = (None, sent) \<and>
        typed t = typed s @ sent)"
proof
  assume "g_send line s = Some (Inr u, t)"
  then obtain l v where l: "looks s = l # looks v" "typed v = typed s" and
    r: "(case send (l_sock l) (l_guest l) line of
       (None, sent) \<Rightarrow> Some (Inr (), v\<lparr>typed := typed v @ sent\<rparr>)
     | (Some e, sent) \<Rightarrow> Some (Inl e, v\<lparr>typed := typed v @ sent\<rparr>)) = Some (Inr u, t)"
    unfolding g_send_def andthen_Inr take_look_Inr by blast
  from l r show "\<exists>l sent. looks s = l # looks t \<and> send (l_sock l) (l_guest l) line = (None, sent) \<and>
      typed t = typed s @ sent"
    by (cases "send (l_sock l) (l_guest l) line"; cases "fst (send (l_sock l) (l_guest l) line)") auto
next
  assume "\<exists>l sent. looks s = l # looks t \<and> send (l_sock l) (l_guest l) line = (None, sent) \<and>
      typed t = typed s @ sent"
  then show "g_send line s = Some (Inr u, t)"
    by (cases s; cases t) (auto simp: g_send_def take_look_def andthen_def)
qed

lemma g_wait_Inr:
  "g_wait found p limit s = Some (Inr u, t) \<Longrightarrow>
     \<exists>l used. looks s = l # used @ looks t \<and> typed t = typed s \<and>
       wait_for p (l_now l + limit) (map (\<lambda>l. (l_now l, found l)) used) = Some (Inr ())"
  by (auto simp: g_wait_def res_simps dest!: await_poll)

lemma g_command_Inr:
  assumes "g_command line limit s = Some (Inr out, t)"
  shows "\<exists>l0 l1 l2 used l3. looks s = l0 # l1 # l2 # used @ l3 # looks t \<and>
    (\<exists>sent. send (l_sock l1) (l_guest l1) (line @ [13]) = (None, sent) \<and> typed t = typed s @ sent) \<and>
    command (l_sock l1) line (l_guest l0) (l_guest l1) (l_now l2 + limit)
      (map (\<lambda>l. (l_now l, l_guest l)) used) (l_guest l3) = Some (Inr out)"
proof -
  obtain l0 s0 s1 s2 where steps: "looks s = l0 # looks s0" "typed s0 = typed s"
    "g_send (line @ [13]) s0 = Some (Inr (), s1)"
    "g_wait l_guest (prompted (length (console (l_guest l0)))) limit s1 = Some (Inr (), s2)"
    and last: "\<exists>l. looks s2 = l # looks t \<and> typed t = typed s2 \<and>
      out = drop (length (console (l_guest l0))) (console (l_guest l))"
    using assms unfolding g_command_def andthen_Inr g_console_Inr by (auto simp: ret_def)
  from last obtain l3 where l3: "looks s2 = l3 # looks t" "typed t = typed s2"
    "out = drop (length (console (l_guest l0))) (console (l_guest l3))" by blast
  obtain l1 sent where l1: "looks s0 = l1 # looks s1" "send (l_sock l1) (l_guest l1) (line @ [13]) = (None, sent)"
    "typed s1 = typed s0 @ sent" using steps(3) unfolding g_send_Inr by blast
  obtain l2 used where l2: "looks s1 = l2 # used @ looks s2" "typed s2 = typed s1"
    "wait_for (prompted (length (console (l_guest l0)))) (l_now l2 + limit)
       (map (\<lambda>l. (l_now l, l_guest l)) used) = Some (Inr ())"
    using g_wait_Inr [OF steps(4)] by blast
  have "command (l_sock l1) line (l_guest l0) (l_guest l1) (l_now l2 + limit)
      (map (\<lambda>l. (l_now l, l_guest l)) used) (l_guest l3) = Some (Inr out)"
    using l1(2) l2(3) l3(3) by (simp add: command_def Let_def prompted_def [abs_def])
  moreover have "looks s = l0 # l1 # l2 # used @ l3 # looks t" using steps l1 l2 l3 by simp
  ultimately show ?thesis using l1 l2 l3 steps by force
qed

section \<open>Sessions only go on\<close>

text \<open>Looks are used up from the front, and what was typed stays.\<close>

definition goes_on :: "session \<Rightarrow> session \<Rightarrow> bool" where
  "goes_on s t \<longleftrightarrow> suffix (looks t) (looks s) \<and> prefix (typed s) (typed t)"

interpretation session_order: act_preorder goes_on
  by unfold_locales (auto simp: goes_on_def intro: suffix_order.trans prefix_order.trans)

lemma await_suffix: "await found p deadline ls = Some (r, rest) \<Longrightarrow> suffix rest ls"
  by (drule await_poll) (auto simp: suffix_def)

lemma goes_on_look: "moves goes_on take_look"
  by (auto simp: moves_def goes_on_def take_look_def suffix_def split: list.splits)

lemma goes_on_send: "moves goes_on (g_send line)"
  unfolding g_send_def
  by (rule session_order.moves_andthen [OF goes_on_look])
    (auto simp: moves_def goes_on_def split: prod.splits option.splits)

lemma goes_on_wait: "moves goes_on (g_wait found p limit)"
  unfolding g_wait_def
  by (rule session_order.moves_andthen [OF goes_on_look])
    (auto simp: moves_def goes_on_def dest: await_suffix)

lemmas goes_on_steps = session_order.moves_basic session_order.moves_andthen session_order.moves_each
  goes_on_look goes_on_send goes_on_wait

lemma goes_on_operations:
  "moves goes_on g_snapshot" "moves goes_on g_console" "moves goes_on (g_command line limit)"
  unfolding g_snapshot_def g_console_def g_command_def by (intro goes_on_steps)+

lemma goes_on_looks: "moves goes_on m \<Longrightarrow> m s = Some (r, t) \<Longrightarrow> set (looks t) \<subseteq> set (looks s)"
  by (drule (1) movesD) (auto simp: goes_on_def dest: set_mono_suffix)

text \<open>What a command that returns has typed and has found.\<close>

lemma g_command_typed:
  assumes "g_command line limit s = Some (Inr out, t)"
  shows "typed t = typed s @ line @ [13] \<and> (\<exists>n. \<exists>l \<in> set (looks s). out = drop n (console (l_guest l)))"
proof -
  obtain l0 l1 l2 used l3 sent where looks: "looks s = l0 # l1 # l2 # used @ l3 # looks t"
    and sent: "send (l_sock l1) (l_guest l1) (line @ [13]) = (None, sent)" "typed t = typed s @ sent"
    and run: "command (l_sock l1) line (l_guest l0) (l_guest l1) (l_now l2 + limit)
      (map (\<lambda>l. (l_now l, l_guest l)) used) (l_guest l3) = Some (Inr out)"
    using g_command_Inr [OF assms] by blast
  have "sent = line @ [13]"
    using sent(1) by (auto simp: send_def encode_ascii_def split: if_splits dest: send_bytes_prefix)
  moreover have "out = drop (length (console (l_guest l0))) (console (l_guest l3))"
    using run by (auto simp: command_def Let_def split: prod.splits option.splits sum.splits)
  moreover have "l3 \<in> set (looks s)" using looks by simp
  ultimately show ?thesis using sent(2) by blast
qed

text \<open>The elimination rules of the two operations that use up several looks.\<close>

lemma g_commandE:
  assumes "g_command line limit s = Some (Inr out, t)"
  obtains "typed t = typed s @ line @ [13]" "set (looks t) \<subseteq> set (looks s)"
  using g_command_typed [OF assms] goes_on_looks [OF goes_on_operations(3) assms] by blast

lemma g_waitE:
  assumes "g_wait found p limit s = Some (Inr u, t)"
  obtains "typed t = typed s" "set (looks t) \<subseteq> set (looks s)"
  using g_wait_Inr [OF assms] goes_on_looks [OF goes_on_wait assms] by blast

lemmas session_flow = session_elims g_commandE g_waitE

section \<open>Actions that some looks let through\<close>

text \<open>Some looks make the action return the value, using up exactly these looks.\<close>

definition can :: "(session, 'a) act \<Rightarrow> 'a \<Rightarrow> bool" where
  "can a x \<longleftrightarrow> (\<exists>ls. \<forall>s rest. looks s = ls @ rest \<longrightarrow> (\<exists>t. a s = Some (Inr x, t) \<and> looks t = rest))"

lemma canI:
  "(\<And>s rest. looks s = ls @ rest \<Longrightarrow> \<exists>t. a s = Some (Inr x, t) \<and> looks t = rest) \<Longrightarrow> can a x"
  unfolding can_def by blast

lemma can_run: "can a x \<Longrightarrow> \<exists>ls. \<exists>t. a \<lparr>looks = ls, typed = []\<rparr> = Some (Inr x, t)"
  unfolding can_def by (metis append_Nil2 session.select_convs(1))

lemma can_andthen:
  assumes "can a x" "can (f x) y"
  shows "can (andthen a f) y"
proof -
  obtain ls ls' where steps:
    "\<And>(s :: session) rest. looks s = ls @ rest \<Longrightarrow> \<exists>t. a s = Some (Inr x, t) \<and> looks t = rest"
    "\<And>(s :: session) rest. looks s = ls' @ rest \<Longrightarrow> \<exists>t. f x s = Some (Inr y, t) \<and> looks t = rest"
    using assms unfolding can_def by blast
  show ?thesis
  proof (rule canI [of "ls @ ls'"])
    fix s :: session and rest assume "looks s = (ls @ ls') @ rest"
    then obtain t where "a s = Some (Inr x, t)" "looks t = ls' @ rest" using steps(1) [of s "ls' @ rest"] by auto
    with steps(2) show "\<exists>t. andthen a f s = Some (Inr y, t) \<and> looks t = rest" by (auto simp: andthen_of)
  qed
qed

lemma can_basic: "can (ret x) x" "b \<Longrightarrow> can (check_that b e) ()" "r = Inr x \<Longrightarrow> can (of_res r) x"
  by (rule canI [of "[]"]; simp add: check_that_def)+

lemma can_each: "(\<And>x. x \<in> set xs \<Longrightarrow> can (f x) ()) \<Longrightarrow> can (each f xs) ()"
  by (induction xs) (auto intro: can_basic can_andthen)

lemma can_snapshot: "can g_snapshot (seen (l :: look))"
  by (rule canI [of "[l]"]) (auto simp: g_snapshot_def take_look_def andthen_def)

lemma can_console: "can g_console (console (l_guest (l :: look)))"
  by (rule canI [of "[l]"]) (auto simp: g_console_def take_look_def andthen_def)

lemma can_send:
  fixes g :: guest
  assumes "\<not> closed g" "status g = Running" "\<forall>c \<in> set line. c < 128"
  shows "can (g_send line) ()"
proof (rule canI [of "[\<lparr>l_guest = g, l_now = 0, l_proc = None, l_sock = (\<lambda>_. None)\<rparr>]"])
  fix s :: session and rest assume looks: "looks s = [\<lparr>l_guest = g, l_now = 0, l_proc = None, l_sock = (\<lambda>_. None)\<rparr>] @ rest"
  have "send (\<lambda>_. None) g line = (None, line)"
    using assms send_bytes_ok [of "\<lambda>_. None" 0 line] by (simp add: send_def encode_ascii_def)
  with looks show "\<exists>t. g_send line s = Some (Inr (), t) \<and> looks t = rest"
    by (simp add: g_send_def take_look_def andthen_def)
qed

lemma can_wait:
  fixes g :: guest
  assumes "0 < limit" "p (found \<lparr>l_guest = g, l_now = 0, l_proc = None, l_sock = (\<lambda>_. None)\<rparr>)"
  shows "can (g_wait found p limit) ()"
proof (rule canI [of "replicate 2 \<lparr>l_guest = g, l_now = 0, l_proc = None, l_sock = (\<lambda>_. None)\<rparr>"])
  fix s :: session and rest
  assume looks: "looks s = replicate 2 \<lparr>l_guest = g, l_now = 0, l_proc = None, l_sock = (\<lambda>_. None)\<rparr> @ rest"
  show "\<exists>t. g_wait found p limit s = Some (Inr (), t) \<and> looks t = rest"
    using looks assms by (simp add: g_wait_def take_look_def andthen_def wait_decide_def numeral_2_eq_2)
qed

lemma can_command:
  assumes "\<forall>c \<in> set line. c < 128" "0 < limit" "sublist prompt out"
  shows "can (g_command line limit) out"
proof -
  let ?calm = "new_guest\<lparr>status := Running\<rparr>" and ?done = "new_guest\<lparr>status := Running, console := out\<rparr>"
  let ?look = "\<lambda>g. \<lparr>l_guest = g, l_now = 0, l_proc = None, l_sock = (\<lambda>_. None)\<rparr>"
  have "can g_console []" using can_console [of "?look ?calm"] by (simp add: new_guest_def)
  moreover have "can (g_send (line @ [13])) ()"
    by (rule can_send [of ?calm]) (use assms in \<open>auto simp: new_guest_def\<close>)
  moreover have "can (g_wait l_guest (prompted 0) limit) ()"
    by (rule can_wait [of _ _ _ ?done]) (use assms in \<open>simp_all add: prompted_def\<close>)
  moreover have "can g_console out" using can_console [of "?look ?done"] by simp
  ultimately show ?thesis
    unfolding g_command_def using can_basic(1) [of out]
    by (intro can_andthen [of g_console "[]"] can_andthen [of "g_send _"] can_andthen [of "g_wait _ _ _"]
        can_andthen [of g_console out]) simp_all
qed

end
