(* ===== verification/Test_Guest.thy ===== *)
theory Test_Guest
  imports Guest_Session Py_Parse
begin

text \<open>
  What the drivers of \<open>tools/test-userland.py\<close> and \<open>tools/test-lab-boundaries.py\<close> share: a guest
  that is started, driven and closed whatever happens, checks with a message, and the reading of
  trace events.
\<close>

section \<open>Checks\<close>

definition claim :: "bool \<Rightarrow> pystr \<Rightarrow> (session, unit) act" where
  "claim condition message = check_that condition (AssertionError message)"

definition require :: "bool \<Rightarrow> string \<Rightarrow> unit res" where
  "require condition message = (if condition then Inr () else Inl (AssertionError (py message)))"

lemma require_Inr [res_simps]: "require c m = Inr u \<longleftrightarrow> c"
  by (simp add: require_def)

lemma claim_Inr [res_simps]: "claim c m s = Some (Inr u, t) \<longleftrightarrow> c \<and> t = s"
  by (simp add: claim_def res_simps)

definition expect_in :: "pystr \<Rightarrow> string \<Rightarrow> string \<Rightarrow> (session, unit) act" where
  "expect_in line expected message =
     andthen (g_command line 8000) (\<lambda>out. claim (sublist (py expected) out) (py message))"

section \<open>A guest's life in a test\<close>

text \<open>
  What the world answers to one guest: its boot, the guest at the end of \<open>start\<close>, the looks of
  the test, the guest that is closed, and how QEMU reacts to being stopped.
\<close>

record guest_world =
  gw_boot :: boot
  gw_end :: guest
  gw_session :: session
  gw_last :: guest
  gw_term :: bool
  gw_kill :: bool

text \<open>The body of the \<open>try\<close>: the guest is started and driven.\<close>

definition drive :: "guest_world \<Rightarrow> (session, 'a) act \<Rightarrow> ('a res \<times> guest \<times> host \<times> session) option" where
  "drive w body =
     (case start (gw_boot w) new_guest (gw_end w) of
        None \<Rightarrow> None
      | Some (Some e, g, h) \<Rightarrow> Some (Inl e, g, h, gw_session w)
      | Some (None, g, h) \<Rightarrow>
          (case body (gw_session w) of
             None \<Rightarrow> None
           | Some (r, s) \<Rightarrow> Some (r, gw_last w, h, s)))"

text \<open>
  The \<open>finally\<close> clause closes the guest and asks whether QEMU is gone; both replace the outcome
  of the body if they raise.
\<close>

definition finish_guest :: "guest_world \<Rightarrow> 'a res \<Rightarrow> guest \<times> host \<Rightarrow> 'a res \<times> guest \<times> host" where
  "finish_guest w r gh =
     (case close (gw_term w) (gw_kill w) gh of
        (Some e, g, h) \<Rightarrow> (Inl e, g, h)
      | (None, g, h) \<Rightarrow>
          (if alive h then Inl (AssertionError (py ''QEMU remained running'')) else r, g, h))"

definition with_guest :: "guest_world \<Rightarrow> (session, 'a) act \<Rightarrow> ('a res \<times> guest \<times> host) option" where
  "with_guest w body = map_option (\<lambda>(r, g, h, s). finish_guest w r (g, h)) (drive w body)"

lemma finish_guest_Inr:
  assumes "finish_guest w r gh = (Inr x, g, h)"
  shows "r = Inr x \<and> closed g \<and> status g = Stopped \<and> h = new_host"
proof -
  obtain g0 h0 where gh: "gh = (g0, h0)" by (cases gh)
  obtain e g1 h1 where c: "close (gw_term w) (gw_kill w) (g0, h0) = (e, g1, h1)"
    by (cases "close (gw_term w) (gw_kill w) (g0, h0)") auto
  with assms gh have e: "e = None" by (auto simp: finish_guest_def split: option.splits)
  from close_ok [OF c [unfolded e]] c e gh assms show ?thesis
    by (auto simp: finish_guest_def split: if_splits)
qed

lemma finish_guest_gone:
  assumes "gw_term w \<or> gw_kill w" "finish_guest w r gh = (r', g, h)"
  shows "r' = r \<and> closed g \<and> status g = Stopped \<and> h = new_host"
proof -
  obtain g0 h0 where gh: "gh = (g0, h0)" by (cases gh)
  obtain e g1 h1 where c: "close (gw_term w) (gw_kill w) (g0, h0) = (e, g1, h1)"
    by (cases "close (gw_term w) (gw_kill w) (g0, h0)") auto
  with assms(1) have e: "e = None"
    by (auto simp: close_def stop_qemu_def Let_def split: if_splits)
  from close_ok [OF c [unfolded e]] c e gh assms(2) show ?thesis
    by (auto simp: finish_guest_def new_host_def)
qed

lemma with_guest_Inr:
  assumes "with_guest w body = Some (Inr x, g, h)"
  shows "closed g \<and> status g = Stopped \<and> h = new_host \<and> (\<exists>t. body (gw_session w) = Some (Inr x, t))"
proof -
  obtain r g0 h0 s where d: "drive w body = Some (r, g0, h0, s)" "finish_guest w r (g0, h0) = (Inr x, g, h)"
    using assms by (auto simp: with_guest_def)
  from finish_guest_Inr [OF d(2)] d(1) show ?thesis
    by (auto simp: drive_def split: option.splits)
qed

section \<open>Reading events\<close>

definition events_since :: "nat \<Rightarrow> guest \<Rightarrow> event list" where
  "events_since n g = filter (\<lambda>e. n < ev_id e) (events g)"

definition of_kind :: "string \<Rightarrow> event list \<Rightarrow> event list" where
  "of_kind kind es = filter (\<lambda>e. ev_kind e = py kind) es"

text \<open>A comprehension with a condition that may raise.\<close>

fun select :: "('a \<Rightarrow> bool res) \<Rightarrow> 'a list \<Rightarrow> 'a list res" where
  "select p [] = Inr []"
| "select p (x # xs) =
     rbind (p x) (\<lambda>b. rbind (select p xs) (\<lambda>ys. Inr (if b then x # ys else ys)))"

lemma select_mem: "select p xs = Inr ys \<Longrightarrow> y \<in> set ys \<Longrightarrow> y \<in> set xs \<and> p y = Inr True"
  by (induction xs arbitrary: ys) (auto simp: res_simps split: if_splits)

text \<open>\<open>any\<close>: the first true one ends the search.\<close>

fun any_of :: "('a \<Rightarrow> bool res) \<Rightarrow> 'a list \<Rightarrow> bool res" where
  "any_of p [] = Inr False"
| "any_of p (x # xs) = rbind (p x) (\<lambda>b. if b then Inr True else any_of p xs)"

lemma any_of_mem: "any_of p xs = Inr True \<Longrightarrow> \<exists>x \<in> set xs. p x = Inr True"
  by (induction xs) (auto simp: rbind_Inr split: if_splits)

lemma traverse_mem: "traverse f xs = Inr ys \<Longrightarrow> y \<in> set ys \<Longrightarrow> \<exists>x \<in> set xs. f x = Inr y"
  by (induction xs arbitrary: ys) (auto simp: res_simps)

lemma traverse_two: "traverse f [x, y] = Inr zs \<longleftrightarrow> (\<exists>a b. f x = Inr a \<and> f y = Inr b \<and> zs = [a, b])"
  by (auto simp: res_simps)

text \<open>\<open>int(s, 16)\<close>: white space, a sign, and an optional \<open>0x\<close> around the digits.\<close>

fun more_hex :: "nat \<Rightarrow> pystr \<Rightarrow> nat option" where
  "more_hex acc [] = Some acc"
| "more_hex acc (c # cs) =
     (case hex_value c of
        Some d \<Rightarrow> more_hex (16 * acc + d) cs
      | None \<Rightarrow>
          (if c \<noteq> 95 then None
           else (case cs of
                   [] \<Rightarrow> None
                 | c' # cs' \<Rightarrow>
                     (case hex_value c' of
                        Some d \<Rightarrow> more_hex (16 * acc + d) cs'
                      | None \<Rightarrow> None))))"

fun hex_digits_value :: "pystr \<Rightarrow> nat option" where
  "hex_digits_value [] = None"
| "hex_digits_value [c] = hex_value c"
| "hex_digits_value (c # d # cs) =
     (if c = 48 \<and> d \<in> {120, 88}
      then (if cs = [] then None else more_hex 0 cs)
      else Option.bind (hex_value c) (\<lambda>v. more_hex v (d # cs)))"

definition int_of_hex :: "pystr \<Rightarrow> int res" where
  "int_of_hex s =
     (let t = strip_if int_space s;
          (neg, ds) = (case t of [] \<Rightarrow> (False, [])
                       | c # cs \<Rightarrow> if c = 45 then (True, cs) else if c = 43 then (False, cs)
                                  else (False, t))
      in case hex_digits_value ds of
           None \<Rightarrow> Inl (InvalidLiteral s)
         | Some n \<Rightarrow> Inr (if neg then - int n else int n))"

end
