(* ===== verification/Userland_Test.thy ===== *)
theory Userland_Test
  imports Test_Guest
begin

text \<open>
  The userland test (\<open>tools/test-userland.py\<close>): commands and their answers, pages that return,
  and the witness that two programs at the same virtual address run in turns on different pages.
\<close>

section \<open>Two counters in the trace\<close>

definition counter_pids :: "event list \<Rightarrow> int list res" where
  "counter_pids es = traverse (\<lambda>e. int_fld (ev_fields e) 0) (of_kind ''spawn'' es)"

definition switch_of :: "event \<Rightarrow> (int \<times> int) res" where
  "switch_of e =
     rbind (int_fld (ev_fields e) 0) (\<lambda>i. rbind (int_fld (ev_fields e) 1) (\<lambda>j. Inr (i, j)))"

definition switches :: "event list \<Rightarrow> (int \<times> int) list res" where
  "switches es = traverse switch_of (of_kind ''schedule'' es)"

definition marked :: "int \<Rightarrow> event \<Rightarrow> bool res" where
  "marked pid e =
     rbind (int_fld (ev_fields e) 0) (\<lambda>i.
       if i \<noteq> pid then Inr False
       else rbind (fld (ev_fields e) 3) (\<lambda>f. rbind (int_of_hex f) (\<lambda>m. Inr (m \<noteq> 0))))"

definition markers :: "int \<Rightarrow> event list \<Rightarrow> event list res" where
  "markers pid es = select (marked pid) (of_kind ''data'' es)"

text \<open>The fields of the last marker of each, which have at least four entries.\<close>

definition isolated :: "pystr list \<Rightarrow> pystr list \<Rightarrow> bool" where
  "isolated a b \<longleftrightarrow> a ! 1 = b ! 1 \<and> a ! 2 \<noteq> b ! 2 \<and> a ! 3 \<noteq> b ! 3"

definition pair_evidence :: "event list \<Rightarrow> (int list \<times> pystr list \<times> pystr list) res" where
  "pair_evidence es =
     rbind (counter_pids es) (\<lambda>ids.
     rbind (require (length ids = 2) ''counter instances were not both created'') (\<lambda>_.
     rbind (switches es) (\<lambda>transitions.
     rbind (require ((ids ! 0, ids ! 1) \<in> set transitions \<and> (ids ! 1, ids ! 0) \<in> set transitions)
       ''timer did not switch between both programs'') (\<lambda>_.
     rbind (traverse (\<lambda>pid. markers pid es) ids) (\<lambda>found.
     rbind (require (\<forall>d \<in> set found. d \<noteq> []) ''physical data markers not observed'') (\<lambda>_.
       let a = ev_fields (last (found ! 0)); b = ev_fields (last (found ! 1))
       in rbind (require (isolated a b) ''address isolation witness differs'') (\<lambda>_.
            Inr (ids, a, b))))))))"

section \<open>The steps of the test\<close>

definition backspace_line :: pystr where
  "backspace_line = py ''cat hello.txX'' @ [8] @ py ''t''"

definition shell_steps :: "(pystr \<times> string \<times> string) list" where
  "shell_steps =
     [(py ''help'', ''help | ls | cat'', ''help missing''),
      (py ''ls'', ''/hello.txt  17 bytes'', ''file enumeration differs''),
      (py ''cat hello.txt'', ''hello from ramfs'', ''file bytes differ''),
      (py ''cat missing'', ''file not found'', ''missing file did not return''),
      (py ''nonsense'', ''unknown command'', ''unknown command did not return''),
      (py ''run nonexistent'', ''unknown embedded'', ''unknown program accepted''),
      (replicate 120 120, ''line too long'', ''line overflow not rejected''),
      (py ''run hello reader fault hello'', ''too many arguments'', ''extra arguments accepted''),
      (backspace_line, ''hello from ramfs'', ''backspace broke input'')]"

definition userland_shell :: "(session, unit) act" where
  "userland_shell =
     andthen g_console (\<lambda>c.
     andthen (claim (sublist (py ''PID 1 entered user mode'') c) (py ''init did not reach user mode'')) (\<lambda>_.
     andthen (each (\<lambda>(line, expected, message). expect_in line expected message) shell_steps) (\<lambda>_.
     andthen (g_command (py ''check'') 8000) (\<lambda>out.
     andthen (claim (sublist (py ''user boundaries passed'') out \<and>
         sublist (py ''process capacity and reclamation passed'') out)
       (py ''new syscall boundaries or process capacity differ'')) (\<lambda>_.
       expect_in (py ''ps'') ''waiting  init'' ''init is not waiting for shell'')))))"

definition userland_baseline :: "(session, int) act" where
  "userland_baseline =
     andthen (g_command (py ''mem'') 8000) (\<lambda>_.
     andthen g_snapshot (\<lambda>g.
     andthen (claim (0 < free g) (py ''no memory observation'')) (\<lambda>_. ret (free g))))"

definition pages_back :: "int \<Rightarrow> string \<Rightarrow> (session, unit) act" where
  "pages_back baseline message =
     andthen (g_command (py ''mem'') 8000) (\<lambda>_.
     andthen g_snapshot (\<lambda>g. claim (free g = baseline) (py message)))"

definition userland_slots :: "int \<Rightarrow> (session, unit) act" where
  "userland_slots baseline =
     andthen (each (\<lambda>_.
       andthen (expect_in (py ''run hello'') ''hello from user mode'' ''slot reuse failed'') (\<lambda>_.
         expect_in (py ''run reader'') ''hello from ramfs'' ''file slot reuse failed'')) [0..<12]) (\<lambda>_.
       pages_back baseline ''sequential programs leaked pages'')"

definition userland_pair :: "int \<Rightarrow> (session, int list \<times> pystr list \<times> pystr list) act" where
  "userland_pair baseline =
     andthen g_snapshot (\<lambda>g0.
     andthen (g_command (py ''run counter-a counter-b'') 8000) (\<lambda>pair.
     andthen (claim (sublist (py ''counter-a'') pair \<and> sublist (py ''counter-b'') pair \<and>
         \<not> sublist (py ''ISOLATION FAILED'') pair) (py ''counter markers changed'')) (\<lambda>_.
     andthen g_snapshot (\<lambda>g.
     andthen (of_res (pair_evidence (events_since (sequence g0) g))) (\<lambda>r.
     andthen (pages_back baseline ''counter pair leaked pages'') (\<lambda>_. ret r))))))"

definition programs_of :: "guest \<Rightarrow> pystr set" where
  "programs_of g = p_program ` set (dict_values (processes g))"

definition userland_fault :: "int \<Rightarrow> (session, unit) act" where
  "userland_fault baseline =
     andthen (expect_in (py ''run fault'') ''status 142'' ''user fault was not contained'') (\<lambda>_.
     andthen (expect_in (py ''cat hello.txt'') ''hello from ramfs'' ''shell did not retake after fault'') (\<lambda>_.
     andthen (pages_back baseline ''fault path leaked pages'') (\<lambda>_.
     andthen g_snapshot (\<lambda>g.
       claim (programs_of g = {py ''init'', py ''shell''}) (py ''exited process remained after wait'')))))"

definition userland_entry :: "int \<Rightarrow> int \<Rightarrow> int list \<times> pystr list \<times> pystr list \<Rightarrow> json" where
  "userland_entry memory baseline = (\<lambda>(ids, a, b). JDict
     [(py ''memory_mib'', JInt memory), (py ''free_before_after'', JInt baseline),
      (py ''counter_pids'', JList (map JInt ids)), (py ''data_a'', JList (map JStr a)),
      (py ''data_b'', JList (map JStr b)), (py ''timer_switched_both_directions'', JBool True),
      (py ''fault_status'', JInt 142), (py ''sequential_program_runs'', JInt 24),
      (py ''input_and_pointer_rejections'', JBool True)])"

definition userland_case :: "int \<Rightarrow> (session, json) act" where
  "userland_case memory =
     andthen userland_shell (\<lambda>_.
     andthen userland_baseline (\<lambda>baseline.
     andthen (userland_slots baseline) (\<lambda>_.
     andthen (userland_pair baseline) (\<lambda>pair.
     andthen (userland_fault baseline) (\<lambda>_.
       ret (userland_entry memory baseline pair))))))"

text \<open>
  \<open>main\<close> over the sizes of memory: the report's entries or the exception, and the guests with
  their hosts as the test leaves them.
\<close>

fun userland_runs :: "int list \<Rightarrow> guest_world list \<Rightarrow> (json list res \<times> (guest \<times> host) list) option" where
  "userland_runs [] ws = Some (Inr [], [])"
| "userland_runs (memory # ms) [] = None"
| "userland_runs (memory # ms) (w # ws) =
     (case with_guest w (userland_case memory) of
        None \<Rightarrow> None
      | Some (Inl e, gh) \<Rightarrow> Some (Inl e, [gh])
      | Some (Inr j, gh) \<Rightarrow>
          map_option (\<lambda>(r, ghs). (rbind r (\<lambda>js. Inr (j # js)), gh # ghs)) (userland_runs ms ws))"

definition userland_memories :: "int list" where
  "userland_memories = [64, 256]"

text \<open>The file the test writes when all went well.\<close>

definition userland_main :: "guest_world list \<Rightarrow> (pystr res \<times> (guest \<times> host) list) option" where
  "userland_main ws =
     map_option (\<lambda>(r, ghs). (rbind r (\<lambda>js. Inr (render indent_style 0 (JList js))), ghs))
       (userland_runs userland_memories ws)"

section \<open>What the evidence says\<close>

definition spawned :: "event list \<Rightarrow> int \<Rightarrow> bool" where
  "spawned es i \<longleftrightarrow> (\<exists>e \<in> set es. ev_kind e = py ''spawn'' \<and> int_fld (ev_fields e) 0 = Inr i)"

definition switched :: "event list \<Rightarrow> int \<Rightarrow> int \<Rightarrow> bool" where
  "switched es i j \<longleftrightarrow> (\<exists>e \<in> set es. ev_kind e = py ''schedule'' \<and>
     int_fld (ev_fields e) 0 = Inr i \<and> int_fld (ev_fields e) 1 = Inr j)"

text \<open>The process was seen to hold a marker that is not zero at an address, on a page.\<close>

definition holds_marker :: "event list \<Rightarrow> int \<Rightarrow> pystr \<Rightarrow> pystr \<Rightarrow> pystr \<Rightarrow> bool" where
  "holds_marker es i va pa marker \<longleftrightarrow> (\<exists>e \<in> set es. ev_kind e = py ''data'' \<and>
     int_fld (ev_fields e) 0 = Inr i \<and> fld (ev_fields e) 1 = Inr va \<and> fld (ev_fields e) 2 = Inr pa \<and>
     fld (ev_fields e) 3 = Inr marker \<and> (\<exists>m. int_of_hex marker = Inr m \<and> m \<noteq> 0))"

definition two_isolated :: "event list \<Rightarrow> bool" where
  "two_isolated es \<longleftrightarrow> (\<exists>i j va pa pb ma mb. i \<noteq> j \<and> spawned es i \<and> spawned es j \<and>
     switched es i j \<and> switched es j i \<and> holds_marker es i va pa ma \<and> holds_marker es j va pb mb \<and>
     pa \<noteq> pb \<and> ma \<noteq> mb)"

lemma of_kind_mem: "e \<in> set (of_kind k es) \<longleftrightarrow> e \<in> set es \<and> ev_kind e = py k"
  by (auto simp: of_kind_def)

lemma fld_nth: "fld fs i = Inr f \<longleftrightarrow> i < length fs \<and> f = fs ! i"
  by (auto simp: fld_def py_index_def Let_def)

lemma counter_pids_spawned: "counter_pids es = Inr ids \<Longrightarrow> i \<in> set ids \<Longrightarrow> spawned es i"
  unfolding counter_pids_def spawned_def by (drule (1) traverse_mem) (auto simp: of_kind_mem)

lemma switches_switched: "switches es = Inr ts \<Longrightarrow> (i, j) \<in> set ts \<Longrightarrow> switched es i j"
  unfolding switches_def switched_def
  by (drule (1) traverse_mem) (auto simp: of_kind_mem switch_of_def res_simps)

lemma markers_hold:
  assumes "markers pid es = Inr ds" "e \<in> set ds"
  shows "holds_marker es pid (ev_fields e ! 1) (ev_fields e ! 2) (ev_fields e ! 3)"
proof -
  from select_mem [OF assms(1) [unfolded markers_def] assms(2)]
  have "e \<in> set es" "ev_kind e = py ''data''" "marked pid e = Inr True" by (auto simp: of_kind_mem)
  then show ?thesis
    unfolding holds_marker_def by (intro bexI [of _ e]) (auto simp: marked_def res_simps fld_nth split: if_splits)
qed

lemma pair_evidence_isolated:
  assumes "pair_evidence es = Inr (ids, a, b)"
  shows "two_isolated es"
proof -
  obtain ts found where ev: "counter_pids es = Inr ids" "length ids = 2" "switches es = Inr ts"
    "(ids ! 0, ids ! 1) \<in> set ts" "(ids ! 1, ids ! 0) \<in> set ts"
    "traverse (\<lambda>pid. markers pid es) ids = Inr found" "\<forall>d \<in> set found. d \<noteq> []"
    "isolated (ev_fields (last (found ! 0))) (ev_fields (last (found ! 1)))"
    using assms unfolding pair_evidence_def Let_def rbind_Inr require_Inr by blast
  obtain i j where ids: "ids = [i, j]" using ev(2) by (auto simp: numeral_2_eq_2 length_Suc_conv)
  obtain di dj where d: "markers i es = Inr di" "markers j es = Inr dj" "found = [di, dj]"
    using ev(6) unfolding ids traverse_two by blast
  let ?a = "ev_fields (last di)" and ?b = "ev_fields (last dj)"
  have "holds_marker es i (?a ! 1) (?a ! 2) (?a ! 3)" "holds_marker es j (?b ! 1) (?b ! 2) (?b ! 3)"
    using markers_hold [OF d(1)] markers_hold [OF d(2)] ev(7) d(3) by simp_all
  moreover have iso: "?a ! 1 = ?b ! 1" "?a ! 2 \<noteq> ?b ! 2" "?a ! 3 \<noteq> ?b ! 3"
    using ev(8) d(3) by (simp_all add: isolated_def)
  moreover have "i \<noteq> j" using d(1,2) iso by auto
  moreover have "switched es i j" "switched es j i"
    using switches_switched [OF ev(3)] ev(4,5) ids by simp_all
  moreover have "spawned es i" "spawned es j" using counter_pids_spawned [OF ev(1)] ids by simp_all
  ultimately show ?thesis unfolding two_isolated_def by metis
qed

section \<open>What a passing case has seen\<close>

lemma goes_on_checks: "moves goes_on (claim c m)" "moves goes_on (expect_in line x y)"
  unfolding claim_def expect_in_def by (intro goes_on_steps goes_on_operations)+

lemma goes_on_userland:
  "moves goes_on userland_shell" "moves goes_on userland_baseline" "moves goes_on (pages_back b x)"
  "moves goes_on (userland_slots b)" "moves goes_on (userland_pair b)"
  unfolding userland_shell_def userland_baseline_def pages_back_def userland_slots_def userland_pair_def
    claim_def expect_in_def split_beta
  by (intro goes_on_steps goes_on_operations)+

text \<open>Among the looks are two between which both counters ran in turns on pages of their own.\<close>

definition isolation_seen :: "look set \<Rightarrow> bool" where
  "isolation_seen L \<longleftrightarrow>
     (\<exists>l0 \<in> L. \<exists>l \<in> L. two_isolated (events_since (sequence (seen l0)) (seen l)))"

text \<open>The free pages of an early look are free again, and only init and the shell are left.\<close>

definition restored_seen :: "look set \<Rightarrow> bool" where
  "restored_seen L \<longleftrightarrow> (\<exists>l0 \<in> L. \<exists>l1 \<in> L. \<exists>l2 \<in> L. 0 < free (seen l0) \<and> free (seen l1) = free (seen l0) \<and>
     programs_of (seen l2) = {py ''init'', py ''shell''})"

lemma baseline_seen:
  assumes "userland_baseline s = Some (Inr b, t)"
  shows "\<exists>l \<in> set (looks s). b = free (seen l) \<and> 0 < b"
  using assms unfolding userland_baseline_def claim_def
  by (elim session_elims) (drule goes_on_looks [OF goes_on_operations(3)], auto)


lemma pages_back_seen:
  assumes "pages_back b m s = Some (Inr u, t)"
  shows "\<exists>l \<in> set (looks s). free (seen l) = b"
  using assms unfolding pages_back_def claim_def
  by (elim session_elims) (drule goes_on_looks [OF goes_on_operations(3)], auto)


lemma pair_seen:
  assumes "userland_pair b s = Some (Inr r, t)"
  shows "isolation_seen (set (looks s))"
proof -
  have "\<exists>l0 \<in> set (looks s). \<exists>l \<in> set (looks s). pair_evidence (events_since (sequence (seen l0)) (seen l)) = Inr r"
    using assms unfolding userland_pair_def claim_def
    by (elim session_elims) (drule goes_on_looks [OF goes_on_operations(3)], auto)
  moreover obtain ids a b where "r = (ids, a, b)" by (cases r)
  ultimately show ?thesis unfolding isolation_seen_def using pair_evidence_isolated by blast
qed


lemma fault_seen:
  assumes "userland_fault b s = Some (Inr u, t)"
  shows "(\<exists>l \<in> set (looks s). free (seen l) = b) \<and>
    (\<exists>l \<in> set (looks s). programs_of (seen l) = {py ''init'', py ''shell''})"
  using assms unfolding userland_fault_def claim_def
  apply (elim session_elims)
  apply (frule goes_on_looks [OF goes_on_userland(3)])
  apply (drule pages_back_seen)
  apply (drule goes_on_looks [OF goes_on_checks(2)])
  apply (drule goes_on_looks [OF goes_on_checks(2)])
  apply auto
  done


lemma userland_case_seen:
  assumes "userland_case memory s = Some (Inr j, t)"
  shows "isolation_seen (set (looks s)) \<and> restored_seen (set (looks s))"
proof -
  obtain b pair u1 u2 u3 s1 s2 s3 s4 s5 where steps: "userland_shell s = Some (Inr u1, s1)"
    "userland_baseline s1 = Some (Inr b, s2)" "userland_slots b s2 = Some (Inr u2, s3)"
    "userland_pair b s3 = Some (Inr pair, s4)" "userland_fault b s4 = Some (Inr u3, s5)"
    using assms unfolding userland_case_def andthen_Inr by (elim exE conjE) (rule that)
  have subs: "set (looks s1) \<subseteq> set (looks s)" "set (looks s2) \<subseteq> set (looks s1)"
    "set (looks s3) \<subseteq> set (looks s2)" "set (looks s4) \<subseteq> set (looks s3)"
    using goes_on_looks [OF goes_on_userland(1) steps(1)] goes_on_looks [OF goes_on_userland(2) steps(2)]
      goes_on_looks [OF goes_on_userland(4) steps(3)] goes_on_looks [OF goes_on_userland(5) steps(4)]
    by blast+
  have "isolation_seen (set (looks s))"
    using pair_seen [OF steps(4)] subs unfolding isolation_seen_def by blast
  moreover have "restored_seen (set (looks s))"
    using baseline_seen [OF steps(2)] fault_seen [OF steps(5)] subs unfolding restored_seen_def by blast
  ultimately show ?thesis ..
qed

end
