(* ===== verification/Boundaries_Test.thy ===== *)
theory Boundaries_Test
  imports Userland_Test Packages
begin

text \<open>
  The boundary test of the LAB (\<open>tools/test-lab-boundaries.py\<close>): a faulting program next to a
  surviving one, and the probes of the supplemental fixture; with the files it keeps of every
  case and of the first failure.
\<close>

text \<open>A comprehension over actions.\<close>

fun collect :: "('x \<Rightarrow> ('s, 'a) act) \<Rightarrow> 'x list \<Rightarrow> ('s, 'a list) act" where
  "collect f [] = ret []"
| "collect f (x # xs) = andthen (f x) (\<lambda>y. andthen (collect f xs) (\<lambda>ys. ret (y # ys)))"

section \<open>Before and after a case\<close>

definition quiet_baseline :: "(session, int) act" where
  "quiet_baseline =
     andthen (g_command (py ''mem'') 8000) (\<lambda>_.
     andthen g_snapshot (\<lambda>g.
     andthen (claim (0 < free g) (py ''free-page baseline missing'')) (\<lambda>_.
     andthen g_snapshot (\<lambda>g. ret (free g)))))"

definition only_shell :: "guest \<Rightarrow> bool" where
  "only_shell g \<longleftrightarrow> programs_of g = {py ''init'', py ''shell''}"

definition restored :: "int \<Rightarrow> (session, unit) act" where
  "restored baseline =
     andthen (g_command (py ''mem'') 8000) (\<lambda>_.
     andthen (g_wait seen (\<lambda>g. free g = baseline \<and> only_shell g) 8000) (\<lambda>_.
     andthen g_snapshot (\<lambda>snap.
     andthen (claim (free snap = baseline) (py ''free pages did not return to baseline'')) (\<lambda>_.
     andthen (claim (only_shell snap) (py ''a completed child remained after wait'')) (\<lambda>_.
       expect_in (py ''cat hello.txt'') ''hello from ramfs'' ''shell did not retake'')))))"

section \<open>A fault beside a survivor\<close>

text \<open>\<open>{int(a): int(b) for ...}\<close> over two fields of each event, and a lookup.\<close>

definition field_pairs :: "nat \<Rightarrow> nat \<Rightarrow> event list \<Rightarrow> (int, int) dict res" where
  "field_pairs i j es =
     rbind (traverse (\<lambda>e. rbind (int_fld (ev_fields e) i) (\<lambda>a.
       rbind (int_fld (ev_fields e) j) (\<lambda>b. Inr (a, b)))) es) (\<lambda>ps.
       Inr (fold (\<lambda>(k, v) d. dict_set k v d) ps []))"

definition dict_at :: "(int, int) dict \<Rightarrow> int \<Rightarrow> int res" where
  "dict_at d k = (case dict_get d k of None \<Rightarrow> Inl (KeyError (str_of_int k)) | Some v \<Rightarrow> Inr v)"

definition pid_is :: "int \<Rightarrow> event \<Rightarrow> bool res" where
  "pid_is pid e = rbind (int_fld (ev_fields e) 0) (\<lambda>i. Inr (i = pid))"

definition fault_witness :: "event list \<Rightarrow> bool res" where
  "fault_witness faults =
     (case faults of
        [f] \<Rightarrow> rbind (fld (ev_fields f) 1) (\<lambda>v.
          if v \<noteq> py ''14'' then Inr False
          else rbind (fld (ev_fields f) 5) (\<lambda>cpl. Inr (cpl = py ''3'')))
      | _ \<Rightarrow> Inr False)"

definition writes_of :: "int \<Rightarrow> event \<Rightarrow> bool res" where
  "writes_of pid e =
     (if ev_kind e \<noteq> py ''syscall'' then Inr False
      else rbind (int_fld (ev_fields e) 0) (\<lambda>i.
        if i \<noteq> pid then Inr False
        else rbind (int_fld (ev_fields e) 1) (\<lambda>n. Inr (n = 1))))"

definition fault_evidence :: "event list \<Rightarrow> (int \<times> int) res" where
  "fault_evidence es =
     (let spawns = of_kind ''spawn'' es
      in rbind (require (length spawns = 2) ''expected exactly two children'') (\<lambda>_.
         rbind (field_pairs 2 0 spawns) (\<lambda>by_program.
         rbind (dict_at by_program 6) (\<lambda>fault_pid.
         rbind (dict_at by_program 4) (\<lambda>survivor_pid.
         rbind (select (pid_is fault_pid) (of_kind ''fault'' es)) (\<lambda>faults.
         rbind (fault_witness faults) (\<lambda>single.
         rbind (require single ''expected a single CPL3 page-fault witness'') (\<lambda>_.
         rbind (field_pairs 0 1 (of_kind ''exit'' es)) (\<lambda>exits.
         rbind (require (dict_get exits fault_pid = Some 142 \<and> dict_get exits survivor_pid = Some 0)
           ''both child exit statuses were not observed'') (\<lambda>_.
         rbind (any_of (writes_of survivor_pid) (filter (\<lambda>e. ev_id (hd faults) < ev_id e) es)) (\<lambda>wrote.
         rbind (require wrote ''survivor did not issue a write after the other child faulted'') (\<lambda>_.
           Inr (fault_pid, survivor_pid)))))))))))))"

definition exits_since :: "nat \<Rightarrow> guest \<Rightarrow> nat" where
  "exits_since n g = length (of_kind ''exit'' (events_since n g))"

definition survivor_claims :: "pystr \<Rightarrow> (session, unit) act" where
  "survivor_claims output =
     andthen (claim (sublist (py ''status 142'') output) (py ''fault status 142 absent'')) (\<lambda>_.
     andthen (each (\<lambda>n. claim (sublist (py '' step='' @ str_of_nat n @ py '' '') output)
       (py ''survivor step '' @ str_of_nat n @ py '' absent'')) [1..<6]) (\<lambda>_.
       claim (sublist (py ''counter-a pid='') output \<and> \<not> sublist (py ''ISOLATION FAILED'') output)
         (py ''counter survivor differs'')))"

definition fault_report :: "pystr \<Rightarrow> int \<times> int \<Rightarrow> int \<Rightarrow> json" where
  "fault_report line pids baseline = JDict
     [(py ''command'', JStr line), (py ''fault_pid'', JInt (fst pids)), (py ''survivor_pid'', JInt (snd pids)),
      (py ''survivor_steps'', JInt 5), (py ''fault_status'', JInt 142), (py ''survivor_status'', JInt 0),
      (py ''free_before_after'', JInt baseline), (py ''shell_retook'', JBool True)]"

definition mixed_fault :: "int \<Rightarrow> pystr \<Rightarrow> (session, json) act" where
  "mixed_fault baseline line =
     andthen g_snapshot (\<lambda>g0.
     andthen (g_command line 12000) (\<lambda>output.
     andthen (survivor_claims output) (\<lambda>_.
     andthen (g_wait seen (\<lambda>g. exits_since (sequence g0) g = 2) 8000) (\<lambda>_.
     andthen g_snapshot (\<lambda>g.
     andthen (of_res (fault_evidence (events_since (sequence g0) g))) (\<lambda>pids.
     andthen (restored baseline) (\<lambda>_.
       ret (fault_report line pids baseline))))))))"

section \<open>The probes of the fixture\<close>

definition probe_witnesses :: "string list" where
  "probe_witnesses =
     [''PROBE PROCESS cross-page rejected intact'', ''PROBE FILE cross-page rejected intact'',
      ''PROBE MEMORY cross-page rejected intact'', ''PROBE mapped cross-page outputs passed'',
      ''PROBE wait non-child self reaped rejected -3'', ''SUPPLEMENTAL PROBE PASSED; pages restored'']"

definition fixture_report :: "int \<Rightarrow> json" where
  "fixture_report baseline = JDict
     [(py ''struct_cross_page_rejected_intact'', JList (map (\<lambda>s. JStr (py s)) [''process'', ''file'', ''memory''])),
      (py ''mapped_cross_page_success'', JBool True), (py ''wait_non_child_self_reaped'', JInt (- 3)),
      (py ''bad_input_pointer_preserved_queued_byte'', JStr (py ''Z'')), (py ''free_before_after'', JInt baseline)]"

definition probe_input :: "(session, unit) act" where
  "probe_input =
     andthen g_console (\<lambda>c0.
     andthen (g_send (py ''probe-input'' @ [13])) (\<lambda>_.
     andthen (g_wait l_guest (\<lambda>g. sublist (py ''PROBE INPUT READY: send Z'') (drop (length c0) (console g))) 8000) (\<lambda>_.
     andthen (g_send (py ''Z'')) (\<lambda>_.
     andthen (g_wait l_guest (prompted (length c0)) 6000) (\<lambda>_.
     andthen g_console (\<lambda>c.
       claim (sublist (py ''PROBE INPUT bad pointer preserved queued Z'') (drop (length c0) c))
         (py ''bad input pointer consumed queued Z or readback differed'')))))))"

definition fixture :: "int \<Rightarrow> (session, json) act" where
  "fixture baseline =
     andthen (g_command (py ''probe'') 8000) (\<lambda>output.
     andthen (each (\<lambda>w. claim (sublist (py w) output) (py ''missing guest witness: '' @ py w)) probe_witnesses) (\<lambda>_.
     andthen (restored baseline) (\<lambda>_.
     andthen probe_input (\<lambda>_.
     andthen (restored baseline) (\<lambda>_. ret (fixture_report baseline))))))"

section \<open>The runs\<close>

datatype mode = Baseline | Fixture

definition mode_name :: "mode \<Rightarrow> pystr" where
  "mode_name mode = (case mode of Baseline \<Rightarrow> py ''baseline'' | Fixture \<Rightarrow> py ''fixture'')"

definition fault_commands :: "pystr list" where
  "fault_commands = map py [''run fault counter-a'', ''run counter-a fault'']"

definition boundary_cases :: "mode \<Rightarrow> (session, json list) act" where
  "boundary_cases mode =
     andthen quiet_baseline (\<lambda>baseline.
       case mode of
         Baseline \<Rightarrow> collect (mixed_fault baseline) fault_commands
       | Fixture \<Rightarrow> andthen (fixture baseline) (\<lambda>j. ret [j]))"

text \<open>
  What the world answers to one run: the guest, its process when the last snapshot is taken, and
  the text of a traceback.
\<close>

record run_world =
  rw_guest :: guest_world
  rw_proc :: "(int \<times> bool) option"
  rw_traceback :: pystr

definition lab_logs :: "string list" where
  "lab_logs = [''lab-console.log'', ''lab-trace.log'', ''lab-qemu.log'']"

definition save_case :: "linux_world \<Rightarrow> path \<Rightarrow> path \<Rightarrow> pystr \<Rightarrow> (pystr, json) dict \<Rightarrow> (machine, unit) act" where
  "save_case h project evidence name shot =
     andthen (each (\<lambda>source m.
       if files m (project @ [py ''build'', py source]) = None then Some (Inr (), m)
       else copy_file (project @ [py ''build'', py source]) (evidence @ [name @ py ''-'' @ py source]) m) lab_logs) (\<lambda>_.
       write_text h (evidence @ [name @ py ''-snapshot.json'']) (render indent_style 0 (JDict shot)))"

definition note_failure :: "linux_world \<Rightarrow> path \<Rightarrow> pystr \<Rightarrow> pystr \<Rightarrow> 'a res \<Rightarrow> (machine, 'a) act" where
  "note_failure h evidence name traceback r =
     (case r of
        Inr x \<Rightarrow> ret x
      | Inl e \<Rightarrow>
          if is_exception e
          then andthen (write_text h (evidence @ [name @ py ''-first-failure.txt'']) traceback) (\<lambda>_. fail e)
          else fail e)"

definition case_name :: "mode \<Rightarrow> int \<Rightarrow> pystr" where
  "case_name mode memory = mode_name mode @ py ''-'' @ str_of_int memory @ py ''m''"

text \<open>The run of one guest, with the guest and its host at the end.\<close>

definition boundary_run ::
  "linux_world \<Rightarrow> path \<Rightarrow> path \<Rightarrow> mode \<Rightarrow> int \<Rightarrow> run_world \<Rightarrow> machine \<Rightarrow>
     ((json list res \<times> guest \<times> host) \<times> machine) option" where
  "boundary_run h project evidence mode memory w m =
     (case drive (rw_guest w) (boundary_cases mode) of
        None \<Rightarrow> None
      | Some (r, g, hst, s) \<Rightarrow>
          (case note_failure h evidence (case_name mode memory) (rw_traceback w) r m of
             None \<Rightarrow> None
           | Some (r1, m1) \<Rightarrow>
               (case close (gw_term (rw_guest w)) (gw_kill (rw_guest w)) (g, hst) of
                  (Some e, g1, h1) \<Rightarrow> Some ((Inl e, g1, h1), m1)
                | (None, g1, h1) \<Rightarrow>
                    (case save_case h project evidence (case_name mode memory) (snd (snapshot (rw_proc w) g1)) m1 of
                       None \<Rightarrow> None
                     | Some (Inl e, m2) \<Rightarrow> Some ((Inl e, g1, h1), m2)
                     | Some (Inr _, m2) \<Rightarrow>
                         Some ((if alive h1 then Inl (AssertionError (py ''QEMU remained running'')) else r1,
                           g1, h1), m2)))))"

definition run_entry :: "int \<Rightarrow> json list \<Rightarrow> json" where
  "run_entry memory js = JDict [(py ''memory_mib'', JInt memory), (py ''cases'', JList js)]"

fun boundary_runs ::
  "linux_world \<Rightarrow> path \<Rightarrow> path \<Rightarrow> mode \<Rightarrow> int list \<Rightarrow> run_world list \<Rightarrow> (machine, json list) act" where
  "boundary_runs h project evidence mode [] ws m = Some (Inr [], m)"
| "boundary_runs h project evidence mode (memory # ms) [] m = None"
| "boundary_runs h project evidence mode (memory # ms) (w # ws) m =
     (case boundary_run h project evidence mode memory w m of
        None \<Rightarrow> None
      | Some ((Inl e, _), m1) \<Rightarrow> Some (Inl e, m1)
      | Some ((Inr js, _), m1) \<Rightarrow>
          andthen (boundary_runs h project evidence mode ms ws) (\<lambda>es. ret (run_entry memory js # es)) m1)"

definition boundaries_main :: "linux_world \<Rightarrow> path \<Rightarrow> path \<Rightarrow> mode \<Rightarrow> run_world list \<Rightarrow> (machine, unit) act" where
  "boundaries_main h project evidence mode ws =
     andthen (boundary_runs h project evidence mode [64, 256] ws) (\<lambda>report.
       write_text h (evidence @ [mode_name mode @ py ''-results.json'']) (render indent_style 0 (JList report)))"

section \<open>What the evidence says\<close>

definition started :: "event list \<Rightarrow> int \<Rightarrow> int \<Rightarrow> bool" where
  "started es pid program \<longleftrightarrow> (\<exists>e \<in> set es. ev_kind e = py ''spawn'' \<and>
     int_fld (ev_fields e) 0 = Inr pid \<and> int_fld (ev_fields e) 2 = Inr program)"

definition exited_with :: "event list \<Rightarrow> int \<Rightarrow> int \<Rightarrow> bool" where
  "exited_with es pid n \<longleftrightarrow> (\<exists>e \<in> set es. ev_kind e = py ''exit'' \<and>
     int_fld (ev_fields e) 0 = Inr pid \<and> int_fld (ev_fields e) 1 = Inr n)"

text \<open>A page fault from user mode that is the only fault of its process.\<close>

definition only_fault :: "event list \<Rightarrow> int \<Rightarrow> event \<Rightarrow> bool" where
  "only_fault es pid e \<longleftrightarrow> e \<in> set es \<and> ev_kind e = py ''fault'' \<and> int_fld (ev_fields e) 0 = Inr pid \<and>
     fld (ev_fields e) 1 = Inr (py ''14'') \<and> fld (ev_fields e) 5 = Inr (py ''3'') \<and>
     (\<forall>e' \<in> set es. ev_kind e' = py ''fault'' \<and> int_fld (ev_fields e') 0 = Inr pid \<longrightarrow> e' = e)"

definition wrote_after :: "event list \<Rightarrow> int \<Rightarrow> event \<Rightarrow> bool" where
  "wrote_after es pid f \<longleftrightarrow> (\<exists>e \<in> set es. ev_id f < ev_id e \<and> ev_kind e = py ''syscall'' \<and>
     int_fld (ev_fields e) 0 = Inr pid \<and> int_fld (ev_fields e) 1 = Inr 1)"

definition fault_contained :: "event list \<Rightarrow> bool" where
  "fault_contained es \<longleftrightarrow> (\<exists>f v e. f \<noteq> v \<and> started es f 6 \<and> started es v 4 \<and> only_fault es f e \<and>
     exited_with es f 142 \<and> exited_with es v 0 \<and> wrote_after es v e)"

lemma select_all: "select p xs = Inr ys \<Longrightarrow> set ys = {x \<in> set xs. p x = Inr True}"
  by (induction xs arbitrary: ys) (auto simp: res_simps split: if_splits)

lemma dict_fold_get:
  "dict_get (fold (\<lambda>(k, v) d. dict_set k v d) ps d) k = Some v \<Longrightarrow> (k, v) \<in> set ps \<or> dict_get d k = Some v"
proof (induction ps arbitrary: d)
  case (Cons p ps)
  obtain k' v' where "p = (k', v')" by (cases p)
  with Cons.IH [of "dict_set k' v' d"] Cons.prems show ?case by (auto simp: dict_get_set split: if_splits)
qed simp

lemma field_pairs_get:
  assumes "field_pairs i j es = Inr d" "dict_get d k = Some v"
  shows "\<exists>e \<in> set es. int_fld (ev_fields e) i = Inr k \<and> int_fld (ev_fields e) j = Inr v"
proof -
  obtain ps where ps: "traverse (\<lambda>e. rbind (int_fld (ev_fields e) i) (\<lambda>a.
       rbind (int_fld (ev_fields e) j) (\<lambda>b. Inr (a, b)))) es = Inr ps"
    "d = fold (\<lambda>(k, v) d. dict_set k v d) ps []"
    using assms(1) unfolding field_pairs_def rbind_Inr by auto
  have "(k, v) \<in> set ps" using dict_fold_get [of ps "[]" k v] assms(2) ps(2) by (simp add: dict_get_def)
  from traverse_mem [OF ps(1) this] show ?thesis by (auto simp: rbind_Inr)
qed

lemma fault_evidence_contained:
  assumes "fault_evidence es = Inr r"
  shows "fault_contained es"
proof -
  obtain programs f v faults exits single wrote where ev:
    "field_pairs 2 0 (of_kind ''spawn'' es) = Inr programs" "dict_at programs 6 = Inr f" "dict_at programs 4 = Inr v"
    "select (pid_is f) (of_kind ''fault'' es) = Inr faults" "fault_witness faults = Inr single"
    "field_pairs 0 1 (of_kind ''exit'' es) = Inr exits"
    "dict_get exits f = Some 142" "dict_get exits v = Some 0"
    "any_of (writes_of v) (filter (\<lambda>e. ev_id (hd faults) < ev_id e) es) = Inr wrote" and passed: single wrote
    using assms unfolding fault_evidence_def Let_def rbind_Inr require_Inr by blast
  obtain e where faults: "faults = [e]" "fld (ev_fields e) 1 = Inr (py ''14'')" "fld (ev_fields e) 5 = Inr (py ''3'')"
    using ev(5) passed(1) by (auto simp: fault_witness_def rbind_Inr split: list.splits if_splits)
  have "only_fault es f e"
    using select_all [OF ev(4)] faults by (auto simp: only_fault_def of_kind_mem pid_is_def rbind_Inr)
  moreover have "started es f 6" "started es v 4"
    using field_pairs_get [OF ev(1)] ev(2,3)
    by (fastforce simp: started_def dict_at_def of_kind_mem split: option.splits)+
  moreover have "exited_with es f 142" "exited_with es v 0"
    using field_pairs_get [OF ev(6)] ev(7,8) by (fastforce simp: exited_with_def of_kind_mem)+
  moreover have "f \<noteq> v" using ev(7,8) by auto
  moreover have "\<exists>x \<in> set (filter (\<lambda>x. ev_id e < ev_id x) es). writes_of v x = Inr True"
    using ev(9) passed(2) faults(1) by (intro any_of_mem) simp
  then have "wrote_after es v e" by (auto simp: wrote_after_def writes_of_def rbind_Inr split: if_splits)
  ultimately show ?thesis unfolding fault_contained_def by blast
qed

lemma expect_inE:
  assumes "expect_in line e m s = Some (Inr u, t)"
  obtains "typed t = typed s @ line @ [13]" "set (looks t) \<subseteq> set (looks s)"
  using assms unfolding expect_in_def claim_def by (elim session_flow) auto

lemma restoredE:
  assumes "restored baseline s = Some (Inr u, t)"
  obtains l where "l \<in> set (looks s)" "free (seen l) = baseline" "only_shell (seen l)"
    "set (looks t) \<subseteq> set (looks s)" "typed t = typed s @ py ''mem'' @ [13] @ py ''cat hello.txt'' @ [13]"
  using assms unfolding restored_def claim_def by (elim session_flow expect_inE) auto

lemma survivor_claimsE:
  assumes "survivor_claims out s = Some (Inr u, t)"
  obtains "t = s" "sublist (py ''status 142'') out" "\<not> sublist (py ''ISOLATION FAILED'') out"
proof -
  have steps: "each (\<lambda>n. claim (P n) (q n)) ns s = Some (Inr x, t) \<Longrightarrow> t = s" for P q ns s t and x :: unit
    by (induction ns arbitrary: s) (auto simp: andthen_Inr claim_Inr)
  show ?thesis
    using assms that unfolding survivor_claims_def claim_def
    by (elim session_elims) (auto dest!: steps [unfolded claim_def])
qed

text \<open>What a case has seen and what it has typed.\<close>

lemma mixed_fault_seen:
  assumes "mixed_fault baseline line s = Some (Inr report, t)"
  shows "(\<exists>l0 \<in> set (looks s). \<exists>l \<in> set (looks s). fault_contained (events_since (sequence (seen l0)) (seen l))) \<and>
    (\<exists>l \<in> set (looks s). free (seen l) = baseline \<and> only_shell (seen l)) \<and>
    typed t = typed s @ line @ [13] @ py ''mem'' @ [13] @ py ''cat hello.txt'' @ [13]"
  using assms unfolding mixed_fault_def
  by (elim session_flow survivor_claimsE restoredE) (drule fault_evidence_contained, auto)

end
