(* ===== verification/Test_Claims.thy ===== *)
theory Test_Claims
  imports Boundaries_Test Lab_Facts
begin

text \<open>
  Properties of the test drivers: what it means that a test has passed, and that a test leaves
  no guest behind.
\<close>

section \<open>The userland test\<close>



text \<open>
  A session that passes: at every command the console is first empty and then holds all the
  answers, and the trace shows two counters that run in turns.
\<close>

definition answers :: "string list" where
  "answers =
     [''PID 1 entered user mode'', ''help | ls | cat'', ''/hello.txt  17 bytes'', ''hello from ramfs'',
      ''file not found'', ''unknown command'', ''unknown embedded'', ''line too long'', ''too many arguments'',
      ''user boundaries passed'', ''process capacity and reclamation passed'', ''waiting  init'',
      ''hello from user mode'', ''counter-a'', ''counter-b'', ''status 142'', ''counter-a pid='', '' step=1 '',
      '' step=2 '', '' step=3 '', '' step=4 '', '' step=5 '']"

definition answers_text :: pystr where
  "answers_text = concat (map (\<lambda>w. py w @ [10]) answers) @ prompt"

lemma answer_given: "w \<in> set answers \<Longrightarrow> sublist (py w) answers_text"
proof -
  have "w \<in> set ws \<Longrightarrow> sublist (py w) (concat (map (\<lambda>w. py w @ [10]) ws) @ r)" for ws r
  proof (induction ws)
    case (Cons v ws)
    show ?case
    proof (cases "w = v")
      case True
      then have "concat (map (\<lambda>w. py w @ [10]) (v # ws)) @ r =
          [] @ py w @ ([10] @ concat (map (\<lambda>w. py w @ [10]) ws) @ r)" by simp
      then show ?thesis by (metis sublist_appendI)
    next
      case False
      with Cons have "sublist (py w) (concat (map (\<lambda>w. py w @ [10]) ws) @ r)" by simp
      then show ?thesis unfolding sublist_def by (metis append.assoc concat.simps(2) list.simps(9))
    qed
  qed simp
  then show "w \<in> set answers \<Longrightarrow> sublist (py w) answers_text" by (simp add: answers_text_def)
qed

lemma no_isolation_failure: "\<not> sublist (py ''ISOLATION FAILED'') answers_text"
proof -
  have "70 \<notin> set answers_text" "70 \<in> set (py ''ISOLATION FAILED'')"
    by (simp_all add: answers_text_def answers_def prompt_def py_def)
  then show ?thesis using set_mono_sublist [of "py ''ISOLATION FAILED''" answers_text] by blast
qed


definition plain_event :: "nat \<Rightarrow> string \<Rightarrow> string list \<Rightarrow> event" where
  "plain_event n kind fs = \<lparr>ev_id = n, ev_kind = py kind, ev_tick = int n, ev_fields = map py fs\<rparr>"

definition counter_events :: "event list" where
  "counter_events =
     [plain_event 1 ''spawn'' [''3'', ''2'', ''4''], plain_event 2 ''spawn'' [''4'', ''2'', ''5''],
      plain_event 3 ''schedule'' [''3'', ''4''], plain_event 4 ''data'' [''3'', ''0x400000'', ''0x7000'', ''0xaa''],
      plain_event 5 ''schedule'' [''4'', ''3''], plain_event 6 ''data'' [''4'', ''0x400000'', ''0x9000'', ''0xbb'']]"

lemma small_numbers:
  "int_of_str (py ''3'') = Inr 3" "int_of_str (py ''4'') = Inr 4"
  "int_of_hex (py ''0xaa'') = Inr 170" "int_of_hex (py ''0xbb'') = Inr 187"
  by (simp_all add: int_of_str_def int_of_hex_def strip_if_def rstrip_if_def lstrip_if_def int_space_def py_def
      decimal_digit_def hex_value_def)


text \<open>The guest while the two counters have run.\<close>

definition user_process :: "int \<Rightarrow> string \<Rightarrow> process" where
  "user_process pid name = \<lparr>p_pid = pid, p_parent = 0, p_program = py name, p_state = py ''ready'',
     p_root = py ''0x1000'', p_slices = 1, p_current = False\<rparr>"

definition settled_guest :: guest where
  "settled_guest = new_guest\<lparr>status := Running, console := answers_text, events := counter_events,
     sequence := 6, ticks := 6, free := 100, processes := [(1, user_process 1 ''init''), (2, user_process 2 ''shell'')]\<rparr>"

definition look_at :: "guest \<Rightarrow> look" where
  "look_at g = \<lparr>l_guest = g, l_now = 0, l_proc = None, l_sock = (\<lambda>_. None)\<rparr>"

lemma seen_at: "seen (look_at g) = g"
  by (simp add: seen_def look_at_def snapshot_def Let_def)

lemma prompt_given: "sublist prompt answers_text"
  unfolding answers_text_def sublist_def by (metis append_Nil2)

lemma can_ask: "\<forall>c \<in> set line. c < 128 \<Longrightarrow> 0 < limit \<Longrightarrow> can (g_command line limit) answers_text"
  by (rule can_command) (simp_all add: prompt_given)

lemma can_look: "can g_snapshot settled_guest"
  using can_snapshot [of "look_at settled_guest"] by (simp add: seen_at)

lemma can_expect: "\<forall>c \<in> set line. c < 128 \<Longrightarrow> e \<in> set answers \<Longrightarrow> can (expect_in line e m) ()"
  unfolding expect_in_def claim_def
  by (rule can_andthen [OF can_ask]) (auto intro: can_basic answer_given)












section \<open>The boundary test\<close>

text \<open>
  C34. A passing case of the boundary test has contained a fault: between two looks at the guest
  a program and a survivor were spawned as different processes, the program took one page fault
  from user mode and no other, it exited with 142, the survivor wrote after the fault and exited
  with 0; the pages of the baseline were free again with only init and the shell left; and the
  case has typed its three commands and nothing else.
\<close>

theorem fault_case_sound:
  assumes "mixed_fault baseline line s = Some (Inr report, t)"
  shows "(\<exists>l0 \<in> set (looks s). \<exists>l \<in> set (looks s).
      fault_contained (events_since (sequence (seen l0)) (seen l))) \<and>
    (\<exists>l \<in> set (looks s). free (seen l) = baseline \<and> only_shell (seen l)) \<and>
    typed t = typed s @ line @ [13] @ py ''mem'' @ [13] @ py ''cat hello.txt'' @ [13]"
  using mixed_fault_seen [OF assms] .

definition fault_events :: "event list" where
  "fault_events =
     [plain_event 1 ''spawn'' [''3'', ''2'', ''6''], plain_event 2 ''spawn'' [''4'', ''2'', ''4''],
      plain_event 3 ''fault'' [''3'', ''14'', ''4'', ''0x0'', ''0x400000'', ''3''], plain_event 4 ''exit'' [''3'', ''142''],
      plain_event 5 ''syscall'' [''4'', ''1''], plain_event 6 ''exit'' [''4'', ''0'']]"

lemma more_numbers:
  "int_of_str (py ''0'') = Inr 0" "int_of_str (py ''1'') = Inr 1" "int_of_str (py ''6'') = Inr 6"
  "int_of_str (py ''142'') = Inr 142"
  by (simp_all add: int_of_str_def strip_if_def rstrip_if_def lstrip_if_def int_space_def py_def decimal_digit_def)

lemma fault_events_pass: "fault_evidence fault_events = Inr (3, 4)"
proof -
  have f: "int_fld (py s # fs) 0 = int_of_str (py s)" "int_fld (x # py s # fs) (Suc 0) = int_of_str (py s)"
    "int_fld [a, b, py s] 2 = int_of_str (py s)" "fld (x # y # fs) (Suc 0) = Inr y"
    "fld [a, b, c, d, e, g] 5 = Inr g" for s fs x y a b c d e g
    by (simp_all add: int_fld_def fld_def py_index_def Let_def)
  have kinds: "of_kind ''spawn'' fault_events = take 2 fault_events" "of_kind ''fault'' fault_events = [fault_events ! 2]"
    "of_kind ''exit'' fault_events = [fault_events ! 3, fault_events ! 5]"
    by (simp_all add: of_kind_def fault_events_def plain_event_def)
  show ?thesis
    unfolding fault_evidence_def kinds
    by (simp add: fault_events_def plain_event_def f field_pairs_def dict_at_def pid_is_def fault_witness_def
        writes_of_def require_def small_numbers more_numbers dict_get_def)
qed

definition fault_guest :: guest where
  "fault_guest = settled_guest\<lparr>events := fault_events\<rparr>"

lemma can_restored: "can (restored 100) ()"
proof -
  have wait: "can (g_wait seen (\<lambda>g. free g = 100 \<and> only_shell g) 8000) ()"
    by (rule can_wait [of _ _ _ settled_guest])
      (simp_all add: seen_at [unfolded look_at_def] only_shell_def programs_of_def settled_guest_def
        user_process_def dict_values_def)
  show ?thesis
    unfolding restored_def claim_def
    by (intro can_andthen [OF can_ask] can_andthen [OF wait] can_andthen [OF can_look]
        can_andthen [OF can_basic(2)] can_expect)
      (simp_all add: py_def answers_def only_shell_def programs_of_def settled_guest_def user_process_def
        dict_values_def)
qed

lemma can_survivor: "can (survivor_claims answers_text) ()"
proof -
  have "can (claim (sublist (py '' step='' @ str_of_nat n @ py '' '') answers_text) (m n)) ()" if "n \<in> set [1..<6]" for n m
  proof -
    have "py '' step='' @ str_of_nat n @ py '' '' \<in> py ` set answers"
      using that by (auto simp: str_of_nat.simps answers_def py_def)
    then show ?thesis unfolding claim_def by (intro can_basic) (auto dest: answer_given)
  qed
  then have steps: "can (each (\<lambda>n. claim (sublist (py '' step='' @ str_of_nat n @ py '' '') answers_text)
      (py ''survivor step '' @ str_of_nat n @ py '' absent'')) [1..<6]) ()"
    by (intro can_each)
  show ?thesis
    unfolding survivor_claims_def
    by (rule can_andthen [of _ "()"], unfold claim_def, rule can_basic(2), rule answer_given, simp add: answers_def,
        rule can_andthen [OF steps [unfolded claim_def]], rule can_basic(2), intro conjI answer_given
        no_isolation_failure, simp add: answers_def)
qed

lemma can_mixed_fault: "can (mixed_fault 100 (py ''run fault counter-a'')) (fault_report (py ''run fault counter-a'') (3, 4) 100)"
proof -
  have es: "events_since (sequence new_guest) fault_guest = fault_events"
    by (simp add: events_since_def fault_guest_def new_guest_def fault_events_def plain_event_def)
  have first: "can g_snapshot new_guest" using can_snapshot [of "look_at new_guest"] by (simp add: seen_at)
  have last: "can g_snapshot fault_guest" using can_snapshot [of "look_at fault_guest"] by (simp add: seen_at)
  have cmd: "can (g_command (py ''run fault counter-a'') 12000) answers_text"
    by (rule can_ask) (simp_all add: py_def)
  have "exits_since (sequence new_guest) fault_guest = 2"
    unfolding exits_since_def es by (simp add: of_kind_def fault_events_def plain_event_def)
  then have wait: "can (g_wait seen (\<lambda>g. exits_since (sequence new_guest) g = 2) 8000) ()"
    by (intro can_wait [of _ _ _ fault_guest]) (simp_all add: seen_at [unfolded look_at_def])
  have ev: "can (of_res (fault_evidence (events_since (sequence new_guest) fault_guest))) (3, 4)"
    unfolding es by (rule can_basic(3)) (rule fault_events_pass)
  show ?thesis
    unfolding mixed_fault_def
    by (rule can_andthen [OF first], rule can_andthen [OF cmd], rule can_andthen [OF can_survivor],
        rule can_andthen [OF wait], rule can_andthen [OF last], rule can_andthen [OF ev],
        rule can_andthen [OF can_restored], rule can_basic(1))
qed

theorem fault_case_sound_witness:
  "\<exists>s report t. mixed_fault 100 (py ''run fault counter-a'') s = Some (Inr report, t) \<and>
     (\<exists>l0 \<in> set (looks s). \<exists>l \<in> set (looks s). fault_contained (events_since (sequence (seen l0)) (seen l)))"
proof -
  obtain s t where run: "mixed_fault 100 (py ''run fault counter-a'') s =
      Some (Inr (fault_report (py ''run fault counter-a'') (3, 4) 100), t)"
    using can_run [OF can_mixed_fault] by blast
  from fault_case_sound [OF run] run show ?thesis by blast
qed

section \<open>What a run leaves behind\<close>












end
