(* ===== verification/Host_Tests.thy ===== *)
theory Host_Tests
  imports Desktop_Launch
begin

text \<open>
  The host regression tests (\<open>tools/test-linux-host.py\<close>) as predicates on the model: each says
  of the modelled function what its test asserts of the real one, with the patches of the test
  as changes of the world.
\<close>

definition raises_runtime :: "string \<Rightarrow> 'a res \<Rightarrow> bool" where
  "raises_runtime needle r = (case r of Inl (RuntimeError m) \<Rightarrow> sublist (py needle) m | _ \<Rightarrow> False)"

text \<open>\<open>qemu_command\<close> is patched to find QEMU; the version query ends as the test says.\<close>

definition tested_qemu :: "path \<Rightarrow> run_outcome \<Rightarrow> unit res" where
  "tested_qemu root outcome = check_qemu Posix (Some (py ''qemu'')) root outcome"

definition version_banner :: "string \<Rightarrow> pystr" where
  "version_banner version = py ''QEMU emulator version '' @ py version"

definition test_old_versions_are_rejected :: "path \<Rightarrow> bool" where
  "test_old_versions_are_rejected root =
     list_all (\<lambda>v. raises_runtime ''>= 6.2.0'' (tested_qemu root (Finished (version_banner v))))
       [''5.2.0'', ''6.1.1'']"

definition test_new_versions :: "path \<Rightarrow> bool" where
  "test_new_versions root =
     list_all (\<lambda>v. tested_qemu root (Finished (version_banner v @ [10] @ py ''Copyright'')) = Inr ())
       [''6.2.0 (Debian 1:6.2+dfsg-2ubuntu6.31)'', ''8.2.2'', ''9.2.2 (custom build)'', ''11.1.0 (v11.1.0-12130)'']"

definition test_unknown_version_is_rejected :: "path \<Rightarrow> bool" where
  "test_unknown_version_is_rejected root =
     list_all (\<lambda>banner. raises_runtime ''Cannot identify'' (tested_qemu root (Finished (py banner))))
       ['''', ''qemu development build'', ''QEMU emulator version 9.2'']"

definition test_version_timeout_is_bounded :: "path \<Rightarrow> bool" where
  "test_version_timeout_is_bounded root = raises_runtime ''no guest started'' (tested_qemu root Timed_Out)"

definition test_failed_version_command_is_not_accepted :: "path \<Rightarrow> bool" where
  "test_failed_version_command_is_not_accepted root = (tested_qemu root Failed_Status = Inl CalledProcessError)"

definition test_missing_executable_is_not_accepted :: "path \<Rightarrow> run_outcome \<Rightarrow> bool" where
  "test_missing_executable_is_not_accepted root outcome =
     raises_runtime ''Missing qemu'' (check_qemu Posix None root outcome)"

text \<open>The executable's name, or the whole path, does not matter to the processor's profile.\<close>

fun argument_after :: "pystr \<Rightarrow> pystr list \<Rightarrow> pystr option" where
  "argument_after a (x # y # xs) = (if x = a then Some y else argument_after a (y # xs))"
| "argument_after a xs = None"

definition test_pic_profile_is_explicit :: "path \<Rightarrow> bool" where
  "test_pic_profile_is_explicit root =
     list_all (\<lambda>os. case qemu_command os (Some (py ''qemu'')) root of
         Inr line \<Rightarrow> argument_after (py ''-cpu'') line = Some (py ''qemu64,-apic'')
       | Inl _ \<Rightarrow> False) [Nt, Posix]"

section \<open>The entry\<close>

text \<open>\<open>qemu_command\<close>, \<open>subprocess.run\<close> and \<open>check_output\<close> are patched.\<close>

definition patched_host :: "linux_world \<Rightarrow> run_outcome \<Rightarrow> linux_world" where
  "patched_host w outcome = w\<lparr>w_os := Posix, w_which := (\<lambda>_. Some (py ''qemu'')),
     w_exec := (\<lambda>args m. (Inr [], files m)), w_version := outcome\<rparr>"

definition entry_options :: "path \<Rightarrow> entry \<Rightarrow> stage \<Rightarrow> options" where
  "entry_options root command_name stage = \<lparr>o_command = command_name, o_root = root, o_llvm_bin = None,
     o_limine_zip = None, o_stage = stage, o_fault = 1, o_attack = 0, o_memory = 64, o_port = 0\<rparr>"

text \<open>
  Neither the compiler nor the build, the image or a guest is reached: no file changes and
  nothing but git is asked.
\<close>

definition blocked :: "machine \<Rightarrow> (unit res \<times> machine) option \<Rightarrow> bool" where
  "blocked m out =
     (case out of
        Some (r, m') \<Rightarrow> raises_runtime ''>= 6.2.0'' r \<and> files m' = files m \<and>
          list_all (\<lambda>line. line \<in> {git_head, git_status}) (drop (length (ran m)) (ran m'))
      | None \<Rightarrow> False)"

definition test_old_qemu_blocks_all_execution_entries :: "linux_world \<Rightarrow> path \<Rightarrow> path \<Rightarrow> machine \<Rightarrow> bool" where
  "test_old_qemu_blocks_all_execution_entries w project root m =
     list_all (\<lambda>(name, stage). blocked m (linux_main (patched_host w (Finished (version_banner ''5.2.0''))) project
         (entry_options root name stage) m))
       [(Doctor, LAB), (Run, Stage 0), (Run, LAB), (Lab, LAB), (Check, LAB)]"

text \<open>\<open>build\<close> and \<open>prepare\<close> never ask for QEMU: its answers change nothing.\<close>

definition test_build_and_prepare_do_not_require_qemu ::
  "linux_world \<Rightarrow> run_outcome \<Rightarrow> path \<Rightarrow> path \<Rightarrow> machine \<Rightarrow> bool" where
  "test_build_and_prepare_do_not_require_qemu w outcome project root m =
     list_all (\<lambda>name. linux_main (w\<lparr>w_version := outcome\<rparr>) project (entry_options root name LAB) m =
         linux_main w project (entry_options root name LAB) m) [Build, Prepare]"

section \<open>The bridge\<close>

definition manual_request :: "int \<Rightarrow> request" where
  "manual_request port = \<lparr>target = py ''/api/manual'',
     headers = [(py ''Host'', py ''127.0.0.1:'' @ str_of_int port)], content = []\<rparr>"

text \<open>\<open>json.load(response)[key]\<close>, if it is a text.\<close>

definition response_text :: "reply \<Rightarrow> string \<Rightarrow> pystr option" where
  "response_text rep key =
     (case json_loads (payload rep) of
        Inr v \<Rightarrow> (case manifest_entry v key of Inr (VStr s) \<Rightarrow> Some s | _ \<Rightarrow> None)
      | Inl _ \<Rightarrow> None)"

definition test_missing_manual_returns_json_and_keeps_serving ::
  "get_world \<Rightarrow> pystr \<Rightarrow> int \<Rightarrow> laboratory \<Rightarrow> bool" where
  "test_missing_manual_returns_json_and_keeps_serving w page port lab =
     (case do_GET (w\<lparr>manual := Inl (FileNotFoundError [])\<rparr>) port (manual_request port) lab of
        (Answer missing, lab1) \<Rightarrow>
          code missing = 404 \<and>
          (case response_text missing ''error'' of Some m \<Rightarrow> sublist (py ''Manual is missing'') m | None \<Rightarrow> False) \<and>
          (case do_GET (w\<lparr>manual := Inr page\<rparr>) port (manual_request port) lab1 of
             (Answer found, _) \<Rightarrow> response_text found ''text'' = Some page
           | _ \<Rightarrow> False)
      | _ \<Rightarrow> False)"

definition test_busy_port_explains_recovery ::
  "lab_world \<Rightarrow> int \<Rightarrow> bool" where
  "test_busy_port_explains_recovery w port =
     (case serve_main port 64 Address_In_Use w [] None w of
        Some (Some (SystemExit m), None) \<Rightarrow>
          sublist (py ''no guest started'') m \<and> sublist (py ''--port 0'') m
      | _ \<Rightarrow> False)"

end
