(* ===== verification/Host_Claims.thy ===== *)
theory Host_Claims
  imports Host_Tests Server_Claims
begin

text \<open>The host regression tests hold of the model, in every world.\<close>

section \<open>The preflight\<close>
















section \<open>The entry\<close>




text \<open>What the build and the image ask of the world does not include QEMU's version.\<close>

lemma version_free_commands [simp]:
  "check_output (w\<lparr>w_version := v\<rparr>) = check_output w" "run_command (w\<lparr>w_version := v\<rparr>) = run_command w"
  "tool (w\<lparr>w_version := v\<rparr>) = tool w"
  by (simp_all add: fun_eq_iff check_output_def run_command_def tool_def Let_def cong: option.case_cong)

lemma version_free_build [simp]: "build (w\<lparr>w_version := v\<rparr>) = build w"
proof -
  have "build_user (w\<lparr>w_version := v\<rparr>) = build_user w" "compile_kernel (w\<lparr>w_version := v\<rparr>) = compile_kernel w"
    "link_kernel (w\<lparr>w_version := v\<rparr>) = link_kernel w" "check_elf (w\<lparr>w_version := v\<rparr>) = check_elf w"
    by (intro ext; simp add: build_user_def compile_kernel_def link_kernel_def check_elf_def)+
  note free = this version_free_commands
  show ?thesis by (intro ext) (unfold build_def free, rule refl)
qed

lemma version_free_image [simp]: "image (w\<lparr>w_version := v\<rparr>) = image w"
proof -
  have "compare_file (w\<lparr>w_version := v\<rparr>) = compare_file w" "make_image (w\<lparr>w_version := v\<rparr>) = make_image w"
    by (intro ext; simp add: compare_file_def make_image_def)+
  then show ?thesis by (intro ext) (simp add: image_def)
qed

lemma version_free_prepare [simp]: "prepare (w\<lparr>w_version := v\<rparr>) = prepare w"
  by (simp add: fun_eq_iff prepare_def cong: option.case_cong)


section \<open>The bridge\<close>







section \<open>The property\<close>



end
