(* ===== verification/Http_Client.thy ===== *)
theory Http_Client
  imports Desktop_Launch Test_Guest
begin

text \<open>
  What the three HTTP clients share (\<open>tools/test-lab-bridge.py\<close>, \<open>tools/test-linux-package.py\<close>
  and the probe of the desktop evidence): how a request goes out through \<open>urllib\<close>, and Python's
  operators on the values \<open>json.loads\<close> returns.
\<close>

section \<open>Values read from JSON\<close>

text \<open>\<open>s in v\<close>, \<open>for x in v\<close> and \<open>v[i]\<close>; \<open>v[key]\<close> is \<open>manifest_entry\<close>.\<close>

definition js_in :: "pystr \<Rightarrow> js_value \<Rightarrow> bool res" where
  "js_in s v =
     (case v of
        VStr t \<Rightarrow> Inr (sublist s t)
      | VList xs \<Rightarrow> Inr (VStr s \<in> set xs)
      | VDict d \<Rightarrow> Inr (s \<in> fst ` set d)
      | _ \<Rightarrow> Inl TypeError)"

definition js_iter :: "js_value \<Rightarrow> js_value list res" where
  "js_iter v =
     (case v of
        VList xs \<Rightarrow> Inr xs
      | VDict d \<Rightarrow> Inr (map (\<lambda>kv. VStr (fst kv)) d)
      | VStr s \<Rightarrow> Inr (map (\<lambda>c. VStr [c]) s)
      | _ \<Rightarrow> Inl TypeError)"

definition js_index :: "js_value \<Rightarrow> int \<Rightarrow> js_value res" where
  "js_index v i =
     (case v of
        VList xs \<Rightarrow> py_index xs i
      | VStr s \<Rightarrow> rbind (py_index s i) (\<lambda>c. Inr (VStr [c]))
      | VDict d \<Rightarrow> Inl (KeyError (str_of_int i))
      | _ \<Rightarrow> Inl TypeError)"

text \<open>
  \<open>{x[key] for x in v} == {i, j}\<close>: members have to be hashable, and numbers are compared as
  numbers; what a floating-point text is worth is a parameter.
\<close>

definition equals_int :: "(pystr \<Rightarrow> int option) \<Rightarrow> int \<Rightarrow> js_value \<Rightarrow> bool" where
  "equals_int float_int i v =
     (case v of
        VInt k \<Rightarrow> k = i
      | VBool b \<Rightarrow> (if b then 1 else 0) = i
      | VFloat s \<Rightarrow> float_int s = Some i
      | _ \<Rightarrow> False)"

definition hashable :: "js_value \<Rightarrow> bool" where
  "hashable v = (case v of VList _ \<Rightarrow> False | VDict _ \<Rightarrow> False | _ \<Rightarrow> True)"

definition members_are ::
  "(js_value \<Rightarrow> bool) list \<Rightarrow> string \<Rightarrow> js_value \<Rightarrow> bool res" where
  "members_are ps key v =
     rbind (js_iter v) (\<lambda>xs.
     rbind (traverse (\<lambda>x. rbind (manifest_entry x key) (\<lambda>y. if hashable y then Inr y else Inl TypeError)) xs) (\<lambda>ys.
       Inr ((\<forall>y \<in> set ys. \<exists>p \<in> set ps. p y) \<and> (\<forall>p \<in> set ps. \<exists>y \<in> set ys. p y))))"

section \<open>A request on the wire\<close>

text \<open>
  The headers the program supplies; \<open>urllib\<close> adds \<open>Content-Length\<close> to a body and \<open>Host\<close> unless
  it is supplied. Header names are compared without case. A request with a body is a POST.
\<close>

definition wire_request :: "int \<Rightarrow> string \<Rightarrow> json option \<Rightarrow> (pystr \<times> pystr) list \<Rightarrow> request" where
  "wire_request port path body supplied =
     \<lparr>target = py path,
      headers =
        (if py ''Host'' \<in> fst ` set supplied then [] else [(py ''Host'', py ''127.0.0.1:'' @ str_of_int port)]) @
        supplied @
        (case body of None \<Rightarrow> [] | Some j \<Rightarrow> [(py ''Content-Length'', str_of_nat (length (dumps j)))]),
      content = (case body of None \<Rightarrow> [] | Some j \<Rightarrow> dumps j)\<rparr>"

text \<open>\<open>supplied.update(headers)\<close> behind the content type of a body.\<close>

definition supplied_headers :: "json option \<Rightarrow> (string \<times> string) list \<Rightarrow> (pystr \<times> pystr) list" where
  "supplied_headers body extra =
     fold (\<lambda>(k, v). dict_set (py k) (py v)) extra
       (case body of None \<Rightarrow> [] | Some _ \<Rightarrow> [(py ''Content-Type'', json_mime)])"

text \<open>\<open>json.loads\<close> of the bytes of an API path, the bytes themselves of a page.\<close>

datatype received = Parsed js_value | Page "nat list"

definition read_response :: "string \<Rightarrow> nat list \<Rightarrow> received res" where
  "read_response path bytes =
     (if prefix (py ''/api/'') (py path) then rbind (json_loads bytes) (\<lambda>v. Inr (Parsed v))
      else Inr (Page bytes))"

definition parsed_of :: "received \<Rightarrow> js_value res" where
  "parsed_of r = (case r of Parsed v \<Rightarrow> Inr v | Page _ \<Rightarrow> Inl TypeError)"

text \<open>What the bridge's reader is relied on for: it reads a printed body as \<open>json.loads\<close> does.\<close>

fun bridge_value :: "js_value \<Rightarrow> parsed" where
  "bridge_value (VDict d) = Parsed_Dict (map (\<lambda>(k, v). (k, bridge_value v)) d)"
| "bridge_value (VStr s) = Parsed_Str s"
| "bridge_value _ = Parsed_Other"

definition reads_json :: "(nat list \<Rightarrow> parsed res) \<Rightarrow> bool" where
  "reads_json reader \<longleftrightarrow> (\<forall>bs. ascii_text bs \<longrightarrow> reader bs = rbind (json_loads bs) (\<lambda>v. Inr (bridge_value v)))"

end
