(* ===== verification/Bridge_Test.thy ===== *)
theory Bridge_Test
  imports Http_Client Lab_Facts
begin

text \<open>
  The bridge test (\<open>tools/test-lab-bridge.py\<close>): it serves the handlers of \<open>Lab_Server\<close> in its own
  process with one real guest, and sends them requests. The test therefore runs on the model of
  the bridge itself; the world only answers what the bridge and the guest ask of it.
\<close>

section \<open>The bench\<close>

text \<open>
  One tick per operation of the test: the clock, what the guest's readers have taken in since
  the last one (console text or trace lines), and the world of the handlers.
\<close>

record tick =
  t_now :: int                                \<comment> \<open>milliseconds\<close>
  t_news :: "(pystr + pystr list) list"
  t_get :: get_world
  t_post :: lab_world

text \<open>
  The laboratory with the guests it has given up, how many of its guests the test has put on
  its list, the bytes sent to guests, and the results noted.
\<close>

record bench =
  b_ticks :: "tick list"
  b_lab :: laboratory
  b_retired :: "host list"
  b_noted :: nat
  b_sent :: "nat list"
  b_results :: "(string \<times> nat) list"

definition news :: "pystr + pystr list \<Rightarrow> laboratory \<Rightarrow> laboratory" where
  "news n = (case n of
       Inl s \<Rightarrow> observe (console_chunk s)
     | Inr ls \<Rightarrow> observe (\<lambda>g. snd (guest_events g ls)))"

definition take_tick :: "(bench, tick) act" where
  "take_tick s = (case b_ticks s of
       [] \<Rightarrow> None
     | t # ts \<Rightarrow> Some (Inr t, s\<lparr>b_ticks := ts, b_lab := fold news (t_news t) (b_lab s)\<rparr>))"

text \<open>The guest a restart gives up, as its \<open>close\<close> leaves it.\<close>

definition given_up :: "lab_world \<Rightarrow> int \<Rightarrow> request \<Rightarrow> laboratory \<Rightarrow> host list" where
  "given_up w port r lab =
     (if local_request port r \<and> target r = py ''/api/restart'' \<and> \<not> isl (post_body w r)
      then (case lab_close w lab of
              (None, lab') \<Rightarrow> (case lab_guest lab' of None \<Rightarrow> [] | Some (_, h) \<Rightarrow> [h])
            | (Some _, _) \<Rightarrow> [])
      else [])"

section \<open>Requests\<close>

text \<open>A request with a body is a POST; the bytes sent to the guest come with the answer.\<close>

definition handle ::
  "tick \<Rightarrow> int \<Rightarrow> request \<Rightarrow> bool \<Rightarrow> laboratory \<Rightarrow> (answer \<times> laboratory \<times> nat list \<times> host list) option" where
  "handle t port r has_body lab =
     (if has_body
      then map_option (\<lambda>(a, lab', sent). (a, lab', sent, given_up (t_post t) port r lab)) (do_POST (t_post t) port r lab)
      else (case do_GET (t_get t) port r lab of (a, lab') \<Rightarrow> Some (a, lab', [], [])))"

text \<open>
  \<open>request\<close>: a dropped connection raises, and so does a code other than the expected one (the
  message is a tuple that begins with the path).
\<close>

definition bridge_request ::
  "int \<Rightarrow> string \<Rightarrow> nat \<Rightarrow> json option \<Rightarrow> (string \<times> string) list \<Rightarrow> (bench, received) act" where
  "bridge_request port path expected body extra =
     andthen take_tick (\<lambda>t. \<lambda>s.
       case handle t port (wire_request port path body (supplied_headers body extra)) (body \<noteq> None) (b_lab s) of
         None \<Rightarrow> None
       | Some (a, lab', sent, old) \<Rightarrow>
           (let s' = s\<lparr>b_lab := lab', b_sent := b_sent s @ sent, b_retired := b_retired s @ old\<rparr>
            in case a of
                 Dropped e \<Rightarrow> Some (Inl (OSError []), s')
               | Answer rep \<Rightarrow>
                   if code rep \<noteq> expected then Some (Inl (AssertionError (py path)), s')
                   else Some (read_response path (payload rep), s'\<lparr>b_results := b_results s @ [(path, expected)]\<rparr>)))"

definition bridge_api :: "int \<Rightarrow> string \<Rightarrow> nat \<Rightarrow> json option \<Rightarrow> (bench, js_value) act" where
  "bridge_api port path expected body =
     andthen (bridge_request port path expected body []) (\<lambda>r. of_res (parsed_of r))"

definition assert_that :: "bool res \<Rightarrow> (bench, unit) act" where
  "assert_that r = andthen (of_res r) (\<lambda>b. check_that b (AssertionError []))"

definition text_body :: "pystr \<Rightarrow> json option" where
  "text_body s = Some (JDict [(py ''text'', JStr s)])"

definition rejections :: "(string \<times> nat \<times> json option \<times> (string \<times> string) list) list" where
  "rejections =
     [(''/api/state?after=invalid'', 400, None, []),
      (''/../README.md'', 404, None, []),
      (''/api/state'', 403, None, [(''Host'', ''outside.example'')]),
      (''/api/input'', 403, text_body (py ''help'' @ [13]), [(''Origin'', ''http://outside.example'')]),
      (''/api/input'', 400, Some (JList []), []),
      (''/api/input'', 400, text_body (replicate 257 120), []),
      (''/api/input'', 400, text_body [20320, 22909], [])]"

definition bridge_reject :: "int \<Rightarrow> string \<times> nat \<times> json option \<times> (string \<times> string) list \<Rightarrow> (bench, unit) act" where
  "bridge_reject port = (\<lambda>(path, expected, body, extra).
     andthen (bridge_request port path expected body extra) (\<lambda>_. ret ()))"

definition bridge_rejections :: "int \<Rightarrow> (bench, unit) act" where
  "bridge_rejections port = each (bridge_reject port) rejections"

section \<open>The guest beside the requests\<close>

definition bench_restart :: "(bench, unit) act" where
  "bench_restart =
     andthen take_tick (\<lambda>t. \<lambda>s.
       case lab_restart (t_post t) (b_lab s) of
         None \<Rightarrow> None
       | Some (Some e, lab') \<Rightarrow> Some (Inl e, s\<lparr>b_lab := lab'\<rparr>)
       | Some (None, lab') \<Rightarrow> Some (Inr (), s\<lparr>b_lab := lab'\<rparr>))"

text \<open>\<open>guests.append(lab.guest)\<close>, and \<open>lab.guest\<close>.\<close>

definition note_guest :: "(bench, unit) act" where
  "note_guest s = Some (Inr (), s\<lparr>b_noted := Suc (b_noted s)\<rparr>)"

definition bench_guest :: "(bench, guest \<times> host) act" where
  "bench_guest s = Some (case lab_guest (b_lab s) of None \<Rightarrow> Inl AttributeError | Some gh \<Rightarrow> Inr gh, s)"

fun bench_wait ::
  "(guest \<Rightarrow> bool) \<Rightarrow> int \<Rightarrow> tick list \<Rightarrow> laboratory \<Rightarrow> (unit res \<times> tick list \<times> laboratory) option" where
  "bench_wait p deadline [] lab = None"
| "bench_wait p deadline (t # ts) lab =
     (let lab' = fold news (t_news t) lab
      in case lab_guest lab' of
           None \<Rightarrow> Some (Inl AttributeError, ts, lab')
         | Some (g, h) \<Rightarrow>
             (case wait_decide p deadline (t_now t, g) of
                Some r \<Rightarrow> Some (r, ts, lab')
              | None \<Rightarrow> bench_wait p deadline ts lab'))"

definition guest_waits :: "(guest \<Rightarrow> bool) \<Rightarrow> (bench, unit) act" where
  "guest_waits p =
     andthen take_tick (\<lambda>t. \<lambda>s.
       map_option (\<lambda>(r, ts, lab'). (r, s\<lparr>b_ticks := ts, b_lab := lab'\<rparr>))
         (bench_wait p (t_now t + 8000) (b_ticks s) (b_lab s)))"

section \<open>The test\<close>

definition has_status :: "string \<Rightarrow> js_value \<Rightarrow> bool res" where
  "has_status expected state = rbind (manifest_entry state ''status'') (\<lambda>v. Inr (v = VStr (py expected)))"

definition bridge_begin :: "int \<Rightarrow> (bench, js_value) act" where
  "bridge_begin port =
     andthen bench_restart (\<lambda>_.
     andthen note_guest (\<lambda>_.
     andthen (bridge_request port ''/'' 200 None []) (\<lambda>page.
     andthen (assert_that (case page of
         Page bytes \<Rightarrow> Inr (sublist (py ''MiniLinux Console'') bytes) | Parsed _ \<Rightarrow> Inl TypeError)) (\<lambda>_.
     andthen (bridge_api port ''/api/state'' 200 None) (\<lambda>initial.
     andthen (assert_that (has_status ''running'' initial)) (\<lambda>_. ret initial))))))"

text \<open>\<open>e["kind"] == "syscall" and e["fields"][1] == "6"\<close>: the guest's kernel opened a file.\<close>

definition opened_file :: "js_value \<Rightarrow> bool res" where
  "opened_file e =
     rbind (manifest_entry e ''kind'') (\<lambda>k.
       if k \<noteq> VStr (py ''syscall'') then Inr False
       else rbind (manifest_entry e ''fields'') (\<lambda>fs. rbind (js_index fs 1) (\<lambda>v. Inr (v = VStr (py ''6'')))))"

definition bridge_input :: "int \<Rightarrow> (bench, unit) act" where
  "bridge_input port =
     andthen (bridge_request port ''/api/input'' 200 (text_body (py ''cat hello.txt'' @ [13])) []) (\<lambda>_.
     andthen (guest_waits (\<lambda>g. sublist (py ''hello from ramfs'') (console g))) (\<lambda>_.
     andthen (bridge_api port ''/api/state'' 200 None) (\<lambda>state.
       assert_that (rbind (manifest_entry state ''events'') (\<lambda>es. rbind (js_iter es) (any_of opened_file))))))"

definition bridge_stop :: "int \<Rightarrow> (bench, unit) act" where
  "bridge_stop port =
     andthen (bridge_request port ''/api/stop'' 200 (Some (JDict [])) []) (\<lambda>_.
     andthen bench_guest (\<lambda>(g, h).
     andthen (assert_that (Inr (\<not> alive h))) (\<lambda>_.
     andthen (bridge_api port ''/api/state'' 200 None) (\<lambda>state.
     andthen (assert_that (has_status ''stopped'' state)) (\<lambda>_.
     andthen (bridge_request port ''/api/input'' 503 (text_body (py ''help'' @ [13])) []) (\<lambda>_. ret ()))))))"

text \<open>A fresh state: another epoch, a running guest, an empty transcript, init and the shell.\<close>

definition fresh_state :: "(pystr \<Rightarrow> int option) \<Rightarrow> js_value \<Rightarrow> js_value \<Rightarrow> (bench, unit) act" where
  "fresh_state float_int initial fresh =
     andthen (assert_that
       (rbind (manifest_entry fresh ''epoch'') (\<lambda>e1. rbind (manifest_entry initial ''epoch'') (\<lambda>e0.
          if e1 = e0 then Inr False else has_status ''running'' fresh)))) (\<lambda>_.
     andthen (assert_that (rbind (manifest_entry fresh ''console'') (\<lambda>c.
       rbind (js_in (py ''hello from ramfs'') c) (\<lambda>b. Inr (\<not> b))))) (\<lambda>_.
       assert_that (rbind (manifest_entry fresh ''processes'') (\<lambda>ps.
         members_are [equals_int float_int 1, equals_int float_int 2] ''pid'' ps))))"

definition bridge_again :: "(pystr \<Rightarrow> int option) \<Rightarrow> int \<Rightarrow> js_value \<Rightarrow> (bench, unit) act" where
  "bridge_again float_int port initial =
     andthen (bridge_request port ''/api/restart'' 200 (Some (JDict [])) []) (\<lambda>_.
     andthen note_guest (\<lambda>_.
     andthen (bridge_api port ''/api/state'' 200 None) (\<lambda>fresh.
       fresh_state float_int initial fresh)))"

definition bridge_body :: "(pystr \<Rightarrow> int option) \<Rightarrow> int \<Rightarrow> (bench, unit) act" where
  "bridge_body float_int port =
     andthen (bridge_begin port) (\<lambda>initial.
     andthen (bridge_rejections port) (\<lambda>_.
     andthen (bridge_input port) (\<lambda>_.
     andthen (bridge_stop port) (\<lambda>_.
       bridge_again float_int port initial))))"

text \<open>
  The \<open>finally\<close> clause closes the laboratory and asks whether the QEMU of every guest on the
  list has ended; an exception of its own replaces the one of the body.
\<close>

definition noted_hosts :: "bench \<Rightarrow> laboratory \<Rightarrow> host list" where
  "noted_hosts s lab =
     take (b_noted s) (b_retired s @ (case lab_guest lab of None \<Rightarrow> [] | Some (_, h) \<Rightarrow> [h]))"

definition bridge_finish :: "lab_world \<Rightarrow> (bench, unit) act" where
  "bridge_finish w = (\<lambda>s.
     case lab_close w (b_lab s) of
       (Some e, lab') \<Rightarrow> Some (Inl e, s\<lparr>b_lab := lab'\<rparr>)
     | (None, lab') \<Rightarrow>
         check_that (\<forall>h \<in> set (noted_hosts s lab'). \<not> alive h) (AssertionError []) (s\<lparr>b_lab := lab'\<rparr>))"

definition result_json :: "string \<times> nat \<Rightarrow> json" where
  "result_json = (\<lambda>(path, expected). JDict [(py ''path'', JStr (py path)), (py ''status'', JInt (int expected))])"

text \<open>\<open>main\<close> on a new laboratory; the text it writes to \<open>build/bridge-results.json\<close>.\<close>

definition bridge_main ::
  "(pystr \<Rightarrow> int option) \<Rightarrow> int \<Rightarrow> tick list \<Rightarrow> lab_world \<Rightarrow> (pystr res \<times> bench) option" where
  "bridge_main float_int port ts w_end =
     andthen (finally_do (bridge_body float_int port) (bridge_finish w_end))
       (\<lambda>_. \<lambda>s. Some (Inr (render indent_style 0 (JList (map result_json (b_results s)))), s))
       \<lparr>b_ticks = ts, b_lab = new_laboratory 64, b_retired = [], b_noted = 0, b_sent = [], b_results = []\<rparr>"

end
