(* ===== verification/Bridge_Claims.thy ===== *)
theory Bridge_Claims
  imports Bridge_Test Server_Claims
begin

text \<open>
  What the bridge test means: its invalid requests are refused by the modelled handlers whatever
  the laboratory does, and however the test ends it leaves no guest running.
\<close>

section \<open>Refusals\<close>

text \<open>A tick under which the request is refused with an error, and nothing happens.\<close>

definition refuses :: "tick \<Rightarrow> int \<Rightarrow> string \<times> nat \<times> json option \<times> (string \<times> string) list \<Rightarrow> bool" where
  "refuses t port = (\<lambda>(path, expected, body, extra). \<forall>lab. \<exists>m.
     handle t port (wire_request port path body (supplied_headers body extra)) (body \<noteq> None) lab =
       Some (Answer (error_reply expected (py m)), lab, [], []))"

lemma error_json: "json_loads (payload (error_reply n (py m))) = Inr (VDict [(py ''error'', VStr (py m))])"
proof -
  have "json_ok (JDict [(py ''error'', JStr (py m))])" using char_ok_py by auto
  from loads_render [OF styles_ok(1) this, of 0] show ?thesis
    by (simp add: error_reply_def dumps_render [of _ 0] del: dumps.simps render.simps)
qed

lemma refused_request:
  assumes "refuses t port (path, expected, body, extra)" "b_ticks s = t # ts"
  shows "bridge_reject port (path, expected, body, extra) s = Some (Inr (), s\<lparr>b_ticks := ts,
    b_lab := fold news (t_news t) (b_lab s), b_results := b_results s @ [(path, expected)]\<rparr>)"
proof -
  obtain m where m: "handle t port (wire_request port path body (supplied_headers body extra)) (body \<noteq> None)
      (fold news (t_news t) (b_lab s)) = Some (Answer (error_reply expected (py m)), fold news (t_news t) (b_lab s), [], [])"
    using assms(1) unfolding refuses_def by auto
  have "\<exists>r. read_response path (payload (error_reply expected (py m))) = Inr r"
    by (simp add: read_response_def error_json)
  with m assms(2) show ?thesis
    by (auto simp: bridge_reject_def bridge_request_def andthen_def take_tick_def Let_def)
qed

lemma refused_requests:
  assumes "length ts = length qs" "\<forall>t \<in> set ts. \<forall>q \<in> set qs. refuses t port q" "b_ticks s = ts @ rest"
  shows "each (bridge_reject port) qs s =
    Some (Inr (), s\<lparr>b_ticks := rest, b_lab := fold (\<lambda>t. fold news (t_news t)) ts (b_lab s),
      b_results := b_results s @ map (\<lambda>(path, expected, _). (path, expected)) qs\<rparr>)"
  using assms
proof (induction qs arbitrary: ts s)
  case (Cons q qs)
  obtain path expected body extra where q: "q = (path, expected, body, extra)" by (cases q)
  obtain t us where ts: "ts = t # us" using Cons.prems(1) by (cases ts) auto
  let ?u = "s\<lparr>b_ticks := us @ rest, b_lab := fold news (t_news t) (b_lab s), b_results := b_results s @ [(path, expected)]\<rparr>"
  have "bridge_reject port q s = Some (Inr (), ?u)"
    using refused_request [of t port path expected body extra s "us @ rest"] Cons.prems(2,3) q ts by simp
  moreover have "each (bridge_reject port) qs ?u =
    Some (Inr (), ?u\<lparr>b_ticks := rest, b_lab := fold (\<lambda>t. fold news (t_news t)) us (b_lab ?u),
      b_results := b_results ?u @ map (\<lambda>(path, expected, _). (path, expected)) qs\<rparr>)"
    using Cons.prems ts by (intro Cons.IH) auto
  ultimately show ?case by (simp add: q ts andthen_of)
qed simp

section \<open>The invalid requests of the test\<close>

text \<open>
  What is relied on: the bridge reads JSON as \<open>json.loads\<close>, and the file system resolves the
  path above the web directory to something outside of it, or to no file.
\<close>

definition guarded :: "tick \<Rightarrow> bool" where
  "guarded t \<longleftrightarrow> reads_json (loads (t_post t)) \<and>
     (\<exists>p. resolve (t_get t) (py ''../README.md'') = Inr p \<and>
        \<not> (prefix (web_root (t_get t)) p \<and> is_file (t_get t) p))"

lemma wire_local: "local_request port (wire_request port path body (supplied_headers body []))"
  by (cases body) (auto simp: local_request_def header_or_def header_def wire_request_def supplied_headers_def
      allowed_hosts_def lower_ascii_def py_def)

lemma wire_target [simp]: "target (wire_request port path body h) = py path"
  by (simp add: wire_request_def)

lemma bad_cursor: "\<exists>e. int_of_str (query_first (py ''after=invalid'') (py ''after'') (py ''0'')) = Inl e"
proof -
  have "query_pair (py ''after=invalid'') = Some (py ''after'', py ''invalid'')"
    using query_pair_def [of "py ''after=invalid''"] split_first_append [of 61 "py ''after''" "py ''invalid''"]
      unquote_plus_plain [of "py ''after''"] unquote_plus_plain [of "py ''invalid''"]
    by (simp add: py_def)
  then have "query_first (py ''after=invalid'') (py ''after'') (py ''0'') = py ''invalid''"
    by (simp add: query_first_def split_on_free List.map_filter_simps py_def)
  moreover have "\<exists>e. int_of_str (py ''invalid'') = Inl e"
    by (simp add: int_of_str_def py_def strip_if_def rstrip_if_def lstrip_if_def int_space_def decimal_digit_def)
  ultimately show ?thesis by simp
qed

lemma get_refusals:
  "refuses t port (''/api/state?after=invalid'', 400, None, [])"
  "guarded t \<Longrightarrow> refuses t port (''/../README.md'', 404, None, [])"
  "refuses t port (''/api/state'', 403, None, [(''Host'', ''outside.example'')])"
proof -
  have "urlparse (bracket_error w) (py ''/api/state?after=invalid'') =
      Inr \<lparr>u_scheme = [], u_netloc = [], u_path = py ''/api/state'', u_query = py ''after=invalid''\<rparr>" for w :: get_world
    using urlparse_plain(1) [of "py ''api/state''" "py ''after=invalid''"] by (simp add: py_def)
  then show "refuses t port (''/api/state?after=invalid'', 400, None, [])"
    using bad_cursor wire_local [of port "''/api/state?after=invalid''" None]
    by (auto simp: refuses_def handle_def do_GET_def)
next
  assume g: "guarded t"
  have url: "urlparse (bracket_error w) (py ''/../README.md'') =
      Inr \<lparr>u_scheme = [], u_netloc = [], u_path = py ''/../README.md'', u_query = []\<rparr>" for w :: get_world
    using urlparse_plain(2) [of "py ''../README.md''" "[]"] by (simp add: py_def)
  have "lstrip_if (\<lambda>c. c = 47) (py ''/../README.md'') = py ''../README.md''"
    by (simp add: lstrip_if_def py_def)
  with g show "refuses t port (''/../README.md'', 404, None, [])"
    using wire_local [of port "''/../README.md''" None] url
    by (auto simp: refuses_def handle_def do_GET_def get_file_def guarded_def)
next
  have "\<not> local_request port (wire_request port ''/api/state'' None (supplied_headers None [(''Host'', ''outside.example'')]))"
    by (simp add: local_request_def header_or_def header_def wire_request_def supplied_headers_def
        allowed_hosts_def lower_ascii_def py_def)
  then show "refuses t port (''/api/state'', 403, None, [(''Host'', ''outside.example'')])"
    by (auto simp: refuses_def handle_def do_GET_def)
qed

text \<open>A POST of the test: the bridge reads back what was printed.\<close>

lemma wire_headers:
  "header (wire_request port path (Some j) (supplied_headers (Some j) [])) ''Content-Length'' =
     Some (str_of_nat (length (dumps j)))"
  "header (wire_request port path (Some j) (supplied_headers (Some j) [])) ''Content-Type'' = Some json_mime"
  by (simp_all add: header_def wire_request_def supplied_headers_def lower_ascii_def py_def)

lemma wire_body:
  assumes "reads_json (loads w)" "json_ok j" "0 < length (dumps j)" "length (dumps j) \<le> 1024"
  shows "post_body w (wire_request port path (Some j) (supplied_headers (Some j) [])) =
    (case bridge_value (of_json j) of Parsed_Dict d \<Rightarrow> Inr d | _ \<Rightarrow> Inl (ValueError (py ''Expected a JSON object'')))"
proof -
  let ?r = "wire_request port path (Some j) (supplied_headers (Some j) [])"
  have "int_of_str (str_of_nat (length (dumps j))) = Inr (int (length (dumps j)))"
    using int_of_str_str_of_int [of "int (length (dumps j))"] by (simp add: str_of_int_def)
  moreover have "hd (split_on 59 json_mime) = json_mime" by (simp add: split_on_free py_def json_mime_def)
  moreover have "loads w (dumps j) = Inr (bridge_value (of_json j))"
    using assms(1) ascii_styles(1) [of 0 j] loads_render [OF styles_ok(1) assms(2), of 0]
    unfolding reads_json_def dumps_render [of j 0] by simp
  moreover have "content ?r = dumps j" by (simp add: wire_request_def)
  ultimately show ?thesis using assms(3,4)
    by (simp add: post_body_def header_or_def wire_headers del: dumps.simps)
qed

text \<open>The printed length of \<open>{"text": s}\<close>.\<close>

lemma length_text_dumps:
  "length (dumps (JDict [(py ''text'', JStr s)])) = length (concat (map escape_char s)) + 12"
  by (simp add: comma_join_def json_string_def escape_char_def py_def)

lemma length_plain: "\<forall>c \<in> set s. 32 \<le> c \<and> c < 127 \<and> c \<noteq> 34 \<and> c \<noteq> 92 \<Longrightarrow> concat (map escape_char s) = s"
  by (induction s) (auto simp: escape_char_def)

lemma text_dumps_lengths:
  "length (dumps (JDict [(py ''text'', JStr (replicate 257 120))])) = 269"
  "length (dumps (JDict [(py ''text'', JStr [20320, 22909])])) = 24"
proof -
  have "concat (map escape_char (replicate 257 120)) = replicate 257 120" by (rule length_plain) auto
  then show "length (dumps (JDict [(py ''text'', JStr (replicate 257 120))])) = 269"
    by (simp only: length_text_dumps) simp
  show "length (dumps (JDict [(py ''text'', JStr [20320, 22909])])) = 24"
    by (simp only: length_text_dumps) (simp add: escape_char_def unicode_escape_def)
qed

lemma refused_text:
  assumes "guarded t" "\<forall>c \<in> set s. char_ok c" "length (dumps (JDict [(py ''text'', JStr s)])) \<le> 1024"
    "256 < length s \<or> (\<exists>c \<in> set s. 126 < c)"
  shows "refuses t port (''/api/input'', 400, text_body s, [])"
proof -
  let ?j = "JDict [(py ''text'', JStr s)]"
  have "0 < length (dumps ?j)" by simp
  then have "post_body (t_post t) (wire_request port ''/api/input'' (Some ?j) (supplied_headers (Some ?j) [])) =
      Inr [(py ''text'', Parsed_Str s)]"
    using wire_body [of "t_post t" ?j port "''/api/input''"] assms(1-3) char_ok_py
    by (auto simp: guarded_def simp del: dumps.simps)
  moreover have "terminal_text [(py ''text'', Parsed_Str s)] = Inl (ValueError (py ''Use at most 256 ASCII terminal characters''))"
    using assms(4) by (auto simp: terminal_text_def dict_get_def bad_char_def)
  ultimately show ?thesis
    using wire_local [of port "''/api/input''" "Some ?j"]
    by (auto simp: refuses_def text_body_def handle_def do_POST_def post_operation_def post_input_def finish_def
        error_answer_def error_text_def given_up_def simp del: dumps.simps)
qed

lemma post_refusals:
  "refuses t port (''/api/input'', 403, text_body (py ''help'' @ [13]), [(''Origin'', ''http://outside.example'')])"
  "guarded t \<Longrightarrow> refuses t port (''/api/input'', 400, Some (JList []), [])"
  "guarded t \<Longrightarrow> refuses t port (''/api/input'', 400, text_body (replicate 257 120), [])"
  "guarded t \<Longrightarrow> refuses t port (''/api/input'', 400, text_body [20320, 22909], [])"
proof -
  have foreign: "py ''http://outside.example'' \<noteq> py ''http://'' @ py ''127.0.0.1:'' @ str_of_int port"
    "py ''http://outside.example'' \<noteq> py ''http://'' @ py ''localhost:'' @ str_of_int port"
    by (simp_all add: py_def)
  have "header (wire_request port path (text_body s) (supplied_headers (text_body s) [(''Origin'', ''http://outside.example'')]))
      ''Origin'' = Some (py ''http://outside.example'')" for path s
    by (simp add: header_def wire_request_def supplied_headers_def text_body_def lower_ascii_def py_def)
  then have "\<not> local_request port (wire_request port path (text_body s)
      (supplied_headers (text_body s) [(''Origin'', ''http://outside.example'')]))" for path s
    using foreign by (simp add: local_request_def allowed_hosts_def)
  then show "refuses t port (''/api/input'', 403, text_body (py ''help'' @ [13]), [(''Origin'', ''http://outside.example'')])"
    by (auto simp: refuses_def handle_def do_POST_def given_up_def text_body_def)
  assume g: "guarded t"
  have "post_body (t_post t) (wire_request port ''/api/input'' (Some (JList [])) (supplied_headers (Some (JList [])) [])) =
      Inl (ValueError (py ''Expected a JSON object''))"
    using wire_body [of "t_post t" "JList []" port "''/api/input''"] g by (simp add: guarded_def comma_join_def)
  then show "refuses t port (''/api/input'', 400, Some (JList []), [])"
    using wire_local [of port "''/api/input''" "Some (JList [])"]
    by (auto simp: refuses_def handle_def do_POST_def error_answer_def error_text_def given_up_def)
  show "refuses t port (''/api/input'', 400, text_body (replicate 257 120), [])"
    by (rule refused_text [OF g]) (simp_all only: text_dumps_lengths, auto simp: char_ok_def)
  show "refuses t port (''/api/input'', 400, text_body [20320, 22909], [])"
    by (rule refused_text [OF g]) (simp_all only: text_dumps_lengths, auto simp: char_ok_def)
qed

text \<open>A tick for the instances: nothing new, a bridge that reads JSON and pages outside its directory.\<close>

definition calm_tick :: tick where
  "calm_tick = \<lparr>t_now = 0, t_news = [], t_get = file_world\<lparr>resolve := (\<lambda>s. Inr [s])\<rparr>,
     t_post = calm_world\<lparr>loads := (\<lambda>bs. rbind (json_loads bs) (\<lambda>v. Inr (bridge_value v)))\<rparr>\<rparr>"

lemma calm_tick_guarded: "guarded calm_tick"
  by (simp add: guarded_def calm_tick_def reads_json_def file_world_def py_def)

text \<open>
  C37. The bridge refuses each invalid request of the test with the code the test expects, under
  any tick whose reader reads JSON and whose file system keeps \<open>/../README.md\<close> out of the web
  directory: whatever the laboratory and its guest do meanwhile, they are left to themselves,
  no byte reaches a guest, and the test notes the seven results and goes on.
\<close>

theorem bridge_refuses_invalid:
  assumes "b_ticks s = ts @ rest" "length ts = 7" "\<forall>t \<in> set ts. guarded t"
  shows "bridge_rejections port s =
    Some (Inr (), s\<lparr>b_ticks := rest, b_lab := fold (\<lambda>t. fold news (t_news t)) ts (b_lab s),
      b_results := b_results s @
        [(''/api/state?after=invalid'', 400), (''/../README.md'', 404), (''/api/state'', 403), (''/api/input'', 403),
         (''/api/input'', 400), (''/api/input'', 400), (''/api/input'', 400)]\<rparr>)"
proof -
  have "\<forall>t \<in> set ts. \<forall>q \<in> set rejections. refuses t port q"
    unfolding rejections_def using assms(3) get_refusals post_refusals by auto
  moreover have "length ts = length rejections" using assms(2) by (simp add: rejections_def)
  ultimately have "each (bridge_reject port) rejections s =
    Some (Inr (), s\<lparr>b_ticks := rest, b_lab := fold (\<lambda>t. fold news (t_news t)) ts (b_lab s),
      b_results := b_results s @ map (\<lambda>(path, expected, _). (path, expected)) rejections\<rparr>)"
    using assms(1) by (intro refused_requests) simp_all
  then show ?thesis by (simp add: bridge_rejections_def rejections_def)
qed

theorem bridge_refuses_invalid_witness:
  "\<exists>s'. bridge_rejections 8080 \<lparr>b_ticks = replicate 7 calm_tick, b_lab = running_lab, b_retired = [], b_noted = 1,
     b_sent = [], b_results = []\<rparr> = Some (Inr (), s') \<and> b_lab s' = running_lab \<and> b_sent s' = []"
proof -
  let ?s = "\<lparr>b_ticks = replicate 7 calm_tick, b_lab = running_lab, b_retired = [], b_noted = 1, b_sent = [], b_results = []\<rparr>"
  have "b_ticks ?s = replicate 7 calm_tick @ []" "length (replicate 7 calm_tick) = 7"
    "\<forall>t \<in> set (replicate 7 calm_tick). guarded t" using calm_tick_guarded by auto
  from bridge_refuses_invalid [OF this] show ?thesis by (simp add: fold_replicate calm_tick_def)
qed

section \<open>However the test ends\<close>

lemma given_up_gone:
  assumes "h \<in> set (given_up w port r lab)"
  shows "h = new_host"
proof (cases "lab_close w lab")
  case (Pair e lab')
  have given: "given_up w port r lab \<noteq> []" using assms by auto
  show ?thesis
  proof (cases e)
    case None
    with Pair have c: "lab_close w lab = (None, lab')" by simp
    show ?thesis
    proof (cases "lab_guest lab'")
      case None
      with given c show ?thesis by (simp only: given_up_def c prod.case option.case if_cancel)
    next
      case (Some gh)
      then have "lab_guest lab' = Some (fst gh, snd gh)" by simp
      from lab_close_ok(3) [OF c this] assms given c Some show ?thesis
        by (cases gh) (simp only: given_up_def c prod.case option.case, simp split: if_split_asm)
    qed
  next
    case (Some x)
    with Pair given show ?thesis by (simp only: given_up_def prod.case option.case if_cancel)
  qed
qed

text \<open>The guests given up so far have no process, channel or reader left.\<close>

definition retired_gone :: "bench \<Rightarrow> bench \<Rightarrow> bool" where
  "retired_gone s t \<longleftrightarrow> (\<forall>h \<in> set (b_retired t). h \<in> set (b_retired s) \<or> h = new_host)"

interpretation retired_order: act_preorder retired_gone
  by unfold_locales (auto simp: retired_gone_def)

lemma retired_tick: "moves retired_gone take_tick"
  by (auto simp: moves_def retired_gone_def take_tick_def split: list.splits)

lemma retired_request: "moves retired_gone (bridge_request port path expected body extra)"
  unfolding bridge_request_def
proof (rule retired_order.moves_andthen [OF retired_tick])
  fix t
  show "moves retired_gone (\<lambda>s.
      case handle t port (wire_request port path body (supplied_headers body extra)) (body \<noteq> None) (b_lab s) of
         None \<Rightarrow> None
       | Some (a, lab', sent, old) \<Rightarrow>
           (let s' = s\<lparr>b_lab := lab', b_sent := b_sent s @ sent, b_retired := b_retired s @ old\<rparr>
            in case a of
                 Dropped e \<Rightarrow> Some (Inl (OSError []), s')
               | Answer rep \<Rightarrow>
                   if code rep \<noteq> expected then Some (Inl (AssertionError (py path)), s')
                   else Some (read_response path (payload rep), s'\<lparr>b_results := b_results s @ [(path, expected)]\<rparr>)))"
    by (auto simp: moves_def retired_gone_def handle_def Let_def
        dest: given_up_gone split: option.splits prod.splits if_splits answer.splits)
qed

lemma retired_others: "moves retired_gone bench_restart" "moves retired_gone (guest_waits p)"
  "moves retired_gone note_guest" "moves retired_gone bench_guest"
proof -
  show "moves retired_gone bench_restart"
    unfolding bench_restart_def
    by (rule retired_order.moves_andthen [OF retired_tick])
      (auto simp: moves_def retired_gone_def split: option.splits prod.splits)
  show "moves retired_gone (guest_waits p)"
    unfolding guest_waits_def
    by (rule retired_order.moves_andthen [OF retired_tick]) (auto simp: moves_def retired_gone_def)
qed (auto simp: moves_def retired_gone_def note_guest_def bench_guest_def)

lemma retired_body: "moves retired_gone (bridge_body float_int port)"
  unfolding bridge_body_def bridge_begin_def bridge_rejections_def bridge_reject_def bridge_input_def bridge_stop_def
    bridge_again_def fresh_state_def bridge_api_def assert_that_def split_beta
  by (intro retired_order.moves_basic retired_order.moves_andthen retired_order.moves_each retired_request retired_others)

section \<open>What a passing test has done\<close>

text \<open>
  From a laboratory with \<open>P\<close>, under ticks whose bridge reads JSON, an action that returns leaves
  one with \<open>Q\<close>, and has noted these results and sent these bytes.
\<close>

definition trusted :: "bench \<Rightarrow> bool" where
  "trusted s \<longleftrightarrow> (\<forall>t \<in> set (b_ticks s). reads_json (loads (t_post t)))"

definition runs ::
  "(laboratory \<Rightarrow> bool) \<Rightarrow> (bench, 'a) act \<Rightarrow> (laboratory \<Rightarrow> bool) \<Rightarrow> (string \<times> nat) list \<Rightarrow> nat list \<Rightarrow> bool" where
  "runs P a Q rs bs \<longleftrightarrow> (\<forall>s x t. trusted s \<longrightarrow> P (b_lab s) \<longrightarrow> a s = Some (Inr x, t) \<longrightarrow>
     trusted t \<and> Q (b_lab t) \<and> b_results t = b_results s @ rs \<and> b_sent t = b_sent s @ bs)"

lemma runsI:
  "(\<And>s x t. trusted s \<Longrightarrow> P (b_lab s) \<Longrightarrow> a s = Some (Inr x, t) \<Longrightarrow>
     trusted t \<and> Q (b_lab t) \<and> b_results t = b_results s @ rs \<and> b_sent t = b_sent s @ bs) \<Longrightarrow> runs P a Q rs bs"
  unfolding runs_def by blast

lemma runsD:
  "runs P a Q rs bs \<Longrightarrow> a s = Some (Inr x, t) \<Longrightarrow> trusted s \<Longrightarrow> P (b_lab s) \<Longrightarrow>
     trusted t \<and> Q (b_lab t) \<and> b_results t = b_results s @ rs \<and> b_sent t = b_sent s @ bs"
  unfolding runs_def by blast

lemma runs_basic: "runs P (ret x) P [] []" "runs P (of_res r) P [] []" "runs P (check_that b e) P [] []"
  by (auto simp: runs_def check_that_def)

lemma runs_andthen:
  assumes "runs P a R rs bs" "\<And>x. runs R (f x) Q rs' bs'"
  shows "runs P (andthen a f) Q (rs @ rs') (bs @ bs')"
proof (rule runsI)
  fix s x t assume s: "trusted s" "P (b_lab s)" "andthen a f s = Some (Inr x, t)"
  then obtain y u where "a s = Some (Inr y, u)" "f y u = Some (Inr x, t)" by (auto elim: andthenE)
  with s runsD [OF assms(1)] runsD [OF assms(2)]
  show "trusted t \<and> Q (b_lab t) \<and> b_results t = b_results s @ rs @ rs' \<and> b_sent t = b_sent s @ bs @ bs'"
    by fastforce
qed

lemma runs_eq: "runs P a Q rs bs \<Longrightarrow> rs = rs' \<Longrightarrow> bs = bs' \<Longrightarrow> runs P a Q rs' bs'"
  by simp

lemma runs_assert: "runs P (assert_that r) P [] []"
  unfolding assert_that_def using runs_andthen [OF runs_basic(2) runs_basic(3)] by simp

lemma runs_guest: "runs P note_guest P [] []" "runs P bench_guest P [] []"
  by (auto simp: runs_def note_guest_def bench_guest_def trusted_def split: option.splits)

lemma take_tickE:
  assumes "take_tick s = Some (Inr t, u)"
  obtains "b_ticks s = t # b_ticks u" "b_lab u = fold news (t_news t) (b_lab s)"
    "b_results u = b_results s" "b_sent u = b_sent s"
  using assms by (auto simp: take_tick_def split: list.splits)

lemma bench_wait_ticks: "bench_wait p d ts lab = Some (r, us, lab') \<Longrightarrow> set us \<subseteq> set ts"
  by (induction ts arbitrary: lab) (auto simp: Let_def split: option.splits prod.splits)

lemma runs_others: "runs P bench_restart (\<lambda>_. True) [] []" "runs P (guest_waits p) (\<lambda>_. True) [] []"
proof -
  show "runs P bench_restart (\<lambda>_. True) [] []"
    unfolding bench_restart_def
    by (rule runsI, elim andthenE take_tickE) (auto simp: trusted_def split: option.splits)
  show "runs P (guest_waits p) (\<lambda>_. True) [] []"
    unfolding guest_waits_def
    by (rule runsI, elim andthenE take_tickE) (auto simp: trusted_def dest!: bench_wait_ticks)
qed

text \<open>A request that returns was answered with the expected code by the modelled handlers.\<close>

lemma bridge_requestE:
  assumes "bridge_request port path expected body extra s = Some (Inr r, u)"
  obtains t sent old rep where "b_ticks s = t # b_ticks u"
    "handle t port (wire_request port path body (supplied_headers body extra)) (body \<noteq> None)
       (fold news (t_news t) (b_lab s)) = Some (Answer rep, b_lab u, sent, old)"
    "code rep = expected" "b_results u = b_results s @ [(path, expected)]" "b_sent u = b_sent s @ sent"
  using assms unfolding bridge_request_def
  by (elim andthenE take_tickE) (auto simp: Let_def split: option.splits prod.splits answer.splits if_splits)

lemma runs_request:
  assumes "\<And>t lab rep lab' sent old. reads_json (loads (t_post t)) \<Longrightarrow> P lab \<Longrightarrow>
    handle t port (wire_request port path body (supplied_headers body extra)) (body \<noteq> None)
      (fold news (t_news t) lab) = Some (Answer rep, lab', sent, old) \<Longrightarrow> code rep = expected \<Longrightarrow> Q lab' \<and> sent = bs"
  shows "runs P (bridge_request port path expected body extra) Q [(path, expected)] bs"
proof (rule runsI)
  fix s r u assume s: "trusted s" "P (b_lab s)" "bridge_request port path expected body extra s = Some (Inr r, u)"
  from s(3) obtain t sent old rep where req: "b_ticks s = t # b_ticks u"
    "handle t port (wire_request port path body (supplied_headers body extra)) (body \<noteq> None)
       (fold news (t_news t) (b_lab s)) = Some (Answer rep, b_lab u, sent, old)"
    "code rep = expected" "b_results u = b_results s @ [(path, expected)]" "b_sent u = b_sent s @ sent"
    by (rule bridge_requestE)
  have "reads_json (loads (t_post t))" "trusted u" using s(1) req(1) by (auto simp: trusted_def)
  with assms [OF _ s(2) req(2,3)] req(4,5)
  show "trusted u \<and> Q (b_lab u) \<and> b_results u = b_results s @ [(path, expected)] \<and> b_sent u = b_sent s @ bs"
    by auto
qed

lemma runs_get: "runs P (bridge_request port path expected None extra) (\<lambda>_. True) [(path, expected)] []"
  by (rule runs_request) (auto simp: handle_def split: prod.splits)

lemma handle_post:
  "handle t port r True lab = Some (Answer rep, lab', sent, old) \<Longrightarrow> do_POST (t_post t) port r lab = Some (Answer rep, lab', sent)"
  by (auto simp: handle_def)

text \<open>Only \<open>/api/input\<close> sends, and no answer 400 or 403 comes behind a byte sent.\<close>

lemma os_error_code: "is_os_error e \<Longrightarrow> error_answer w e = Answer rep \<Longrightarrow> code rep = 503"
  by (cases e) (auto simp: error_answer_def)

lemma refused_unsent:
  assumes "do_POST w port r lab = Some (Answer rep, lab', sent)" "code rep \<in> {400, 403}"
  shows "sent = []"
proof (rule ccontr)
  assume "sent \<noteq> []"
  from assms(1) this obtain body s g h where input: "local_request port r" "target r = py ''/api/input''"
    "post_body w r = Inr body" "terminal_text body = Inr s" "lab_guest lab = Some (g, h)" "\<not> closed g" "status g = Running"
    by (rule post_sends)
  obtain e where e: "send (socket w) g s = (e, sent)" "finish w (done_reply e) = Answer rep"
    using assms(1) input
    by (auto simp: do_POST_def post_operation_def post_input_def split: prod.splits)
  have "encode_ascii s = Inr s" using terminal_text_ok(4) [OF input(4)] by (simp add: encode_ascii_def)
  then have "send_bytes (socket w) 0 s = (e, sent)" using e(1) input(6,7) by (simp add: send_def)
  then have "e = None \<or> (\<exists>x. e = Some x \<and> is_os_error x)" using send_bytes_error by (cases e) auto
  then have "code rep \<in> {200, 503}"
    using e(2) os_error_code by (auto simp: finish_def done_reply_def split: option.splits)
  then show False using assms(2) by auto
qed

lemma runs_refused:
  assumes "expected \<in> {400, 403}"
  shows "runs P (bridge_request port path expected body extra) (\<lambda>_. True) [(path, expected)] []"
proof (cases body)
  case (Some j)
  show ?thesis
    by (rule runs_request) (use assms Some refused_unsent in \<open>auto dest!: handle_post\<close>)
qed (simp add: runs_get)

text \<open>A guest that is closed stays closed, and input does not reach it.\<close>

definition quiet :: "laboratory \<Rightarrow> bool" where
  "quiet lab \<longleftrightarrow> (\<forall>g h. lab_guest lab = Some (g, h) \<longrightarrow> closed g)"

lemma quiet_news: "quiet lab \<Longrightarrow> fold news ns lab = lab"
proof (induction ns)
  case (Cons n ns)
  then have "news n lab = lab" by (auto simp: news_def observe_def quiet_def split: sum.splits option.splits)
  with Cons show ?case by simp
qed simp

lemma quiet_get: "do_GET w port r lab = (a, lab') \<Longrightarrow> quiet lab \<Longrightarrow> quiet lab'"
  by (auto simp: do_GET_def get_state_def quiet_def Let_def dest!: snapshot_frame
      split: if_splits sum.splits option.splits prod.splits)

lemma quiet_close: "lab_close w lab = (None, lab') \<Longrightarrow> quiet lab'"
  using lab_close_ok(1) by (auto simp: quiet_def)

lemma quiet_unsent: "do_POST w port r lab = Some (a, lab', sent) \<Longrightarrow> quiet lab \<Longrightarrow> sent = []"
  by (rule ccontr) (auto elim!: post_sends simp: quiet_def)

lemma stop_closes:
  assumes "do_POST w port r lab = Some (Answer rep, lab', sent)" "target r = py ''/api/stop''" "code rep = 200"
  shows "quiet lab' \<and> sent = []"
proof -
  from assms(1) have "lab_close w lab = (None, lab')"
  proof (cases rule: post_cases)
    case (operation body res)
    obtain e where e: "lab_close w lab = (e, lab')" "res = done_reply e"
      using operation(3) assms(2) by (auto simp: post_operation_def split: prod.splits)
    with operation(4) error_answer_code [of w _ rep] assms(3) show ?thesis
      by (cases e) (auto simp: finish_def done_reply_def)
  next
    case (malformed e)
    with error_answer_code [of w e rep] assms(3) show ?thesis by auto
  qed (use assms(3) in simp)
  moreover have "sent = []"
    using assms(1,2) by (rule_tac ccontr) (auto elim!: post_sends)
  ultimately show ?thesis by (simp add: quiet_close)
qed

lemma runs_quiet:
  "runs P (bridge_request port ''/api/stop'' 200 (Some j) []) quiet [(''/api/stop'', 200)] []"
  "runs quiet (bridge_request port path expected None []) quiet [(path, expected)] []"
  "runs quiet (bridge_request port path expected (Some j) []) (\<lambda>_. True) [(path, expected)] []"
  by (rule runs_request, auto dest!: handle_post stop_closes,
      rule runs_request, auto simp: handle_def quiet_news dest: quiet_get split: prod.splits,
      rule runs_request, auto simp: quiet_news dest!: handle_post dest: quiet_unsent)

text \<open>Accepted input is sent as it was printed; a restart sends nothing.\<close>

lemma runs_restart:
  "runs P (bridge_request port ''/api/restart'' 200 (Some j) []) (\<lambda>_. True) [(''/api/restart'', 200)] []"
  by (rule runs_request) (auto dest!: handle_post, rule ccontr, auto elim!: post_sends)

lemma accepted_sent:
  assumes "do_POST w port r lab = Some (Answer rep, lab', sent)" "target r = py ''/api/input''" "code rep = 200"
    "post_body w r = Inr [(py ''text'', Parsed_Str s)]"
  shows "sent = s"
proof -
  have send: "sent' = s" if "send sock g s = (None, sent')" for sock sent' and g :: guest
    using that by (auto simp: send_def encode_ascii_def split: if_splits dest: send_bytes_prefix)
  from assms(1) show ?thesis
  proof (cases rule: post_cases)
    case (operation body res)
    have body: "body = [(py ''text'', Parsed_Str s)]" using operation(2) assms(4) by simp
    have "res = Inr rep" using operation(4) error_answer_code [of w _ rep] assms(3)
      by (cases res) (auto simp: finish_def)
    then have input: "post_input w body lab = (Inr rep, sent)"
      using operation(3) assms(2) by (auto simp: post_operation_def split: prod.splits)
    have "terminal_text body = Inr s"
      using input by (auto simp: body post_input_def terminal_text_def dict_get_def split: if_splits)
    with input obtain g h e where "send (socket w) g s = (e, sent)" "done_reply e = Inr rep"
      by (auto simp: post_input_def split: option.splits prod.splits)
    then show ?thesis using send by (cases e) (auto simp: done_reply_def)
  qed (use assms(3,4) in simp_all)
qed

lemma runs_input:
  assumes "\<forall>c \<in> set s. char_ok c" "length (dumps (JDict [(py ''text'', JStr s)])) \<le> 1024"
  shows "runs P (bridge_request port ''/api/input'' 200 (text_body s) []) (\<lambda>_. True) [(''/api/input'', 200)] s"
  unfolding text_body_def
proof (rule runs_request)
  fix t lab rep lab' sent old
  let ?j = "JDict [(py ''text'', JStr s)]"
  let ?r = "wire_request port ''/api/input'' (Some ?j) (supplied_headers (Some ?j) [])"
  assume a: "reads_json (loads (t_post t))" "handle t port ?r (Some ?j \<noteq> None) (fold news (t_news t) lab) =
      Some (Answer rep, lab', sent, old)" "code rep = 200"
  have "json_ok ?j" using assms(1) char_ok_py by auto
  moreover have "0 < length (dumps ?j)" by simp
  ultimately have "post_body (t_post t) ?r = Inr [(py ''text'', Parsed_Str s)]"
    using wire_body [OF a(1)] assms(2) by (simp del: dumps.simps)
  moreover have "do_POST (t_post t) port ?r (fold news (t_news t) lab) = Some (Answer rep, lab', sent)"
    by (rule handle_post) (use a(2) in \<open>simp only: option.distinct not_False_eq_True\<close>)
  ultimately have "sent = s" using accepted_sent wire_target a(3) by blast
  then show "True \<and> sent = s" by simp
qed

lemma cat_length: "length (dumps (JDict [(py ''text'', JStr (py ''cat hello.txt'' @ [13]))])) \<le> 1024"
  by (simp only: length_text_dumps) (simp add: escape_char_def py_def)

lemma runs_parts:
  "runs (\<lambda>_. True) (bridge_begin port) (\<lambda>_. True) [(''/'', 200), (''/api/state'', 200)] []"
  "runs (\<lambda>_. True) (bridge_rejections port) (\<lambda>_. True)
     [(''/api/state?after=invalid'', 400), (''/../README.md'', 404), (''/api/state'', 403), (''/api/input'', 403),
      (''/api/input'', 400), (''/api/input'', 400), (''/api/input'', 400)] []"
  "runs (\<lambda>_. True) (bridge_input port) (\<lambda>_. True) [(''/api/input'', 200), (''/api/state'', 200)]
     (py ''cat hello.txt'' @ [13])"
  "runs (\<lambda>_. True) (bridge_stop port) (\<lambda>_. True) [(''/api/stop'', 200), (''/api/state'', 200), (''/api/input'', 503)] []"
  "runs (\<lambda>_. True) (bridge_again float_int port initial) (\<lambda>_. True) [(''/api/restart'', 200), (''/api/state'', 200)] []"
proof -
  note steps = runs_andthen runs_basic runs_assert runs_guest runs_others
  show "runs (\<lambda>_. True) (bridge_begin port) (\<lambda>_. True) [(''/'', 200), (''/api/state'', 200)] []"
    unfolding bridge_begin_def bridge_api_def by (rule runs_eq) ((rule steps runs_get)+, simp_all)
  show "runs (\<lambda>_. True) (bridge_rejections port) (\<lambda>_. True)
     [(''/api/state?after=invalid'', 400), (''/../README.md'', 404), (''/api/state'', 403), (''/api/input'', 403),
      (''/api/input'', 400), (''/api/input'', 400), (''/api/input'', 400)] []"
    unfolding bridge_rejections_def rejections_def each.simps bridge_reject_def prod.case
    by (rule runs_eq) ((rule steps runs_get | rule runs_refused, simp)+, simp_all)
  have "\<forall>c \<in> set (py ''cat hello.txt'' @ [13]). char_ok c" by (auto simp: char_ok_def py_def)
  from runs_input [OF this cat_length]
  show "runs (\<lambda>_. True) (bridge_input port) (\<lambda>_. True) [(''/api/input'', 200), (''/api/state'', 200)]
     (py ''cat hello.txt'' @ [13])"
    unfolding bridge_input_def bridge_api_def by (rule_tac runs_eq) ((rule steps runs_get | assumption)+, simp_all)
  show "runs (\<lambda>_. True) (bridge_stop port) (\<lambda>_. True) [(''/api/stop'', 200), (''/api/state'', 200), (''/api/input'', 503)] []"
    unfolding bridge_stop_def bridge_api_def text_body_def split_beta
    by (rule runs_eq) ((rule steps runs_quiet)+, simp_all)
  show "runs (\<lambda>_. True) (bridge_again float_int port initial) (\<lambda>_. True) [(''/api/restart'', 200), (''/api/state'', 200)] []"
    unfolding bridge_again_def bridge_api_def fresh_state_def
    by (rule runs_eq) ((rule steps runs_restart runs_get)+, simp_all)
qed

lemma runs_body:
  "runs (\<lambda>_. True) (bridge_body float_int port) (\<lambda>_. True)
     [(''/'', 200), (''/api/state'', 200),
      (''/api/state?after=invalid'', 400), (''/../README.md'', 404), (''/api/state'', 403), (''/api/input'', 403),
      (''/api/input'', 400), (''/api/input'', 400), (''/api/input'', 400),
      (''/api/input'', 200), (''/api/state'', 200),
      (''/api/stop'', 200), (''/api/state'', 200), (''/api/input'', 503),
      (''/api/restart'', 200), (''/api/state'', 200)] (py ''cat hello.txt'' @ [13])"
  unfolding bridge_body_def by (rule runs_eq) ((rule runs_andthen runs_parts)+, simp_all)

end
