(* ===== verification/Bridge_Passing.thy ===== *)
theory Bridge_Passing
  imports Bridge_Claims
begin

text \<open>
  The whole bridge test: a run in which every request is answered as expected, from the boot of
  the first guest to the closing of the second, and what holds of every run.
\<close>

section \<open>The test can pass\<close>

text \<open>Guests whose texts are Unicode characters, and what the state endpoint shows of them.\<close>

definition plain_guest :: "guest \<Rightarrow> bool" where
  "plain_guest g \<longleftrightarrow> maps g = [] \<and> data g = [] \<and> error g = [] \<and> (\<forall>c \<in> set (console g). char_ok c) \<and>
     (\<forall>e \<in> set (events g). (\<forall>c \<in> set (ev_kind e). char_ok c) \<and> (\<forall>f \<in> set (ev_fields e). \<forall>c \<in> set f. char_ok c)) \<and>
     (\<forall>p \<in> set (dict_values (processes g)). (\<forall>c \<in> set (p_program p). char_ok c) \<and>
        (\<forall>c \<in> set (p_state p). char_ok c) \<and> (\<forall>c \<in> set (p_root p). char_ok c))"

definition shown :: "laboratory \<Rightarrow> guest \<Rightarrow> (pystr \<times> json) list" where
  "shown lab g =
     [(py ''status'', JStr (status_str (status g))), (py ''error'', JStr (error g)),
      (py ''console'', JStr (console g)), (py ''console_base'', JInt (int (console_base g))),
      (py ''events'', JList (map event_json (filter (\<lambda>e. 0 < int (ev_id e)) (events g)))),
      (py ''processes'', JList (map process_json (dict_values (processes g)))),
      (py ''maps'', keyed_json (\<lambda>d. JDict (map (\<lambda>(va, m). (va, mapping_json m)) d)) (maps g)),
      (py ''data'', keyed_json datum_json (data g)),
      (py ''frames'', JInt (frames g)), (py ''free'', JInt (free g)),
      (py ''ticks'', JInt (ticks g)), (py ''sequence'', JInt (int (sequence g))),
      (py ''guest_pid'', JNull), (py ''epoch'', JStr (epoch lab)), (py ''guest_memory'', JInt (guest_memory lab))]"

lemma state_shown:
  assumes "proc w = None" "lab_guest lab = Some (g, h)"
  shows "get_state w 0 lab = (Answer (response 200 (Json (JDict (shown lab g))) json_mime), lab)"
  using assms by (simp add: get_state_def snapshot_def shown_def Let_def)

lemma shown_ok:
  assumes "plain_guest g" "\<forall>c \<in> set (epoch lab). char_ok c"
  shows "json_ok (JDict (shown lab g))"
proof -
  have "json_ok (event_json e)" if "e \<in> set (events g)" for e
    using assms(1) that char_ok_py by (auto simp: plain_guest_def event_json_def)
  moreover have "json_ok (process_json p)" if "p \<in> set (dict_values (processes g))" for p
    using assms(1) that char_ok_py by (auto simp: plain_guest_def process_json_def)
  moreover have "\<forall>c \<in> set (status_str (status g)). char_ok c"
    using char_ok_py by (cases "status g") auto
  ultimately show ?thesis
    using assms char_ok_py by (auto simp: shown_def plain_guest_def keyed_json_def)
qed

lemma state_read:
  assumes "b_ticks s = t # ts" "t_news t = []" "proc (t_get t) = None" "lab_guest (b_lab s) = Some (g, h)"
    "plain_guest g" "\<forall>c \<in> set (epoch (b_lab s)). char_ok c"
  shows "bridge_api port ''/api/state'' 200 None s = Some (Inr (of_json (JDict (shown (b_lab s) g))),
    s\<lparr>b_ticks := ts, b_results := b_results s @ [(''/api/state'', 200)]\<rparr>)"
proof -
  have "urlparse (bracket_error (t_get t)) (py ''/api/state'') =
      Inr \<lparr>u_scheme = [], u_netloc = [], u_path = py ''/api/state'', u_query = []\<rparr>"
    using urlparse_plain(2) [of "py ''api/state''" "[]"] by (simp add: py_def)
  moreover have "int_of_str (query_first [] (py ''after'') (py ''0'')) = Inr 0"
    using int_of_str_str_of_int [of 0]
    by (simp add: query_first_def query_pair_def split_on_free List.map_filter_simps str_of_int_def str_of_nat.simps py_def)
  ultimately have "do_GET (t_get t) port (wire_request port ''/api/state'' None (supplied_headers None [])) (b_lab s) =
      (Answer (response 200 (Json (JDict (shown (b_lab s) g))) json_mime), b_lab s)"
    using wire_local [of port "''/api/state''" None] state_shown [OF assms(3,4)] by (simp add: do_GET_def)
  moreover have "read_response ''/api/state'' (dumps (JDict (shown (b_lab s) g))) = Inr (Parsed (of_json (JDict (shown (b_lab s) g))))"
    using loads_render [OF styles_ok(1) shown_ok [OF assms(5,6)], of 0]
    by (simp add: read_response_def dumps_render [of _ 0] py_def del: dumps.simps render.simps)
  ultimately show ?thesis using assms(1,2)
    by (simp add: bridge_api_def bridge_request_def andthen_def take_tick_def handle_def parsed_of_def
        del: dumps.simps)
qed

lemma shown_entries:
  "manifest_entry (of_json (JDict (shown lab g))) ''status'' = Inr (VStr (status_str (status g)))"
  "manifest_entry (of_json (JDict (shown lab g))) ''epoch'' = Inr (VStr (epoch lab))"
  "manifest_entry (of_json (JDict (shown lab g))) ''console'' = Inr (VStr (console g))"
  "manifest_entry (of_json (JDict (shown lab g))) ''events'' =
     Inr (VList (map (\<lambda>e. of_json (event_json e)) (filter (\<lambda>e. 0 < int (ev_id e)) (events g))))"
  "manifest_entry (of_json (JDict (shown lab g))) ''processes'' =
     Inr (VList (map (\<lambda>p. of_json (process_json p)) (dict_values (processes g))))"
  by (simp_all add: manifest_entry_def shown_def dict_get_def)

text \<open>A world in which the test passes: two boots, a page, a file read by the guest.\<close>

definition first_guest :: guest where
  "first_guest = new_guest\<lparr>console := prompt @ py ''hello from ramfs'',
     events := [\<lparr>ev_id = 1, ev_kind = py ''syscall'', ev_tick = 7, ev_fields = [py ''2'', py ''6'']\<rparr>], sequence := 1,
     status := Running\<rparr>"

definition second_guest :: guest where
  "second_guest = new_guest\<lparr>console := prompt,
     processes :=
       [(1, \<lparr>p_pid = 1, p_parent = 0, p_program = py ''init'', p_state = py ''waiting'', p_root = py ''0x1000'', p_slices = 3, p_current = False\<rparr>),
        (2, \<lparr>p_pid = 2, p_parent = 1, p_program = py ''shell'', p_state = py ''running'', p_root = py ''0x2000'', p_slices = 5, p_current = True\<rparr>)],
     status := Running\<rparr>"

definition passing_tick :: "string \<Rightarrow> guest \<Rightarrow> tick" where
  "passing_tick token g = \<lparr>t_now = 0, t_news = [],
     t_get = file_world\<lparr>proc := None, read_bytes := (\<lambda>_. Inr (py ''MiniLinux Console'')),
       resolve := (\<lambda>s. Inr (if s = py ''../README.md'' then [s] else [py ''web'', s]))\<rparr>,
     t_post = calm_world\<lparr>new_token := py token, guest_end := g,
       loads := (\<lambda>bs. rbind (json_loads bs) (\<lambda>v. Inr (bridge_value v)))\<rparr>\<rparr>"

abbreviation usual_tick :: tick where
  "usual_tick \<equiv> passing_tick ''a1'' first_guest"

lemma passing_tick_guarded: "guarded (passing_tick token g)"
  by (simp add: guarded_def passing_tick_def reads_json_def file_world_def py_def)

lemma plain_guests: "plain_guest first_guest" "plain_guest second_guest" "plain_guest (first_guest\<lparr>closed := True, status := Stopped\<rparr>)"
  by (auto simp: plain_guest_def first_guest_def second_guest_def new_guest_def prompt_def dict_values_def char_ok_def py_def)

lemma passing_boot:
  assumes "lab_close (t_post (passing_tick token g)) lab = (None, lab')" "status g = Running"
  shows "lab_restart (t_post (passing_tick token g)) lab =
    Some (None, lab'\<lparr>epoch := py token, lab_guest := Some (g, new_host\<lparr>log_open := True, alive := True, sockets := 2, readers := 2\<rparr>)\<rparr>)"
proof -
  have "g\<lparr>status := Running\<rparr> = g" using assms(2) by simp
  then have "start (boot_of (t_post (passing_tick token g))) new_guest g =
      Some (None, g, new_host\<lparr>log_open := True, alive := True, sockets := 2, readers := 2\<rparr>)"
    by (simp add: passing_tick_def calm_world_def start_def boot_body_def
        connect_decide_def wait_for_def wait_decide_def prompt_def new_guest_def new_host_def Let_def)
  moreover have "guest_end (t_post (passing_tick token g)) = g" "new_token (t_post (passing_tick token g)) = py token"
    by (simp_all add: passing_tick_def)
  ultimately show ?thesis using assms(1) by (simp add: lab_restart_def)
qed

lemma passing_start:
  "\<exists>h. bridge_begin port \<lparr>b_ticks = replicate 3 usual_tick @ ts, b_lab = new_laboratory 64, b_retired = [], b_noted = 0,
      b_sent = [], b_results = []\<rparr> =
    Some (Inr (of_json (JDict (shown \<lparr>lab_guest = Some (first_guest, h), epoch = py ''a1'', guest_memory = 64\<rparr> first_guest))),
      \<lparr>b_ticks = ts, b_lab = \<lparr>lab_guest = Some (first_guest, h), epoch = py ''a1'', guest_memory = 64\<rparr>, b_retired = [],
       b_noted = Suc 0, b_sent = [], b_results = [(''/'', 200), (''/api/state'', 200)]\<rparr>)"
proof -
  let ?h = "new_host\<lparr>log_open := True, alive := True, sockets := 2, readers := 2\<rparr>"
  let ?lab = "\<lparr>lab_guest = Some (first_guest, ?h), epoch = py ''a1'', guest_memory = 64\<rparr>"
  let ?s = "\<lambda>ts n rs. \<lparr>b_ticks = ts, b_lab = ?lab, b_retired = [], b_noted = n, b_sent = [], b_results = rs\<rparr>"
  have ticks: "replicate 3 usual_tick @ ts = usual_tick # usual_tick # usual_tick # ts" by (simp add: numeral_3_eq_3)
  have new: "t_news (passing_tick token g) = []" for token g by (simp add: passing_tick_def)
  have boot: "bench_restart \<lparr>b_ticks = usual_tick # ts, b_lab = new_laboratory 64, b_retired = [], b_noted = 0,
      b_sent = [], b_results = []\<rparr> = Some (Inr (), ?s ts 0 [])" for ts
    using passing_boot [of "''a1''" first_guest "new_laboratory 64" "new_laboratory 64"]
    by (simp add: bench_restart_def andthen_def take_tick_def new lab_close_def new_laboratory_def first_guest_def)
  have noted: "note_guest (?s ts 0 []) = Some (Inr (), ?s ts (Suc 0) [])" for ts by (simp add: note_guest_def)
  have "urlparse (bracket_error w) (py ''/'') = Inr \<lparr>u_scheme = [], u_netloc = [], u_path = py ''/'', u_query = []\<rparr>" for w :: get_world
    using urlparse_plain(2) [of "[]" "[]"] by (simp add: py_def)
  then have page: "bridge_request port ''/'' 200 None [] (?s (usual_tick # ts) (Suc 0) []) =
      Some (Inr (Page (py ''MiniLinux Console'')), ?s ts (Suc 0) [(''/'', 200)])" for ts
    using wire_local [of port "''/''" None]
    by (simp add: bridge_request_def andthen_def take_tick_def new handle_def do_GET_def get_file_def Let_def
        passing_tick_def file_world_def read_response_def py_def)
  have state: "bridge_api port ''/api/state'' 200 None (?s (usual_tick # ts) (Suc 0) [(''/'', 200)]) =
      Some (Inr (of_json (JDict (shown ?lab first_guest))), ?s ts (Suc 0) [(''/'', 200), (''/api/state'', 200)])" for ts
    using state_read [of "?s (usual_tick # ts) (Suc 0) [(''/'', 200)]" usual_tick ts first_guest ?h port] plain_guests(1) char_ok_py
    by (auto simp: new passing_tick_def simp del: of_json.simps)
  have "status_str (status first_guest) = py ''running''" by (simp add: first_guest_def)
  then show ?thesis
    by (intro exI [of _ ?h])
      (simp add: bridge_begin_def ticks boot noted page state assert_that_def andthen_def check_that_def has_status_def shown_entries
        del: of_json.simps)
qed

lemma input_accepted:
  assumes "b_ticks s = usual_tick # ts" "b_lab s = \<lparr>lab_guest = Some (first_guest, h), epoch = e, guest_memory = n\<rparr>"
  shows "\<exists>r. bridge_request port ''/api/input'' 200 (text_body (py ''cat hello.txt'' @ [13])) [] s =
    Some (Inr r, s\<lparr>b_ticks := ts, b_sent := b_sent s @ py ''cat hello.txt'' @ [13],
      b_results := b_results s @ [(''/api/input'', 200)]\<rparr>)"
proof -
  let ?line = "py ''cat hello.txt'' @ [13]" and ?w = "t_post usual_tick"
  let ?j = "JDict [(py ''text'', JStr ?line)]"
  let ?r = "wire_request port ''/api/input'' (Some ?j) (supplied_headers (Some ?j) [])"
  have "json_ok ?j" "0 < length (dumps ?j)" by (auto simp: char_ok_def py_def)
  then have body: "post_body ?w ?r = Inr [(py ''text'', Parsed_Str ?line)]"
    using wire_body [of ?w ?j port "''/api/input''"] cat_length
    by (simp add: passing_tick_def reads_json_def del: dumps.simps)
  have line: "terminal_text [(py ''text'', Parsed_Str ?line)] = Inr ?line"
    by (simp add: terminal_text_def dict_get_def bad_char_def py_def)
  have "send (socket ?w) first_guest ?line = (None, ?line)"
    by (simp add: send_def passing_tick_def calm_world_def first_guest_def new_guest_def encode_ascii_def py_def)
  then have "do_POST ?w port ?r (b_lab s) = Some (Answer okay_reply, b_lab s, ?line)"
    using wire_local [of port "''/api/input''" "Some ?j"] body line
    by (simp add: do_POST_def post_operation_def post_input_def done_reply_def finish_def assms(2) del: dumps.simps)
  moreover have "json_loads (payload okay_reply) = Inr (VDict [(py ''okay'', VBool True)])"
    using loads_render [OF styles_ok(1), of "JDict [(py ''okay'', JBool True)]" 0] char_ok_py
    by (simp add: okay_reply_def dumps_render [of _ 0] del: dumps.simps render.simps)
  moreover have "t_news usual_tick = []" by (simp add: passing_tick_def)
  ultimately show ?thesis using assms
    by (simp add: bridge_request_def text_body_def andthen_def take_tick_def handle_def given_up_def
        read_response_def del: dumps.simps)
qed

lemma passing_input:
  assumes "b_ticks s = replicate 4 usual_tick @ ts"
    "b_lab s = \<lparr>lab_guest = Some (first_guest, h), epoch = py ''a1'', guest_memory = 64\<rparr>"
  shows "bridge_input port s = Some (Inr (), s\<lparr>b_ticks := ts, b_sent := b_sent s @ py ''cat hello.txt'' @ [13],
    b_results := b_results s @ [(''/api/input'', 200), (''/api/state'', 200)]\<rparr>)"
proof -
  let ?u = "s\<lparr>b_ticks := replicate 3 usual_tick @ ts, b_sent := b_sent s @ py ''cat hello.txt'' @ [13],
    b_results := b_results s @ [(''/api/input'', 200)]\<rparr>"
  let ?v = "?u\<lparr>b_ticks := usual_tick # ts\<rparr>"
  have new: "t_news usual_tick = []" by (simp add: passing_tick_def)
  have "b_ticks s = usual_tick # replicate 3 usual_tick @ ts" using assms(1) by (simp add: eval_nat_numeral)
  then obtain r where input: "bridge_request port ''/api/input'' 200 (text_body (py ''cat hello.txt'' @ [13])) [] s = Some (Inr r, ?u)"
    using input_accepted assms(2) by blast
  have "sublist (py ''hello from ramfs'') (console first_guest)" by (simp add: first_guest_def sublist_appendI)
  then have wait: "guest_waits (\<lambda>g. sublist (py ''hello from ramfs'') (console g)) ?u = Some (Inr (), ?v)"
    using assms(2) by (simp add: guest_waits_def andthen_def take_tick_def eval_nat_numeral new wait_decide_def
        passing_tick_def)
  have state: "bridge_api port ''/api/state'' 200 None ?v =
      Some (Inr (of_json (JDict (shown (b_lab s) first_guest))), s\<lparr>b_ticks := ts, b_sent := b_sent s @ py ''cat hello.txt'' @ [13],
    b_results := b_results s @ [(''/api/input'', 200), (''/api/state'', 200)]\<rparr>)"
    using state_read [of ?v usual_tick ts first_guest h port] plain_guests(1) char_ok_py assms(2)
    by (auto simp: new passing_tick_def simp del: of_json.simps)
  have opened: "rbind (js_iter (VList (map (\<lambda>e. of_json (event_json e)) (filter (\<lambda>e. 0 < int (ev_id e)) (events first_guest))))) (any_of opened_file) = Inr True"
    by (simp add: js_iter_def first_guest_def event_json_def opened_file_def manifest_entry_def dict_get_def js_index_def py_index_def)
  show ?thesis
    unfolding bridge_input_def
    by (rule andthen_step, rule input, rule andthen_step, rule wait, rule andthen_step, rule state)
      (use opened in \<open>simp add: assert_that_def andthen_def shown_entries check_that_def del: of_json.simps\<close>)
qed

lemma operation_read: "read_response path (payload okay_reply) = Inr (if prefix (py ''/api/'') (py path)
    then Parsed (VDict [(py ''okay'', VBool True)]) else Page (payload okay_reply))"
proof -
  have "json_ok (JDict [(py ''okay'', JBool True)])" using char_ok_py by auto
  from loads_render [OF styles_ok(1) this, of 0] show ?thesis
    by (simp add: read_response_def okay_reply_def dumps_render [of _ 0] del: dumps.simps render.simps)
qed

lemma error_read: "\<exists>r. read_response path (payload (error_reply n (py m))) = Inr r"
  by (simp add: read_response_def error_json)

lemma empty_body:
  "post_body (t_post (passing_tick token g)) (wire_request port path (Some (JDict [])) (supplied_headers (Some (JDict [])) [])) = Inr []"
  using wire_body [of "t_post (passing_tick token g)" "JDict []" port path]
  by (simp add: passing_tick_def reads_json_def comma_join_def)

abbreviation stopped_guest :: guest where
  "stopped_guest \<equiv> first_guest\<lparr>closed := True, status := Stopped\<rparr>"

lemma passing_stop:
  assumes "b_ticks s = replicate 3 usual_tick @ ts"
    "b_lab s = \<lparr>lab_guest = Some (first_guest, h), epoch = py ''a1'', guest_memory = 64\<rparr>"
  shows "bridge_stop port s = Some (Inr (), s\<lparr>b_ticks := ts,
    b_lab := \<lparr>lab_guest = Some (stopped_guest, new_host), epoch = py ''a1'', guest_memory = 64\<rparr>,
    b_results := b_results s @ [(''/api/stop'', 200), (''/api/state'', 200), (''/api/input'', 503)]\<rparr>)"
proof -
  let ?lab = "\<lparr>lab_guest = Some (stopped_guest, new_host), epoch = py ''a1'', guest_memory = 64\<rparr>"
  let ?u = "s\<lparr>b_ticks := usual_tick # usual_tick # ts, b_lab := ?lab, b_results := b_results s @ [(''/api/stop'', 200)]\<rparr>"
  let ?v = "?u\<lparr>b_ticks := usual_tick # ts, b_results := b_results ?u @ [(''/api/state'', 200)]\<rparr>"
  have new: "t_news usual_tick = []" by (simp add: passing_tick_def)
  have "lab_close (t_post usual_tick) (b_lab s) = (None, ?lab)"
    using assms(2) by (cases h) (simp add: lab_close_def close_def stop_qemu_def passing_tick_def calm_world_def new_host_def Let_def)
  then have "do_POST (t_post usual_tick) port (wire_request port ''/api/stop'' (Some (JDict [])) (supplied_headers (Some (JDict [])) []))
      (b_lab s) = Some (Answer okay_reply, ?lab, [])"
    using wire_local [of port "''/api/stop''" "Some (JDict [])"] empty_body
    by (simp add: do_POST_def post_operation_def done_reply_def finish_def)
  then obtain r where stop: "bridge_request port ''/api/stop'' 200 (Some (JDict [])) [] s = Some (Inr r, ?u)"
    using assms(1) new operation_read [of "''/api/stop''"]
    by (simp add: bridge_request_def andthen_def take_tick_def handle_def given_up_def eval_nat_numeral)
  have ended: "bench_guest ?u = Some (Inr (stopped_guest, new_host), ?u)" by (simp add: bench_guest_def)
  have state: "bridge_api port ''/api/state'' 200 None ?u = Some (Inr (of_json (JDict (shown ?lab stopped_guest))), ?v)"
    using state_read [of ?u usual_tick "usual_tick # ts" stopped_guest new_host port] plain_guests(3) char_ok_py
    by (auto simp: new passing_tick_def simp del: of_json.simps)
  let ?j = "JDict [(py ''text'', JStr (py ''help'' @ [13]))]"
  have "length (dumps ?j) \<le> 1024" by (simp only: length_text_dumps) (simp add: escape_char_def py_def)
  moreover have "json_ok ?j" "0 < length (dumps ?j)" by (auto simp: char_ok_def py_def)
  ultimately have "post_body (t_post usual_tick) (wire_request port ''/api/input'' (Some ?j) (supplied_headers (Some ?j) [])) =
      Inr [(py ''text'', Parsed_Str (py ''help'' @ [13]))]"
    using wire_body [of "t_post usual_tick" ?j port "''/api/input''"]
    by (simp add: passing_tick_def reads_json_def del: dumps.simps)
  moreover have "terminal_text [(py ''text'', Parsed_Str (py ''help'' @ [13]))] = Inr (py ''help'' @ [13])"
    by (simp add: terminal_text_def dict_get_def bad_char_def py_def)
  ultimately have "do_POST (t_post usual_tick) port (wire_request port ''/api/input'' (Some ?j) (supplied_headers (Some ?j) []))
      ?lab = Some (Answer (error_reply 503 (py ''Guest is not running'')), ?lab, [])"
    using wire_local [of port "''/api/input''" "Some ?j"]
    by (simp add: do_POST_def post_operation_def post_input_def send_def done_reply_def finish_def
        error_answer_def error_text_def del: dumps.simps)
  then obtain r where unsent: "bridge_request port ''/api/input'' 503 (text_body (py ''help'' @ [13])) [] ?v = Some (Inr r,
      s\<lparr>b_ticks := ts, b_lab := ?lab, b_results := b_results s @ [(''/api/stop'', 200), (''/api/state'', 200), (''/api/input'', 503)]\<rparr>)"
    using new error_read [of "''/api/input''" 503 "''Guest is not running''"]
    by (auto simp: bridge_request_def text_body_def andthen_def take_tick_def handle_def given_up_def simp del: dumps.simps)
  have holds: "assert_that (Inr True) u = Some (Inr (), u)" for u :: bench
    by (simp add: assert_that_def andthen_def check_that_def)
  have gone: "assert_that (Inr (\<not> alive new_host)) ?u = Some (Inr (), ?u)" using holds by (simp add: new_host_def)
  have shows_stopped: "assert_that (has_status ''stopped'' (of_json (JDict (shown ?lab stopped_guest)))) ?v = Some (Inr (), ?v)"
    using holds by (simp add: has_status_def shown_entries del: of_json.simps)
  show ?thesis
    unfolding bridge_stop_def
    by (rule andthen_step, rule stop, rule andthen_step, rule ended, simp only: prod.case, rule andthen_step, rule gone,
        rule andthen_step, rule state, rule andthen_step, rule shows_stopped, rule andthen_step, rule unsent) simp
qed

lemma passing_again:
  assumes "b_ticks s = [passing_tick ''b2'' second_guest, usual_tick]"
    "b_lab s = \<lparr>lab_guest = Some (stopped_guest, new_host), epoch = py ''a1'', guest_memory = 64\<rparr>"
    "manifest_entry initial ''epoch'' = Inr (VStr (py ''a1''))"
  shows "\<exists>t. bridge_again float_int port initial s = Some (Inr (), t) \<and> b_retired t = b_retired s @ [new_host] \<and>
    b_noted t = Suc (b_noted s) \<and> (\<exists>h. lab_guest (b_lab t) = Some (second_guest, h))"
proof -
  let ?t = "passing_tick ''b2'' second_guest"
  let ?h = "new_host\<lparr>log_open := True, alive := True, sockets := 2, readers := 2\<rparr>"
  let ?lab = "\<lparr>lab_guest = Some (second_guest, ?h), epoch = py ''b2'', guest_memory = 64\<rparr>"
  let ?u = "s\<lparr>b_ticks := [usual_tick], b_lab := ?lab, b_retired := b_retired s @ [new_host], b_results := b_results s @ [(''/api/restart'', 200)]\<rparr>"
  let ?v = "?u\<lparr>b_noted := Suc (b_noted s)\<rparr>"
  let ?x = "?v\<lparr>b_ticks := [], b_results := b_results ?v @ [(''/api/state'', 200)]\<rparr>"
  have new: "t_news (passing_tick token g) = []" for token g by (simp add: passing_tick_def)
  have closed: "lab_close (t_post ?t) (b_lab s) = (None, b_lab s)"
    using assms(2) by (simp add: lab_close_def close_def stop_qemu_def new_host_def Let_def)
  have "status second_guest = Running" by (simp add: second_guest_def)
  from passing_boot [OF closed this] have "lab_restart (t_post ?t) (b_lab s) = Some (None, ?lab)" by (simp add: assms(2))
  then have "do_POST (t_post ?t) port (wire_request port ''/api/restart'' (Some (JDict [])) (supplied_headers (Some (JDict [])) []))
      (b_lab s) = Some (Answer okay_reply, ?lab, [])"
    using wire_local [of port "''/api/restart''" "Some (JDict [])"] empty_body
    by (simp add: do_POST_def post_operation_def done_reply_def finish_def)
  moreover have "given_up (t_post ?t) port (wire_request port ''/api/restart'' (Some (JDict [])) (supplied_headers (Some (JDict [])) []))
      (b_lab s) = [new_host]"
    using wire_local [of port "''/api/restart''" "Some (JDict [])"] empty_body closed by (simp add: given_up_def assms(2))
  ultimately obtain r where restart: "bridge_request port ''/api/restart'' 200 (Some (JDict [])) [] s = Some (Inr r, ?u)"
    using assms(1) new operation_read [of "''/api/restart''"]
    by (simp add: bridge_request_def andthen_def take_tick_def handle_def)
  have noted: "note_guest ?u = Some (Inr (), ?v)" by (simp add: note_guest_def)
  have state: "bridge_api port ''/api/state'' 200 None ?v = Some (Inr (of_json (JDict (shown ?lab second_guest))), ?x)"
    using state_read [of ?v usual_tick "[]" second_guest ?h port] plain_guests(2) char_ok_py
    by (auto simp: new passing_tick_def simp del: of_json.simps)
  have "members_are [equals_int float_int 1, equals_int float_int 2] ''pid''
      (VList (map (\<lambda>p. of_json (process_json p)) (dict_values (processes second_guest)))) = Inr True"
    by (simp add: members_are_def js_iter_def second_guest_def dict_values_def process_json_def manifest_entry_def dict_get_def
        hashable_def equals_int_def)
  moreover have "\<not> sublist (py ''hello from ramfs'') (console second_guest)"
    by (auto simp: second_guest_def prompt_def dest!: sublist_length_le)
  moreover have "status_str (status second_guest) = py ''running''" by (simp add: second_guest_def)
  ultimately have fresh: "fresh_state float_int initial (of_json (JDict (shown ?lab second_guest))) ?x = Some (Inr (), ?x)"
    by (simp add: fresh_state_def assert_that_def andthen_def check_that_def has_status_def shown_entries js_in_def assms(3)
        del: of_json.simps)
  have "bridge_again float_int port initial s = Some (Inr (), ?x)"
    unfolding bridge_again_def
    by (rule andthen_step, rule restart, rule andthen_step, rule noted, rule andthen_step, rule state, rule fresh)
  then show ?thesis by (intro exI conjI) (assumption, simp_all)
qed

definition passing_ticks :: "tick list" where
  "passing_ticks = replicate 17 usual_tick @ [passing_tick ''b2'' second_guest, usual_tick]"

lemma passing_body:
  "\<exists>u h. bridge_body float_int port \<lparr>b_ticks = passing_ticks, b_lab = new_laboratory 64, b_retired = [], b_noted = 0,
      b_sent = [], b_results = []\<rparr> = Some (Inr (), u) \<and> b_retired u = [new_host] \<and> b_noted u = 2 \<and>
    lab_guest (b_lab u) = Some (second_guest, h)"
proof -
  define rest where "rest = [passing_tick ''b2'' second_guest, usual_tick]"
  have ticks: "passing_ticks = replicate 3 usual_tick @ replicate 7 usual_tick @ replicate 4 usual_tick @ replicate 3 usual_tick @ rest"
    by (simp add: passing_ticks_def rest_def eval_nat_numeral)
  obtain h where begin': "bridge_begin port \<lparr>b_ticks = passing_ticks, b_lab = new_laboratory 64, b_retired = [], b_noted = 0,
      b_sent = [], b_results = []\<rparr> =
    Some (Inr (of_json (JDict (shown \<lparr>lab_guest = Some (first_guest, h), epoch = py ''a1'', guest_memory = 64\<rparr> first_guest))),
      \<lparr>b_ticks = replicate 7 usual_tick @ replicate 4 usual_tick @ replicate 3 usual_tick @ rest,
       b_lab = \<lparr>lab_guest = Some (first_guest, h), epoch = py ''a1'', guest_memory = 64\<rparr>, b_retired = [],
       b_noted = Suc 0, b_sent = [], b_results = [(''/'', 200), (''/api/state'', 200)]\<rparr>)"
    (is "_ = Some (Inr ?initial, ?s1)")
    unfolding ticks using passing_start by blast
  let ?lab = "\<lparr>lab_guest = Some (first_guest, h), epoch = py ''a1'', guest_memory = 64\<rparr>"
  have same: "fold (\<lambda>t. fold news (t_news t)) (replicate 7 usual_tick) ?lab = ?lab"
    by (simp add: passing_tick_def eval_nat_numeral)
  obtain s2 where s2: "bridge_rejections port ?s1 = Some (Inr (), s2)"
    "b_ticks s2 = replicate 4 usual_tick @ replicate 3 usual_tick @ rest" "b_lab s2 = ?lab" "b_retired s2 = []" "b_noted s2 = Suc 0"
    using refused_requests [of "replicate 7 usual_tick" rejections port ?s1] same
      get_refusals post_refusals passing_tick_guarded
    by (fastforce simp: bridge_rejections_def rejections_def)
  obtain s3 where s3: "bridge_input port s2 = Some (Inr (), s3)" "b_ticks s3 = replicate 3 usual_tick @ rest" "b_lab s3 = ?lab"
    "b_retired s3 = []" "b_noted s3 = Suc 0"
    using passing_input [OF s2(2,3)] s2 by simp
  obtain s4 where s4: "bridge_stop port s3 = Some (Inr (), s4)" "b_ticks s4 = [passing_tick ''b2'' second_guest, usual_tick]"
    "b_lab s4 = \<lparr>lab_guest = Some (stopped_guest, new_host), epoch = py ''a1'', guest_memory = 64\<rparr>"
    "b_retired s4 = []" "b_noted s4 = Suc 0"
    using passing_stop [OF s3(2,3)] s3 by (simp add: rest_def)
  have "manifest_entry ?initial ''epoch'' = Inr (VStr (py ''a1''))" by (simp add: shown_entries del: of_json.simps)
  from passing_again [OF s4(2,3) this] obtain t h' where t: "bridge_again float_int port ?initial s4 = Some (Inr (), t)"
    "b_retired t = [new_host]" "b_noted t = 2" "lab_guest (b_lab t) = Some (second_guest, h')"
    using s4 by fastforce
  have "bridge_body float_int port \<lparr>b_ticks = passing_ticks, b_lab = new_laboratory 64, b_retired = [], b_noted = 0,
      b_sent = [], b_results = []\<rparr> = Some (Inr (), t)"
    unfolding bridge_body_def
    by (rule andthen_step, rule begin', rule andthen_step, rule s2(1), rule andthen_step, rule s3(1),
        rule andthen_step, rule s4(1), rule t(1))
  with t show ?thesis by blast
qed

section \<open>Every run\<close>

text \<open>
  C38. However the bridge test ends (every request answered as expected, a refused assertion, an
  exception of the guest or a dropped connection), no guest it ever had is left with a QEMU
  process, provided the last QEMU ends when it is terminated or killed. When the test passes, it
  has made its sixteen requests with their expected codes, which its report lists in order; and
  all it ever sent to a guest's terminal is the one command line it meant to send, although it
  tried five others, one of them to a stopped guest.
\<close>

theorem bridge_test_sound:
  assumes "bridge_main float_int port ts w = Some (r, s)" "term_ends w \<or> kill_ends w"
    "\<forall>t \<in> set ts. reads_json (loads (t_post t))"
  shows "(\<forall>g h. lab_guest (b_lab s) = Some (g, h) \<longrightarrow> closed g \<and> h = new_host) \<and>
    (\<forall>h \<in> set (b_retired s). h = new_host) \<and>
    (\<forall>text. r = Inr text \<longrightarrow> b_sent s = py ''cat hello.txt'' @ [13] \<and>
       text = render indent_style 0 (JList (map result_json
         [(''/'', 200), (''/api/state'', 200),
          (''/api/state?after=invalid'', 400), (''/../README.md'', 404), (''/api/state'', 403), (''/api/input'', 403),
          (''/api/input'', 400), (''/api/input'', 400), (''/api/input'', 400),
          (''/api/input'', 200), (''/api/state'', 200),
          (''/api/stop'', 200), (''/api/state'', 200), (''/api/input'', 503),
          (''/api/restart'', 200), (''/api/state'', 200)])))"
proof -
  let ?s = "\<lparr>b_ticks = ts, b_lab = new_laboratory 64, b_retired = [], b_noted = 0, b_sent = [], b_results = []\<rparr>"
  obtain q u v where body: "bridge_body float_int port ?s = Some (q, u)" and finish: "bridge_finish w u = Some (v, s)"
    and r: "\<And>text. r = Inr text \<Longrightarrow> q = Inr () \<and> text = render indent_style 0 (JList (map result_json (b_results s)))"
    using assms(1) unfolding bridge_main_def andthen_def finally_do_def
    by (auto split: option.splits sum.splits)
  have "fst (lab_close w (b_lab u)) = None" using assms(2) by (rule lab_close_when_kill_works)
  then obtain lab' where close: "lab_close w (b_lab u) = (None, lab')" by (metis prod.collapse)
  then have s: "s = u\<lparr>b_lab := lab'\<rparr>" using finish by (auto simp: bridge_finish_def check_that_def split: if_splits)
  have "retired_gone ?s u" by (rule movesD [OF retired_body body])
  moreover have "b_sent u = py ''cat hello.txt'' @ [13] \<and> b_results u =
      [(''/'', 200), (''/api/state'', 200),
       (''/api/state?after=invalid'', 400), (''/../README.md'', 404), (''/api/state'', 403), (''/api/input'', 403),
       (''/api/input'', 400), (''/api/input'', 400), (''/api/input'', 400),
       (''/api/input'', 200), (''/api/state'', 200),
       (''/api/stop'', 200), (''/api/state'', 200), (''/api/input'', 503),
       (''/api/restart'', 200), (''/api/state'', 200)]" if "q = Inr ()"
    using runsD [OF runs_body body [unfolded that]] assms(3) by (simp add: trusted_def)
  ultimately show ?thesis
    using r lab_close_ok [OF close] by (auto simp: s retired_gone_def)
qed

theorem bridge_test_sound_witness:
  "\<exists>text s g. bridge_main (\<lambda>_. None) 8080 passing_ticks calm_world = Some (Inr text, s) \<and>
     lab_guest (b_lab s) = Some (g, new_host) \<and> closed g \<and> b_sent s = py ''cat hello.txt'' @ [13]"
proof -
  obtain u h where u: "bridge_body (\<lambda>_. None) 8080 \<lparr>b_ticks = passing_ticks, b_lab = new_laboratory 64, b_retired = [], b_noted = 0,
      b_sent = [], b_results = []\<rparr> = Some (Inr (), u)" "b_retired u = [new_host]" "b_noted u = 2"
    "lab_guest (b_lab u) = Some (second_guest, h)"
    using passing_body [of "\<lambda>_. None" 8080] by blast
  have "fst (lab_close calm_world (b_lab u)) = None"
    by (rule lab_close_when_kill_works) (simp add: calm_world_def)
  then obtain lab where close: "lab_close calm_world (b_lab u) = (None, lab)" by (metis prod.collapse)
  moreover obtain g h' where "lab_guest lab = Some (g, h')"
    using close u(4) by (auto simp: lab_close_def split: prod.splits)
  ultimately have lab: "lab_close calm_world (b_lab u) = (None, lab)" "lab_guest lab = Some (g, new_host)"
    using lab_close_ok(3) by auto
  have "bridge_finish calm_world u = Some (Inr (), u\<lparr>b_lab := lab\<rparr>)"
    using lab u(2,3) by (simp add: bridge_finish_def check_that_def noted_hosts_def new_host_def)
  then obtain out where run: "bridge_main (\<lambda>_. None) 8080 passing_ticks calm_world = Some (Inr out, u\<lparr>b_lab := lab\<rparr>)"
    using u(1) by (simp add: bridge_main_def andthen_def finally_do_def)
  have "\<forall>t \<in> set passing_ticks. reads_json (loads (t_post t))" "term_ends calm_world \<or> kill_ends calm_world"
    using passing_tick_guarded by (auto simp: passing_ticks_def guarded_def calm_world_def)
  from bridge_test_sound [OF run this(2,1)] run lab(2) show ?thesis by auto
qed

end
