(* ===== verification/Package_Test.thy ===== *)
theory Package_Test
  imports Http_Client Polling
begin

text \<open>
  The play test of the Linux package and of the source entry (\<open>tools/test-linux-package.py\<close>): the
  archive is unpacked into a directory of its own, the launcher started, its address read from
  the log, and the laboratory driven over HTTP until it is interrupted.
\<close>

section \<open>Unpacking\<close>

text \<open>A member of the archive; \<open>Other_Kind\<close> is a link, a device or anything else.\<close>

datatype member_kind = Regular | Folder | Other_Kind

record member =
  tm_name :: pystr
  tm_kind :: member_kind
  tm_bytes :: "nat list"

text \<open>\<open>Path(name).parts\<close> without the root.\<close>

definition path_parts :: "pystr \<Rightarrow> pystr list" where
  "path_parts name = filter (\<lambda>p. p \<noteq> [] \<and> p \<noteq> py ''.'') (split_on 47 name)"

definition unexpected_member :: "member \<Rightarrow> bool" where
  "unexpected_member m \<longleftrightarrow> prefix (py ''/'') (tm_name m) \<or> py ''..'' \<in> set (path_parts (tm_name m)) \<or>
     \<not> (tm_kind m = Regular \<or> tm_kind m = Folder)"

text \<open>
  Where a member goes: its name is joined to the directory, and the file system follows \<open>..\<close>
  (the directory is new and holds no link).
\<close>

fun walk :: "path \<Rightarrow> pystr list \<Rightarrow> path" where
  "walk base [] = base"
| "walk base (p # ps) = walk (if p = py ''..'' then butlast base else base @ [p]) ps"

definition member_path :: "path \<Rightarrow> pystr \<Rightarrow> path" where
  "member_path work name = walk (if prefix (py ''/'') name then [] else work) (path_parts name)"

definition extract_member :: "path \<Rightarrow> member \<Rightarrow> (machine, unit) act" where
  "extract_member work m =
     (if tm_kind m = Regular then write_file (member_path work (tm_name m)) (tm_bytes m) else ret ())"

definition unpack_archive :: "path \<Rightarrow> member list \<Rightarrow> (machine, unit) act" where
  "unpack_archive work ms =
     andthen (check_that (\<not> (\<exists>m \<in> set ms. unexpected_member m)) (RuntimeError (py ''Unexpected package member''))) (\<lambda>_.
       each (extract_member work) ms)"

section \<open>What is started\<close>

text \<open>The programs a package may use, found or missing; the launcher's directory of them.\<close>

definition runtime_tools :: "string list" where
  "runtime_tools = [''python3'', ''qemu-system-x86_64'', ''dirname'', ''sh'']"

text \<open>The links made in that directory: each name with what its program resolves to.\<close>

definition find_tools :: "(pystr \<Rightarrow> pystr option) \<Rightarrow> (pystr \<Rightarrow> path) \<Rightarrow> (pystr \<times> path) list res" where
  "find_tools which resolved = traverse (\<lambda>name.
     case which (py name) of
       Some (c # cs) \<Rightarrow> Inr (py name, resolved (c # cs))
     | _ \<Rightarrow> Inl (RuntimeError (py ''Missing runtime test tool: '' @ py name))) runtime_tools"

text \<open>The launcher's environment.\<close>

definition play_environment :: "(pystr, pystr) dict \<Rightarrow> (pystr, pystr) dict" where
  "play_environment environ =
     dict_set (py ''PYTHONNOUSERSITE'') (py ''1'') (dict_set (py ''PYTHONDONTWRITEBYTECODE'') (py ''1'') environ)"

definition bundle_of :: "path \<Rightarrow> path" where
  "bundle_of work = work @ [py ''MiniLinux-LAB'']"

definition package_launch :: "path \<Rightarrow> pystr list" where
  "package_launch work =
     [path_str Posix (work @ [py ''bin'', py ''sh'']), path_str Posix (bundle_of work @ [py ''Start.sh''])]"

definition source_launch :: "pystr \<Rightarrow> path \<Rightarrow> path \<Rightarrow> pystr list" where
  "source_launch python bundle tool_root =
     [python, py ''-B'', path_str Posix (under bundle ''tools/linux.py''), py ''lab'', py ''--tool-root'',
      path_str Posix tool_root]"

section \<open>The address\<close>

text \<open>\<open>\d\<close> is any decimal digit; the search takes the first place that matches.\<close>

definition address_base :: pystr where
  "address_base = py ''http://127.0.0.1:''"

definition address_behind :: "pystr \<Rightarrow> pystr option" where
  "address_behind s =
     (if \<not> prefix address_base s then None
      else (let r = drop (length address_base) s;
                ds = takeWhile (\<lambda>c. decimal_digit c \<noteq> None) r
            in if ds \<noteq> [] \<and> prefix [47] (drop (length ds) r) then Some (address_base @ ds @ [47]) else None))"

definition address_at :: "pystr \<Rightarrow> pystr option" where
  "address_at s =
     (let lab = py ''MiniLinux LAB: ''; laboratory = py ''MiniLinux laboratory: ''
      in if prefix lab s then address_behind (drop (length lab) s)
         else if prefix laboratory s then address_behind (drop (length laboratory) s)
         else None)"

fun find_address :: "pystr \<Rightarrow> pystr option" where
  "find_address [] = address_at []"
| "find_address (c # s) = (case address_at (c # s) of Some a \<Rightarrow> Some a | None \<Rightarrow> find_address s)"

text \<open>One look: the clock, the log, and whether the launcher has ended.\<close>

definition start_look :: "int \<Rightarrow> int \<times> pystr \<times> bool \<Rightarrow> pystr option res option" where
  "start_look deadline = (\<lambda>(now, log, ended).
     if now < deadline
     then (case find_address log of
             Some a \<Rightarrow> Some (Inr (Some a))
           | None \<Rightarrow> if ended then Some (Inl (RuntimeError log)) else None)
     else Some (Inr None))"

definition await_address :: "int \<Rightarrow> (int \<times> pystr \<times> bool) list \<Rightarrow> pystr res option" where
  "await_address deadline obs =
     (case poll (start_look deadline) obs of
        None \<Rightarrow> None
      | Some (Inl e) \<Rightarrow> Some (Inl e)
      | Some (Inr None) \<Rightarrow> Some (Inl (RuntimeError (py ''LAB startup timed out'')))
      | Some (Inr (Some a)) \<Rightarrow>
          Some (if suffix (py '':0/'') a then Inl (RuntimeError (py ''Printed URL contains port 0: '' @ a)) else Inr a))"

interpretation starting: poll_loop "start_look deadline" fst deadline for deadline
  by unfold_locales (auto simp: start_look_def split: prod.splits)

text \<open>The lines \<open>lab-server.py\<close> and \<open>desktop-launch.py\<close> print when the guest runs.\<close>

definition printed_address :: "string \<Rightarrow> int \<Rightarrow> pystr" where
  "printed_address name port = py ''MiniLinux '' @ py name @ py '': '' @ address_base @ str_of_int port @ [47]"

section \<open>The conversation\<close>

text \<open>
  One beat: the clock, and what \<open>urlopen\<close> would answer (a code with the body, or an exception).
  Reading the clock for a deadline uses a beat of its own. The bodies posted are kept.
\<close>

record beat =
  n_now :: int                                 \<comment> \<open>milliseconds\<close>
  n_answer :: "(nat \<times> nat list) res"

record talk =
  beats :: "beat list"
  posted :: "json list"

definition take_beat :: "(talk, beat) act" where
  "take_beat s = (case beats s of [] \<Rightarrow> None | b # bs \<Rightarrow> Some (Inr b, s\<lparr>beats := bs\<rparr>))"

text \<open>A code that is no success raises \<open>HTTPError\<close>, an \<open>OSError\<close>.\<close>

definition answer_of :: "beat \<Rightarrow> string \<Rightarrow> received res" where
  "answer_of b path = rbind (n_answer b) (\<lambda>(number, bytes).
     if 200 \<le> number \<and> number < 300 then read_response path bytes else Inl (OSError []))"

definition play_request :: "string \<Rightarrow> json option \<Rightarrow> (talk, received) act" where
  "play_request path body =
     andthen take_beat (\<lambda>b. \<lambda>s.
       Some (answer_of b path, s\<lparr>posted := posted s @ (case body of None \<Rightarrow> [] | Some j \<Rightarrow> [j])\<rparr>))"

definition play_state :: "(talk, js_value) act" where
  "play_state = andthen (play_request ''/api/state'' None) (\<lambda>r. of_res (parsed_of r))"

text \<open>\<open>len(v)\<close>, \<open>v[n:]\<close> and \<open>v.count(s)\<close>.\<close>

definition js_len :: "js_value \<Rightarrow> nat res" where
  "js_len v = (case v of VStr s \<Rightarrow> Inr (length s) | VList xs \<Rightarrow> Inr (length xs) | VDict d \<Rightarrow> Inr (length d) | _ \<Rightarrow> Inl TypeError)"

definition js_from :: "js_value \<Rightarrow> nat \<Rightarrow> js_value res" where
  "js_from v n = (case v of VStr s \<Rightarrow> Inr (VStr (drop n s)) | VList xs \<Rightarrow> Inr (VList (drop n xs)) | _ \<Rightarrow> Inl TypeError)"

function count_sub :: "pystr \<Rightarrow> pystr \<Rightarrow> nat" where
  "count_sub needle [] = 0"
| "count_sub needle (c # s) =
     (if prefix needle (c # s) then Suc (count_sub needle (drop (length needle - 1) s)) else count_sub needle s)"
  by pat_completeness auto
termination by (relation "measure (length \<circ> snd)") auto

definition js_count :: "string \<Rightarrow> js_value \<Rightarrow> nat res" where
  "js_count needle v =
     (case v of
        VStr s \<Rightarrow> Inr (count_sub (py needle) s)
      | VList xs \<Rightarrow> Inr (length (filter (\<lambda>x. x = VStr (py needle)) xs))
      | _ \<Rightarrow> Inl AttributeError)"

definition text_of :: "js_value \<Rightarrow> pystr" where
  "text_of v = (case v of VStr s \<Rightarrow> s | _ \<Rightarrow> [])"

section \<open>Commands\<close>

definition play_look :: "nat \<Rightarrow> beat \<Rightarrow> (js_value \<times> js_value \<times> bool) res" where
  "play_look before b =
     rbind (answer_of b ''/api/state'') (\<lambda>r.
     rbind (parsed_of r) (\<lambda>state.
     rbind (manifest_entry state ''console'') (\<lambda>c.
     rbind (js_from c before) (\<lambda>new.
     rbind (js_in prompt new) (\<lambda>ready. Inr (state, new, ready))))))"

fun play_wait ::
  "nat \<Rightarrow> string \<Rightarrow> string \<Rightarrow> int \<Rightarrow> beat list \<Rightarrow> ((js_value \<times> js_value) res \<times> beat list) option" where
  "play_wait before line expected deadline [] = None"
| "play_wait before line expected deadline (b # bs) =
     (if \<not> n_now b < deadline
      then Some (Inl (RuntimeError (py ''LAB command timed out: '' @ py line)), bs)
      else (case play_look before b of
              Inl e \<Rightarrow> Some (Inl e, bs)
            | Inr (state, new, ready) \<Rightarrow>
                if \<not> ready then play_wait before line expected deadline bs
                else Some (rbind (js_in (py expected) new) (\<lambda>found.
                       if found then Inr (state, new) else Inl (RuntimeError (text_of new))), bs)))"

definition line_body :: "string \<Rightarrow> json" where
  "line_body line = JDict [(py ''text'', JStr (py line @ [13]))]"

definition play_command :: "string \<Rightarrow> string \<Rightarrow> (talk, js_value \<times> js_value) act" where
  "play_command line expected =
     andthen play_state (\<lambda>s0.
     andthen (of_res (rbind (manifest_entry s0 ''console'') js_len)) (\<lambda>before.
     andthen (play_request ''/api/input'' (Some (line_body line))) (\<lambda>_.
     andthen take_beat (\<lambda>b. \<lambda>s.
       map_option (\<lambda>(r, bs). (r, s\<lparr>beats := bs\<rparr>))
         (play_wait before line expected (n_now b + 12000) (beats s))))))"

section \<open>The play\<close>

text \<open>\<open>guide\<close> is the text of the included manual, or what reading it raises.\<close>

definition play_pages :: "pystr res \<Rightarrow> (talk, unit) act" where
  "play_pages guide =
     andthen (play_request ''/'' None) (\<lambda>r.
     andthen (of_res (case r of Page bytes \<Rightarrow> Inr (sublist (py ''MiniLinux Console'') bytes) | Parsed _ \<Rightarrow> Inl TypeError)) (\<lambda>shown.
     andthen (check_that shown (RuntimeError (py ''Printed URL did not serve LAB''))) (\<lambda>_.
     andthen (play_request ''/api/manual'' None) (\<lambda>r.
     andthen (of_res (rbind (parsed_of r) (\<lambda>v. manifest_entry v ''text''))) (\<lambda>shown_text.
     andthen (of_res guide) (\<lambda>page.
       check_that (shown_text = VStr page) (RuntimeError (py ''Manual response differs from the included manual''))))))))"

definition two_counters :: "js_value \<Rightarrow> bool res" where
  "two_counters counters =
     rbind (js_count ''step=5'' counters) (\<lambda>n.
       if n \<noteq> 2 then Inr False
       else rbind (js_count ''exited status 0'' counters) (\<lambda>k. Inr (k = 2)))"

definition play_session :: "pystr res \<Rightarrow> (talk, js_value) act" where
  "play_session guide =
     andthen (play_pages guide) (\<lambda>_.
     andthen play_state (\<lambda>baseline.
     andthen (play_command ''cat hello.txt'' ''hello from ramfs'') (\<lambda>_.
     andthen (play_command ''run counter-a counter-b'' ''exited status 0'') (\<lambda>(_, counters).
     andthen (of_res (two_counters counters)) (\<lambda>both.
     andthen (check_that both (RuntimeError (text_of counters))) (\<lambda>_.
     andthen (play_command ''run fault'' ''exited status 142'') (\<lambda>(final, _).
     andthen (play_command ''ls'' ''/hello.txt'') (\<lambda>_.
     andthen (of_res (manifest_entry final ''free'')) (\<lambda>free1.
     andthen (of_res (manifest_entry baseline ''free'')) (\<lambda>free0.
     andthen (check_that (free1 = free0) (RuntimeError (py ''Package did not restore free pages''))) (\<lambda>_.
       of_res (manifest_entry final ''guest_pid''))))))))))))"

section \<open>The end\<close>

text \<open>
  The answers to the interrupt: an exception of sending it, the launcher's exit status if it ends within ten seconds,
  whether something still listens, and what a signal to the guest's process finds.
\<close>

datatype signal_outcome = Delivered | No_Process | Refused exn

record farewell =
  fw_interrupt :: "exn option"
  fw_exit :: "int option"
  fw_listens :: bool
  fw_signal :: "int \<Rightarrow> signal_outcome"

text \<open>A boolean is an integer, too.\<close>

definition signalled_pid :: "js_value \<Rightarrow> int option" where
  "signalled_pid v = (case v of VInt i \<Rightarrow> Some i | VBool b \<Rightarrow> Some (if b then 1 else 0) | _ \<Rightarrow> None)"

definition play_farewell :: "int \<Rightarrow> farewell \<Rightarrow> js_value \<Rightarrow> unit res" where
  "play_farewell expected_exit w pid =
     (case (fw_interrupt w, fw_exit w) of
        (Some e, _) \<Rightarrow> Inl e
      | (None, None) \<Rightarrow> Inl TimeoutExpired
      | (None, Some n) \<Rightarrow>
          if n \<noteq> expected_exit then Inl (RuntimeError (py ''LAB did not close normally''))
          else if fw_listens w then Inl (RuntimeError (py ''Package listener survived shutdown''))
          else (case signalled_pid pid of
                  None \<Rightarrow> Inl TypeError
                | Some i \<Rightarrow>
                    (case fw_signal w i of
                       No_Process \<Rightarrow> Inr ()
                     | Delivered \<Rightarrow> Inl (RuntimeError (py ''Package QEMU survived launcher shutdown''))
                     | Refused e \<Rightarrow> Inl e)))"

text \<open>
  The \<open>finally\<close> clause, for a launcher that still runs or has ended: whether it ends when it is
  interrupted or killed; the result tells whether it still runs.
\<close>

definition play_cleanup :: "bool \<Rightarrow> bool \<Rightarrow> bool \<Rightarrow> exn option \<times> bool" where
  "play_cleanup running ends_on_int ends_on_kill =
     (if \<not> running \<or> ends_on_int \<or> ends_on_kill then (None, False) else (Some TimeoutExpired, True))"

definition play_try ::
  "int \<Rightarrow> (int \<times> pystr \<times> bool) list \<Rightarrow> pystr res \<Rightarrow> int \<Rightarrow> farewell \<Rightarrow> talk \<Rightarrow> (pystr res \<times> talk) option" where
  "play_try deadline obs guide expected_exit w t =
     (case await_address deadline obs of
        None \<Rightarrow> None
      | Some (Inl e) \<Rightarrow> Some (Inl e, t)
      | Some (Inr a) \<Rightarrow>
          andthen (play_session guide) (\<lambda>pid.
          andthen (of_res (play_farewell expected_exit w pid)) (\<lambda>_. ret a)) t)"

text \<open>The whole test of a started launcher; \<open>running\<close> says whether it runs when the clause begins.\<close>

definition play_main ::
  "int \<Rightarrow> (int \<times> pystr \<times> bool) list \<Rightarrow> pystr res \<Rightarrow> int \<Rightarrow> farewell \<Rightarrow> bool \<Rightarrow> bool \<Rightarrow> bool \<Rightarrow> talk \<Rightarrow>
     (pystr res \<times> talk \<times> bool) option" where
  "play_main deadline obs guide expected_exit w running ends_on_int ends_on_kill t =
     map_option (\<lambda>(r, t'). case play_cleanup running ends_on_int ends_on_kill of
         (Some e, still) \<Rightarrow> (Inl e, t', still)
       | (None, still) \<Rightarrow> (r, t', still))
       (play_try deadline obs guide expected_exit w t)"

text \<open>
  What comes before the launcher is started: how it is started, the links made for it, and the
  exit status expected of it, which is 0 for a package and 130 for the source entry.
\<close>

record launched =
  l_source :: js_value
  l_links :: "(pystr \<times> path) list"
  l_env :: "(pystr, pystr) dict"
  l_args :: "pystr list"
  l_cwd :: path
  l_exit :: int

definition play_unpacked ::
  "(pystr \<Rightarrow> pystr option) \<Rightarrow> (pystr \<Rightarrow> path) \<Rightarrow> (pystr, pystr) dict \<Rightarrow> path \<Rightarrow> member list \<Rightarrow> (machine, launched) act" where
  "play_unpacked which resolved environ work ms =
     andthen (unpack_archive work ms) (\<lambda>_.
     andthen (read_text (bundle_of work @ [py ''package.json''])) (\<lambda>s.
     andthen (of_res (rbind (json_loads s) (\<lambda>v. manifest_entry v ''source''))) (\<lambda>source.
     andthen (of_res (find_tools which resolved)) (\<lambda>links.
       ret \<lparr>l_source = source, l_links = links,
         l_env = dict_set (py ''PATH'') (path_str Posix (work @ [py ''bin''])) (play_environment environ),
         l_args = package_launch work, l_cwd = work, l_exit = 0\<rparr>))))"

definition play_source ::
  "linux_world \<Rightarrow> (pystr, pystr) dict \<Rightarrow> path \<Rightarrow> path \<Rightarrow> (machine, launched) act" where
  "play_source h environ bundle tool_root =
     andthen (output_text h git_head) (\<lambda>out.
       ret \<lparr>l_source = VStr (str_strip out), l_links = [], l_env = play_environment environ,
         l_args = source_launch (w_python h) bundle tool_root, l_cwd = bundle, l_exit = 130\<rparr>)"

end
