(* ===== verification/Play_Claims.thy ===== *)
theory Play_Claims
  imports Package_Test Lab_Facts
begin

text \<open>
  What the play test of a package means: an archive it accepts is unpacked inside its own
  directory, it finds the address that the bridge prints, and passing shows the claims it prints.
\<close>

section \<open>Unpacking stays inside\<close>










section \<open>The printed address\<close>

text \<open>A match of the search holds no line break, so a line break ends what comes before it.\<close>

lemma prefix_line: "10 \<notin> set p \<Longrightarrow> prefix p (u @ 10 # r) \<longleftrightarrow> prefix p (u :: pystr)"
  by (induction p arbitrary: u) (case_tac u; auto)+

lemma behind_line: "address_behind (u @ 10 # r) = address_behind u"
proof -
  have base: "10 \<notin> set address_base" by (simp add: address_base_def py_def)
  show ?thesis
  proof (cases "prefix address_base u")
    case True
    then obtain v where u: "u = address_base @ v" by (auto simp: prefix_def)
    have digits: "takeWhile (\<lambda>c. decimal_digit c \<noteq> None) (v @ 10 # r) = takeWhile (\<lambda>c. decimal_digit c \<noteq> None) v"
      by (simp add: takeWhile_tail decimal_digit_def)
    have "prefix [47] (drop (length ds) (v @ 10 # r)) \<longleftrightarrow> prefix [47] (drop (length ds) v)"
      if "ds = takeWhile (\<lambda>c. decimal_digit c \<noteq> None) v" for ds
      using that takeWhile_eq_take [of "\<lambda>c. decimal_digit c \<noteq> None" v] length_takeWhile_le [of "\<lambda>c. decimal_digit c \<noteq> None" v]
      by (cases "drop (length ds) v") auto
    with digits show ?thesis by (simp add: address_behind_def u Let_def)
  next
    case False
    with prefix_line [OF base] show ?thesis by (simp add: address_behind_def)
  qed
qed

lemma named_line:
  assumes "10 \<notin> set p"
  shows "(if prefix p (u @ 10 # r) then address_behind (drop (length p) (u @ 10 # r)) else x) =
    (if prefix p u then address_behind (drop (length p) u) else x)"
  using prefix_line [OF assms, of u r] behind_line by (auto simp: prefix_def)

lemma at_line: "address_at (u @ 10 # r) = address_at u"
proof -
  have names: "10 \<notin> set (py ''MiniLinux LAB: '')" "10 \<notin> set (py ''MiniLinux laboratory: '')" by (simp_all add: py_def)
  show ?thesis unfolding address_at_def Let_def named_line [OF names(1)] named_line [OF names(2)] ..
qed

lemma find_line: "find_address v = None \<Longrightarrow> find_address (v @ 10 # s) = find_address s"
proof (induction v)
  case Nil
  have "address_at (10 # s) = None" using at_line [of "[]" s] Nil by simp
  then show ?case by simp
next
  case (Cons c v)
  then have "address_at (c # v @ 10 # s) = None" using at_line [of "c # v" s] by (simp split: option.splits)
  with Cons show ?case by (simp split: option.splits)
qed

lemma str_of_nat_digit_chars: "c \<in> set (str_of_nat n) \<Longrightarrow> decimal_digit c \<noteq> None \<and> c \<noteq> 47 \<and> c \<noteq> 58"
  by (drule str_of_nat_digits) (auto simp: decimal_digit_def)

lemma find_printed:
  assumes "name = ''LAB'' \<or> name = ''laboratory''" "0 \<le> port"
  shows "find_address (printed_address name port @ rest) = Some (address_base @ str_of_int port @ [47])"
proof -
  have digits: "\<forall>c \<in> set (str_of_int port). decimal_digit c \<noteq> None" "str_of_int port \<noteq> []"
    using assms(2) str_of_nat_digit_chars by (auto simp: str_of_int_def)
  have "takeWhile (\<lambda>c. decimal_digit c \<noteq> None) (str_of_int port @ 47 # rest) = str_of_int port"
    using digits(1) by (simp add: takeWhile_append decimal_digit_def)
  then have behind: "address_behind (address_base @ str_of_int port @ 47 # rest) = Some (address_base @ str_of_int port @ [47])"
    using digits(2) by (simp add: address_behind_def Let_def)
  have "address_at (printed_address name port @ rest) = Some (address_base @ str_of_int port @ [47])"
  proof -
    have "printed_address name port @ rest = py (''MiniLinux '' @ name @ '': '') @ address_base @ str_of_int port @ 47 # rest"
      by (simp add: printed_address_def py_def)
    moreover have "\<not> prefix (py ''MiniLinux LAB: '') (py ''MiniLinux laboratory: '' @ x)" for x by (simp add: py_def)
    ultimately show ?thesis using assms(1) behind by (auto simp: address_at_def Let_def py_append [symmetric])
  qed
  then show ?thesis by (cases "printed_address name port @ rest") (simp_all add: printed_address_def)
qed

lemma port_not_zero:
  assumes "0 < port"
  shows "\<not> suffix (py '':0/'') (address_base @ str_of_int port @ [47])"
proof
  assume "suffix (py '':0/'') (address_base @ str_of_int port @ [47])"
  then obtain u where "address_base @ str_of_int port @ [47] = u @ [58, 48, 47]" by (auto simp: suffix_def py_def)
  then have two: "address_base @ str_of_int port = u @ [58, 48]"
    by (metis append.assoc append_Cons append_Nil butlast_snoc)
  obtain d ds where digits: "str_of_int port = d # ds" by (cases "str_of_int port") (auto simp: str_of_int_not_Nil)
  have "58 \<notin> set (str_of_int port)" by simp
  with two have "str_of_int port = [48]"
    by (cases "str_of_int port" rule: rev_cases; cases "butlast (str_of_int port)" rule: rev_cases)
      (auto simp: digits append_eq_append_conv2 append_eq_Cons_conv)
  then have "int_of_str [48] = Inr port" using int_of_str_str_of_int [of port] by simp
  moreover have "int_of_str [48] = Inr 0" using int_of_str_str_of_int [of 0] by (simp add: str_of_int_def str_of_nat.simps)
  ultimately show False using assms by simp
qed

text \<open>
  The address a launcher prints is the one the test reads: in a log of lines without an
  address before it, the line of the bridge or of the package's launcher gives exactly its URL,
  and the loop returns it at the first look that shows it before the deadline, whatever follows
  in the log and even when the launcher has ended since. A real port is never mistaken for 0.
\<close>

lemma printed_address_found:
  assumes "name = ''LAB'' \<or> name = ''laboratory''" "0 < port" "find_address before = None" "now < deadline"
  shows "await_address deadline ((now, before @ 10 # printed_address name port @ rest, ended) # obs) =
    Some (Inr (py ''http://127.0.0.1:'' @ str_of_int port @ py ''/''))"
proof -
  have "find_address (before @ 10 # printed_address name port @ rest) = Some (address_base @ str_of_int port @ [47])"
    using find_line [OF assms(3)] find_printed [OF assms(1)] assms(2) by simp
  moreover have "address_base @ str_of_int port @ [47] = py ''http://127.0.0.1:'' @ str_of_int port @ py ''/''"
    by (simp add: address_base_def py_def)
  ultimately show ?thesis
    using port_not_zero [OF assms(2)] assms(4) by (simp add: await_address_def start_look_def)
qed

end
