(* ===== verification/Play_Passing.thy ===== *)
theory Play_Passing
  imports Play_Claims
begin

text \<open>The play of the laboratory over HTTP: what a passing play has seen, and one that passes.\<close>

section \<open>Steps that return\<close>














section \<open>What a passing play has seen\<close>

section \<open>A play that passes\<close>






















end
