(* ===== verification/Spec2Isabelle.thy ===== *)
theory Spec2Isabelle
  imports Guest_Claims Control_Claims Mirror_Claims Server_Claims Recorder_Claims Entry_Claims
    Launch_Claims Hygiene_Claims Test_Claims Host_Claims Bridge_Passing Play_Passing
begin

text \<open>
  MiniLinux is a teaching kernel in C together with the Python tools that build it, boot it
  under QEMU and show it in a browser. This development models the tools, and the trace
  protocol that the LAB kernel speaks to them.

  \<^bold>\<open>How the program is put together.\<close> \<open>tools/linux.py\<close> is the entry: it prepares the boot
  loader, compiles and links a stage, masters the CD image (\<open>tools/make-image.py\<close>), boots it
  and reads the serial log. \<open>tools/lab_guest.py\<close> runs one QEMU guest of the LAB stage: two
  reader threads take in the console and the trace socket and keep a picture of the guest (its
  processes, mappings, memory and an event log). \<open>tools/lab-server.py\<close> gives that picture to
  the browser and passes terminal text on; \<open>tools/record-demo.py\<close> records it for a static
  replay, which \<open>tools/export-demo.py\<close> publishes. \<open>tools/qemu_host.py\<close> finds QEMU and checks
  its version for all of them. In the kernel, \<open>kernel/laboratory.c\<close> and the printing routines
  of \<open>kernel/main.c\<close> write the trace records that \<open>lab_guest.py\<close> reads.

  \<^bold>\<open>Theories.\<close> Foundations:
  \<^item> \<open>Prelude\<close>: results (\<open>Inl\<close> an exception, \<open>Inr\<close> a value), folds with exceptions, lists.
  \<^item> \<open>PyText\<close>, \<open>PyDict\<close>, \<open>Py_Json\<close>, \<open>Py_Url\<close>: the parts of Python's standard library the
    tools use: texts as lists of code points, \<open>int\<close>, \<open>split\<close>, dictionaries in insertion
    order, \<open>json.dumps\<close>, \<open>urlsplit\<close>, \<open>urlparse\<close> and \<open>parse_qs\<close>. \<open>Py_Parse\<close>: \<open>json.loads\<close>, and that it
    reads back what \<open>json.dumps\<close> writes, in the styles the tools use.
  \<^item> \<open>Bounded_Window\<close> (the "append and keep the last n" interface, interpreted for the event
    log and the console), \<open>Polling\<close> (loops that look again until a deadline, interpreted for
    \<open>wait_for\<close>, the connection loop and \<open>serial_check\<close>), \<open>Event_Feed\<close> (clients with a cursor, interpreted
    for the guest's log), \<open>Effects\<close> (actions on a state that may fail, and the locale of the
    relations every action keeps).

  The guest (\<open>tools/lab_guest.py\<close>, \<open>tools/qemu_host.py\<close>):
  \<^item> \<open>Guest_State\<close>: the fields of \<open>Guest\<close> and the invariant \<open>guest_wf\<close>.
  \<^item> \<open>Guest_Event\<close>: \<open>Guest._event\<close>, the handler of one trace line, with all its exceptions.
  \<^item> \<open>Guest_Tables\<close>: the locale of a keyed store behind the processes, mappings and data, and
    the handler's invariant lemmas.
  \<^item> \<open>Guest_Reader\<close>: \<open>Guest._read\<close>: console characters, the panic mark, cutting the
    trace into lines, the ending clauses.
  \<^item> \<open>Guest_Control\<close>: \<open>start\<close>, \<open>send\<close>, \<open>wait_for\<close>, \<open>command\<close>, \<open>close\<close>.
  \<^item> \<open>Guest_Lifecycle\<close>: the threads, QEMU and the caller as one step relation.
  \<^item> \<open>Guest_Snapshot\<close>: \<open>Guest.snapshot\<close> as JSON.
  \<^item> \<open>Qemu_Host\<close>: the command line and the version preflight.

  The kernel's trace: \<open>Trace_Protocol\<close> prints the records, \<open>Trace_Mirror\<close> shows what the
  observer makes of them.

  The clients: \<open>Lab_Server\<close> (all handlers and the server's life) with its lemmas in
  \<open>Lab_Facts\<close>; \<open>Recorder\<close> (the recorder) and \<open>Exporter\<close> (the static replay site).

  The build: \<open>Linux_Build\<close> (one stage compiled, linked and checked), \<open>Linux_Check\<close> (boot
  loader, environment, image, serial check, the whole check, the dispatch), with their lemmas
  in \<open>Linux_Facts\<close>.

  The packages: \<open>Package_Texts\<close> (start scripts and READ-ME files, line by line), \<open>Packages\<close> (the
  two builders) with \<open>Package_Facts\<close> (what lies where after a successful build, from the
  interpretation of the \<open>Effects\<close> locale for actions confined to one directory),
  \<open>Desktop_Launch\<close> (the launcher of an unpacked package, which runs the bridge of
  \<open>Lab_Server\<close>). \<open>Hygiene\<close>: the closing check of links, build outputs and caches.

  The tests. \<open>Guest_Session\<close>: a driver's session with one guest is the sequence of looks it will
  get, one per time it takes the guest's lock; an operation is an action of \<open>Effects\<close> on it, and
  \<open>g_command_Inr\<close> relates it to \<open>command\<close>. \<open>Test_Guest\<close>: what the drivers share (a guest that is
  started, driven and closed whatever happens; checks; reading events). \<open>Userland_Test\<close> and
  \<open>Boundaries_Test\<close>: the two drivers (\<open>tools/test-userland.py\<close>, \<open>tools/test-lab-boundaries.py\<close>),
  and what their evidence says of the events behind it. \<open>Host_Tests\<close>: the regression tests of the
  tools (\<open>tools/test-linux-host.py\<close>) as predicates on the model. \<open>Http_Client\<close> and \<open>Bridge_Test\<close>:
  the bridge test (\<open>tools/test-lab-bridge.py\<close>), which runs on the handlers of \<open>Lab_Server\<close>. \<open>Package_Test\<close>:
  the play test (\<open>tools/test-linux-package.py\<close>): an archive is unpacked, the launcher started, its
  address read from the log, and the laboratory driven over HTTP, one beat of the conversation at a time.

  Properties: \<open>Guest_Claims\<close> (the event handler, the log, the threads), \<open>Mirror_Claims\<close>
  (kernel and observer agree), \<open>Control_Claims\<close> (the caller's operations, the preflight),
  \<open>Server_Claims\<close>, \<open>Recorder_Claims\<close> (recorder and exporter), \<open>Linux_Claims\<close> (build, image,
  serial check), \<open>Entry_Claims\<close> (whole check and dispatch), \<open>Package_Claims\<close>, \<open>Launch_Claims\<close>,
  \<open>Hygiene_Claims\<close>; for the tests \<open>Test_Claims\<close>, \<open>Host_Claims\<close>, \<open>Bridge_Claims\<close> (with the triples
  \<open>runs\<close> for what a passing action has done) and \<open>Bridge_Passing\<close> (a passing run, step by step), \<open>Play_Claims\<close>
  (unpacking, the printed address) and \<open>Play_Passing\<close> (what a passing play has seen).

  \<^bold>\<open>What the lemmas show.\<close> The observer's state is well formed in every interleaving, its
  tables equal the kernel's after an inspection however the socket cuts the text, its log is
  the last 2000 kept events, and clients that poll in time lose nothing. The bridge refuses
  foreign requests, serves only its own files, bounds what it sends, answers every request and
  leaves no QEMU process behind. A build links what it compiled, the image holds what was
  built, a serial pass means the log has every witness, and the whole check runs all 36 cases.
  A package holds the image of the committed build under a manifest the launcher accepts, and the
  launcher rejects every image with another digest; an exported page never loads the live script.
  The closing check passes for exactly the repositories it should. A passing test means what it
  claims: two programs were seen to run in turns on pages of their own, a fault was contained
  beside a survivor, and no guest is left; the host tests and the invalid requests of the bridge
  test hold of the model in every world. The play test unpacks nothing outside its directory, reads
  the very address that a launcher prints, and passes only when the fault has given its pages back
  and the guest's process is gone.

  \<^bold>\<open>Arguments of the model.\<close> Code outside the repository is an argument of the definitions
  that use it, gathered in the records \<open>boot\<close>, \<open>lab_world\<close>, \<open>get_world\<close>, \<open>record_world\<close>,
  \<open>linux_world\<close>, \<open>package_world\<close>, \<open>hygiene_world\<close>, \<open>guest_world\<close>, \<open>run_world\<close>, \<open>tick\<close>, \<open>beat\<close> and
  \<open>farewell\<close>: the
  operating system's answers (sockets, clocks, whether QEMU ends when told to), running a command, SHA-256, the zip, tar and ISO formats, the mastering of an image, the JSON
  reader of the bridge, media types, the version query, whether a path exists, the directory tree.
  The properties hold for all of their answers except where a hypothesis states one: for the
  packages, that a path with a file on or below it exists (\<open>exists_faithful\<close>), that the two git
  queries write no file (\<open>git_reads_only\<close>) and that git's output and digests are valid texts
  (\<open>texts_valid\<close>); for the bridge test, that the bridge's reader reads JSON as \<open>json.loads\<close> does
  (\<open>reads_json\<close>) and that the file system resolves \<open>../README.md\<close> out of the web directory.

  \<^bold>\<open>Bounds and termination.\<close> Loops that wait for the outside world take the list of the
  answers they will get and return \<open>None\<close> when it runs out; \<open>Polling\<close> shows that
  \<open>(deadline - start) / gap + 1\<close> looks are enough. Cutting lines off the trace and printing digits terminate
  by a measure. The console keeps 64000 characters, the log 2000 events, the terminal takes 256
  characters in one request; the theorems use these numbers as they stand in the code. Numbers of
  the kernel are 64-bit words, numbers of Python unbounded.

  \<^bold>\<open>Simplifications.\<close> A text is a list of code points. \<open>int\<close> knows Unicode's white space
  and the decimal digits listed in \<open>PyText\<close>, without the interpreter's limit on the number of digits. Log files are modelled by the failures they can cause, not by their contents.
  Locks are modelled by the atomicity of the steps that hold them. Progress messages are left out.
  Directories exist implicitly.

  \<^bold>\<open>Not modelled.\<close> The rest of the kernel, its assembly and the user program, which are C and
  assembly and not Python; the browser view in JavaScript; the PowerShell scripts, which call the
  same compilers; the scripts kept with
  the evidence of past runs under \<open>docs/\<close>, one of which is an earlier copy of \<open>tools/lab_guest.py\<close>;
  argument parsing and printing.
\<close>

end
